(* ===== verification/Prelude.thy ===== *)
theory Prelude
  imports Main "HOL-Library.AList" "HOL-Library.Char_ord" "HOL-Library.List_Lexorder"
begin

text \<open>
  Shared vocabulary of the development: the part of Go's string library that the
  repository uses (byte strings are \<^typ>\<open>string\<close>, one \<^typ>\<open>char\<close> per byte), Go maps
  as association lists behind the locale \<open>go_map\<close>, Go error values with wrapping,
  and the reachability and invariant rule that every step relation of the
  development is an instance of.
\<close>

named_theorems go_defs \<open>definitions of the Go string and map library\<close>
named_theorems route_defs \<open>definitions of the request routing components\<close>
named_theorems auth_defs \<open>definitions of the authentication components\<close>

section \<open>Go strings\<close>

text \<open>\<open>strings.Split(s, sep)\<close> for a separator of one byte.\<close>

fun split :: "char \<Rightarrow> string \<Rightarrow> string list" where
  "split c [] = [[]]"
| "split c (x # xs) =
     (if x = c then [] # split c xs
      else (case split c xs of [] \<Rightarrow> [[x]] | p # ps \<Rightarrow> (x # p) # ps))"

text \<open>\<open>strings.Join(elems, sep)\<close>.\<close>

fun join :: "string \<Rightarrow> string list \<Rightarrow> string" where
  "join sep [] = []"
| "join sep [x] = x"
| "join sep (x # y # ys) = x @ sep @ join sep (y # ys)"

text \<open>\<open>strings.HasPrefix\<close>, \<open>strings.TrimPrefix\<close> and \<open>strings.Contains\<close>.\<close>

definition has_prefix :: "string \<Rightarrow> string \<Rightarrow> bool" where
  "has_prefix s p \<longleftrightarrow> take (length p) s = p"

definition trim_prefix :: "string \<Rightarrow> string \<Rightarrow> string" where
  "trim_prefix s p = (if has_prefix s p then drop (length p) s else s)"

fun contains :: "string \<Rightarrow> string \<Rightarrow> bool" where
  "contains [] sub \<longleftrightarrow> sub = []"
| "contains (c # s) sub \<longleftrightarrow> has_prefix (c # s) sub \<or> contains s sub"

text \<open>\<open>strings.Cut(s, sep)\<close> for a separator of one byte: what is before the first
  separator, what is after it, and whether there is one.\<close>

fun cut :: "char \<Rightarrow> string \<Rightarrow> string \<times> string \<times> bool" where
  "cut c [] = ([], [], False)"
| "cut c (x # xs) =
     (if x = c then ([], xs, True)
      else (case cut c xs of (a, b, ok) \<Rightarrow> (x # a, b, ok)))"

text \<open>ASCII classes and case conversion on bytes.\<close>

definition is_upper :: "char \<Rightarrow> bool" where
  "is_upper c \<longleftrightarrow> 65 \<le> (of_char c :: nat) \<and> (of_char c :: nat) \<le> 90"

definition is_lower :: "char \<Rightarrow> bool" where
  "is_lower c \<longleftrightarrow> 97 \<le> (of_char c :: nat) \<and> (of_char c :: nat) \<le> 122"

definition is_digit :: "char \<Rightarrow> bool" where
  "is_digit c \<longleftrightarrow> 48 \<le> (of_char c :: nat) \<and> (of_char c :: nat) \<le> 57"

definition lower_char :: "char \<Rightarrow> char" where
  "lower_char c = (if is_upper c then char_of ((of_char c :: nat) + 32) else c)"

definition upper_char :: "char \<Rightarrow> char" where
  "upper_char c = (if is_lower c then char_of ((of_char c :: nat) - 32) else c)"

text \<open>
  \<open>strings.ToLower\<close> as far as an ASCII pattern can see it. Beside the ASCII capitals the
  only code points whose lower case is ASCII are U+0130 (to \<open>i\<close>) and U+212A, the Kelvin
  sign (to \<open>k\<close>); every other code point above U+007F stays above it, so its bytes are
  kept as they are.
\<close>

fun to_lower :: "string \<Rightarrow> string" where
  "to_lower [] = []"
| "to_lower (c # cs) =
     (if c = CHR 0xC4 \<and> cs \<noteq> [] \<and> hd cs = CHR 0xB0 then CHR ''i'' # to_lower (drop 1 cs)
      else if c = CHR 0xE2 \<and> take 2 cs = [CHR 0x84, CHR 0xAA]
        then CHR ''k'' # to_lower (drop 2 cs)
      else lower_char c # to_lower cs)"

text \<open>
  \<open>strings.EqualFold(s, t)\<close> for a constant \<open>t\<close> of ASCII letters and punctuation, the only
  way the repository calls it: under Unicode simple folding the ASCII letters meet only
  two other code points, U+212A (with \<open>k\<close>) and U+017F, the long s (with \<open>s\<close>).
\<close>

fun fold_case :: "string \<Rightarrow> string" where
  "fold_case [] = []"
| "fold_case (c # cs) =
     (if c = CHR 0xC5 \<and> cs \<noteq> [] \<and> hd cs = CHR 0xBF then CHR ''s'' # fold_case (drop 1 cs)
      else if c = CHR 0xE2 \<and> take 2 cs = [CHR 0x84, CHR 0xAA]
        then CHR ''k'' # fold_case (drop 2 cs)
      else lower_char c # fold_case cs)"

definition equal_fold :: "string \<Rightarrow> string \<Rightarrow> bool" where
  "equal_fold s t \<longleftrightarrow> fold_case s = fold_case t"

text \<open>Decimal printing and parsing: \<open>strconv.Itoa\<close> and \<open>strconv.Atoi\<close> on 64-bit ints.\<close>

definition digit_char :: "nat \<Rightarrow> char" where
  "digit_char d = char_of (48 + d)"

fun nat_to_dec :: "nat \<Rightarrow> string" where
  "nat_to_dec n =
     (if n < 10 then [digit_char n] else nat_to_dec (n div 10) @ [digit_char (n mod 10)])"

declare nat_to_dec.simps [simp del]

definition itoa :: "int \<Rightarrow> string" where
  "itoa i = (if i < 0 then CHR ''-'' # nat_to_dec (nat (- i)) else nat_to_dec (nat i))"

text \<open>For evaluation the digits are taken off a binary integer.\<close>

function int_to_dec :: "int \<Rightarrow> string" where
  "int_to_dec i = (if i < 10 then [char_of (48 + i)] else int_to_dec (i div 10) @ [char_of (48 + i mod 10)])"
  by pat_completeness auto
termination by (relation "measure nat") auto

declare int_to_dec.simps [simp del]

lemma int_to_dec_nat: "int_to_dec (int n) = nat_to_dec n"
proof (induction n rule: nat_to_dec.induct)
  case (1 n)
  have "char_of (48 + int k) = digit_char k" for k :: nat
    using char_of_nat [of "48 + k", where 'a = int] by (simp add: digit_char_def)
  from this [of n] this [of "n mod 10"] 1 show ?case
    by (subst int_to_dec.simps, subst nat_to_dec.simps) (simp add: zdiv_int zmod_int)
qed

lemma itoa_code [code]: "itoa i = (if i < 0 then CHR ''-'' # int_to_dec (- i) else int_to_dec i)"
  using int_to_dec_nat [of "nat i"] int_to_dec_nat [of "nat (- i)"]
  by (cases "i < 0") (simp_all add: itoa_def)

definition dec_val :: "string \<Rightarrow> nat" where
  "dec_val s = foldl (\<lambda>n c. 10 * n + ((of_char c :: nat) - 48)) 0 s"

definition atoi :: "string \<Rightarrow> int option" where
  "atoi s =
     (let neg = has_prefix s ''-'';
          body = (if neg \<or> has_prefix s ''+'' then drop 1 s else s)
      in if body = [] \<or> \<not> list_all is_digit body then None
         else let v = (if neg then - int (dec_val body) else int (dec_val body))
              in if - (2 ^ 63) \<le> v \<and> v < 2 ^ 63 then Some v else None)"

text \<open>Lower-case hexadecimal of a byte string: the verb \<open>%x\<close>.\<close>

definition hex_digit :: "nat \<Rightarrow> char" where
  "hex_digit d = (if d < 10 then char_of (48 + d) else char_of (87 + d))"

definition hex_byte :: "char \<Rightarrow> string" where
  "hex_byte c = [hex_digit ((of_char c :: nat) div 16), hex_digit ((of_char c :: nat) mod 16)]"

definition hex_encode :: "string \<Rightarrow> string" where
  "hex_encode s = concat (map hex_byte s)"

text \<open>
  The verb \<open>%q\<close> (\<open>strconv.Quote\<close>) on ASCII; bytes from 0x80 on are kept, as they are for
  printable code points.
\<close>

definition quote_char :: "char \<Rightarrow> string" where
  "quote_char c =
     (let n = (of_char c :: nat) in
      if n = 34 then [CHR 0x5C, CHR 0x22]
      else if n = 92 then [CHR 0x5C, CHR 0x5C]
      else if n = 7 then [CHR 0x5C, CHR ''a'']
      else if n = 8 then [CHR 0x5C, CHR ''b'']
      else if n = 12 then [CHR 0x5C, CHR ''f'']
      else if n = 10 then [CHR 0x5C, CHR ''n'']
      else if n = 13 then [CHR 0x5C, CHR ''r'']
      else if n = 9 then [CHR 0x5C, CHR ''t'']
      else if n = 11 then [CHR 0x5C, CHR ''v'']
      else if n < 32 \<or> n = 127 then [CHR 0x5C, CHR ''x''] @ hex_byte c
      else [c])"

definition go_quote :: "string \<Rightarrow> string" where
  "go_quote s = [CHR 0x22] @ concat (map quote_char s) @ [CHR 0x22]"

section \<open>Go errors\<close>

text \<open>
  An error is a plain text, the package-level sentinel \<open>ErrTokenNotAuthenticated\<close>, or a
  text that wraps another error with the verb \<open>%w\<close>. \<open>errors_is\<close> is \<open>errors.Is\<close> against a
  target, following the chain of wrapped errors.
\<close>

datatype go_error =
    ErrorText string
  | ErrTokenNotAuthenticated
  | Wrapped string go_error

fun error_text :: "go_error \<Rightarrow> string" where
  "error_text (ErrorText s) = s"
| "error_text ErrTokenNotAuthenticated = ''token not authenticated''"
| "error_text (Wrapped s e) = s"

fun errors_is :: "go_error \<Rightarrow> go_error \<Rightarrow> bool" where
  "errors_is (Wrapped s e) t \<longleftrightarrow> Wrapped s e = t \<or> errors_is e t"
| "errors_is e t \<longleftrightarrow> e = t"

section \<open>Go maps\<close>

text \<open>
  A Go map is an association list with the operations of \<open>HOL-Library.AList\<close>, so that
  loops over its entries stay executable. \<open>gmap_ok\<close> says that no key occurs twice.
\<close>

type_synonym ('k, 'v) gmap = "('k \<times> 'v) list"

definition gget :: "('k, 'v) gmap \<Rightarrow> 'k \<Rightarrow> 'v option" where
  "gget m k = map_of m k"

definition gput :: "'k \<Rightarrow> 'v \<Rightarrow> ('k, 'v) gmap \<Rightarrow> ('k, 'v) gmap" where
  "gput k v m = AList.update k v m"

definition gdel :: "'k \<Rightarrow> ('k, 'v) gmap \<Rightarrow> ('k, 'v) gmap" where
  "gdel k m = AList.delete k m"

definition gkeys :: "('k, 'v) gmap \<Rightarrow> 'k list" where
  "gkeys m = map fst m"

definition gmap_ok :: "('k, 'v) gmap \<Rightarrow> bool" where
  "gmap_ok m \<longleftrightarrow> distinct (map fst m)"

section \<open>Command-line flags\<close>

text \<open>A flag that is not given has its default.\<close>

definition flag :: "'a \<Rightarrow> 'a option \<Rightarrow> 'a" where
  "flag def given = (case given of None \<Rightarrow> def | Some v \<Rightarrow> v)"

section \<open>Reachable states\<close>

inductive reach :: "('s \<Rightarrow> bool) \<Rightarrow> ('s \<Rightarrow> 's \<Rightarrow> bool) \<Rightarrow> 's \<Rightarrow> bool"
  for init :: "'s \<Rightarrow> bool" and step :: "'s \<Rightarrow> 's \<Rightarrow> bool" where
  start: "init s \<Longrightarrow> reach init step s"
| step: "reach init step s \<Longrightarrow> step s t \<Longrightarrow> reach init step t"

section \<open>Lemmas on strings\<close>

lemma split_not_Nil [simp]: "split c s \<noteq> []"
  by (induction s) (auto split: list.splits)

lemma join_Cons: "ps \<noteq> [] \<Longrightarrow> join sep (p # ps) = p @ sep @ join sep ps"
  by (cases ps) auto

lemma join_split [simp]: "join [c] (split c s) = s"
proof (induction s)
  case Nil
  show ?case by simp
next
  case (Cons x xs)
  obtain p ps where sp: "split c xs = p # ps"
    using split_not_Nil by (cases "split c xs") auto
  show ?case
    using Cons.IH sp by (cases ps) auto
qed

lemma split_no_sep [simp]: "c \<notin> set s \<Longrightarrow> split c s = [s]"
  by (induction s) auto

lemma split_append_sep: "c \<notin> set p \<Longrightarrow> split c (p @ c # s) = p # split c s"
  by (induction p) auto

lemma split_join:
  assumes "ps \<noteq> []" and "\<forall>p \<in> set ps. c \<notin> set p"
  shows "split c (join [c] ps) = ps"
  using assms
proof (induction ps rule: list_nonempty_induct)
  case (single p)
  then show ?case by simp
next
  case (cons p ps)
  then show ?case by (simp add: join_Cons split_append_sep)
qed

lemma split_pieces: "p \<in> set (split c s) \<Longrightarrow> c \<notin> set p"
proof (induction s arbitrary: p)
  case Nil
  then show ?case by simp
next
  case (Cons x xs)
  obtain q qs where sp: "split c xs = q # qs"
    using split_not_Nil by (cases "split c xs") auto
  show ?case
    using Cons sp by (auto split: if_splits)
qed

lemma split_hd: "hd (split c s) = takeWhile (\<lambda>x. x \<noteq> c) s"
proof (induction s)
  case Nil
  then show ?case by simp
next
  case (Cons x xs)
  then show ?case by (cases "split c xs") auto
qed

lemma length_split: "length (split c s) = Suc (count_list s c)"
proof (induction s)
  case Nil
  then show ?case by simp
next
  case (Cons x xs)
  obtain q qs where sp: "split c xs = q # qs"
    using split_not_Nil by (cases "split c xs") auto
  show ?case
    using Cons sp by auto
qed

lemma has_prefix_append [simp]: "has_prefix (p @ s) p"
  by (simp add: has_prefix_def)

lemma has_prefix_iff: "has_prefix s p \<longleftrightarrow> (\<exists>r. s = p @ r)"
  by (metis append_eq_conv_conj has_prefix_def)

lemma trim_prefix_append [simp]: "trim_prefix (p @ s) p = s"
  by (simp add: trim_prefix_def)

lemma has_prefix_contains: "has_prefix s p \<Longrightarrow> contains s p"
  by (cases s) (auto simp: has_prefix_def)

lemma contains_append: "contains (a @ sub @ b) sub"
  by (induction a) (auto intro: has_prefix_contains)

lemma contains_iff: "contains s sub \<longleftrightarrow> (\<exists>a b. s = a @ sub @ b)"
proof
  show "\<exists>a b. s = a @ sub @ b" if "contains s sub"
    using that
  proof (induction s)
    case Nil
    then show ?case by simp
  next
    case (Cons c s)
    then show ?case
      by (auto simp: has_prefix_iff) (metis append_Nil append_Cons)+
  qed
  show "contains s sub" if "\<exists>a b. s = a @ sub @ b"
    using that contains_append by blast
qed

lemma cut_fst: "fst (cut c s) = hd (split c s)"
proof (induction s)
  case Nil
  then show ?case by simp
next
  case (Cons x xs)
  then show ?case
    by (cases "cut c xs"; cases "split c xs") auto
qed

lemma cut_no_sep [simp]: "c \<notin> set s \<Longrightarrow> cut c s = (s, [], False)"
  by (induction s) auto

lemma cut_append_sep [simp]: "c \<notin> set s \<Longrightarrow> cut c (s @ c # t) = (s, t, True)"
  by (induction s) auto

lemma errors_is_refl [simp]: "errors_is e e"
  by (cases e) auto

section \<open>Lemmas on decimal numbers\<close>

lemma of_char_digit: "d < 10 \<Longrightarrow> (of_char (digit_char d) :: nat) = 48 + d"
  by (simp add: digit_char_def)

lemma is_digit_digit_char [simp]: "d < 10 \<Longrightarrow> is_digit (digit_char d)"
  by (simp add: is_digit_def of_char_digit)

lemma nat_to_dec_digits: "list_all is_digit (nat_to_dec n)"
proof (induction n rule: nat_to_dec.induct)
  case (1 n)
  then show ?case
    by (cases "n < 10") (auto simp: nat_to_dec.simps [of n])
qed

lemma nat_to_dec_not_Nil [simp]: "nat_to_dec n \<noteq> []"
  by (subst nat_to_dec.simps) simp

lemma dec_val_append: "dec_val (s @ [c]) = 10 * dec_val s + ((of_char c :: nat) - 48)"
  by (simp add: dec_val_def)

lemma dec_val_nat_to_dec [simp]: "dec_val (nat_to_dec n) = n"
proof (induction n rule: nat_to_dec.induct)
  case (1 n)
  show ?case
  proof (cases "n < 10")
    case True
    then show ?thesis
      by (simp add: nat_to_dec.simps [of n] dec_val_def of_char_digit)
  next
    case False
    with 1 have "dec_val (nat_to_dec (n div 10)) = n div 10" by simp
    with False show ?thesis
      by (simp add: nat_to_dec.simps [of n] dec_val_append of_char_digit)
  qed
qed

lemma digit_not_sign: "is_digit c \<Longrightarrow> c \<noteq> CHR ''-'' \<and> c \<noteq> CHR ''+''"
  by (auto simp: is_digit_def)

lemma atoi_itoa:
  assumes "- (2 ^ 63) \<le> i" and "i < 2 ^ 63"
  shows "atoi (itoa i) = Some i"
proof (cases "i < 0")
  case True
  then show ?thesis
    using assms nat_to_dec_digits [of "nat (- i)"]
    by (simp add: atoi_def itoa_def has_prefix_def Let_def)
next
  case False
  obtain c cs where d: "nat_to_dec (nat i) = c # cs"
    by (cases "nat_to_dec (nat i)") auto
  have c: "c \<noteq> CHR ''-''" "c \<noteq> CHR ''+''"
    using nat_to_dec_digits [of "nat i"] d digit_not_sign [of c] by auto
  have "atoi (itoa i) =
      (if - (2 ^ 63) \<le> int (dec_val (c # cs)) \<and> int (dec_val (c # cs)) < 2 ^ 63
       then Some (int (dec_val (c # cs))) else None)"
    using False c nat_to_dec_digits [of "nat i"] d
    by (simp add: atoi_def itoa_def has_prefix_def Let_def)
  moreover have "int (dec_val (c # cs)) = i"
    using False d dec_val_nat_to_dec [of "nat i"] by simp
  ultimately show ?thesis using assms by simp
qed

lemma itoa_not_Nil [simp]: "itoa i \<noteq> []"
  by (simp add: itoa_def)

lemma length_hex_encode [simp]: "length (hex_encode s) = 2 * length s"
  by (induction s) (auto simp: hex_encode_def hex_byte_def)

section \<open>The map interface\<close>

text \<open>
  What a client of a Go map relies on. The interpretation \<open>gm\<close> discharges the laws for the
  association lists; the derived facts are used as \<open>gm.get_put_same\<close> and so on.
\<close>

locale go_map =
  fixes get :: "'m \<Rightarrow> 'k \<Rightarrow> 'v option"
    and put :: "'k \<Rightarrow> 'v \<Rightarrow> 'm \<Rightarrow> 'm"
    and del :: "'k \<Rightarrow> 'm \<Rightarrow> 'm"
    and ok :: "'m \<Rightarrow> bool"
  assumes get_put: "get (put k v m) k' = (if k' = k then Some v else get m k')"
    and get_del: "get (del k m) k' = (if k' = k then None else get m k')"
    and ok_put: "ok m \<Longrightarrow> ok (put k v m)"
    and ok_del: "ok m \<Longrightarrow> ok (del k m)"
begin

lemma get_put_same [simp]: "get (put k v m) k = Some v"
  by (simp add: get_put)

lemma get_del_same [simp]: "get (del k m) k = None"
  by (simp add: get_del)

lemma get_put_put: "get (put k v (put k w m)) = get (put k v m)"
  by (rule ext) (simp add: get_put)

lemma get_del_put: "get (del k (put k v m)) = get (del k m)"
  by (rule ext) (simp add: get_put get_del)

end

interpretation gm: go_map gget gput gdel gmap_ok
proof unfold_locales
  fix k k' :: 'a and v :: 'b and m :: "('a, 'b) gmap"
  show "gget (gput k v m) k' = (if k' = k then Some v else gget m k')"
    by (simp add: gget_def gput_def update_conv')
  show "gget (gdel k m) k' = (if k' = k then None else gget m k')"
    by (simp add: gget_def gdel_def delete_conv')
  show "gmap_ok (gput k v m)" if "gmap_ok m"
    using that by (simp add: gmap_ok_def gput_def distinct_update)
  show "gmap_ok (gdel k m)" if "gmap_ok m"
    using that by (simp add: gmap_ok_def gdel_def distinct_delete)
qed

lemma gget_empty [simp]: "gget [] k = None"
  by (simp add: gget_def)

lemma gget_Cons: "gget ((k', v) # m) k = (if k = k' then Some v else gget m k)"
  by (auto simp: gget_def)

lemma gkeys_iff: "k \<in> set (gkeys m) \<longleftrightarrow> gget m k \<noteq> None"
  by (induction m) (auto simp: gget_def gkeys_def)

lemma gkeys_gput [simp]: "set (gkeys (gput k v m)) = insert k (set (gkeys m))"
  by (simp add: gkeys_def gput_def dom_update)

lemma gkeys_gdel [simp]: "set (gkeys (gdel k m)) = set (gkeys m) - {k}"
  by (auto simp: gkeys_def gdel_def delete_keys)

section \<open>The invariant rule\<close>

text \<open>
  An invariant of a step relation holds at the start and is kept by every step. Each state
  machine of the development is an interpretation of this locale, and its safety properties
  are read off \<open>reach_inv\<close>.
\<close>

locale invariant_rule =
  fixes init :: "'s \<Rightarrow> bool" and step :: "'s \<Rightarrow> 's \<Rightarrow> bool" and inv :: "'s \<Rightarrow> bool"
  assumes init_inv: "init s \<Longrightarrow> inv s"
    and step_inv: "inv s \<Longrightarrow> step s t \<Longrightarrow> inv t"
begin

lemma reach_inv: "reach init step s \<Longrightarrow> inv s"
  by (induction rule: reach.induct) (auto intro: init_inv step_inv)

end

end
