(* ===== verification/Go_Http.thy ===== *)
theory Go_Http
  imports Prelude
begin

text \<open>
  The part of Go's \<open>net/http\<close> and \<open>net/http/httputil\<close> that both proxies rely on: header
  maps with canonical keys, requests, and what \<open>httputil.ReverseProxy\<close> does to the
  headers of a request before it is sent on (the hop-by-hop headers and every header
  that the \<open>Connection\<close> header nominates are removed). The locale \<open>header_store\<close> is the
  interface that the components use.
\<close>

section \<open>Headers\<close>

type_synonym header = "(string, string list) gmap"

definition header_token_marks :: string where
  "header_token_marks = ''!#$%&*+-.^_|~'' @ [CHR 0x27, CHR 0x60]"

definition valid_header_byte :: "char \<Rightarrow> bool" where
  "valid_header_byte c \<longleftrightarrow>
     is_upper c \<or> is_lower c \<or> is_digit c \<or> c \<in> set header_token_marks"

fun canon_from :: "bool \<Rightarrow> string \<Rightarrow> string" where
  "canon_from up [] = []"
| "canon_from up (c # cs) =
     (if up then upper_char c else lower_char c) # canon_from (c = CHR ''-'') cs"

text \<open>\<open>textproto.CanonicalMIMEHeaderKey\<close>: a key with an invalid byte is left alone.\<close>

definition canonical_key :: "string \<Rightarrow> string" where
  "canonical_key s = (if list_all valid_header_byte s then canon_from True s else s)"

definition header_values :: "header \<Rightarrow> string \<Rightarrow> string list" where
  "header_values h k = (case gget h (canonical_key k) of None \<Rightarrow> [] | Some vs \<Rightarrow> vs)"

definition first_value :: "string list \<Rightarrow> string" where
  "first_value vs = (case vs of [] \<Rightarrow> [] | v # _ \<Rightarrow> v)"

definition header_get :: "header \<Rightarrow> string \<Rightarrow> string" where
  "header_get h k = first_value (header_values h k)"

definition header_set :: "header \<Rightarrow> string \<Rightarrow> string \<Rightarrow> header" where
  "header_set h k v = gput (canonical_key k) [v] h"

definition header_add :: "header \<Rightarrow> string \<Rightarrow> string \<Rightarrow> header" where
  "header_add h k v = gput (canonical_key k) (header_values h k @ [v]) h"

definition header_del :: "header \<Rightarrow> string \<Rightarrow> header" where
  "header_del h k = gdel (canonical_key k) h"

text \<open>Whether the map holds an entry for the key, whatever its values.\<close>

definition header_has :: "header \<Rightarrow> string \<Rightarrow> bool" where
  "header_has h k \<longleftrightarrow> gget h (canonical_key k) \<noteq> None"

record http_request =
  req_method :: string
  request_uri :: string
  url_path :: string
  url_raw_path :: string
  url_raw_query :: string
  req_header :: header
  remote_ip :: "string option"

section \<open>The reverse proxy's header rewriting\<close>

definition is_space :: "char \<Rightarrow> bool" where
  "is_space c \<longleftrightarrow> c \<in> set [CHR '' '', CHR 0x09, CHR 0x0A, CHR 0x0D]"

text \<open>\<open>textproto.TrimString\<close>.\<close>

definition trim_string :: "string \<Rightarrow> string" where
  "trim_string s = rev (dropWhile is_space (rev (dropWhile is_space s)))"

text \<open>The headers that the values of \<open>Connection\<close> nominate as hop-by-hop.\<close>

definition connection_tokens :: "header \<Rightarrow> string list" where
  "connection_tokens h =
     filter (\<lambda>t. t \<noteq> [])
       (map trim_string (concat (map (split CHR '','') (header_values h ''Connection''))))"

definition hop_headers :: "string list" where
  "hop_headers =
     [''Connection'', ''Proxy-Connection'', ''Keep-Alive'', ''Proxy-Authenticate'',
      ''Proxy-Authorization'', ''Te'', ''Trailer'', ''Transfer-Encoding'', ''Upgrade'']"

definition remove_hop_by_hop :: "header \<Rightarrow> header" where
  "remove_hop_by_hop h = fold (\<lambda>k h'. header_del h' k) (connection_tokens h @ hop_headers) h"

text \<open>\<open>httpguts.HeaderValuesContainsToken\<close>: ASCII case-insensitive, blanks trimmed.\<close>

definition trim_ows :: "string \<Rightarrow> string" where
  "trim_ows s =
     (let blank = (\<lambda>c. c \<in> set [CHR '' '', CHR 0x09])
      in rev (dropWhile blank (rev (dropWhile blank s))))"

definition values_contain_token :: "string list \<Rightarrow> string \<Rightarrow> bool" where
  "values_contain_token vs t \<longleftrightarrow>
     list_ex (\<lambda>v. list_ex (\<lambda>p. map lower_char (trim_ows p) = map lower_char t)
       (split CHR '','' v)) vs"

definition upgrade_type :: "header \<Rightarrow> string" where
  "upgrade_type h =
     (if values_contain_token (header_values h ''Connection'') ''Upgrade''
      then header_get h ''Upgrade'' else [])"

definition is_print_ascii :: "string \<Rightarrow> bool" where
  "is_print_ascii s \<longleftrightarrow> list_all (\<lambda>c. 32 \<le> (of_char c :: nat) \<and> (of_char c :: nat) \<le> 126) s"

definition set_forwarded_for :: "string option \<Rightarrow> header \<Rightarrow> header" where
  "set_forwarded_for ip h =
     (case ip of
        None \<Rightarrow> h
      | Some a \<Rightarrow>
          (let prior = header_values h ''X-Forwarded-For''
           in header_set h ''X-Forwarded-For''
                (if prior = [] then a else join '', '' prior @ '', '' @ a)))"

definition default_user_agent :: "header \<Rightarrow> header" where
  "default_user_agent h = (if header_has h ''User-Agent'' then h else header_set h ''User-Agent'' [])"

text \<open>
  \<open>ReverseProxy.ServeHTTP\<close> on the headers of the incoming request: \<open>None\<close> when the
  client asks for a protocol that is not printable (the error handler answers then),
  otherwise the headers of the request that is sent to the target.
\<close>

definition reverse_proxy_header :: "string option \<Rightarrow> header \<Rightarrow> header option" where
  "reverse_proxy_header ip h =
     (let up = upgrade_type h in
      if \<not> is_print_ascii up then None
      else
        (let h1 = remove_hop_by_hop h;
             h2 = (if values_contain_token (header_values h ''Te'') ''trailers''
                   then header_set h1 ''Te'' ''trailers'' else h1);
             h3 = (if up \<noteq> []
                   then header_set (header_set h2 ''Connection'' ''Upgrade'') ''Upgrade'' up
                   else h2)
         in Some (default_user_agent (set_forwarded_for ip h3))))"

section \<open>Canonical keys\<close>

lemma upper_upper [simp]: "upper_char (upper_char c) = upper_char c"
  by (auto simp: upper_char_def is_lower_def)

lemma lower_lower [simp]: "lower_char (lower_char c) = lower_char c"
  by (auto simp: lower_char_def is_upper_def)

lemma upper_char_dash [simp]: "upper_char c = CHR ''-'' \<longleftrightarrow> c = CHR ''-''"
proof
  assume a: "upper_char c = CHR ''-''"
  show "c = CHR ''-''"
  proof (cases "is_lower c")
    case True
    then have "(of_char (upper_char c) :: nat) = of_char c - 32" "(of_char c :: nat) \<ge> 97"
      by (auto simp: upper_char_def is_lower_def)
    with a show ?thesis by simp
  qed (use a in \<open>simp add: upper_char_def\<close>)
qed (simp add: upper_char_def is_lower_def)

lemma lower_char_dash [simp]: "lower_char c = CHR ''-'' \<longleftrightarrow> c = CHR ''-''"
proof
  assume a: "lower_char c = CHR ''-''"
  show "c = CHR ''-''"
  proof (cases "is_upper c")
    case True
    then have "(of_char (lower_char c) :: nat) = of_char c + 32" "(of_char c :: nat) \<ge> 65"
      by (auto simp: lower_char_def is_upper_def)
    with a show ?thesis by simp
  qed (use a in \<open>simp add: lower_char_def\<close>)
qed (simp add: lower_char_def is_upper_def)

lemma valid_upper [simp]: "valid_header_byte c \<Longrightarrow> valid_header_byte (upper_char c)"
  by (auto simp: valid_header_byte_def upper_char_def is_lower_def is_upper_def)

lemma valid_lower [simp]: "valid_header_byte c \<Longrightarrow> valid_header_byte (lower_char c)"
  by (auto simp: valid_header_byte_def lower_char_def is_lower_def is_upper_def)

lemma canon_from_valid: "list_all valid_header_byte s \<Longrightarrow> list_all valid_header_byte (canon_from up s)"
  by (induction s arbitrary: up) auto

lemma canon_from_idem: "canon_from up (canon_from up s) = canon_from up s"
  by (induction s arbitrary: up) auto

lemma canonical_key_idem [simp]: "canonical_key (canonical_key k) = canonical_key k"
  by (simp add: canonical_key_def canon_from_valid canon_from_idem)

section \<open>The header interface\<close>

locale header_store =
  fixes vals :: "'h \<Rightarrow> string \<Rightarrow> string list"
    and set :: "'h \<Rightarrow> string \<Rightarrow> string \<Rightarrow> 'h"
    and add :: "'h \<Rightarrow> string \<Rightarrow> string \<Rightarrow> 'h"
    and del :: "'h \<Rightarrow> string \<Rightarrow> 'h"
    and canon :: "string \<Rightarrow> string"
  assumes vals_set: "vals (set h k v) k' = (if canon k' = canon k then [v] else vals h k')"
    and vals_add: "vals (add h k v) k' = (if canon k' = canon k then vals h k @ [v] else vals h k')"
    and vals_del: "vals (del h k) k' = (if canon k' = canon k then [] else vals h k')"
    and vals_canon: "canon k = canon k' \<Longrightarrow> vals h k = vals h k'"
begin

lemma vals_set_same [simp]: "vals (set h k v) k = [v]"
  by (simp add: vals_set)

lemma vals_add_all:
  "vals (fold (\<lambda>v h. add h k v) vs h) k' =
     (if canon k' = canon k then vals h k @ vs else vals h k')"
proof (induction vs arbitrary: h)
  case Nil
  show ?case by (auto intro: vals_canon)
next
  case (Cons v vs)
  show ?case by (simp add: Cons.IH vals_add)
qed

lemma vals_del_all:
  "vals (fold (\<lambda>k h. del h k) ks h) k' =
     (if list_ex (\<lambda>k. canon k = canon k') ks then [] else vals h k')"
proof (induction ks arbitrary: h)
  case Nil
  show ?case by simp
next
  case (Cons k ks)
  show ?case by (simp add: Cons.IH vals_del)
qed

end

interpretation hs: header_store header_values header_set header_add header_del canonical_key
  by unfold_locales
    (auto simp: header_values_def header_set_def header_add_def header_del_def
      gm.get_put gm.get_del)

lemma header_get_set:
  "header_get (header_set h k v) k' = (if canonical_key k' = canonical_key k then v else header_get h k')"
  by (simp add: header_get_def hs.vals_set first_value_def)

section \<open>What the reverse proxy forwards\<close>

text \<open>The standard keys of this theory are canonical, so they can be compared as they are.\<close>

lemma canonical_hop_keys:
  "canonical_key ''Connection'' = ''Connection''"
  "canonical_key ''Proxy-Connection'' = ''Proxy-Connection''"
  "canonical_key ''Keep-Alive'' = ''Keep-Alive''"
  "canonical_key ''Proxy-Authenticate'' = ''Proxy-Authenticate''"
  "canonical_key ''Proxy-Authorization'' = ''Proxy-Authorization''"
  "canonical_key ''Te'' = ''Te''"
  "canonical_key ''Trailer'' = ''Trailer''"
  "canonical_key ''Transfer-Encoding'' = ''Transfer-Encoding''"
  "canonical_key ''Upgrade'' = ''Upgrade''"
  "canonical_key ''X-Forwarded-For'' = ''X-Forwarded-For''"
  "canonical_key ''User-Agent'' = ''User-Agent''"
  by code_simp+

text \<open>Whether the \<open>Connection\<close> header of a request nominates a header for removal.\<close>

definition nominated :: "header \<Rightarrow> string \<Rightarrow> bool" where
  "nominated h k \<longleftrightarrow> list_ex (\<lambda>t. canonical_key t = canonical_key k) (connection_tokens h)"

text \<open>The headers that the proxy itself may write.\<close>

definition proxy_written :: "string list" where
  "proxy_written = hop_headers @ [''X-Forwarded-For'', ''User-Agent'']"

lemma list_ex_canonical_hop:
  "list_ex (\<lambda>t. canonical_key t = k) hop_headers \<longleftrightarrow> k \<in> set hop_headers"
  by (auto simp: hop_headers_def canonical_hop_keys)

lemma remove_hop_by_hop_values:
  "header_values (remove_hop_by_hop h) k =
     (if nominated h k \<or> canonical_key k \<in> set hop_headers then [] else header_values h k)"
  by (simp add: remove_hop_by_hop_def hs.vals_del_all nominated_def list_ex_canonical_hop)

lemma proxy_written_fresh:
  assumes "canonical_key k \<notin> set proxy_written"
  shows "canonical_key k \<noteq> canonical_key ''Te''" "canonical_key k \<noteq> canonical_key ''Connection''"
    "canonical_key k \<noteq> canonical_key ''Upgrade''"
    "canonical_key k \<noteq> canonical_key ''X-Forwarded-For''"
    "canonical_key k \<noteq> canonical_key ''User-Agent''"
    "canonical_key k \<notin> set hop_headers"
  using assms by (auto simp: proxy_written_def hop_headers_def canonical_hop_keys)

lemma set_forwarded_for_values:
  "canonical_key k \<noteq> canonical_key ''X-Forwarded-For'' \<Longrightarrow>
   header_values (set_forwarded_for ip h) k = header_values h k"
  by (simp add: set_forwarded_for_def hs.vals_set Let_def split: option.splits)

lemma default_user_agent_values:
  "canonical_key k \<noteq> canonical_key ''User-Agent'' \<Longrightarrow>
   header_values (default_user_agent h) k = header_values h k"
  by (simp add: default_user_agent_def hs.vals_set)

lemma reverse_proxy_values:
  assumes "reverse_proxy_header ip h = Some h'" and "canonical_key k \<notin> set proxy_written"
  shows "header_values h' k = (if nominated h k then [] else header_values h k)"
proof -
  note fresh = proxy_written_fresh [OF assms(2)]
  show ?thesis
    using assms(1) fresh
    by (auto simp: reverse_proxy_header_def Let_def default_user_agent_values
        set_forwarded_for_values hs.vals_set remove_hop_by_hop_values split: if_splits)
qed

text \<open>What leaves a reverse proxy nominates nothing but \<open>Upgrade\<close>.\<close>

lemma connection_tokens_none: "header_values h ''Connection'' = [] \<Longrightarrow> connection_tokens h = []"
  by (simp add: connection_tokens_def)

lemma connection_tokens_upgrade:
  "header_values h ''Connection'' = [''Upgrade''] \<Longrightarrow> connection_tokens h = [''Upgrade'']"
  by (simp add: connection_tokens_def trim_string_def is_space_def)

lemma reverse_proxy_connection:
  assumes "reverse_proxy_header ip h = Some h'"
  shows "header_values h' ''Connection'' = [] \<or> header_values h' ''Connection'' = [''Upgrade'']"
proof -
  have k: "canonical_key ''Connection'' \<noteq> canonical_key ''X-Forwarded-For''"
    "canonical_key ''Connection'' \<noteq> canonical_key ''User-Agent''"
    "canonical_key ''Connection'' \<noteq> canonical_key ''Te''"
    "canonical_key ''Connection'' \<noteq> canonical_key ''Upgrade''"
    "canonical_key ''Connection'' \<in> set hop_headers"
    by (simp_all add: canonical_hop_keys hop_headers_def)
  show ?thesis
    using assms k
    by (auto simp: reverse_proxy_header_def Let_def default_user_agent_values
        set_forwarded_for_values hs.vals_set remove_hop_by_hop_values split: if_splits)
qed

lemma reverse_proxy_no_upgrade:
  assumes "reverse_proxy_header ip h = Some h'" and "upgrade_type h = []"
  shows "header_values h' ''Connection'' = []"
  using assms
  by (auto simp: reverse_proxy_header_def Let_def default_user_agent_values set_forwarded_for_values
      hs.vals_set remove_hop_by_hop_values canonical_hop_keys hop_headers_def split: if_splits)

lemma nominated_after_proxy:
  assumes "reverse_proxy_header ip h = Some h'" and "nominated h' k"
  shows "canonical_key k = ''Upgrade''"
  using reverse_proxy_connection [OF assms(1)] assms(2)
  by (auto simp: nominated_def canonical_hop_keys
      dest: connection_tokens_none connection_tokens_upgrade)

end
