(* ===== verification/Go_Url.thy ===== *)
theory Go_Url
  imports Prelude
begin

text \<open>
  The part of Go's \<open>net/url\<close> that the repository uses: \<open>url.Parse\<close> on the target URLs the
  two proxies build, and the path escaping that is applied when a rewritten request is
  written to the wire. The grammar of bracketed IP literals in the host is left to the
  argument \<open>ipl\<close>: it is reached only by a host that holds a \<open>[\<close>.
\<close>

section \<open>Parsing\<close>

datatype url_error =
    InvalidControlCharacter
  | MissingProtocolScheme
  | ColonInFirstSegment
  | InvalidPort string
  | InvalidUserinfo
  | InvalidHost
  | EscapeError
  | BadIPLiteral

record url =
  u_scheme :: string
  u_opaque :: string
  u_host :: string
  u_path :: string
  u_raw_path :: string
  u_raw_query :: string

definition is_letter :: "char \<Rightarrow> bool" where
  "is_letter c \<longleftrightarrow> is_upper c \<or> is_lower c"

definition is_alnum :: "char \<Rightarrow> bool" where
  "is_alnum c \<longleftrightarrow> is_letter c \<or> is_digit c"

definition is_ctl :: "char \<Rightarrow> bool" where
  "is_ctl c \<longleftrightarrow> (of_char c :: nat) < 32 \<or> (of_char c :: nat) = 127"

definition is_hex :: "char \<Rightarrow> bool" where
  "is_hex c \<longleftrightarrow> is_digit c \<or> (97 \<le> (of_char c :: nat) \<and> (of_char c :: nat) \<le> 102)
     \<or> (65 \<le> (of_char c :: nat) \<and> (of_char c :: nat) \<le> 70)"

definition unhex :: "char \<Rightarrow> nat" where
  "unhex c =
     (if is_digit c then of_char c - 48
      else if is_lower c then of_char c - 87
      else of_char c - 55)"

definition host_marks :: string where
  "host_marks = ''!$&()*+,;=:[]<>-_.~'' @ [CHR 0x27, CHR 0x22]"

definition userinfo_marks :: string where
  "userinfo_marks = ''-_.:~!$&()*+,;=%@'' @ [CHR 0x27]"

text \<open>\<open>unescape\<close>, with the extra checks of a host when \<open>host\<close> is set.\<close>

fun unescape :: "bool \<Rightarrow> string \<Rightarrow> url_error + string" where
  "unescape host [] = Inr []"
| "unescape host (c # cs) =
     (if c = CHR ''%'' then
        (case cs of
           a # b # rest \<Rightarrow>
             if \<not> is_hex a \<or> \<not> is_hex b then Inl EscapeError
             else if host \<and> unhex a < 8 \<and> [a, b] \<noteq> ''25'' then Inl EscapeError
             else (case unescape host rest of
                     Inl e \<Rightarrow> Inl e
                   | Inr r \<Rightarrow> Inr (char_of (16 * unhex a + unhex b) # r))
         | _ \<Rightarrow> Inl EscapeError)
      else if host \<and> (of_char c :: nat) < 128 \<and> \<not> is_alnum c \<and> c \<notin> set host_marks
        then Inl InvalidHost
      else (case unescape host cs of Inl e \<Rightarrow> Inl e | Inr r \<Rightarrow> Inr (c # r)))"

text \<open>\<open>getScheme\<close>: \<open>first\<close> tells whether the byte is the first of the URL.\<close>

fun get_scheme :: "bool \<Rightarrow> string \<Rightarrow> string \<Rightarrow> string \<Rightarrow> url_error + string \<times> string" where
  "get_scheme first raw acc [] = Inr ([], raw)"
| "get_scheme first raw acc (c # cs) =
     (if is_letter c then get_scheme False raw (acc @ [c]) cs
      else if is_digit c \<or> c \<in> set ''+-.'' then
        (if first then Inr ([], raw) else get_scheme False raw (acc @ [c]) cs)
      else if c = CHR '':'' then
        (if first then Inl MissingProtocolScheme else Inr (acc, cs))
      else Inr ([], raw))"

definition valid_optional_port :: "string \<Rightarrow> bool" where
  "valid_optional_port p \<longleftrightarrow> p = [] \<or> (hd p = CHR '':'' \<and> list_all is_digit (tl p))"

text \<open>\<open>parseHost\<close>: the port starts at the first colon.\<close>

definition parse_host :: "(string \<Rightarrow> url_error + string) \<Rightarrow> string \<Rightarrow> url_error + string" where
  "parse_host ipl h =
     (if CHR ''['' \<in> set h then ipl h
      else
        (case cut CHR '':'' h of
           (_, port, colon) \<Rightarrow>
             if colon \<and> \<not> valid_optional_port (CHR '':'' # port)
             then Inl (InvalidPort port) else unescape True h))"

text \<open>\<open>parseAuthority\<close>: the host is what follows the last \<open>@\<close>.\<close>

definition parse_authority :: "(string \<Rightarrow> url_error + string) \<Rightarrow> string \<Rightarrow> url_error + string" where
  "parse_authority ipl a =
     (let parts = split CHR ''@'' a in
      case parse_host ipl (last parts) of
        Inl e \<Rightarrow> Inl e
      | Inr h \<Rightarrow>
          if length parts = 1 then Inr h
          else
            (let user = join ''@'' (butlast parts) in
             if \<not> list_all (\<lambda>c. is_alnum c \<or> c \<in> set userinfo_marks) user
             then Inl InvalidUserinfo
             else (case unescape False user of Inl e \<Rightarrow> Inl e | Inr _ \<Rightarrow> Inr h)))"

definition path_marks :: string where
  "path_marks = ''-_.~$&+,/:;=@''"

definition upper_hex :: "nat \<Rightarrow> char" where
  "upper_hex d = (if d < 10 then char_of (48 + d) else char_of (55 + d))"

definition escape_char :: "char \<Rightarrow> string" where
  "escape_char c =
     (if is_alnum c \<or> c \<in> set path_marks then [c]
      else [CHR ''%'', upper_hex ((of_char c :: nat) div 16), upper_hex ((of_char c :: nat) mod 16)])"

text \<open>\<open>escape(s, encodePath)\<close>.\<close>

definition escape_path :: "string \<Rightarrow> string" where
  "escape_path s = concat (map escape_char s)"

text \<open>\<open>setPath\<close>: the path is stored decoded; the raw form is kept if it is not the default
  encoding of it.\<close>

definition set_path :: "url \<Rightarrow> string \<Rightarrow> url_error + url" where
  "set_path u p =
     (case unescape False p of
        Inl e \<Rightarrow> Inl e
      | Inr d \<Rightarrow> Inr (u\<lparr>u_path := d, u_raw_path := if escape_path d = p then [] else p\<rparr>))"

definition empty_url :: url where
  "empty_url = \<lparr>u_scheme = [], u_opaque = [], u_host = [], u_path = [], u_raw_path = [], u_raw_query = []\<rparr>"

definition parse_rest ::
  "(string \<Rightarrow> url_error + string) \<Rightarrow> string \<Rightarrow> string \<Rightarrow> url_error + url" where
  "parse_rest ipl scheme rest0 =
     (case cut CHR ''?'' rest0 of
        (rest, query, _) \<Rightarrow>
          (let u = empty_url\<lparr>u_scheme := scheme, u_raw_query := query\<rparr> in
           if \<not> has_prefix rest ''/'' \<and> scheme \<noteq> [] then Inr (u\<lparr>u_opaque := rest\<rparr>)
           else if \<not> has_prefix rest ''/'' \<and> CHR '':'' \<in> set (fst (cut CHR ''/'' rest))
             then Inl ColonInFirstSegment
           else if (scheme \<noteq> [] \<or> \<not> has_prefix rest ''///'') \<and> has_prefix rest ''//'' then
             (case cut CHR ''/'' (drop 2 rest) of
                (authority, r, slash) \<Rightarrow>
                  (case parse_authority ipl authority of
                     Inl e \<Rightarrow> Inl e
                   | Inr h \<Rightarrow> set_path (u\<lparr>u_host := h\<rparr>) (if slash then CHR ''/'' # r else [])))
           else set_path u rest))"

definition parse_no_fragment ::
  "(string \<Rightarrow> url_error + string) \<Rightarrow> string \<Rightarrow> url_error + url" where
  "parse_no_fragment ipl raw =
     (if list_ex is_ctl raw then Inl InvalidControlCharacter
      else if raw = ''*'' then Inr (empty_url\<lparr>u_path := ''*''\<rparr>)
      else
        (case get_scheme True raw [] raw of
           Inl e \<Rightarrow> Inl e
         | Inr (scheme, rest) \<Rightarrow> parse_rest ipl (map lower_char scheme) rest))"

text \<open>\<open>url.Parse\<close>.\<close>

definition url_parse :: "(string \<Rightarrow> url_error + string) \<Rightarrow> string \<Rightarrow> url_error + url" where
  "url_parse ipl raw =
     (case cut CHR ''#'' raw of
        (u, frag, _) \<Rightarrow>
          (case parse_no_fragment ipl u of
             Inl e \<Rightarrow> Inl e
           | Inr r \<Rightarrow>
               if frag = [] then Inr r
               else (case unescape False frag of Inl e \<Rightarrow> Inl e | Inr _ \<Rightarrow> Inr r)))"

section \<open>Joining paths\<close>

text \<open>\<open>singleJoiningSlash\<close> of \<open>httputil\<close>.\<close>

definition single_joining_slash :: "string \<Rightarrow> string \<Rightarrow> string" where
  "single_joining_slash a b =
     (let aslash = (a \<noteq> [] \<and> last a = CHR ''/''); bslash = has_prefix b ''/'' in
      if aslash \<and> bslash then a @ drop 1 b
      else if \<not> aslash \<and> \<not> bslash then a @ ''/'' @ b
      else a @ b)"

text \<open>\<open>URL.EscapedPath\<close>: the raw path where it is a valid encoding of the path.\<close>

definition raw_marks :: string where
  "raw_marks = ''!$&()*+,;=:@[]%'' @ [CHR 0x27]"

definition valid_encoded :: "string \<Rightarrow> bool" where
  "valid_encoded s \<longleftrightarrow>
     list_all (\<lambda>c. c \<in> set raw_marks \<or> is_alnum c \<or> c \<in> set path_marks) s"

definition escaped_path :: "string \<Rightarrow> string \<Rightarrow> string" where
  "escaped_path raw p =
     (if raw \<noteq> [] \<and> valid_encoded raw \<and> unescape False raw = Inr p then raw
      else if p = ''*'' then ''*''
      else escape_path p)"

text \<open>\<open>joinURLPath\<close> of \<open>httputil\<close>, on pairs of a path and its raw form.\<close>

definition join_url_path :: "string \<times> string \<Rightarrow> string \<times> string \<Rightarrow> string \<times> string" where
  "join_url_path a b =
     (if snd a = [] \<and> snd b = [] then (single_joining_slash (fst a) (fst b), [])
      else
        (let apath = escaped_path (snd a) (fst a);
             bpath = escaped_path (snd b) (fst b);
             aslash = (apath \<noteq> [] \<and> last apath = CHR ''/'');
             bslash = has_prefix bpath ''/''
         in if aslash \<and> bslash then (fst a @ drop 1 (fst b), apath @ drop 1 bpath)
            else if \<not> aslash \<and> \<not> bslash then (fst a @ ''/'' @ fst b, apath @ ''/'' @ bpath)
            else (fst a @ fst b, apath @ bpath)))"

section \<open>Parsing the URLs the proxies build\<close>

text \<open>A name of letters, digits and the four unreserved marks.\<close>

definition plain :: "string \<Rightarrow> bool" where
  "plain s \<longleftrightarrow> list_all (\<lambda>c. is_alnum c \<or> c \<in> set ''-._~'') s"

lemma plain_append [simp]: "plain (a @ b) \<longleftrightarrow> plain a \<and> plain b"
  by (simp add: plain_def)

lemma plain_Nil [simp]: "plain []"
  by (simp add: plain_def)

lemma plain_Cons: "plain (c # cs) \<longleftrightarrow> (is_alnum c \<or> c \<in> set ''-._~'') \<and> plain cs"
  by (simp add: plain_def)

lemma is_alnum_code: "is_alnum c \<longleftrightarrow>
    (48 \<le> (of_char c :: nat) \<and> (of_char c :: nat) \<le> 57) \<or>
    (65 \<le> (of_char c :: nat) \<and> (of_char c :: nat) \<le> 90) \<or>
    (97 \<le> (of_char c :: nat) \<and> (of_char c :: nat) \<le> 122)"
  by (auto simp: is_alnum_def is_letter_def is_upper_def is_lower_def is_digit_def)

lemma plain_not_in:
  assumes "plain s"
  shows "CHR ''/'' \<notin> set s" "CHR ''#'' \<notin> set s" "CHR ''?'' \<notin> set s" "CHR ''@'' \<notin> set s"
    "CHR ''['' \<notin> set s" "CHR '':'' \<notin> set s" "CHR ''%'' \<notin> set s"
  using assms by (induction s) (auto simp: plain_Cons is_alnum_code)

lemma plain_not_ctl: "plain s \<Longrightarrow> \<not> list_ex is_ctl s"
  by (induction s) (auto simp: plain_Cons is_alnum_code is_ctl_def)

lemma digits_plain: "list_all is_digit s \<Longrightarrow> plain s"
  by (induction s) (auto simp: plain_Cons is_alnum_def)

lemma unescape_no_percent:
  "CHR ''%'' \<notin> set s \<Longrightarrow> unescape False s = Inr s"
  by (induction s) auto

lemma unescape_host:
  "list_all (\<lambda>c. is_alnum c \<or> c \<in> set host_marks) s \<Longrightarrow> CHR ''%'' \<notin> set s \<Longrightarrow>
   unescape True s = Inr s"
  by (induction s) auto

lemma plain_host_chars:
  "plain s \<Longrightarrow> list_all (\<lambda>c. is_alnum c \<or> c \<in> set host_marks) s"
  by (induction s) (auto simp: plain_Cons host_marks_def)

lemma get_scheme_letters:
  "list_all is_letter s \<Longrightarrow> s \<noteq> [] \<or> \<not> first \<Longrightarrow>
   get_scheme first raw acc (s @ CHR '':'' # rest) = Inr (acc @ s, rest)"
proof (induction s arbitrary: first acc)
  case Nil
  then show ?case
    by (simp add: is_letter_def is_upper_def is_lower_def is_digit_def)
next
  case (Cons c s)
  then show ?case by simp
qed

lemma letters_plain: "list_all is_letter s \<Longrightarrow> plain s"
  by (induction s) (auto simp: plain_Cons is_alnum_def)

lemma parse_host_port:
  assumes "plain h" and "list_all is_digit p"
  shows "parse_host ipl (h @ CHR '':'' # p) = Inr (h @ CHR '':'' # p)"
proof -
  have pp: "plain p" using assms(2) by (rule digits_plain)
  note h = plain_not_in [OF assms(1)] and p = plain_not_in [OF pp]
  have "unescape True (h @ CHR '':'' # p) = Inr (h @ CHR '':'' # p)"
    using plain_host_chars [OF assms(1)] plain_host_chars [OF pp] h p
    by (intro unescape_host) (auto simp: host_marks_def)
  then show ?thesis
    using h p assms(2) by (simp add: parse_host_def valid_optional_port_def)
qed

lemma parse_authority_port:
  assumes "plain h" and "list_all is_digit p"
  shows "parse_authority ipl (h @ CHR '':'' # p) = Inr (h @ CHR '':'' # p)"
proof -
  have "CHR ''@'' \<notin> set (h @ CHR '':'' # p)"
    using plain_not_in [OF assms(1)] plain_not_in [OF digits_plain [OF assms(2)]] by simp
  then show ?thesis
    using parse_host_port [OF assms] by (simp add: parse_authority_def)
qed

text \<open>
  A URL of the form \<open>scheme://host:port\<close> with plain parts stands or falls with its
  authority.
\<close>

lemma url_parse_authority:
  assumes "list_all is_letter s" and "s \<noteq> []" and "plain h" and "plain p"
  shows "url_parse ipl (s @ ''://'' @ h @ '':'' @ p) =
    (case parse_authority ipl (h @ '':'' @ p) of
       Inl e \<Rightarrow> Inl e
     | Inr a \<Rightarrow> Inr (empty_url\<lparr>u_scheme := map lower_char s, u_host := a\<rparr>))"
proof -
  let ?raw = "s @ ''://'' @ h @ '':'' @ p"
  have sp: "plain s" using assms(1) by (rule letters_plain)
  note no = plain_not_in [OF sp] plain_not_in [OF assms(3)] plain_not_in [OF assms(4)]
  have frag: "cut CHR ''#'' ?raw = (?raw, [], False)"
    using no by (intro cut_no_sep) simp
  have ctl: "\<not> list_ex is_ctl ?raw"
    using plain_not_ctl [OF sp] plain_not_ctl [OF assms(3)] plain_not_ctl [OF assms(4)]
    by (simp add: is_ctl_def)
  have star: "?raw \<noteq> ''*''"
    using assms(2) by (cases s) auto
  have sch: "get_scheme True ?raw [] ?raw = Inr (s, ''//'' @ h @ '':'' @ p)"
    using get_scheme_letters [of s True ?raw "[]" "''//'' @ h @ '':'' @ p"] assms(1,2) by simp
  have q: "cut CHR ''?'' (''//'' @ h @ '':'' @ p) = (''//'' @ h @ '':'' @ p, [], False)"
    using no by (intro cut_no_sep) simp
  have a: "cut CHR ''/'' (h @ '':'' @ p) = (h @ '':'' @ p, [], False)"
    using no by (intro cut_no_sep) simp
  show ?thesis
    using frag ctl star sch q a assms(2)
    by (simp add: url_parse_def parse_no_fragment_def parse_rest_def has_prefix_def
        set_path_def empty_url_def split: sum.splits)
qed

lemma url_parse_host_port:
  assumes "list_all is_letter s" and "s \<noteq> []" and "plain h" and "list_all is_digit p"
  shows "url_parse ipl (s @ ''://'' @ h @ '':'' @ p) =
    Inr (empty_url\<lparr>u_scheme := map lower_char s, u_host := h @ '':'' @ p\<rparr>)"
  using url_parse_authority [OF assms(1-3) digits_plain [OF assms(4)], of ipl]
    parse_authority_port [OF assms(3,4), of ipl]
  by simp

text \<open>A port that is not a number is refused, whatever the (plain) host.\<close>

lemma url_parse_bad_port:
  assumes "list_all is_letter s" and "s \<noteq> []" and "plain h" and "plain p"
    and "\<not> list_all is_digit p"
  shows "url_parse ipl (s @ ''://'' @ h @ '':'' @ p) = Inl (InvalidPort p)"
proof -
  have "parse_authority ipl (h @ '':'' @ p) = Inl (InvalidPort p)"
    using plain_not_in [OF assms(3)] plain_not_in [OF assms(4)] assms(5)
    by (simp add: parse_authority_def parse_host_def valid_optional_port_def)
  then show ?thesis
    using url_parse_authority [OF assms(1-4), of ipl] by simp
qed

section \<open>Escaping\<close>

lemma escape_path_append [simp]: "escape_path (a @ b) = escape_path a @ escape_path b"
  by (simp add: escape_path_def)

lemma escape_path_Nil [simp]: "escape_path [] = []"
  by (simp add: escape_path_def)

lemma escape_path_plain:
  "list_all (\<lambda>c. is_alnum c \<or> c \<in> set path_marks) s \<Longrightarrow> escape_path s = s"
  by (induction s) (auto simp: escape_path_def escape_char_def)

lemma escape_path_id_iff:
  "escape_path s = s \<longleftrightarrow> list_all (\<lambda>c. is_alnum c \<or> c \<in> set path_marks) s"
proof
  show "escape_path s = s \<Longrightarrow> list_all (\<lambda>c. is_alnum c \<or> c \<in> set path_marks) s"
  proof (induction s)
    case Nil
    then show ?case by simp
  next
    case (Cons c s)
    have len: "length (escape_path t) \<ge> length t" for t
      by (induction t) (auto simp: escape_path_def escape_char_def)
    show ?case
    proof (cases "is_alnum c \<or> c \<in> set path_marks")
      case True
      with Cons show ?thesis by (auto simp: escape_path_def escape_char_def)
    next
      case False
      then have "length (escape_path (c # s)) = 3 + length (escape_path s)"
        by (simp add: escape_path_def escape_char_def)
      with len [of s] Cons.prems show ?thesis by simp
    qed
  qed
qed (rule escape_path_plain)

end
