(* ===== verification/Target_Service.thy ===== *)
theory Target_Service
  imports Go_Http Go_Url
begin

text \<open>
  \<open>pkg/utils/utils.go\<close>: how the user-server reads the target of a request off its URI, how
  it hands that target to the service-proxy in four headers, and how the service-proxy
  turns the headers into the URL it forwards to. \<open>SplitSchemeNamePort\<close> is the vendored
  \<open>k8s.io/apimachinery/pkg/util/net\<close> function of that name.
\<close>

section \<open>Definitions\<close>

definition KubeAPIServerHost :: string where
  "KubeAPIServerHost = ''kubernetes.default.svc''"

definition kubeAPIServerService :: string where
  "kubeAPIServerService = ''kubernetes''"

definition kubeAPIServerNamespace :: string where
  "kubeAPIServerNamespace = ''default''"

definition HeaderClusterProxyProto :: string where
  "HeaderClusterProxyProto = ''Cluster-Proxy-Proto''"

definition HeaderClusterProxyNamespace :: string where
  "HeaderClusterProxyNamespace = ''Cluster-Proxy-Namespace''"

definition HeaderClusterProxyService :: string where
  "HeaderClusterProxyService = ''Cluster-Proxy-Service''"

definition HeaderClusterProxyPort :: string where
  "HeaderClusterProxyPort = ''Cluster-Proxy-Port''"

record TargetServiceConfig =
  tsc_cluster :: string
  tsc_proto :: string
  tsc_service :: string
  tsc_namespace :: string
  tsc_port :: string
  tsc_path :: string

datatype target_error =
    PathLessThan9 string
  | InvalidServiceName string
  | PathMoreThan2 string
  | InvalidRequestHeaders
  | TargetUrlError url_error

definition UpdateRequest :: "TargetServiceConfig \<Rightarrow> http_request \<Rightarrow> http_request" where
  "UpdateRequest t req =
     (let h = req_header req;
          h = header_set h HeaderClusterProxyProto (tsc_proto t);
          h = header_set h HeaderClusterProxyNamespace (tsc_namespace t);
          h = header_set h HeaderClusterProxyService (tsc_service t);
          h = header_set h HeaderClusterProxyPort (tsc_port t)
      in req\<lparr>url_path := tsc_path t, req_header := h\<rparr>)"

text \<open>The result is \<open>(scheme, name, port)\<close>, or \<open>None\<close> when the code returns \<open>valid = false\<close>.\<close>

definition SplitSchemeNamePort :: "string \<Rightarrow> (string \<times> string \<times> string) option" where
  "SplitSchemeNamePort ident =
     (case (case split CHR '':'' ident of
              [n] \<Rightarrow> Some ([], n, [])
            | [n, p] \<Rightarrow> Some ([], n, p)
            | [s, n, p] \<Rightarrow> Some (s, n, p)
            | _ \<Rightarrow> None) of
        None \<Rightarrow> None
      | Some (s, n, p) \<Rightarrow>
          if n \<noteq> [] \<and> s \<in> set [''http'', ''https'', []] then Some (s, n, p) else None)"

definition GetTargetServiceConfig :: "string \<Rightarrow> target_error + TargetServiceConfig" where
  "GetTargetServiceConfig requestURL =
     (let urlparams = split CHR ''/'' requestURL in
      if length urlparams < 9 then Inl (PathLessThan9 requestURL)
      else
        (let namespace = urlparams ! 5 in
         case SplitSchemeNamePort (urlparams ! 7) of
           None \<Rightarrow> Inl (InvalidServiceName (urlparams ! 7))
         | Some (proto, service, port) \<Rightarrow>
             (let proto = (if proto = [] then ''https'' else proto);
                  servicePath = join ''/'' (drop 9 urlparams);
                  servicePath = hd (split CHR ''?'' servicePath)
              in Inr \<lparr>tsc_cluster = urlparams ! 1, tsc_proto = proto, tsc_service = service,
                      tsc_namespace = namespace, tsc_port = port, tsc_path = servicePath\<rparr>)))"

definition GetTargetServiceConfigForKubeAPIServer ::
  "string \<Rightarrow> target_error + TargetServiceConfig" where
  "GetTargetServiceConfigForKubeAPIServer requestURL =
     (let paths = split CHR ''/'' requestURL in
      if length paths \<le> 2 then Inl (PathMoreThan2 requestURL)
      else
        (let kubeAPIPath = join ''/'' (drop 2 paths);
             kubeAPIPath = hd (split CHR ''?'' kubeAPIPath)
         in Inr \<lparr>tsc_cluster = paths ! 1, tsc_proto = ''https'', tsc_service = ''kubernetes'',
                 tsc_namespace = ''default'', tsc_port = ''443'', tsc_path = kubeAPIPath\<rparr>))"

definition GetTargetServiceURLFromRequest ::
  "(string \<Rightarrow> url_error + string) \<Rightarrow> http_request \<Rightarrow> target_error + url" where
  "GetTargetServiceURLFromRequest ipl req =
     (let proto = header_get (req_header req) HeaderClusterProxyProto;
          namespace = header_get (req_header req) HeaderClusterProxyNamespace;
          service = header_get (req_header req) HeaderClusterProxyService;
          port = header_get (req_header req) HeaderClusterProxyPort
      in if proto = [] \<or> namespace = [] \<or> service = [] \<or> port = [] then Inl InvalidRequestHeaders
         else
           (let targetServiceURL =
                  (if equal_fold service kubeAPIServerService \<and>
                      equal_fold namespace kubeAPIServerNamespace
                   then ''https://'' @ KubeAPIServerHost
                   else proto @ ''://'' @ service @ ''.'' @ namespace @ ''.svc:'' @ port)
            in case url_parse ipl targetServiceURL of
                 Inl e \<Rightarrow> Inl (TargetUrlError e)
               | Inr u \<Rightarrow> Inr u))"

datatype proxy_type = ProxyTypeService | ProxyTypeKubeAPIServer

definition GetProxyType :: "string \<Rightarrow> proxy_type" where
  "GetProxyType reqURI =
     (let urlparams = split CHR ''/'' reqURI in
      if length urlparams > 9 \<and> urlparams ! 8 = ''proxy-service''
      then ProxyTypeService else ProxyTypeKubeAPIServer)"

section \<open>The four target headers\<close>

lemmas target_header_defs =
  HeaderClusterProxyProto_def HeaderClusterProxyNamespace_def
  HeaderClusterProxyService_def HeaderClusterProxyPort_def

lemma target_header_keys:
  "canonical_key HeaderClusterProxyProto = ''Cluster-Proxy-Proto''"
  "canonical_key HeaderClusterProxyNamespace = ''Cluster-Proxy-Namespace''"
  "canonical_key HeaderClusterProxyService = ''Cluster-Proxy-Service''"
  "canonical_key HeaderClusterProxyPort = ''Cluster-Proxy-Port''"
  unfolding target_header_defs by code_simp+

lemma UpdateRequest_get:
  "header_get (req_header (UpdateRequest t req)) HeaderClusterProxyProto = tsc_proto t"
  "header_get (req_header (UpdateRequest t req)) HeaderClusterProxyNamespace = tsc_namespace t"
  "header_get (req_header (UpdateRequest t req)) HeaderClusterProxyService = tsc_service t"
  "header_get (req_header (UpdateRequest t req)) HeaderClusterProxyPort = tsc_port t"
  by (simp_all add: UpdateRequest_def Let_def header_get_set target_header_keys)

lemma UpdateRequest_values_other:
  assumes "canonical_key k \<notin> set [''Cluster-Proxy-Proto'', ''Cluster-Proxy-Namespace'',
    ''Cluster-Proxy-Service'', ''Cluster-Proxy-Port'']"
  shows "header_values (req_header (UpdateRequest t req)) k = header_values (req_header req) k"
  using assms by (simp add: UpdateRequest_def Let_def hs.vals_set target_header_keys)

text \<open>The URL depends on the four headers only.\<close>

lemma target_url_cong:
  assumes "header_get (req_header r) HeaderClusterProxyProto = header_get (req_header q) HeaderClusterProxyProto"
    and "header_get (req_header r) HeaderClusterProxyNamespace = header_get (req_header q) HeaderClusterProxyNamespace"
    and "header_get (req_header r) HeaderClusterProxyService = header_get (req_header q) HeaderClusterProxyService"
    and "header_get (req_header r) HeaderClusterProxyPort = header_get (req_header q) HeaderClusterProxyPort"
  shows "GetTargetServiceURLFromRequest ipl r = GetTargetServiceURLFromRequest ipl q"
  using assms by (simp add: GetTargetServiceURLFromRequest_def)

lemma kube_url_parse: "url_parse ipl (''https://'' @ KubeAPIServerHost) =
    Inr (empty_url\<lparr>u_scheme := ''https'', u_host := KubeAPIServerHost\<rparr>)"
  by (simp add: KubeAPIServerHost_def url_parse_def parse_no_fragment_def parse_rest_def
      is_ctl_def is_letter_def is_upper_def is_lower_def is_digit_def has_prefix_def
      parse_authority_def parse_host_def is_alnum_def host_marks_def set_path_def
      empty_url_def lower_char_def)

section \<open>Request paths\<close>

text \<open>The URIs of the two kinds, as the code's comments show them.\<close>

definition service_uri :: "string \<Rightarrow> string \<Rightarrow> string \<Rightarrow> string \<Rightarrow> string" where
  "service_uri cluster namespace ident rest =
     join ''/'' [[], cluster, ''api'', ''v1'', ''namespaces'', namespace, ''services'', ident,
       ''proxy-service'', rest]"

definition kube_uri :: "string \<Rightarrow> string \<Rightarrow> string" where
  "kube_uri cluster rest = join ''/'' [[], cluster, rest]"

lemma split_service_uri:
  assumes "CHR ''/'' \<notin> set cluster" and "CHR ''/'' \<notin> set namespace" and "CHR ''/'' \<notin> set ident"
  shows "split CHR ''/'' (service_uri cluster namespace ident rest) =
    [[], cluster, ''api'', ''v1'', ''namespaces'', namespace, ''services'', ident, ''proxy-service'']
      @ split CHR ''/'' rest"
  using assms by (simp add: service_uri_def split_append_sep)

lemma split_kube_uri:
  "CHR ''/'' \<notin> set cluster \<Longrightarrow>
   split CHR ''/'' (kube_uri cluster rest) = [[], cluster] @ split CHR ''/'' rest"
  by (simp add: kube_uri_def split_append_sep)

text \<open>A service identifier is printed as \<open>JoinSchemeNamePort\<close> of the vendored package does.\<close>

definition JoinSchemeNamePort :: "string \<Rightarrow> string \<Rightarrow> string \<Rightarrow> string" where
  "JoinSchemeNamePort scheme name port =
     (if scheme \<noteq> [] then scheme @ '':'' @ name @ '':'' @ port
      else if port \<noteq> [] then name @ '':'' @ port
      else name)"

lemma SplitSchemeNamePort_Join:
  assumes "CHR '':'' \<notin> set name" and "CHR '':'' \<notin> set port" and "name \<noteq> []"
    and "scheme \<in> set [''http'', ''https'', []]"
  shows "SplitSchemeNamePort (JoinSchemeNamePort scheme name port) = Some (scheme, name, port)"
  using assms
  by (auto simp: SplitSchemeNamePort_def JoinSchemeNamePort_def split_append_sep)

lemma SplitSchemeNamePort_scheme:
  "SplitSchemeNamePort ident = Some (s, n, p) \<Longrightarrow>
   n \<noteq> [] \<and> (s = [] \<or> s = ''http'' \<or> s = ''https'')"
  by (auto simp: SplitSchemeNamePort_def split: option.splits list.splits if_splits)

section \<open>Properties\<close>

lemma config_service_uri:
  assumes "CHR ''/'' \<notin> set cluster" and "CHR ''/'' \<notin> set namespace" and "CHR ''/'' \<notin> set ident"
  shows "GetTargetServiceConfig (service_uri cluster namespace ident rest) =
    (case SplitSchemeNamePort ident of
       None \<Rightarrow> Inl (InvalidServiceName ident)
     | Some (proto, service, port) \<Rightarrow>
         Inr \<lparr>tsc_cluster = cluster, tsc_proto = (if proto = [] then ''https'' else proto),
              tsc_service = service, tsc_namespace = namespace, tsc_port = port,
              tsc_path = takeWhile (\<lambda>c. c \<noteq> CHR ''?'') rest\<rparr>)"
  using split_service_uri [OF assms, of rest]
  by (simp add: GetTargetServiceConfig_def Let_def split_hd split: option.splits)

lemma no_slash_Join:
  assumes "CHR ''/'' \<notin> set name" and "CHR ''/'' \<notin> set port"
    and "scheme \<in> set [''http'', ''https'', []]"
  shows "CHR ''/'' \<notin> set (JoinSchemeNamePort scheme name port)"
  using assms by (auto simp: JoinSchemeNamePort_def)

text \<open>
  C23. Round trip of a service request: the URI that the documentation prescribes for a
  service of a managed cluster, with any path and query, is classified as a service
  request and parsed back to exactly the cluster, namespace, service, port and path it
  was built from; a missing scheme means https, and the query is cut off the path.
\<close>

theorem service_request_roundtrip:
  assumes "CHR ''/'' \<notin> set cluster" and "CHR ''/'' \<notin> set namespace"
    and "CHR ''/'' \<notin> set name" and "CHR ''/'' \<notin> set port"
    and "CHR '':'' \<notin> set name" and "CHR '':'' \<notin> set port" and "name \<noteq> []"
    and "scheme \<in> set [''http'', ''https'', []]"
    and "CHR ''?'' \<notin> set path"
  shows "GetProxyType (service_uri cluster namespace (JoinSchemeNamePort scheme name port)
           (path @ ''?'' @ query)) = ProxyTypeService \<and>
    GetTargetServiceConfig (service_uri cluster namespace (JoinSchemeNamePort scheme name port)
           (path @ ''?'' @ query)) =
      Inr \<lparr>tsc_cluster = cluster, tsc_proto = (if scheme = [] then ''https'' else scheme),
           tsc_service = name, tsc_namespace = namespace, tsc_port = port, tsc_path = path\<rparr>"
proof -
  let ?ident = "JoinSchemeNamePort scheme name port" and ?rest = "path @ ''?'' @ query"
  have ident: "CHR ''/'' \<notin> set ?ident"
    using assms(3,4,8) by (rule no_slash_Join)
  have "takeWhile (\<lambda>c. c \<noteq> CHR ''?'') ?rest = path"
    using assms(9) by (auto simp: takeWhile_append)
  moreover have "length (split CHR ''/'' ?rest) > 0"
    by simp
  ultimately show ?thesis
    using config_service_uri [OF assms(1,2) ident, of ?rest]
      split_service_uri [OF assms(1,2) ident, of ?rest]
      SplitSchemeNamePort_Join [OF assms(5-8)]
    by (simp add: GetProxyType_def Let_def)
qed

theorem service_request_roundtrip_witness:
  "GetProxyType (service_uri ''cluster1'' ''default'' ''https:nginx:80'' ''a/b?x=1/2'') = ProxyTypeService \<and>
   GetTargetServiceConfig (service_uri ''cluster1'' ''default'' ''https:nginx:80'' ''a/b?x=1/2'') =
     Inr \<lparr>tsc_cluster = ''cluster1'', tsc_proto = ''https'', tsc_service = ''nginx'',
          tsc_namespace = ''default'', tsc_port = ''80'', tsc_path = ''a/b''\<rparr>"
  using service_request_roundtrip
    [of "''cluster1''" "''default''" "''nginx''" "''80''" "''https''" "''a/b''" "''x=1/2''"]
  by (simp add: JoinSchemeNamePort_def)

lemma target_url_UpdateRequest:
  "GetTargetServiceURLFromRequest ipl (UpdateRequest t req) =
     (if tsc_proto t = [] \<or> tsc_namespace t = [] \<or> tsc_service t = [] \<or> tsc_port t = []
      then Inl InvalidRequestHeaders
      else
        (case url_parse ipl
           (if equal_fold (tsc_service t) kubeAPIServerService \<and>
               equal_fold (tsc_namespace t) kubeAPIServerNamespace
            then ''https://'' @ KubeAPIServerHost
            else tsc_proto t @ ''://'' @ (tsc_service t @ ''.'' @ tsc_namespace t @ ''.svc'')
                   @ '':'' @ tsc_port t) of
           Inl e \<Rightarrow> Inl (TargetUrlError e)
         | Inr u \<Rightarrow> Inr u))"
  by (simp add: GetTargetServiceURLFromRequest_def UpdateRequest_get Let_def)

lemma proto_letters:
  "p = ''http'' \<or> p = ''https'' \<Longrightarrow> list_all is_letter p \<and> p \<noteq> [] \<and> map lower_char p = p"
  by (auto simp: is_letter_def is_upper_def is_lower_def lower_char_def)

lemma plain_service_host:
  "plain service \<Longrightarrow> plain namespace \<Longrightarrow> plain (service @ ''.'' @ namespace @ ''.svc'')"
  by (simp add: plain_Cons is_alnum_def is_letter_def is_lower_def)

text \<open>
  C22. The target cannot be forged: whatever headers the client sent along, in any spelling,
  a request that the user-server has stamped with a target is resolved by the
  service-proxy to the URL of that target and no other. With names of the
  characters Kubernetes allows and a numeric port this is
  \<open>proto://service.namespace.svc:port\<close>.
\<close>

theorem stamped_target_is_resolved:
  assumes "tsc_proto t = ''http'' \<or> tsc_proto t = ''https''"
    and "plain (tsc_service t)" and "tsc_service t \<noteq> []"
    and "plain (tsc_namespace t)" and "tsc_namespace t \<noteq> []"
    and "list_all is_digit (tsc_port t)" and "tsc_port t \<noteq> []"
    and "\<not> (equal_fold (tsc_service t) kubeAPIServerService \<and>
             equal_fold (tsc_namespace t) kubeAPIServerNamespace)"
  shows "GetTargetServiceURLFromRequest ipl (UpdateRequest t req) =
    Inr (empty_url\<lparr>u_scheme := tsc_proto t,
      u_host := tsc_service t @ ''.'' @ tsc_namespace t @ ''.svc:'' @ tsc_port t\<rparr>)"
proof -
  note h = plain_service_host [OF assms(2,4)]
  have p: "list_all is_letter (tsc_proto t)" "tsc_proto t \<noteq> []"
    "map lower_char (tsc_proto t) = tsc_proto t"
    using proto_letters assms(1) by auto
  show ?thesis
    using url_parse_host_port [OF p(1,2) h assms(6), of ipl] p assms(3,5,7,8)
    by (auto simp: target_url_UpdateRequest)
qed

definition forging_request :: http_request where
  "forging_request =
     \<lparr>req_method = ''GET'', request_uri = [], url_path = [], url_raw_path = [], url_raw_query = [],
      req_header = [(''Cluster-Proxy-Service'', [''kubernetes''])], remote_ip = None\<rparr>"

definition nginx_target :: "string \<Rightarrow> TargetServiceConfig" where
  "nginx_target port =
     \<lparr>tsc_cluster = ''c1'', tsc_proto = ''https'', tsc_service = ''nginx'',
      tsc_namespace = ''web'', tsc_port = port, tsc_path = ''a/b''\<rparr>"

lemma nginx_target_plain:
  "plain ''nginx''" "plain ''web''" "plain ''metrics''" "\<not> list_all is_digit ''metrics''"
  "list_all is_digit ''80''" "\<not> equal_fold ''nginx'' kubeAPIServerService"
  by (simp_all add: plain_Cons is_alnum_def is_letter_def is_lower_def is_digit_def
      equal_fold_def kubeAPIServerService_def)

theorem stamped_target_is_resolved_witness:
  "GetTargetServiceURLFromRequest Inr (UpdateRequest (nginx_target ''80'') forging_request) =
   Inr (empty_url\<lparr>u_scheme := ''https'', u_host := ''nginx.web.svc:80''\<rparr>)"
  using stamped_target_is_resolved [of "nginx_target ''80''" Inr forging_request] nginx_target_plain
  by (simp add: nginx_target_def)

text \<open>
  A request to the Kubernetes API of a managed cluster always resolves to the API
  server: every URI that the user-server accepts as such a request, stamped and
  received by the service-proxy, has the target \<open>https://kubernetes.default.svc\<close>.
\<close>

theorem kube_api_request_target:
  "(case GetTargetServiceConfigForKubeAPIServer uri of
      Inl e \<Rightarrow> e = PathMoreThan2 uri \<and> length (split CHR ''/'' uri) \<le> 2
    | Inr t \<Rightarrow> GetTargetServiceURLFromRequest ipl (UpdateRequest t req) =
        Inr (empty_url\<lparr>u_scheme := ''https'', u_host := KubeAPIServerHost\<rparr>))"
  using kube_url_parse [of ipl]
  by (simp add: GetTargetServiceConfigForKubeAPIServer_def Let_def target_url_UpdateRequest
      equal_fold_def kubeAPIServerService_def kubeAPIServerNamespace_def)

text \<open>
  The comment on \<open>GetProxyType\<close> allows a service without a port, or with a named port.
  Neither is reachable: the service-proxy refuses the first for a missing header and the
  second because \<open>url.Parse\<close> accepts numeric ports only.
\<close>

theorem named_or_missing_port_is_refused:
  assumes "tsc_proto t = ''http'' \<or> tsc_proto t = ''https''"
    and "plain (tsc_service t)" and "tsc_service t \<noteq> []"
    and "plain (tsc_namespace t)" and "tsc_namespace t \<noteq> []"
    and "plain (tsc_port t)" and "\<not> list_all is_digit (tsc_port t) \<or> tsc_port t = []"
    and "\<not> (equal_fold (tsc_service t) kubeAPIServerService \<and>
             equal_fold (tsc_namespace t) kubeAPIServerNamespace)"
  shows "GetTargetServiceURLFromRequest ipl (UpdateRequest t req) =
    Inl (if tsc_port t = [] then InvalidRequestHeaders else TargetUrlError (InvalidPort (tsc_port t)))"
proof (cases "tsc_port t = []")
  case True
  then show ?thesis by (simp add: target_url_UpdateRequest)
next
  case False
  note h = plain_service_host [OF assms(2,4)]
  have p: "list_all is_letter (tsc_proto t)" "tsc_proto t \<noteq> []"
    using proto_letters assms(1) by auto
  have d: "\<not> list_all is_digit (tsc_port t)"
    using False assms(7) by simp
  show ?thesis
    using url_parse_bad_port [OF p h assms(6) d, of ipl] False p assms(3,5,8)
    by (auto simp: target_url_UpdateRequest)
qed

theorem named_or_missing_port_is_refused_witness:
  "GetTargetServiceURLFromRequest Inr (UpdateRequest (nginx_target ''metrics'') forging_request) =
   Inl (TargetUrlError (InvalidPort ''metrics''))"
  using named_or_missing_port_is_refused [of "nginx_target ''metrics''" Inr forging_request]
    nginx_target_plain
  by (simp add: nginx_target_def)

text \<open>
  A URI that is classified as a service request never fails on its length: the parser
  either accepts it, with a non-empty service name and the scheme http or https, or
  refuses the service identifier.
\<close>

theorem service_request_parse_total:
  assumes "GetProxyType uri = ProxyTypeService"
  shows "(case GetTargetServiceConfig uri of
      Inl e \<Rightarrow> e = InvalidServiceName (split CHR ''/'' uri ! 7)
    | Inr t \<Rightarrow> tsc_service t \<noteq> [] \<and> (tsc_proto t = ''http'' \<or> tsc_proto t = ''https'') \<and>
        CHR ''?'' \<notin> set (tsc_path t) \<and> CHR ''/'' \<notin> set (tsc_cluster t))"
proof -
  let ?ps = "split CHR ''/'' uri"
  have len: "9 < length ?ps"
    using assms by (simp add: GetProxyType_def Let_def split: if_splits)
  have cl: "CHR ''/'' \<notin> set (?ps ! 1)"
    using split_pieces [of "?ps ! 1" "CHR ''/''" uri] len by (simp add: nth_mem)
  have path: "CHR ''?'' \<notin> set (hd (split CHR ''?'' r))" for r
    by (auto simp: split_hd dest: set_takeWhileD)
  show ?thesis
  proof (cases "SplitSchemeNamePort (?ps ! 7)")
    case None
    with len show ?thesis by (simp add: GetTargetServiceConfig_def Let_def)
  next
    case (Some r)
    obtain s n p where r: "r = (s, n, p)" by (cases r)
    show ?thesis
      using Some r len cl path SplitSchemeNamePort_scheme [of "?ps ! 7" s n p]
      by (auto simp: GetTargetServiceConfig_def Let_def)
  qed
qed

theorem service_request_parse_total_witness:
  "GetProxyType ''/c1/api/v1/namespaces/web/services/ftp:x:21/proxy-service/'' = ProxyTypeService \<and>
   (case GetTargetServiceConfig ''/c1/api/v1/namespaces/web/services/ftp:x:21/proxy-service/'' of
      Inl e \<Rightarrow> e = InvalidServiceName ''ftp:x:21'' | Inr t \<Rightarrow> False)"
proof -
  have t: "GetProxyType ''/c1/api/v1/namespaces/web/services/ftp:x:21/proxy-service/'' = ProxyTypeService"
    by (simp add: GetProxyType_def)
  moreover have "\<exists>e. GetTargetServiceConfig
      ''/c1/api/v1/namespaces/web/services/ftp:x:21/proxy-service/'' = Inl e"
    by (simp add: GetTargetServiceConfig_def SplitSchemeNamePort_def)
  ultimately show ?thesis
    using service_request_parse_total [OF t] by auto
qed

end
