(* ===== verification/Allowlist.thy ===== *)
theory Allowlist
  imports Target_Service "HOL-Library.Multiset"
begin

text \<open>
  The list of services that the service path of the user-server may reach
  (pkg/userserver/service_allowlist.go) and the ConfigMap watcher that maintains it
  (service_allowlist_watcher.go). The YAML decoder is the parameter \<open>yaml\<close> of the
  definitions; the informer is the source of the events. The lemmas show the default
  deny, the last-known-good rule, the wildcards and that Go's random map order never
  shows in a decision.
\<close>

section \<open>Entries\<close>

record ExposedService =
  es_namespace :: string
  es_service :: string
  es_port :: string
  es_protocol :: string

definition matches :: "ExposedService \<Rightarrow> TargetServiceConfig \<Rightarrow> bool" where
  "matches e tsc =
     (if es_namespace e \<noteq> tsc_namespace tsc then False
      else if es_service e \<noteq> tsc_service tsc then False
      else if es_port e \<noteq> [] \<and> es_port e \<noteq> tsc_port tsc then False
      else if es_protocol e \<noteq> [] \<and> es_protocol e \<noteq> tsc_proto tsc then False
      else True)"

section \<open>Parsing a ConfigMap\<close>

datatype allowlist_error =
    UnmarshalError string
  | NamespaceRequired nat
  | ServiceRequired nat
  | KeyError string allowlist_error

text \<open>The loop over the entries, with the index it reports.\<close>

fun check_entries :: "nat \<Rightarrow> ExposedService list \<Rightarrow> allowlist_error option" where
  "check_entries i [] = None"
| "check_entries i (svc # services) =
     (if es_namespace svc = [] then Some (NamespaceRequired i)
      else if es_service svc = [] then Some (ServiceRequired i)
      else check_entries (Suc i) services)"

definition parseExposedServices ::
  "(string \<Rightarrow> string + ExposedService list) \<Rightarrow> string \<Rightarrow> allowlist_error + ExposedService list" where
  "parseExposedServices yaml data =
     (if data = [] then Inr []
      else
        (case yaml data of
           Inl err \<Rightarrow> Inl (UnmarshalError err)
         | Inr services \<Rightarrow>
             (case check_entries 0 services of
                Some err \<Rightarrow> Inl err
              | None \<Rightarrow> Inr services)))"

text \<open>The loop over the keys, in the order in which the map happens to be iterated.\<close>

fun parse_keys ::
  "(string \<Rightarrow> string + ExposedService list) \<Rightarrow> ExposedService list \<Rightarrow> (string \<times> string) list
     \<Rightarrow> allowlist_error + ExposedService list" where
  "parse_keys yaml all [] = Inr all"
| "parse_keys yaml all ((key, raw) # rest) =
     (case parseExposedServices yaml raw of
        Inl err \<Rightarrow> Inl (KeyError key err)
      | Inr services \<Rightarrow> parse_keys yaml (all @ services) rest)"

definition parseAllExposedServices ::
  "(string \<Rightarrow> string + ExposedService list) \<Rightarrow> (string, string) gmap
     \<Rightarrow> allowlist_error + ExposedService list" where
  "parseAllExposedServices yaml data = parse_keys yaml [] data"

section \<open>The allowlist object\<close>

record ServiceAllowlist =
  al_services :: "ExposedService list"

definition update_allowlist :: "ExposedService list \<Rightarrow> ServiceAllowlist \<Rightarrow> ServiceAllowlist" where
  "update_allowlist services a = a\<lparr>al_services := services\<rparr>"

fun any_match :: "ExposedService list \<Rightarrow> TargetServiceConfig \<Rightarrow> bool" where
  "any_match [] tsc = False"
| "any_match (svc # services) tsc = (if matches svc tsc then True else any_match services tsc)"

definition IsAllowed :: "ServiceAllowlist \<Rightarrow> TargetServiceConfig \<Rightarrow> bool" where
  "IsAllowed a tsc = any_match (al_services a) tsc"

definition Len :: "ServiceAllowlist \<Rightarrow> nat" where
  "Len a = length (al_services a)"

section \<open>The watcher\<close>

text \<open>An informer hands its handlers objects of type \<open>interface{}\<close>: a ConfigMap with its data,
  or something else.\<close>

datatype cm_object = ConfigMap "(string, string) gmap" | OtherObject
datatype cm_event = AddEvent cm_object | UpdateEvent cm_object cm_object | DeleteEvent cm_object

definition updateFromConfigMap ::
  "(string \<Rightarrow> string + ExposedService list) \<Rightarrow> (string, string) gmap \<Rightarrow> ServiceAllowlist
     \<Rightarrow> ServiceAllowlist" where
  "updateFromConfigMap yaml data allowlist =
     (case parseAllExposedServices yaml data of
        Inl err \<Rightarrow> allowlist
      | Inr services \<Rightarrow> update_allowlist services allowlist)"

fun allowlist_handler ::
  "(string \<Rightarrow> string + ExposedService list) \<Rightarrow> cm_event \<Rightarrow> ServiceAllowlist \<Rightarrow> ServiceAllowlist" where
  "allowlist_handler yaml (AddEvent (ConfigMap data)) a = updateFromConfigMap yaml data a"
| "allowlist_handler yaml (AddEvent OtherObject) a = a"
| "allowlist_handler yaml (UpdateEvent old (ConfigMap data)) a = updateFromConfigMap yaml data a"
| "allowlist_handler yaml (UpdateEvent old OtherObject) a = a"
| "allowlist_handler yaml (DeleteEvent obj) a = update_allowlist [] a"

text \<open>
  The start of the watcher. The namespace and the field selector decide which ConfigMaps the
  informer lists; \<open>add_err\<close> is the result of \<open>AddEventHandler\<close>, \<open>ctx_err\<close> the context's
  error when it ends before the cache has synced, and \<open>delivered\<close> how many of the Add events
  of the first list the handler has processed when \<open>WaitForCacheSync\<close> returns (the informer's
  \<open>HasSynced\<close> speaks of its store, not of the handlers).
\<close>

record config_map =
  cm_namespace :: string
  cm_name :: string
  cm_data :: "(string, string) gmap"

definition selected :: "string \<Rightarrow> string \<Rightarrow> config_map \<Rightarrow> bool" where
  "selected namespace name cm \<longleftrightarrow> cm_namespace cm = namespace \<and> cm_name cm = name"

definition startServiceAllowlistWatcher ::
  "(string \<Rightarrow> string + ExposedService list) \<Rightarrow> string \<Rightarrow> string \<Rightarrow> string option \<Rightarrow> string option
     \<Rightarrow> config_map list \<Rightarrow> nat \<Rightarrow> string + ServiceAllowlist" where
  "startServiceAllowlistWatcher yaml namespace configMapName add_err ctx_err listed delivered =
     (let allowlist = \<lparr>al_services = []\<rparr>;
          cmInformer = filter (selected namespace configMapName) listed
      in case add_err of
           Some err \<Rightarrow> Inl err
         | None \<Rightarrow>
             (case ctx_err of
                Some err \<Rightarrow> Inl err
              | None \<Rightarrow> Inr (fold (\<lambda>cm. allowlist_handler yaml (AddEvent (ConfigMap (cm_data cm))))
                    (take delivered cmInformer) allowlist)))"

text \<open>The life of the watcher after that: any sequence of events.\<close>

inductive watcher_step ::
  "(string \<Rightarrow> string + ExposedService list) \<Rightarrow> ServiceAllowlist \<Rightarrow> ServiceAllowlist \<Rightarrow> bool"
  for yaml where
  event: "watcher_step yaml a (allowlist_handler yaml ev a)"

definition empty_allowlist :: "ServiceAllowlist \<Rightarrow> bool" where
  "empty_allowlist a \<longleftrightarrow> al_services a = []"

section \<open>Lemmas\<close>

lemma any_match_iff [route_defs]: "any_match services tsc \<longleftrightarrow> (\<exists>svc\<in>set services. matches svc tsc)"
  by (induction services) auto

lemma check_entries_None:
  "check_entries i services = None \<longleftrightarrow>
   (\<forall>svc\<in>set services. es_namespace svc \<noteq> [] \<and> es_service svc \<noteq> [])"
  by (induction services arbitrary: i) auto

lemma check_entries_first:
  "check_entries i services = Some e \<Longrightarrow>
   \<exists>k < length services. e = (if es_namespace (services ! k) = []
     then NamespaceRequired (i + k) else ServiceRequired (i + k)) \<and>
     (es_namespace (services ! k) = [] \<or> es_service (services ! k) = []) \<and>
     (\<forall>j < k. es_namespace (services ! j) \<noteq> [] \<and> es_service (services ! j) \<noteq> [])"
proof (induction services arbitrary: i)
  case (Cons svc services)
  show ?case
  proof (cases "es_namespace svc = [] \<or> es_service svc = []")
    case True
    with Cons.prems show ?thesis by (intro exI [of _ 0]) (auto split: if_splits)
  next
    case False
    with Cons obtain k where k: "k < length services"
      "e = (if es_namespace (services ! k) = []
        then NamespaceRequired (Suc i + k) else ServiceRequired (Suc i + k))"
      "es_namespace (services ! k) = [] \<or> es_service (services ! k) = []"
      "\<forall>j < k. es_namespace (services ! j) \<noteq> [] \<and> es_service (services ! j) \<noteq> []"
      by auto
    then show ?thesis
      using False by (intro exI [of _ "Suc k"]) (auto simp: less_Suc_eq_0_disj)
  qed
qed simp

text \<open>Parsing all keys is parsing each of them; the combined list is their concatenation.\<close>

lemma parse_keys_Inr_iff:
  "parse_keys yaml acc data = Inr services \<longleftrightarrow>
   (\<forall>(key, raw) \<in> set data. \<exists>s. parseExposedServices yaml raw = Inr s) \<and>
   services = acc @ concat (map (\<lambda>(key, raw). case parseExposedServices yaml raw of
     Inr s \<Rightarrow> s | Inl _ \<Rightarrow> []) data)"
  by (induction yaml acc data rule: parse_keys.induct) (auto split: sum.splits)

lemma parse_keys_Inl:
  "parse_keys yaml acc data = Inl e \<Longrightarrow>
   \<exists>key raw err. (key, raw) \<in> set data \<and> parseExposedServices yaml raw = Inl err \<and> e = KeyError key err"
  by (induction yaml acc data rule: parse_keys.induct) (auto split: sum.splits)

lemma parseAll_Inr_iff:
  "parseAllExposedServices yaml data = Inr services \<longleftrightarrow>
   (\<forall>(key, raw) \<in> set data. \<exists>s. parseExposedServices yaml raw = Inr s) \<and>
   services = concat (map (\<lambda>(key, raw). case parseExposedServices yaml raw of
     Inr s \<Rightarrow> s | Inl _ \<Rightarrow> []) data)"
  by (simp add: parseAllExposedServices_def parse_keys_Inr_iff)

definition entries_ok :: "ServiceAllowlist \<Rightarrow> bool" where
  "entries_ok a \<longleftrightarrow> (\<forall>svc\<in>set (al_services a). es_namespace svc \<noteq> [] \<and> es_service svc \<noteq> [])"

lemma parseExposedServices_ok:
  "parseExposedServices yaml raw = Inr services \<Longrightarrow> entries_ok \<lparr>al_services = services\<rparr>"
  by (auto simp: parseExposedServices_def entries_ok_def check_entries_None
      split: if_splits sum.splits option.splits)

lemma parseAll_ok:
  "parseAllExposedServices yaml data = Inr services \<Longrightarrow> entries_ok \<lparr>al_services = services\<rparr>"
  using parseExposedServices_ok [of yaml]
  by (fastforce simp: parseAll_Inr_iff entries_ok_def split: sum.splits)

lemma handler_ok: "entries_ok a \<Longrightarrow> entries_ok (allowlist_handler yaml ev a)"
  using parseAll_ok [of yaml]
  by (cases "(yaml, ev, a)" rule: allowlist_handler.cases)
     (auto simp: updateFromConfigMap_def update_allowlist_def entries_ok_def split: sum.splits)

interpretation aw: invariant_rule empty_allowlist "watcher_step yaml" entries_ok
proof unfold_locales
  show "entries_ok a" if "empty_allowlist a" for a
    using that by (simp add: empty_allowlist_def entries_ok_def)
  show "entries_ok b" if "entries_ok a" and "watcher_step yaml a b" for a b
    using that(2,1) by (cases rule: watcher_step.cases) (simp add: handler_ok)
qed

text \<open>What a ConfigMap permits: the entry that the operator wrote under any key.\<close>

definition permits ::
  "(string \<Rightarrow> string + ExposedService list) \<Rightarrow> (string, string) gmap \<Rightarrow> TargetServiceConfig \<Rightarrow> bool" where
  "permits yaml data tsc \<longleftrightarrow>
     (\<exists>(key, raw) \<in> set data. \<exists>services. raw \<noteq> [] \<and> yaml raw = Inr services \<and>
        (\<exists>e \<in> set services. es_namespace e = tsc_namespace tsc \<and> es_service e = tsc_service tsc \<and>
           es_port e \<in> {[], tsc_port tsc} \<and> es_protocol e \<in> {[], tsc_proto tsc}))"

lemma matches_iff:
  "matches e tsc \<longleftrightarrow> es_namespace e = tsc_namespace tsc \<and> es_service e = tsc_service tsc \<and>
     es_port e \<in> {[], tsc_port tsc} \<and> es_protocol e \<in> {[], tsc_proto tsc}"
  by (auto simp: matches_def)

lemma parseExposedServices_set:
  "parseExposedServices yaml raw = Inr services \<Longrightarrow>
   (e \<in> set services \<longleftrightarrow> raw \<noteq> [] \<and> (\<exists>s. yaml raw = Inr s \<and> e \<in> set s))"
  by (auto simp: parseExposedServices_def split: if_splits sum.splits option.splits)

lemma parseAll_set:
  assumes "parseAllExposedServices yaml data = Inr services"
  shows "e \<in> set services \<longleftrightarrow>
    (\<exists>kr \<in> set data. \<exists>s. snd kr \<noteq> [] \<and> yaml (snd kr) = Inr s \<and> e \<in> set s)"
proof -
  let ?entries = "\<lambda>kr. case parseExposedServices yaml (snd kr) of Inr s \<Rightarrow> s | Inl _ \<Rightarrow> []"
  have ok: "\<exists>s. parseExposedServices yaml (snd kr) = Inr s" if "kr \<in> set data" for kr
    using assms that by (cases kr) (auto simp: parseAll_Inr_iff)
  have "services = concat (map ?entries data)"
    using assms by (simp add: parseAll_Inr_iff case_prod_unfold)
  then have "e \<in> set services \<longleftrightarrow> (\<exists>kr \<in> set data. e \<in> set (?entries kr))"
    by simp
  also have "\<dots> \<longleftrightarrow> (\<exists>kr \<in> set data. \<exists>s. snd kr \<noteq> [] \<and> yaml (snd kr) = Inr s \<and> e \<in> set s)"
  proof (rule bex_cong [OF refl])
    fix kr assume "kr \<in> set data"
    then obtain s where "parseExposedServices yaml (snd kr) = Inr s"
      using ok by blast
    then show "e \<in> set (?entries kr) \<longleftrightarrow>
        (\<exists>s. snd kr \<noteq> [] \<and> yaml (snd kr) = Inr s \<and> e \<in> set s)"
      using parseExposedServices_set [of yaml "snd kr" s e] by simp
  qed
  finally show ?thesis .
qed

lemma parseAll_any_match:
  assumes "parseAllExposedServices yaml data = Inr services"
  shows "any_match services tsc \<longleftrightarrow> permits yaml data tsc"
proof -
  have "any_match services tsc \<longleftrightarrow> (\<exists>e. e \<in> set services \<and> matches e tsc)"
    by (auto simp: any_match_iff)
  also have "\<dots> \<longleftrightarrow> (\<exists>kr\<in>set data. \<exists>s. snd kr \<noteq> [] \<and> yaml (snd kr) = Inr s \<and>
      (\<exists>e\<in>set s. matches e tsc))"
    unfolding parseAll_set [OF assms] by blast
  finally show ?thesis
    by (simp add: permits_def matches_iff case_prod_unfold)
qed

lemma parseAll_perm:
  assumes "mset data = mset data'"
  shows "(\<exists>s. parseAllExposedServices yaml data = Inr s) \<longleftrightarrow> (\<exists>s. parseAllExposedServices yaml data' = Inr s)"
  using mset_eq_setD [OF assms] by (simp add: parseAll_Inr_iff)

lemma permits_perm: "mset data = mset data' \<Longrightarrow> permits yaml data = permits yaml data'"
  by (drule mset_eq_setD) (simp add: permits_def fun_eq_iff)

lemma update_allowed_iff:
  "IsAllowed (updateFromConfigMap yaml data a) tsc =
    (case parseAllExposedServices yaml data of
       Inr services \<Rightarrow> permits yaml data tsc
     | Inl e \<Rightarrow> IsAllowed a tsc)"
  using parseAll_any_match [of yaml data _ tsc]
  by (auto simp: updateFromConfigMap_def IsAllowed_def update_allowlist_def split: sum.splits)

section \<open>Properties\<close>

text \<open>
  C9. The decision of the allowlist: once a ConfigMap that parses has been seen, a target is
  allowed exactly if some key of it holds an entry with the target's namespace and service
  whose port is absent or the target's and whose protocol is absent or the target's. A
  ConfigMap of which any key does not parse changes no decision.
\<close>

theorem allowlist_decision:
  "IsAllowed (updateFromConfigMap yaml data a) tsc =
    (case parseAllExposedServices yaml data of
       Inr services \<Rightarrow> permits yaml data tsc
     | Inl e \<Rightarrow> IsAllowed a tsc)"
  by (rule update_allowed_iff)

text \<open>
  The random iteration order of Go's maps never shows: two iterations over the same
  ConfigMap lead to the same decision for every target, also when the parse stops at an
  error in one of them earlier than in the other.
\<close>

theorem map_order_is_invisible:
  assumes "mset data = mset data'"
  shows "IsAllowed (updateFromConfigMap yaml data a) tsc =
         IsAllowed (updateFromConfigMap yaml data' a) tsc"
  using parseAll_perm [OF assms, of yaml] permits_perm [OF assms, of yaml]
  by (cases "parseAllExposedServices yaml data"; cases "parseAllExposedServices yaml data'")
     (auto simp: update_allowed_iff)

theorem map_order_is_invisible_witness:
  "IsAllowed (updateFromConfigMap (\<lambda>_. Inl ''bad'') [(''a'', []), (''b'', ''x'')] \<lparr>al_services = []\<rparr>)
     (nginx_target ''80'') =
   IsAllowed (updateFromConfigMap (\<lambda>_. Inl ''bad'') [(''b'', ''x''), (''a'', [])] \<lparr>al_services = []\<rparr>)
     (nginx_target ''80'')"
  using map_order_is_invisible
    [of "[(''a'', []), (''b'', ''x'')]" "[(''b'', ''x''), (''a'', [])]" "\<lambda>_. Inl ''bad''"
        "\<lparr>al_services = []\<rparr>" "nginx_target ''80''"]
  by (simp add: add_mset_commute)

text \<open>
  The abstract view of the watcher: what each event decides, if anything, and the decision of
  the most recent event that decided.
\<close>

fun verdict ::
  "(string \<Rightarrow> string + ExposedService list) \<Rightarrow> cm_event \<Rightarrow> ExposedService list option" where
  "verdict yaml (AddEvent (ConfigMap data)) =
     (case parseAllExposedServices yaml data of Inl _ \<Rightarrow> None | Inr s \<Rightarrow> Some s)"
| "verdict yaml (UpdateEvent old (ConfigMap data)) =
     (case parseAllExposedServices yaml data of Inl _ \<Rightarrow> None | Inr s \<Rightarrow> Some s)"
| "verdict yaml (DeleteEvent obj) = Some []"
| "verdict yaml ev = None"

definition last_known_good ::
  "(string \<Rightarrow> string + ExposedService list) \<Rightarrow> cm_event list \<Rightarrow> ExposedService list" where
  "last_known_good yaml evs =
     (case filter (\<lambda>v. v \<noteq> None) (map (verdict yaml) (rev evs)) of
        Some s # _ \<Rightarrow> s | _ \<Rightarrow> [])"

lemma handler_verdict:
  "al_services (allowlist_handler yaml ev a) =
     (case verdict yaml ev of Some s \<Rightarrow> s | None \<Rightarrow> al_services a)"
  by (cases "(yaml, ev, a)" rule: allowlist_handler.cases)
     (auto simp: updateFromConfigMap_def update_allowlist_def split: sum.splits)

text \<open>
  C37. The last-known-good rule: after any sequence of events, from the start of the watcher
  on, the list in force is that of the most recent ConfigMap that parsed, or the empty list
  if the ConfigMap has been deleted since or none has parsed yet.
\<close>

theorem watcher_keeps_last_known_good:
  "al_services (fold (allowlist_handler yaml) evs \<lparr>al_services = []\<rparr>) = last_known_good yaml evs"
proof (induction evs rule: rev_induct)
  case Nil
  then show ?case by (simp add: last_known_good_def)
next
  case (snoc ev evs)
  then show ?case
    by (auto simp: handler_verdict last_known_good_def split: option.splits)
qed

text \<open>
  Invariant of the watcher: from the empty list on, every list that events can put in
  force has entries with a namespace and a service only, so that a request with an empty
  namespace or an empty service name is denied in every reachable state.
\<close>

theorem incomplete_targets_always_denied:
  assumes "reach empty_allowlist (watcher_step yaml) a"
    and "tsc_namespace tsc = [] \<or> tsc_service tsc = []"
  shows "\<not> IsAllowed a tsc"
  using aw.reach_inv [OF assms(1)] assms(2)
  by (auto simp: entries_ok_def IsAllowed_def any_match_iff matches_iff)

theorem incomplete_targets_always_denied_witness:
  "\<not> IsAllowed (allowlist_handler (\<lambda>_. Inr [\<lparr>es_namespace = ''web'', es_service = ''nginx'',
       es_port = [], es_protocol = []\<rparr>]) (AddEvent (ConfigMap [(''k'', ''v'')])) \<lparr>al_services = []\<rparr>)
     ((nginx_target ''80'')\<lparr>tsc_namespace := []\<rparr>)"
proof -
  let ?yaml = "\<lambda>_ :: string. Inr [\<lparr>es_namespace = ''web'', es_service = ''nginx'',
       es_port = [], es_protocol = []\<rparr>] :: string + ExposedService list"
  have "reach empty_allowlist (watcher_step ?yaml) \<lparr>al_services = []\<rparr>"
    by (rule reach.start) (simp add: empty_allowlist_def)
  then have "reach empty_allowlist (watcher_step ?yaml)
      (allowlist_handler ?yaml (AddEvent (ConfigMap [(''k'', ''v'')])) \<lparr>al_services = []\<rparr>)"
    by (rule reach.step) (rule watcher_step.event)
  then show ?thesis
    by (rule incomplete_targets_always_denied) simp
qed

lemma fold_handler_allowed:
  assumes "IsAllowed (fold (\<lambda>cm. allowlist_handler yaml (AddEvent (ConfigMap (cm_data cm)))) cms a) tsc"
  shows "IsAllowed a tsc \<or> (\<exists>cm\<in>set cms. permits yaml (cm_data cm) tsc)"
  using assms
proof (induction cms arbitrary: a)
  case (Cons cm cms)
  then have "IsAllowed (updateFromConfigMap yaml (cm_data cm) a) tsc \<or>
      (\<exists>cm\<in>set cms. permits yaml (cm_data cm) tsc)"
    by simp
  moreover have "IsAllowed a tsc \<or> permits yaml (cm_data cm) tsc"
    if "IsAllowed (updateFromConfigMap yaml (cm_data cm) a) tsc"
    using that update_allowed_iff [of yaml "cm_data cm" a tsc]
    by (cases "parseAllExposedServices yaml (cm_data cm)") simp_all
  ultimately show ?case by auto
qed simp

lemma watcher_start_allowed:
  assumes "startServiceAllowlistWatcher yaml namespace name add_err ctx_err listed delivered = Inr a"
    and "IsAllowed a tsc"
  shows "\<exists>cm\<in>set listed. cm_namespace cm = namespace \<and> cm_name cm = name \<and>
    permits yaml (cm_data cm) tsc"
proof -
  have a: "a = fold (\<lambda>cm. allowlist_handler yaml (AddEvent (ConfigMap (cm_data cm))))
      (take delivered (filter (selected namespace name) listed)) \<lparr>al_services = []\<rparr>"
    using assms(1) by (simp add: startServiceAllowlistWatcher_def split: option.splits)
  have "\<not> IsAllowed \<lparr>al_services = []\<rparr> tsc"
    by (simp add: IsAllowed_def)
  then obtain cm where "cm \<in> set (take delivered (filter (selected namespace name) listed))"
      "permits yaml (cm_data cm) tsc"
    using fold_handler_allowed [OF assms(2) [unfolded a]] by blast
  then show ?thesis
    by (auto simp: selected_def dest!: in_set_takeD)
qed

text \<open>
  The start of the watcher fails closed: whichever of the listed ConfigMaps the handler has
  processed when the start returns, a service that is then allowed is permitted by a
  listed ConfigMap of the configured namespace and name. (That the handler has seen them
  all, as the comment says, is not guaranteed.)
\<close>

theorem watcher_start_fails_closed:
  assumes "startServiceAllowlistWatcher yaml namespace name add_err ctx_err listed delivered = Inr a"
    and "IsAllowed a tsc"
  shows "\<exists>cm\<in>set listed. cm_namespace cm = namespace \<and> cm_name cm = name \<and>
    permits yaml (cm_data cm) tsc"
  using assms by (rule watcher_start_allowed)

theorem watcher_start_fails_closed_witness:
  "\<exists>cm\<in>set [\<lparr>cm_namespace = ''ocm'', cm_name = ''exposed'', cm_data = [(''k'', ''v'')]\<rparr>].
     cm_namespace cm = ''ocm'' \<and> cm_name cm = ''exposed'' \<and>
     permits (\<lambda>_. Inr [\<lparr>es_namespace = ''web'', es_service = ''nginx'', es_port = [], es_protocol = []\<rparr>])
       (cm_data cm) (nginx_target ''80'')"
  by (rule watcher_start_fails_closed [of _ "''ocm''" "''exposed''" None None _ 1])
     (auto simp: startServiceAllowlistWatcher_def selected_def updateFromConfigMap_def
       parseAllExposedServices_def parseExposedServices_def IsAllowed_def update_allowlist_def
       matches_def nginx_target_def)

end
