(* ===== verification/Service_Url.thy ===== *)
theory Service_Url
  imports Go_Url
begin

text \<open>
  Names that hub and agent derive independently and that have to agree (pkg/util/serviceurl.go,
  pkg/constant/constant.go, \<open>serviceProxyURL\<close> of pkg/userserver/user_server.go). SHA-256 is
  the parameter \<open>sha256\<close>; that it returns 32 bytes is the hypothesis \<open>digest_32\<close>.
\<close>

definition AgentInstallNamespace :: string where
  "AgentInstallNamespace = ''open-cluster-management-agent-addon''"

definition ServiceProxyPort :: nat where
  "ServiceProxyPort = 7443"

definition AddonName :: string where
  "AddonName = ''cluster-proxy''"

definition UserServerSecretName :: string where
  "UserServerSecretName = ''cluster-proxy-user-serving-cert''"

definition UserServerServiceName :: string where
  "UserServerServiceName = ''cluster-proxy-addon-user''"

definition ExposedServicesConfigMapName :: string where
  "ExposedServicesConfigMapName = ''cluster-proxy-exposed-services''"

definition GenerateServiceURL :: "(string \<Rightarrow> string) \<Rightarrow> string \<Rightarrow> string \<Rightarrow> string \<Rightarrow> string" where
  "GenerateServiceURL sha256 cluster namespace service =
     (let content = sha256 (cluster @ '' '' @ namespace @ '' '' @ service)
      in take 63 (''cluster-proxy-'' @ hex_encode content))"

definition GenerateServiceProxyHost :: "(string \<Rightarrow> string) \<Rightarrow> string \<Rightarrow> string" where
  "GenerateServiceProxyHost sha256 clusterName =
     take (64 - length ''cluster-'') (''cluster-'' @ hex_encode (sha256 clusterName))
       @ ''.open-cluster-management.proxy''"

definition serviceProxyURL :: "(string \<Rightarrow> string) \<Rightarrow> string \<Rightarrow> string" where
  "serviceProxyURL sha256 clusterName =
     (let serviceProxyHost = GenerateServiceProxyHost sha256 clusterName
      in ''https://'' @ serviceProxyHost @ '':'' @ itoa (int ServiceProxyPort))"

definition digest_32 :: "(string \<Rightarrow> string) \<Rightarrow> bool" where
  "digest_32 sha256 \<longleftrightarrow> (\<forall>s. length (sha256 s) = 32)"

section \<open>Hexadecimal text\<close>

lemma length_hex_byte [simp]: "length (hex_byte c) = 2"
  by (simp add: hex_byte_def)

lemma hex_encode_Nil [simp]: "hex_encode [] = []"
  by (simp add: hex_encode_def)

lemma hex_encode_Cons [simp]: "hex_encode (c # s) = hex_byte c @ hex_encode s"
  by (simp add: hex_encode_def)

lemma take_hex_encode: "take (2 * n) (hex_encode s) = hex_encode (take n s)"
  by (induction s arbitrary: n) (auto simp: take_Cons split: nat.splits)

lemma of_char_hex_digit: "n < 16 \<Longrightarrow> (of_char (hex_digit n) :: nat) = (if n < 10 then 48 + n else 87 + n)"
  by (simp add: hex_digit_def)

lemma hex_digit_inj: "m < 16 \<Longrightarrow> n < 16 \<Longrightarrow> hex_digit m = hex_digit n \<Longrightarrow> m = n"
proof -
  assume mn: "m < 16" "n < 16" and "hex_digit m = hex_digit n"
  then have "(if m < 10 then 48 + m else 87 + m) = (if n < 10 then 48 + n else 87 + n)"
    using of_char_hex_digit [of m] of_char_hex_digit [of n] by metis
  with mn show "m = n" by presburger
qed

lemma high_nibble [simp]: "(of_char c :: nat) div 16 < 16"
  by (rule less_mult_imp_div_less) (simp del: One_nat_def)

lemma hex_byte_inj: "hex_byte c = hex_byte d \<Longrightarrow> c = d"
proof -
  assume eq: "hex_byte c = hex_byte d"
  have "hex_digit (of_char c div 16) = hex_digit (of_char d div 16)"
    and "hex_digit (of_char c mod 16) = hex_digit (of_char d mod 16)"
    using eq by (simp_all add: hex_byte_def)
  then have "(of_char c :: nat) div 16 = of_char d div 16" "(of_char c :: nat) mod 16 = of_char d mod 16"
    by (auto intro!: hex_digit_inj)
  then have "(of_char c :: nat) = of_char d"
    by (metis div_mult_mod_eq)
  then show "c = d" by (simp add: of_char_eq_iff)
qed

lemma hex_encode_inj: "hex_encode s = hex_encode t \<Longrightarrow> s = t"
proof (induction s arbitrary: t)
  case Nil
  then have "length (hex_encode t) = 0" by simp
  then show ?case by (simp only: length_hex_encode) simp
next
  case (Cons c s)
  then have "length (hex_encode t) = 2 * Suc (length s)"
    by (metis length_hex_encode length_Cons)
  then obtain d u where t: "t = d # u"
    by (cases t) auto
  with Cons.prems have "hex_byte c = hex_byte d" "hex_encode s = hex_encode u"
    by (auto simp: append_eq_append_conv)
  with Cons.IH t show ?case by (auto dest: hex_byte_inj)
qed

lemma hex_digit_class: "n < 16 \<Longrightarrow> is_digit (hex_digit n) \<or> is_lower (hex_digit n)"
  by (auto simp: hex_digit_def is_digit_def is_lower_def)

lemma hex_encode_class: "list_all (\<lambda>c. is_digit c \<or> is_lower c) (hex_encode s)"
proof (induction s)
  case (Cons c s)
  have "is_digit (hex_digit (of_char c div 16)) \<or> is_lower (hex_digit (of_char c div 16))"
    "is_digit (hex_digit (of_char c mod 16)) \<or> is_lower (hex_digit (of_char c mod 16))"
    by (auto intro!: hex_digit_class)
  with Cons show ?case by (simp add: hex_byte_def)
qed simp

section \<open>Properties\<close>

lemma hex_encode_plain: "plain (hex_encode s)"
  using hex_encode_class [of s]
  by (auto simp: plain_def list_all_iff is_alnum_def is_letter_def)

lemma list_all_take: "list_all P s \<Longrightarrow> list_all P (take n s)"
  by (auto simp: list_all_iff dest: in_set_takeD)

lemma plain_take: "plain s \<Longrightarrow> plain (take n s)"
  by (simp add: plain_def list_all_take)

lemma proxy_host_label:
  "GenerateServiceProxyHost sha256 c = (''cluster-'' @ hex_encode (take 24 (sha256 c)))
     @ ''.open-cluster-management.proxy''"
  using take_hex_encode [of 24 "sha256 c"] by (simp add: GenerateServiceProxyHost_def)

lemma plain_proxy_host: "plain (GenerateServiceProxyHost sha256 c)"
proof -
  have "plain ''cluster-''" "plain ''.open-cluster-management.proxy''"
    by (simp_all add: plain_def is_alnum_def is_letter_def is_lower_def)
  then show ?thesis
    unfolding proxy_host_label plain_append by (simp add: hex_encode_plain)
qed

lemma proxy_url_parse:
  "url_parse ipl (serviceProxyURL sha256 c) =
     Inr (empty_url\<lparr>u_scheme := ''https'', u_host := GenerateServiceProxyHost sha256 c @ '':7443''\<rparr>)"
proof -
  have "itoa (int ServiceProxyPort) = ''7443''"
    by (simp add: ServiceProxyPort_def itoa_def nat_to_dec.simps [of 7443] nat_to_dec.simps [of 744]
        nat_to_dec.simps [of 74] nat_to_dec.simps [of 7] digit_char_def char_of_def
        bit_Suc_0_iff)
  moreover have "list_all is_letter ''https''" "list_all is_digit ''7443''"
    by (simp_all add: is_letter_def is_lower_def is_digit_def)
  moreover have "map lower_char ''https'' = ''https''"
    by (simp add: lower_char_def is_upper_def)
  ultimately show ?thesis
    using url_parse_host_port [of "''https''" _ "''7443''" ipl, OF _ _ plain_proxy_host]
    by (simp add: serviceProxyURL_def)
qed

text \<open>
  The URL of a cluster's service-proxy always parses, for every cluster name, also one a
  client invents: the error branch after \<open>url.Parse(serviceProxyURL(...))\<close> is never
  taken, and the request goes to the generated host, port 7443, over https.
\<close>

theorem service_proxy_url_parses:
  "url_parse ipl (serviceProxyURL sha256 clusterName) =
     Inr (empty_url\<lparr>u_scheme := ''https'',
       u_host := GenerateServiceProxyHost sha256 clusterName @ '':7443''\<rparr>)"
  by (rule proxy_url_parse)

text \<open>
  Two clusters share a service-proxy host exactly if the SHA-256 digests of their names
  agree in the first 24 bytes: the host name keeps 192 bits of the digest, and nothing else
  of the truncation can make two clusters collide.
\<close>

theorem service_proxy_host_collision:
  "GenerateServiceProxyHost sha256 c = GenerateServiceProxyHost sha256 d \<longleftrightarrow>
   take 24 (sha256 c) = take 24 (sha256 d)"
  using hex_encode_inj by (auto simp: proxy_host_label)

text \<open>
  Sizes of the generated names: the service name is a DNS label of exactly 63 characters, all
  lower case letters, digits or hyphens; the service-proxy host has a first label of 56
  characters and 86 characters in all, which is within the DNS limits of 63 and 253 but
  not the 64 that the comment claims.
\<close>

theorem generated_name_lengths:
  assumes "digest_32 sha256"
  shows "length (GenerateServiceURL sha256 c n s) = 63 \<and>
    list_all (\<lambda>x. is_lower x \<or> is_digit x \<or> x = CHR ''-'') (GenerateServiceURL sha256 c n s) \<and>
    length (hd (split CHR ''.'' (GenerateServiceProxyHost sha256 c))) = 56 \<and>
    length (GenerateServiceProxyHost sha256 c) = 86"
proof -
  let ?label = "''cluster-'' @ hex_encode (take 24 (sha256 c))"
  have len: "length (sha256 x) = 32" for x
    using assms by (simp add: digest_32_def)
  have "CHR ''.'' \<notin> set (hex_encode x)" for x
    using hex_encode_class [of x] by (auto simp: list_all_iff is_digit_def is_lower_def)
  then have "split CHR ''.'' (?label @ ''.open-cluster-management.proxy'') =
      ?label # split CHR ''.'' ''open-cluster-management.proxy''"
    using split_append_sep [of "CHR ''.''" ?label "''open-cluster-management.proxy''"] by simp
  moreover have "list_all (\<lambda>x. is_lower x \<or> is_digit x \<or> x = CHR ''-'') (hex_encode x)" for x
    using hex_encode_class [of x] by (auto simp: list_all_iff)
  ultimately show ?thesis
    by (simp add: GenerateServiceURL_def proxy_host_label len list_all_take)
       (simp add: is_lower_def)
qed

theorem generated_name_lengths_witness:
  "length (GenerateServiceURL (\<lambda>s. replicate 32 (CHR ''x'')) ''c1'' ''web'' ''nginx'') = 63 \<and>
   length (GenerateServiceProxyHost (\<lambda>s. replicate 32 (CHR ''x'')) ''c1'') = 86"
  using generated_name_lengths [of "\<lambda>s. replicate 32 (CHR ''x'')" "''c1''" "''web''" "''nginx''"]
  by (simp add: digest_32_def)

end
