(* ===== verification/Transport_Pool.thy ===== *)
theory Transport_Pool
  imports Service_Url "HOL-Library.Multiset"
begin

text \<open>
  The pool of reusable transports and the add-on watcher that decides its membership
  (pkg/userserver/transport_pool.go). Each operation is split where the code releases its
  lock, so that the step relation \<open>pool_step\<close> interleaves any number of goroutines at exactly
  these points. A transport is a heap address: its index in the list \<open>cp_made\<close> of all
  transports made so far, whose entries name the cluster each was made for.
\<close>

section \<open>The pool\<close>

record clusterTransportPool =
  cp_allowed :: "(string, unit) gmap"
  cp_transports :: "(string, nat) gmap"
  cp_made :: "string list"
  cp_closed :: "nat list"

definition newClusterTransportPool :: clusterTransportPool where
  "newClusterTransportPool = \<lparr>cp_allowed = [], cp_transports = [], cp_made = [], cp_closed = []\<rparr>"

definition allow :: "string \<Rightarrow> clusterTransportPool \<Rightarrow> clusterTransportPool" where
  "allow clusterName p = p\<lparr>cp_allowed := gput clusterName () (cp_allowed p)\<rparr>"

text \<open>The call of the factory \<open>newTransport\<close>: a transport that no one has seen before.\<close>

definition newTransport :: "string \<Rightarrow> clusterTransportPool \<Rightarrow> nat \<times> clusterTransportPool" where
  "newTransport clusterName p = (length (cp_made p), p\<lparr>cp_made := cp_made p @ [clusterName]\<rparr>)"

text \<open>\<open>getOrCreate\<close>: the region under the read lock with the two early returns after it, and
  the region under the write lock.\<close>

datatype read_result = ReadDone "nat option" | ReadMiss

definition getOrCreate_read :: "string \<Rightarrow> clusterTransportPool \<Rightarrow> read_result" where
  "getOrCreate_read clusterName p =
     (let allowed = gget (cp_allowed p) clusterName;
          transport = gget (cp_transports p) clusterName
      in if allowed = None then ReadDone None
         else case transport of Some t \<Rightarrow> ReadDone (Some t) | None \<Rightarrow> ReadMiss)"

definition getOrCreate_write ::
  "string \<Rightarrow> clusterTransportPool \<Rightarrow> nat option \<times> clusterTransportPool" where
  "getOrCreate_write clusterName p =
     (if gget (cp_allowed p) clusterName = None then (None, p)
      else
        (case gget (cp_transports p) clusterName of
           Some t \<Rightarrow> (Some t, p)
         | None \<Rightarrow>
             (case newTransport clusterName p of
                (t, p') \<Rightarrow> (Some t, p'\<lparr>cp_transports := gput clusterName t (cp_transports p')\<rparr>))))"

text \<open>The whole call, with what other goroutines do between the two regions as \<open>others\<close>.\<close>

definition getOrCreate ::
  "(clusterTransportPool \<Rightarrow> clusterTransportPool) \<Rightarrow> string \<Rightarrow> clusterTransportPool
     \<Rightarrow> nat option \<times> clusterTransportPool" where
  "getOrCreate others clusterName p =
     (case getOrCreate_read clusterName p of
        ReadDone r \<Rightarrow> (r, p)
      | ReadMiss \<Rightarrow> getOrCreate_write clusterName (others p))"

definition pool_isAllowed :: "clusterTransportPool \<Rightarrow> string \<Rightarrow> bool" where
  "pool_isAllowed p clusterName \<longleftrightarrow> gget (cp_allowed p) clusterName \<noteq> None"

definition CloseIdleConnections :: "nat \<Rightarrow> clusterTransportPool \<Rightarrow> clusterTransportPool" where
  "CloseIdleConnections t p = p\<lparr>cp_closed := t # cp_closed p\<rparr>"

definition remove_locked ::
  "string \<Rightarrow> clusterTransportPool \<Rightarrow> nat option \<times> clusterTransportPool" where
  "remove_locked clusterName p =
     (let p = p\<lparr>cp_allowed := gdel clusterName (cp_allowed p)\<rparr>;
          transport = gget (cp_transports p) clusterName
      in (transport, p\<lparr>cp_transports := gdel clusterName (cp_transports p)\<rparr>))"

definition remove :: "string \<Rightarrow> clusterTransportPool \<Rightarrow> clusterTransportPool" where
  "remove clusterName p =
     (case remove_locked clusterName p of
        (Some t, p) \<Rightarrow> CloseIdleConnections t p
      | (None, p) \<Rightarrow> p)"

definition closeAll_locked ::
  "clusterTransportPool \<Rightarrow> (string, nat) gmap \<times> clusterTransportPool" where
  "closeAll_locked p =
     (let p = p\<lparr>cp_allowed := []\<rparr>;
          transports = cp_transports p
      in (transports, p\<lparr>cp_transports := []\<rparr>))"

definition closeAll :: "clusterTransportPool \<Rightarrow> clusterTransportPool" where
  "closeAll p =
     (case closeAll_locked p of
        (transports, p) \<Rightarrow> fold (\<lambda>(_, t). CloseIdleConnections t) transports p)"

section \<open>The add-on watcher\<close>

text \<open>The objects an informer can hand over: an add-on with its name and namespace, the
  tombstone of a missed deletion, or anything else.\<close>

datatype addon_object = Addon string string | DeletedFinalStateUnknown addon_object | OtherObject

fun clusterProxyAddon :: "addon_object \<Rightarrow> string option" where
  "clusterProxyAddon (Addon name namespace) =
     (if name = AddonName \<and> namespace \<noteq> [] then Some namespace else None)"
| "clusterProxyAddon _ = None"

definition deletedClusterProxyAddon :: "addon_object \<Rightarrow> string option" where
  "deletedClusterProxyAddon obj =
     (case clusterProxyAddon obj of
        Some namespace \<Rightarrow> Some namespace
      | None \<Rightarrow>
          (case obj of
             DeletedFinalStateUnknown tombstone \<Rightarrow> clusterProxyAddon tombstone
           | _ \<Rightarrow> None))"

datatype addon_event = AddonAdded addon_object | AddonUpdated addon_object addon_object
  | AddonDeleted addon_object

fun addon_handler :: "addon_event \<Rightarrow> clusterTransportPool \<Rightarrow> clusterTransportPool" where
  "addon_handler (AddonAdded obj) pool =
     (case clusterProxyAddon obj of Some namespace \<Rightarrow> allow namespace pool | None \<Rightarrow> pool)"
| "addon_handler (AddonUpdated old new) pool =
     (case clusterProxyAddon new of Some namespace \<Rightarrow> allow namespace pool | None \<Rightarrow> pool)"
| "addon_handler (AddonDeleted obj) pool =
     (case deletedClusterProxyAddon obj of Some namespace \<Rightarrow> remove namespace pool | None \<Rightarrow> pool)"

datatype watcher_error = RegisterHandler string | ContextError string | CacheDidNotSync

text \<open>As for the allowlist, \<open>synced\<close> is the result of \<open>WaitForCacheSync\<close>, \<open>listed\<close> what the
  API server lists and \<open>delivered\<close> how many of the Add events have been handled.\<close>

definition startManagedClusterAddonWatcher ::
  "string option \<Rightarrow> bool \<Rightarrow> string option \<Rightarrow> (string \<times> string) list \<Rightarrow> nat \<Rightarrow> clusterTransportPool
     \<Rightarrow> watcher_error option \<times> clusterTransportPool" where
  "startManagedClusterAddonWatcher add_err synced ctx_err listed delivered pool =
     (let informer = filter (\<lambda>(name, namespace). name = AddonName) listed in
      case add_err of
        Some err \<Rightarrow> (Some (RegisterHandler err), pool)
      | None \<Rightarrow>
          (let pool = fold (\<lambda>(name, namespace). addon_handler (AddonAdded (Addon name namespace)))
                 (take delivered informer) pool
           in if \<not> synced
              then (case ctx_err of
                      Some err \<Rightarrow> (Some (ContextError err), pool)
                    | None \<Rightarrow> (Some CacheDidNotSync, pool))
              else (None, pool)))"

section \<open>Interleaving\<close>

text \<open>Where a goroutine stands between two lock regions.\<close>

datatype pc = Idle | Missed string | Holding string "nat option" | Closing "nat list"

record pool_state =
  ps_pool :: clusterTransportPool
  ps_pc :: "nat \<Rightarrow> pc"

definition pool_init :: "pool_state \<Rightarrow> bool" where
  "pool_init s \<longleftrightarrow> ps_pool s = newClusterTransportPool \<and> (\<forall>g. ps_pc s g = Idle)"

definition goto :: "nat \<Rightarrow> pc \<Rightarrow> clusterTransportPool \<Rightarrow> pool_state \<Rightarrow> pool_state" where
  "goto g l p s = \<lparr>ps_pool = p, ps_pc = (ps_pc s)(g := l)\<rparr>"

inductive pool_step :: "pool_state \<Rightarrow> pool_state \<Rightarrow> bool" where
  allow: "ps_pc s g = Idle \<Longrightarrow> pool_step s (goto g Idle (allow c (ps_pool s)) s)"
| hit: "ps_pc s g = Idle \<Longrightarrow> getOrCreate_read c (ps_pool s) = ReadDone r \<Longrightarrow>
    pool_step s (goto g (Holding c r) (ps_pool s) s)"
| miss: "ps_pc s g = Idle \<Longrightarrow> getOrCreate_read c (ps_pool s) = ReadMiss \<Longrightarrow>
    pool_step s (goto g (Missed c) (ps_pool s) s)"
| create: "ps_pc s g = Missed c \<Longrightarrow> getOrCreate_write c (ps_pool s) = (r, p) \<Longrightarrow>
    pool_step s (goto g (Holding c r) p s)"
| served: "ps_pc s g = Holding c r \<Longrightarrow> pool_step s (goto g Idle (ps_pool s) s)"
| remove: "ps_pc s g = Idle \<Longrightarrow> remove_locked c (ps_pool s) = (r, p) \<Longrightarrow>
    pool_step s (goto g (Closing (case r of Some t \<Rightarrow> [t] | None \<Rightarrow> [])) p s)"
| close_all: "ps_pc s g = Idle \<Longrightarrow> closeAll_locked (ps_pool s) = (transports, p) \<Longrightarrow>
    mset ts = mset (map snd transports) \<Longrightarrow> pool_step s (goto g (Closing ts) p s)"
| close: "ps_pc s g = Closing (t # ts) \<Longrightarrow>
    pool_step s (goto g (Closing ts) (CloseIdleConnections t (ps_pool s)) s)"
| closed: "ps_pc s g = Closing [] \<Longrightarrow> pool_step s (goto g Idle (ps_pool s) s)"

inductive_cases pool_step_cases: "pool_step s t"

lemmas pool_defs = allow_def newTransport_def getOrCreate_read_def getOrCreate_write_def
  CloseIdleConnections_def remove_locked_def closeAll_locked_def pool_isAllowed_def Let_def

section \<open>The invariant\<close>

text \<open>Cached transports belong to member clusters and to the cluster they were made for, and
  so do the transports that goroutines hold.\<close>

definition members_only :: "clusterTransportPool \<Rightarrow> bool" where
  "members_only p \<longleftrightarrow> gmap_ok (cp_transports p) \<and>
     (\<forall>c t. gget (cp_transports p) c = Some t \<longrightarrow>
        gget (cp_allowed p) c \<noteq> None \<and> t < length (cp_made p) \<and> cp_made p ! t = c)"

definition holders_ok :: "pool_state \<Rightarrow> bool" where
  "holders_ok s \<longleftrightarrow> (\<forall>g c t. ps_pc s g = Holding c (Some t) \<longrightarrow>
     t < length (cp_made (ps_pool s)) \<and> cp_made (ps_pool s) ! t = c)"

text \<open>No transport is forgotten: it is cached, or closed, or some goroutine is about to close it.\<close>

definition none_leaked :: "pool_state \<Rightarrow> bool" where
  "none_leaked s \<longleftrightarrow> (\<forall>t < length (cp_made (ps_pool s)).
     t \<in> snd ` set (cp_transports (ps_pool s)) \<or> t \<in> set (cp_closed (ps_pool s)) \<or>
     (\<exists>g ts. ps_pc s g = Closing ts \<and> t \<in> set ts))"

definition pool_inv :: "pool_state \<Rightarrow> bool" where
  "pool_inv s \<longleftrightarrow> members_only (ps_pool s) \<and> holders_ok s \<and> none_leaked s"

lemma gmap_values: "gmap_ok m \<Longrightarrow> t \<in> snd ` set m \<longleftrightarrow> (\<exists>c. gget m c = Some t)"
  by (force simp: gmap_ok_def gget_def)

lemma gmap_ok_Nil [simp]: "gmap_ok []"
  by (simp add: gmap_ok_def)

lemma members_only_allow: "members_only p \<Longrightarrow> members_only (allow c p)"
  by (auto simp: members_only_def allow_def gm.get_put)

lemma members_onlyD:
  assumes "members_only p" and "gget (cp_transports p) c = Some t"
  shows "t < length (cp_made p)" and "cp_made p ! t = c" and "gget (cp_allowed p) c \<noteq> None"
  using assms by (auto simp: members_only_def)

lemma members_only_create:
  assumes "members_only p" and "getOrCreate_write c p = (r, p')"
  shows "members_only p'"
proof (cases "gget (cp_allowed p) c = None \<or> gget (cp_transports p) c \<noteq> None")
  case True
  then have "p' = p"
    using assms(2) by (auto simp: getOrCreate_write_def split: if_splits)
  with assms(1) show ?thesis by simp
next
  case False
  then have p': "p' = p\<lparr>cp_made := cp_made p @ [c],
      cp_transports := gput c (length (cp_made p)) (cp_transports p)\<rparr>"
    using assms(2) by (simp add: getOrCreate_write_def newTransport_def)
  show ?thesis
    unfolding members_only_def
    using False assms(1) members_onlyD [OF assms(1)]
    by (auto simp: p' gm.get_put members_only_def gm.ok_put nth_append less_Suc_eq)
qed

lemma members_only_remove:
  assumes "members_only p" and "remove_locked c p = (r, p')"
  shows "members_only p'"
  using assms
  by (auto simp: members_only_def remove_locked_def Let_def gm.get_del gm.ok_del split: if_splits)

lemma members_only_closeAll:
  "closeAll_locked p = (ts, p') \<Longrightarrow> members_only p'"
  by (auto simp: members_only_def closeAll_locked_def Let_def)

lemma members_only_close: "members_only p \<Longrightarrow> members_only (CloseIdleConnections t p)"
  by (simp add: members_only_def CloseIdleConnections_def)

lemmas members_only_ops = members_only_allow members_only_create members_only_remove
  members_only_closeAll members_only_close

lemma members_only_step:
  assumes "pool_step s s'" and "members_only (ps_pool s)"
  shows "members_only (ps_pool s')"
  using assms by cases (auto simp: goto_def intro: members_only_ops)

text \<open>The made list only grows, and what a call returns was made for its cluster.\<close>

definition made_grows :: "clusterTransportPool \<Rightarrow> clusterTransportPool \<Rightarrow> bool" where
  "made_grows p p' \<longleftrightarrow> (\<exists>cs. cp_made p' = cp_made p @ cs)"

lemma made_grows_ops:
  "made_grows p p" "made_grows p (allow c p)" "made_grows p (CloseIdleConnections t p)"
  "getOrCreate_write c p = (r, p') \<Longrightarrow> made_grows p p'"
  "remove_locked c p = (r, p') \<Longrightarrow> made_grows p p'"
  "closeAll_locked p = (ts, p') \<Longrightarrow> made_grows p p'"
  by (auto simp: made_grows_def pool_defs split: if_splits option.splits)

lemma read_made_for:
  assumes "members_only p" and "getOrCreate_read c p = ReadDone (Some t)"
  shows "t < length (cp_made p) \<and> cp_made p ! t = c \<and> gget (cp_allowed p) c \<noteq> None"
  using assms by (auto simp: members_only_def getOrCreate_read_def Let_def split: if_splits option.splits)

lemma write_made_for:
  assumes "members_only p" and "getOrCreate_write c p = (Some t, p')"
  shows "t < length (cp_made p') \<and> cp_made p' ! t = c \<and> gget (cp_allowed p') c \<noteq> None \<and>
    gget (cp_transports p') c = Some t"
  using assms
  by (auto simp: members_only_def getOrCreate_write_def newTransport_def split: if_splits option.splits)

lemma holders_ok_goto:
  assumes "holders_ok s" and "made_grows (ps_pool s) p"
    and "\<And>c t. l = Holding c (Some t) \<Longrightarrow> t < length (cp_made p) \<and> cp_made p ! t = c"
  shows "holders_ok (goto g l p s)"
  unfolding holders_ok_def
proof (intro allI impI)
  fix g' c t assume h: "ps_pc (goto g l p s) g' = Holding c (Some t)"
  obtain cs where p: "cp_made p = cp_made (ps_pool s) @ cs"
    using assms(2) by (auto simp: made_grows_def)
  show "t < length (cp_made (ps_pool (goto g l p s))) \<and> cp_made (ps_pool (goto g l p s)) ! t = c"
  proof (cases "g' = g")
    case True
    with h assms(3) show ?thesis by (simp add: goto_def)
  next
    case False
    with h assms(1) have "t < length (cp_made (ps_pool s)) \<and> cp_made (ps_pool s) ! t = c"
      by (simp add: goto_def holders_ok_def)
    with p show ?thesis by (simp add: goto_def nth_append)
  qed
qed

lemma holders_ok_step:
  assumes "pool_step s s'" and "members_only (ps_pool s)" and "holders_ok s"
  shows "holders_ok s'"
  using assms(1)
proof cases
  case (hit g c r)
  then show ?thesis
    using read_made_for [OF assms(2)] assms(3) made_grows_ops(1)
    by (auto intro!: holders_ok_goto)
next
  case (create g c r p)
  then show ?thesis
    using write_made_for [OF assms(2), of c] assms(3) made_grows_ops(4) [OF create(3)]
    by (auto intro!: holders_ok_goto)
next
  case (remove g c r p)
  then show ?thesis
    using assms(3) made_grows_ops(5) [OF remove(3)] by (auto intro!: holders_ok_goto)
next
  case (close_all g ts p us)
  then show ?thesis
    using assms(3) made_grows_ops(6) [OF close_all(3)] by (auto intro!: holders_ok_goto)
qed (auto intro!: holders_ok_goto assms(3) simp: made_grows_ops(1-3))

lemma none_leaked_goto:
  assumes "none_leaked s"
    and "\<And>t. t \<in> snd ` set (cp_transports (ps_pool s)) \<or> t \<in> set (cp_closed (ps_pool s)) \<or>
        length (cp_made (ps_pool s)) \<le> t \<and> t < length (cp_made p) \<or>
        (\<exists>ts. ps_pc s g = Closing ts \<and> t \<in> set ts) \<Longrightarrow>
        t \<in> snd ` set (cp_transports p) \<or> t \<in> set (cp_closed p) \<or> (\<exists>ts. l = Closing ts \<and> t \<in> set ts)"
  shows "none_leaked (goto g l p s)"
  unfolding none_leaked_def
proof (intro allI impI)
  fix t assume t: "t < length (cp_made (ps_pool (goto g l p s)))"
  show "t \<in> snd ` set (cp_transports (ps_pool (goto g l p s))) \<or>
    t \<in> set (cp_closed (ps_pool (goto g l p s))) \<or>
    (\<exists>g' ts. ps_pc (goto g l p s) g' = Closing ts \<and> t \<in> set ts)"
  proof (cases "\<exists>g' ts. g' \<noteq> g \<and> ps_pc s g' = Closing ts \<and> t \<in> set ts")
    case True
    then show ?thesis by (auto simp: goto_def)
  next
    case False
    then have "t \<in> snd ` set (cp_transports (ps_pool s)) \<or> t \<in> set (cp_closed (ps_pool s)) \<or>
        length (cp_made (ps_pool s)) \<le> t \<and> t < length (cp_made p) \<or>
        (\<exists>ts. ps_pc s g = Closing ts \<and> t \<in> set ts)"
      using assms(1) t unfolding none_leaked_def goto_def
      by (metis not_le_imp_less pool_state.select_convs(1))
    from assms(2) [OF this] show ?thesis by (auto simp: goto_def)
  qed
qed

lemma create_keeps:
  assumes "members_only p" and "getOrCreate_write c p = (r, p')"
    and "t \<in> snd ` set (cp_transports p) \<or> length (cp_made p) \<le> t \<and> t < length (cp_made p')"
  shows "t \<in> snd ` set (cp_transports p')"
proof -
  have ok: "gmap_ok (cp_transports p)" "gmap_ok (cp_transports p')"
    using assms(1) members_only_create [OF assms(1,2)] by (auto simp: members_only_def)
  have "(\<exists>d. gget (cp_transports p) d = Some t) \<or> length (cp_made p) \<le> t \<and> t < length (cp_made p')"
    using assms(3) gmap_values [OF ok(1), of t] by blast
  then have "\<exists>d. gget (cp_transports p') d = Some t"
    using assms(2)
    by (auto simp: getOrCreate_write_def newTransport_def gm.get_put split: if_splits option.splits)
       (metis option.distinct(1))
  with gmap_values [OF ok(2), of t] show ?thesis by simp
qed

lemma remove_keeps:
  assumes "members_only p" and "remove_locked c p = (r, p')" and "t \<in> snd ` set (cp_transports p)"
  shows "t \<in> snd ` set (cp_transports p') \<or> r = Some t"
proof -
  have ok: "gmap_ok (cp_transports p)" "gmap_ok (cp_transports p')"
    using assms(1) members_only_remove [OF assms(1,2)] by (auto simp: members_only_def)
  obtain d where "gget (cp_transports p) d = Some t"
    using assms(3) gmap_values [OF ok(1), of t] by blast
  then have "gget (cp_transports p') d = Some t \<or> r = Some t"
    using assms(2) by (auto simp: remove_locked_def Let_def gm.get_del)
  then show ?thesis
    using gmap_values [OF ok(2), of t] by blast
qed

lemma op_frames:
  "getOrCreate_write c p = (r, p') \<Longrightarrow> cp_closed p' = cp_closed p"
  "remove_locked c p = (r, p') \<Longrightarrow> cp_closed p' = cp_closed p \<and> cp_made p' = cp_made p"
  "closeAll_locked p = (ts, p') \<Longrightarrow> cp_closed p' = cp_closed p \<and> cp_made p' = cp_made p \<and> ts = cp_transports p"
  by (auto simp: pool_defs split: if_splits option.splits)

lemma none_leaked_step:
  assumes "pool_step s s'" and "members_only (ps_pool s)" and "none_leaked s"
  shows "none_leaked s'"
  using assms(1)
proof cases
  case (create g c r p)
  show ?thesis
    unfolding create(1) using create assms(2) op_frames(1) [OF create(3)]
    by (intro none_leaked_goto [OF assms(3)]) (auto dest: create_keeps)
next
  case (remove g c r p)
  show ?thesis
    unfolding remove(1)
    using remove op_frames(2) [OF remove(3)] remove_keeps [OF assms(2) remove(3)]
    by (intro none_leaked_goto [OF assms(3)]) (auto split: option.splits)
next
  case (close_all g ts p us)
  have "set us = snd ` set ts"
    using mset_eq_setD [OF close_all(4)] by simp
  then show ?thesis
    unfolding close_all(1) using close_all op_frames(3) [OF close_all(3)]
    by (intro none_leaked_goto [OF assms(3)]) auto
qed (auto simp: allow_def CloseIdleConnections_def intro!: none_leaked_goto [OF assms(3)])

interpretation tp: invariant_rule pool_init pool_step pool_inv
proof unfold_locales
  show "pool_inv s" if "pool_init s" for s
    using that by (simp add: pool_init_def pool_inv_def newClusterTransportPool_def members_only_def
        holders_ok_def none_leaked_def)
  show "pool_inv t" if "pool_inv s" and "pool_step s t" for s t
    using that members_only_step holders_ok_step none_leaked_step by (auto simp: pool_inv_def)
qed

section \<open>Properties\<close>

text \<open>A state for the witnesses: one goroutine has created the transport of cluster c1.\<close>

definition c1_pool :: clusterTransportPool where
  "c1_pool = snd (getOrCreate_write ''c1'' (allow ''c1'' newClusterTransportPool))"

definition c1_state :: pool_state where
  "c1_state = \<lparr>ps_pool = c1_pool, ps_pc = (\<lambda>_. Idle)(0 := Holding ''c1'' (Some 0))\<rparr>"

lemma c1_pool_eq:
  "c1_pool = \<lparr>cp_allowed = [(''c1'', ())], cp_transports = [(''c1'', 0)], cp_made = [''c1''], cp_closed = []\<rparr>"
  by (simp add: c1_pool_def pool_defs newClusterTransportPool_def gget_def gput_def)

lemma c1_state_reachable: "reach pool_init pool_step c1_state"
proof -
  let ?s0 = "\<lparr>ps_pool = newClusterTransportPool, ps_pc = \<lambda>_. Idle\<rparr>"
  let ?s1 = "goto 0 Idle (allow ''c1'' (ps_pool ?s0)) ?s0"
  let ?s2 = "goto 0 (Missed ''c1'') (ps_pool ?s1) ?s1"
  let ?s3 = "goto 0 (Holding ''c1'' (Some 0)) c1_pool ?s2"
  have "reach pool_init pool_step ?s0"
    by (rule reach.start) (simp add: pool_init_def)
  moreover have "pool_step ?s0 ?s1"
    by (rule pool_step.allow) simp
  moreover have "pool_step ?s1 ?s2"
    by (rule pool_step.miss) (simp_all add: goto_def pool_defs newClusterTransportPool_def gm.get_put)
  moreover have "pool_step ?s2 ?s3"
    by (rule pool_step.create [of _ _ "''c1''"])
       (simp_all add: goto_def c1_pool_def pool_defs newClusterTransportPool_def gm.get_put)
  moreover have "?s3 = c1_state"
    by (simp add: goto_def c1_state_def)
  ultimately show ?thesis by (metis reach.step)
qed

text \<open>
  C5. Under every interleaving of requests, add-on events and shutdown, a transport that is
  cached or that a request holds was made for the very cluster it is used for, and a
  cluster has a cached transport only while it is a member of the pool.
\<close>

theorem transports_never_cross_clusters:
  assumes "reach pool_init pool_step s"
  shows "(case gget (cp_transports (ps_pool s)) c of
            None \<Rightarrow> True
          | Some t \<Rightarrow> pool_isAllowed (ps_pool s) c \<and> cp_made (ps_pool s) ! t = c) \<and>
         (case ps_pc s g of Holding d (Some t) \<Rightarrow> cp_made (ps_pool s) ! t = d | _ \<Rightarrow> True)"
  using tp.reach_inv [OF assms] members_onlyD [of "ps_pool s"]
  by (auto simp: pool_inv_def holders_ok_def pool_isAllowed_def split: option.splits pc.splits)

theorem transports_never_cross_clusters_witness:
  "pool_isAllowed (ps_pool c1_state) ''c1'' \<and> cp_made (ps_pool c1_state) ! 0 = ''c1''"
  using transports_never_cross_clusters [OF c1_state_reachable, of "''c1''" 0]
  by (simp add: c1_state_def c1_pool_eq gget_def)

text \<open>
  C39. No transport leaks: in every reachable state each transport ever made is cached, or has
  been told to close its idle connections, or some goroutine is about to tell it so. So when
  the pool has been emptied and nobody is closing any more, all have been closed.
\<close>

theorem no_transport_leaks:
  assumes "reach pool_init pool_step s" and "t < length (cp_made (ps_pool s))"
  shows "(t \<in> snd ` set (cp_transports (ps_pool s)) \<or> t \<in> set (cp_closed (ps_pool s)) \<or>
      (\<exists>g ts. ps_pc s g = Closing ts \<and> t \<in> set ts)) \<and>
    (cp_transports (ps_pool s) = [] \<and> (\<forall>g ts. ps_pc s g \<noteq> Closing ts) \<longrightarrow> t \<in> set (cp_closed (ps_pool s)))"
  using tp.reach_inv [OF assms(1)] assms(2)
  by (fastforce simp: pool_inv_def none_leaked_def)

theorem no_transport_leaks_witness:
  "0 \<in> set (cp_closed (ps_pool
     (goto 1 Idle (remove ''c1'' c1_pool) c1_state)))"
proof -
  let ?s = "goto 1 Idle (remove ''c1'' c1_pool) c1_state"
  let ?p = "snd (remove_locked ''c1'' c1_pool)"
  let ?s1 = "goto 1 (Closing [0]) ?p c1_state"
  let ?s2 = "goto 1 (Closing []) (CloseIdleConnections 0 ?p) ?s1"
  have "remove_locked ''c1'' c1_pool = (Some 0, ?p)"
    by (simp add: remove_locked_def c1_pool_eq gget_def Let_def)
  then have "pool_step c1_state ?s1"
    using pool_step.remove [of c1_state 1 "''c1''" "Some 0" ?p] by (simp add: c1_state_def)
  moreover have "pool_step ?s1 ?s2"
    using pool_step.close [of ?s1 1 0 "[]"] by (simp add: goto_def)
  moreover have "pool_step ?s2 (goto 1 Idle (CloseIdleConnections 0 ?p) ?s2)"
    using pool_step.closed [of ?s2 1] by (simp add: goto_def)
  moreover have "goto 1 Idle (CloseIdleConnections 0 ?p) ?s2 =
      goto 1 Idle (remove ''c1'' c1_pool) c1_state"
    by (simp add: goto_def remove_def remove_locked_def c1_pool_eq gget_def Let_def)
  ultimately have "reach pool_init pool_step ?s"
    using c1_state_reachable by (metis reach.step)
  moreover have "0 < length (cp_made (ps_pool ?s))" "cp_transports (ps_pool ?s) = []" "\<forall>g ts. ps_pc ?s g \<noteq> Closing ts"
    by (auto simp: goto_def remove_def remove_locked_def c1_pool_eq c1_state_def gget_def gdel_def
       CloseIdleConnections_def Let_def split: if_splits)
  ultimately show ?thesis using no_transport_leaks by blast
qed

text \<open>
  C6. Membership is rechecked under the lock: a request that obtains a transport, at whichever
  of the two regions of \<open>getOrCreate\<close> it gets it, obtains it for a cluster that is a member
  at that very moment, so after the deletion of the add-on has been processed no request
  can be handed a transport of the cluster, however the two interleave.
\<close>

theorem no_transport_after_removal:
  assumes "pool_step s s'" and "\<not> pool_isAllowed (ps_pool s) c"
    and "ps_pc s g = Idle \<or> ps_pc s g = Missed c" and "ps_pc s' g = Holding c r"
  shows "r = None"
  using assms(1)
proof cases
  case (hit g' d r')
  then show ?thesis
    using assms(2-4) by (cases "g' = g") (auto simp: goto_def getOrCreate_read_def pool_isAllowed_def
        split: if_splits)
next
  case (create g' d r' p)
  then show ?thesis
    using assms(2-4) by (cases "g' = g") (auto simp: goto_def getOrCreate_write_def pool_isAllowed_def
        split: if_splits)
qed (use assms(3,4) in \<open>auto simp: goto_def split: if_splits\<close>)

theorem no_transport_after_removal_witness:
  "fst (getOrCreate_write ''c1'' (remove ''c1'' c1_pool)) = None"
proof -
  obtain r p where w: "getOrCreate_write ''c1'' (remove ''c1'' c1_pool) = (r, p)"
    by fastforce
  let ?s = "\<lparr>ps_pool = remove ''c1'' c1_pool, ps_pc = (\<lambda>_. Idle)(0 := Missed ''c1'')\<rparr>"
  have "pool_step ?s (goto 0 (Holding ''c1'' r) p ?s)"
    by (rule pool_step.create [of _ _ "''c1''"]) (simp_all add: w)
  then have "r = None"
    by (rule no_transport_after_removal [of _ _ "''c1''" 0])
       (simp_all add: goto_def remove_def remove_locked_def c1_pool_eq pool_isAllowed_def
         CloseIdleConnections_def gget_def gdel_def Let_def)
  with w show ?thesis by simp
qed

text \<open>
  Requests to one cluster share one transport: a step of any goroutine leaves the cached
  transport of a cluster in place, unless it is the step that ends the membership of the
  cluster.
\<close>

theorem cached_transport_is_stable:
  assumes "pool_step s s'" and "gget (cp_transports (ps_pool s)) c = Some t"
  shows "gget (cp_transports (ps_pool s')) c = Some t \<or> \<not> pool_isAllowed (ps_pool s') c"
  using assms(1)
proof cases
  case (create g d r p)
  then show ?thesis
    using assms(2)
    by (auto simp: goto_def getOrCreate_write_def newTransport_def gm.get_put
        split: if_splits option.splits)
next
  case (remove g d r p)
  then show ?thesis
    using assms(2)
    by (auto simp: goto_def remove_locked_def Let_def gm.get_del pool_isAllowed_def split: if_splits)
next
  case (close_all g ts p us)
  then show ?thesis
    by (auto simp: goto_def closeAll_locked_def Let_def pool_isAllowed_def)
qed (use assms(2) in \<open>auto simp: goto_def allow_def CloseIdleConnections_def\<close>)

theorem cached_transport_is_stable_witness:
  "gget (cp_transports (allow ''c2'' c1_pool)) ''c1'' = Some 0"
proof -
  have "pool_step c1_state (goto 1 Idle (allow ''c2'' (ps_pool c1_state)) c1_state)"
    by (rule pool_step.allow) (simp add: c1_state_def)
  then show ?thesis
    using cached_transport_is_stable [of c1_state _ "''c1''" 0]
    by (auto simp: goto_def c1_state_def c1_pool_eq gget_def allow_def pool_isAllowed_def gput_def)
qed

text \<open>What the add-on events say of a cluster, in terms of the objects alone: the add-on \<open>cluster-proxy\<close> in the namespace of
  that name was seen, or it was deleted, as itself or as a tombstone that holds it. The last event that concerns the
  cluster decides.\<close>

fun membership :: "addon_event \<Rightarrow> string \<Rightarrow> bool option" where
  "membership (AddonAdded obj) c = (if obj = Addon ''cluster-proxy'' c \<and> c \<noteq> [] then Some True else None)"
| "membership (AddonUpdated old new) c = (if new = Addon ''cluster-proxy'' c \<and> c \<noteq> [] then Some True else None)"
| "membership (AddonDeleted obj) c =
     (if (obj = Addon ''cluster-proxy'' c \<or> obj = DeletedFinalStateUnknown (Addon ''cluster-proxy'' c)) \<and> c \<noteq> []
      then Some False else None)"

lemma addon_seen: "clusterProxyAddon obj = Some c \<longleftrightarrow> obj = Addon ''cluster-proxy'' c \<and> c \<noteq> []"
  by (cases obj) (auto simp: AddonName_def)

lemma addon_deleted: "deletedClusterProxyAddon obj = Some c \<longleftrightarrow>
    (obj = Addon ''cluster-proxy'' c \<or> obj = DeletedFinalStateUnknown (Addon ''cluster-proxy'' c)) \<and> c \<noteq> []"
proof (cases "clusterProxyAddon obj")
  case None
  then show ?thesis
    using addon_seen [of obj c] by (cases obj) (auto simp: deletedClusterProxyAddon_def addon_seen simp del: clusterProxyAddon.simps)
next
  case (Some d)
  then show ?thesis
    using addon_seen [of obj d] by (auto simp: deletedClusterProxyAddon_def simp del: clusterProxyAddon.simps)
qed

definition installed :: "addon_event list \<Rightarrow> string \<Rightarrow> bool" where
  "installed evs c =
     (case filter (\<lambda>v. v \<noteq> None) (map (\<lambda>ev. membership ev c) (rev evs)) of
        Some b # _ \<Rightarrow> b | _ \<Rightarrow> False)"

lemma remove_allowed: "cp_allowed (remove c p) = gdel c (cp_allowed p)"
  by (auto simp: remove_def remove_locked_def Let_def CloseIdleConnections_def split: option.splits)

lemma handler_membership:
  "pool_isAllowed (addon_handler ev p) c =
     (case membership ev c of Some b \<Rightarrow> b | None \<Rightarrow> pool_isAllowed p c)"
proof (cases ev)
  case (AddonDeleted obj)
  then show ?thesis
    by (cases "deletedClusterProxyAddon obj")
      (simp_all add: addon_deleted [symmetric] pool_isAllowed_def remove_allowed gm.get_del)
next
  case (AddonAdded obj)
  then show ?thesis
    by (cases "clusterProxyAddon obj") (simp_all add: addon_seen [symmetric] pool_isAllowed_def allow_def gm.get_put)
next
  case (AddonUpdated old obj)
  then show ?thesis
    by (cases "clusterProxyAddon obj") (simp_all add: addon_seen [symmetric] pool_isAllowed_def allow_def gm.get_put)
qed

text \<open>
  C40. Membership of the pool is exactly the set of clusters with the add-on: after any sequence
  of add-on events, a cluster is a member if and only if the last event about the
  \<open>cluster-proxy\<close> add-on of its namespace was not a deletion, also when the deletion was
  missed and arrives as a tombstone. Events about other add-ons change nothing.
\<close>

theorem membership_follows_addons:
  "pool_isAllowed (fold addon_handler evs newClusterTransportPool) c = installed evs c"
proof (induction evs rule: rev_induct)
  case Nil
  then show ?case by (simp add: pool_isAllowed_def newClusterTransportPool_def installed_def)
next
  case (snoc ev evs)
  then show ?case
    by (auto simp: handler_membership installed_def split: option.splits)
qed

end
