(* ===== verification/Http_Server.thy ===== *)
theory Http_Server
  imports Prelude
begin

text \<open>
  The life cycle of the HTTP servers of both proxies (pkg/utils/http_server.go): the drain
  configuration, the probe endpoints, and \<open>RunHTTPServers\<close> as a state machine whose own steps
  are the branches of its two \<open>select\<close> statements and of \<open>Shutdown\<close>, interleaved with the
  passing of time, arriving and finishing requests, the cancellation of the context and
  servers that start to listen and stop. Durations are in nanoseconds, as in Go's \<open>time\<close>.
\<close>

section \<open>Drain configuration\<close>

definition second :: int where
  "second = 1000000000"

definition DefaultDrainTimeout :: int where
  "DefaultDrainTimeout = 30 * second"

definition DefaultMinDrainDuration :: int where
  "DefaultMinDrainDuration = 10 * second"

record DrainConfig =
  dc_Timeout :: int
  dc_MinDuration :: int

datatype drain_error = NegativeTimeout | NegativeMinDuration | MinExceedsTimeout

definition drain_Validate :: "DrainConfig \<Rightarrow> drain_error option" where
  "drain_Validate c =
     (if dc_Timeout c < 0 then Some NegativeTimeout
      else if dc_MinDuration c < 0 then Some NegativeMinDuration
      else if dc_MinDuration c > dc_Timeout c then Some MinExceedsTimeout
      else None)"

text \<open>The flags that are given on the command line override the defaults.\<close>

definition drain_AddFlags :: "int option \<Rightarrow> int option \<Rightarrow> DrainConfig" where
  "drain_AddFlags drain_timeout min_drain_duration =
     \<lparr>dc_Timeout = (case drain_timeout of None \<Rightarrow> DefaultDrainTimeout | Some d \<Rightarrow> d),
      dc_MinDuration = (case min_drain_duration of None \<Rightarrow> DefaultMinDrainDuration | Some d \<Rightarrow> d)\<rparr>"

section \<open>Probes\<close>

text \<open>A check is represented by its result; the loop registers the custom checks under
  numbered names.\<close>

definition check_name :: "nat \<Rightarrow> string" where
  "check_name i = ''custom-healthz-checker-'' @ itoa (int i)"

fun register_checks ::
  "nat \<Rightarrow> go_error option list \<Rightarrow> (string, go_error option) gmap \<Rightarrow> (string, go_error option) gmap" where
  "register_checks i [] checks = checks"
| "register_checks i (check # rest) checks =
     register_checks (Suc i) rest (gput (check_name i) check checks)"

record HealthProbeServer =
  hp_ready :: bool
  hp_checks :: "(string, go_error option) gmap"

definition NewHealthProbeServer :: "go_error option list \<Rightarrow> HealthProbeServer" where
  "NewHealthProbeServer customChecks =
     \<lparr>hp_ready = True, hp_checks = register_checks 0 customChecks [(''healthz-ping'', None)]\<rparr>"

definition SetReady :: "bool \<Rightarrow> HealthProbeServer \<Rightarrow> HealthProbeServer" where
  "SetReady ready s = s\<lparr>hp_ready := ready\<rparr>"

definition readyz :: "HealthProbeServer \<Rightarrow> nat \<times> string" where
  "readyz s = (if \<not> hp_ready s then (503, ''draining'') else (200, []))"

text \<open>The aggregated handler of controller-runtime, with the checks the request excludes.\<close>

definition healthz :: "string list \<Rightarrow> HealthProbeServer \<Rightarrow> nat" where
  "healthz excluded s =
     (if list_ex (\<lambda>(name, result). name \<notin> set excluded \<and> result \<noteq> None) (hp_checks s)
      then 500 else 200)"

section \<open>Running the servers\<close>

record httpServerResult =
  sr_health :: bool
  sr_err :: "go_error option"

definition wrap :: "string \<Rightarrow> go_error \<Rightarrow> go_error" where
  "wrap msg err = Wrapped (msg @ error_text err) err"

definition unexpectedServerError :: "httpServerResult \<Rightarrow> go_error" where
  "unexpectedServerError result =
     (case sr_err result of
        None \<Rightarrow> ErrorText ''HTTP server stopped unexpectedly''
      | Some err \<Rightarrow>
          if sr_health result then wrap ''health probe HTTP server failed: '' err
          else wrap ''public proxy HTTP server failed: '' err)"

text \<open>What \<open>Server.Shutdown\<close> returns, and the final \<open>switch\<close>.\<close>

datatype shutdown_result = ShutdownNil | ShutdownDeadlineExceeded | ShutdownErr go_error

fun drain_result :: "shutdown_result \<Rightarrow> go_error option" where
  "drain_result ShutdownNil = None"
| "drain_result ShutdownDeadlineExceeded = None"
| "drain_result (ShutdownErr err) = Some (wrap ''drain public proxy HTTP requests: '' err)"

datatype phase = Serving | MinDrain | ShuttingDown | Returned "go_error option"

text \<open>The goroutine of the public server: it has not bound its address yet, it listens, or \<open>servePublic\<close> has returned.\<close>

datatype public_server = PublicStarting | PublicListening | PublicStopped

record run_state =
  rs_phase :: phase
  rs_health :: HealthProbeServer
  rs_now :: int
  rs_cancelled :: bool
  rs_public :: public_server
  rs_probe :: bool
  rs_results :: "httpServerResult list"
  rs_drain_start :: int
  rs_shutdown :: bool
  rs_accepting :: bool
  rs_active :: nat

text \<open>The call of \<open>RunHTTPServers\<close> at time \<open>now\<close>: with the context cancelled already no server is started,
  otherwise both goroutines are.\<close>

definition RunHTTPServers :: "HealthProbeServer \<Rightarrow> int \<Rightarrow> bool \<Rightarrow> run_state" where
  "RunHTTPServers health now cancelled =
     (let s = \<lparr>rs_phase = Serving, rs_health = health, rs_now = now, rs_cancelled = cancelled,
               rs_public = PublicStarting, rs_probe = True, rs_results = [], rs_drain_start = now,
               rs_shutdown = False, rs_accepting = False, rs_active = 0\<rparr>
      in if cancelled
         then s\<lparr>rs_health := SetReady False health, rs_phase := Returned None, rs_public := PublicStopped, rs_probe := False\<rparr>
         else s)"

text \<open>The code after the first \<open>select\<close> up to the second one: readiness goes, the drain context
  starts, and \<open>Shutdown\<close>, which closes the listener, follows at once when there is no minimum duration.\<close>

definition begin_shutdown :: "run_state \<Rightarrow> run_state" where
  "begin_shutdown s = s\<lparr>rs_phase := ShuttingDown, rs_shutdown := True, rs_accepting := False\<rparr>"

definition begin_drain :: "DrainConfig \<Rightarrow> run_state \<Rightarrow> run_state" where
  "begin_drain c s =
     (let s = s\<lparr>rs_health := SetReady False (rs_health s), rs_drain_start := rs_now s\<rparr>
      in if dc_MinDuration c > 0 then s\<lparr>rs_phase := MinDrain\<rparr> else begin_shutdown s)"

text \<open>A receive from the channel of server results.\<close>

definition server_stopped :: "httpServerResult \<Rightarrow> httpServerResult list \<Rightarrow> run_state \<Rightarrow> run_state" where
  "server_stopped result rest s =
     s\<lparr>rs_phase := Returned (Some (unexpectedServerError result)), rs_results := rest\<rparr>"

text \<open>The steps of the function itself.\<close>

inductive own_step :: "DrainConfig \<Rightarrow> run_state \<Rightarrow> run_state \<Rightarrow> bool"
  for c where
  serving_cancelled: "rs_phase s = Serving \<Longrightarrow> rs_cancelled s \<Longrightarrow> own_step c s (begin_drain c s)"
| serving_stopped: "rs_phase s = Serving \<Longrightarrow> rs_results s = r # rest \<Longrightarrow>
    own_step c s (server_stopped r rest s)"
| timer_fires: "rs_phase s = MinDrain \<Longrightarrow> rs_drain_start s + dc_MinDuration c \<le> rs_now s \<Longrightarrow>
    own_step c s (begin_shutdown s)"
| drain_stopped: "rs_phase s = MinDrain \<Longrightarrow> rs_results s = r # rest \<Longrightarrow>
    own_step c s (server_stopped r rest s)"
| shutdown_idle: "rs_phase s = ShuttingDown \<Longrightarrow> rs_active s = 0 \<Longrightarrow>
    own_step c s (s\<lparr>rs_phase := Returned (drain_result ShutdownNil)\<rparr>)"
| shutdown_deadline: "rs_phase s = ShuttingDown \<Longrightarrow> rs_drain_start s + dc_Timeout c \<le> rs_now s \<Longrightarrow>
    own_step c s (s\<lparr>rs_phase := Returned (drain_result ShutdownDeadlineExceeded)\<rparr>)"
| shutdown_error: "rs_phase s = ShuttingDown \<Longrightarrow> rs_active s = 0 \<Longrightarrow>
    own_step c s (s\<lparr>rs_phase := Returned (drain_result (ShutdownErr e))\<rparr>)"

text \<open>The steps of everybody else: the clock, the context, the two server goroutines and the clients. A server whose
  \<open>Shutdown\<close> was called does not begin to listen; one that returns has closed its listener and sends its result.\<close>

inductive env_step :: "run_state \<Rightarrow> run_state \<Rightarrow> bool" where
  tick: "0 \<le> d \<Longrightarrow> env_step s (s\<lparr>rs_now := rs_now s + d\<rparr>)"
| cancel: "env_step s (s\<lparr>rs_cancelled := True\<rparr>)"
| public_listens: "rs_public s = PublicStarting \<Longrightarrow> \<not> rs_shutdown s \<Longrightarrow>
    env_step s (s\<lparr>rs_public := PublicListening, rs_accepting := True\<rparr>)"
| public_returns: "rs_public s \<noteq> PublicStopped \<Longrightarrow>
    env_step s (s\<lparr>rs_public := PublicStopped, rs_accepting := False,
      rs_results := rs_results s @ [\<lparr>sr_health = False, sr_err = e\<rparr>]\<rparr>)"
| probe_returns: "rs_probe s \<Longrightarrow>
    env_step s (s\<lparr>rs_probe := False, rs_results := rs_results s @ [\<lparr>sr_health = True, sr_err = e\<rparr>]\<rparr>)"
| request: "rs_accepting s \<Longrightarrow> env_step s (s\<lparr>rs_active := rs_active s + 1\<rparr>)"
| request_done: "rs_active s > 0 \<Longrightarrow> env_step s (s\<lparr>rs_active := rs_active s - 1\<rparr>)"

definition run_step :: "DrainConfig \<Rightarrow> run_state \<Rightarrow> run_state \<Rightarrow> bool" where
  "run_step c s t \<longleftrightarrow> own_step c s t \<or> env_step s t"

definition run_init :: "run_state \<Rightarrow> bool" where
  "run_init s \<longleftrightarrow> (\<exists>checks now cancelled. s = RunHTTPServers (NewHealthProbeServer checks) now cancelled)"

section \<open>The invariant of the drain\<close>

text \<open>Readiness goes first, a listening server accepts until \<open>Shutdown\<close> is called, the minimum duration after that, and a
  clean return leaves active requests behind only after the timeout. (A finished function
  has no further control over its requests, so the last clause looks at the listener.)\<close>

definition run_inv :: "DrainConfig \<Rightarrow> run_state \<Rightarrow> bool" where
  "run_inv c s \<longleftrightarrow>
     (rs_shutdown s \<longrightarrow> \<not> hp_ready (rs_health s) \<and> rs_cancelled s \<and> rs_drain_start s + dc_MinDuration c \<le> rs_now s) \<and>
     (rs_accepting s \<longleftrightarrow> rs_public s = PublicListening \<and> \<not> rs_shutdown s) \<and>
     (rs_phase s = Serving \<longrightarrow> hp_ready (rs_health s) \<and> \<not> rs_shutdown s) \<and>
     (rs_phase s = MinDrain \<longrightarrow> \<not> hp_ready (rs_health s) \<and> rs_cancelled s \<and> \<not> rs_shutdown s) \<and>
     (rs_phase s = ShuttingDown \<longrightarrow> rs_shutdown s) \<and>
     (rs_phase s = Returned None \<longrightarrow> rs_cancelled s \<and> (rs_shutdown s \<or> rs_public s = PublicStopped) \<and>
        (rs_active s = 0 \<or> rs_drain_start s + dc_Timeout c \<le> rs_now s))"

inductive_cases own_step_cases: "own_step c s t"
inductive_cases env_step_cases: "env_step s t"

lemmas run_defs = begin_drain_def begin_shutdown_def server_stopped_def SetReady_def Let_def

lemma run_inv_init: "run_init s \<Longrightarrow> run_inv c s"
  by (auto simp: run_init_def RunHTTPServers_def NewHealthProbeServer_def SetReady_def run_inv_def Let_def
      split: if_splits)

lemma own_inv_step: "own_step c s t \<Longrightarrow> run_inv c s \<Longrightarrow> run_inv c t"
  by (erule own_step_cases; simp add: run_inv_def run_defs; fastforce)

lemma env_inv_step: "env_step s t \<Longrightarrow> run_inv c s \<Longrightarrow> run_inv c t"
  by (erule env_step_cases; simp add: run_inv_def; fastforce)

interpretation run: invariant_rule run_init "run_step c" "run_inv c" for c
  using run_inv_init own_inv_step env_inv_step by unfold_locales (auto simp: run_step_def)

section \<open>Properties\<close>

text \<open>Who closes an open listener: the server itself, when it stops, or the function, by shutting it down.\<close>

lemma listener_closed_by:
  assumes "run_step c s t" and "rs_accepting s" and "\<not> rs_accepting t"
  shows "rs_public t = PublicStopped \<or> rs_shutdown t"
  using assms unfolding run_step_def
  by (auto elim!: own_step_cases env_step_cases simp: run_defs split: if_splits)

text \<open>
  C28. Order of a planned shutdown, in every reachable state of \<open>RunHTTPServers\<close>. The public server is shut
  down only after its context was cancelled, readiness has been withdrawn and the minimum drain duration has passed
  since, so that endpoints have had this time to be deprogrammed. Until then the function leaves the listener alone: a public
  server that listens accepts requests as long as the readiness probe reports ready and during the minimum drain duration, and an
  open listener is closed only when the public server stops by itself or by that shutdown.
\<close>

theorem readiness_goes_before_shutdown:
  assumes "reach run_init (run_step c) s"
  shows "(rs_shutdown s \<longrightarrow>
      fst (readyz (rs_health s)) = 503 \<and> rs_cancelled s \<and> rs_drain_start s + dc_MinDuration c \<le> rs_now s) \<and>
    (rs_public s = PublicListening \<and> (fst (readyz (rs_health s)) = 200 \<or> rs_phase s = MinDrain) \<longrightarrow> rs_accepting s) \<and>
    (run_step c s t \<and> rs_accepting s \<and> \<not> rs_accepting t \<longrightarrow>
      rs_public t = PublicStopped \<or>
      fst (readyz (rs_health t)) = 503 \<and> rs_cancelled t \<and> rs_drain_start t + dc_MinDuration c \<le> rs_now t)"
proof -
  note s = run.reach_inv [OF assms]
  have t: "run_inv c t" if "run_step c s t" using run.step_inv [OF s that] .
  show ?thesis
    using s t listener_closed_by [of c s t] by (auto simp: run_inv_def readyz_def)
qed

definition sample_config :: DrainConfig where
  "sample_config = \<lparr>dc_Timeout = 0, dc_MinDuration = 0\<rparr>"

definition sample_start :: run_state where
  "sample_start = RunHTTPServers (NewHealthProbeServer []) 0 False"

definition sample_draining :: run_state where
  "sample_draining = begin_drain sample_config (sample_start\<lparr>rs_cancelled := True\<rparr>)"

lemma sample_reach:
  "reach run_init (run_step sample_config) (sample_start\<lparr>rs_cancelled := True\<rparr>)"
  "reach run_init (run_step sample_config) sample_draining"
proof -
  have "reach run_init (run_step sample_config) sample_start"
    by (rule reach.start) (auto simp: run_init_def sample_start_def)
  moreover have "run_step sample_config sample_start (sample_start\<lparr>rs_cancelled := True\<rparr>)"
    unfolding run_step_def using env_step.cancel by blast
  ultimately show 1: "reach run_init (run_step sample_config) (sample_start\<lparr>rs_cancelled := True\<rparr>)"
    by (rule reach.step)
  have "own_step sample_config (sample_start\<lparr>rs_cancelled := True\<rparr>) sample_draining"
    unfolding sample_draining_def
    by (rule own_step.serving_cancelled) (simp_all add: sample_start_def RunHTTPServers_def)
  then show "reach run_init (run_step sample_config) sample_draining"
    using reach.step [OF 1] by (simp add: run_step_def)
qed

theorem readiness_goes_before_shutdown_witness:
  "rs_shutdown sample_draining \<and> fst (readyz (rs_health sample_draining)) = 503 \<and>
   rs_drain_start sample_draining + 0 \<le> rs_now sample_draining"
  using readiness_goes_before_shutdown [OF sample_reach(2)]
  by (simp add: sample_draining_def sample_config_def run_defs)

text \<open>
  A clean return is a drained one: \<open>RunHTTPServers\<close> returns nil only after its context was
  cancelled, with the listener closed, and with requests still active only if the drain
  timeout has expired since readiness was withdrawn.
\<close>

theorem clean_return_is_drained:
  assumes "reach run_init (run_step c) s" and "rs_phase s = Returned None"
  shows "rs_cancelled s \<and> \<not> rs_accepting s \<and>
    (if rs_active s = 0 then True else rs_drain_start s + dc_Timeout c \<le> rs_now s)"
  using run.reach_inv [OF assms(1)] assms(2) by (auto simp: run_inv_def)

theorem clean_return_is_drained_witness:
  "rs_cancelled (sample_draining\<lparr>rs_phase := Returned None\<rparr>) \<and>
   \<not> rs_accepting (sample_draining\<lparr>rs_phase := Returned None\<rparr>)"
proof -
  have "own_step sample_config sample_draining (sample_draining\<lparr>rs_phase := Returned (drain_result ShutdownNil)\<rparr>)"
    by (rule own_step.shutdown_idle)
       (simp_all add: sample_draining_def sample_start_def RunHTTPServers_def sample_config_def run_defs)
  then have "reach run_init (run_step sample_config) (sample_draining\<lparr>rs_phase := Returned None\<rparr>)"
    using reach.step [OF sample_reach(2)] by (simp add: run_step_def)
  then show ?thesis
    using clean_return_is_drained [of sample_config "sample_draining\<lparr>rs_phase := Returned None\<rparr>"]
    by simp
qed

text \<open>A drain whose deadline has passed, and what the function can still do in it: each own step brings it nearer to
  its return, changes neither the time nor the requests, and there is one until it has returned.\<close>

definition overdue :: "DrainConfig \<Rightarrow> run_state \<Rightarrow> bool" where
  "overdue c s \<longleftrightarrow> rs_phase s \<in> {MinDrain, ShuttingDown} \<and> rs_drain_start s + dc_Timeout c \<le> rs_now s"

fun rank :: "phase \<Rightarrow> nat" where
  "rank Serving = 3"
| "rank MinDrain = 2"
| "rank ShuttingDown = 1"
| "rank (Returned r) = 0"

lemma own_step_rank: "own_step c s t \<Longrightarrow> rank (rs_phase t) < rank (rs_phase s)"
  by (auto elim!: own_step_cases simp: run_defs)

lemma own_steps_rank: "(own_step c ^^ n) s t \<Longrightarrow> rank (rs_phase t) + n \<le> rank (rs_phase s)"
proof (induction n arbitrary: t)
  case (Suc n)
  then obtain u where "(own_step c ^^ n) s u" "own_step c u t" by auto
  then show ?case using Suc.IH [of u] own_step_rank [of c u t] by linarith
qed simp

lemma overdue_step:
  assumes "overdue c s" and "own_step c s t"
  shows "rs_now t = rs_now s \<and> rs_active t = rs_active s \<and>
    (overdue c t \<and> rs_results t = rs_results s \<or>
     (\<exists>r. rs_phase t = Returned r \<and> (rs_results s = [] \<and> 0 < rs_active s \<longrightarrow> r = None)))"
  using assms(2,1) by cases (auto simp: overdue_def run_defs)

lemma overdue_progress:
  assumes "overdue c s" and "drain_Validate c = None"
  shows "\<exists>t. own_step c s t"
proof -
  have "dc_MinDuration c \<le> dc_Timeout c" using assms(2) by (auto simp: drain_Validate_def split: if_splits)
  then show ?thesis
    using assms(1) own_step.timer_fires [of s c] own_step.shutdown_deadline [of s c] by (force simp: overdue_def)
qed

text \<open>
  C38. A shutdown finishes in time, however many requests stay active. With a configuration that passed validation, once
  the drain timeout has passed since the drain began, \<open>RunHTTPServers\<close> returns whatever the clients do: its own steps, at
  most two of them, lead to its return in every schedule, without waiting for time to pass or for a request to finish; and
  while both servers are up and requests are active, what it returns is nil. The drain begins as soon as the context is
  cancelled: from then on the function waits for nothing before it withdraws readiness.
\<close>

theorem shutdown_finishes_in_time:
  assumes "drain_Validate c = None"
  shows "(rs_phase s \<in> {MinDrain, ShuttingDown} \<and> rs_drain_start s + dc_Timeout c \<le> rs_now s \<longrightarrow>
      \<not> (own_step c ^^ 3) s u \<and>
      ((own_step c)\<^sup>*\<^sup>* s t \<and> \<not> (\<exists>t'. own_step c t t') \<longrightarrow>
        rs_now t = rs_now s \<and> rs_active t = rs_active s \<and>
        (\<exists>r. rs_phase t = Returned r \<and> (rs_results s = [] \<and> 0 < rs_active s \<longrightarrow> r = None)))) \<and>
    (rs_phase s = Serving \<and> rs_cancelled s \<longrightarrow>
      (\<exists>v. own_step c s v) \<and>
      (own_step c s t \<and> rs_results s = [] \<longrightarrow>
        rs_phase t \<in> {MinDrain, ShuttingDown} \<and> rs_drain_start t = rs_now s \<and> fst (readyz (rs_health t)) = 503))"
proof (intro conjI impI)
  assume "rs_phase s \<in> {MinDrain, ShuttingDown} \<and> rs_drain_start s + dc_Timeout c \<le> rs_now s"
  then have over: "overdue c s" by (simp add: overdue_def)
  show "\<not> (own_step c ^^ 3) s u"
    using own_steps_rank [of 3 c s u] over by (auto simp: overdue_def)
  assume "(own_step c)\<^sup>*\<^sup>* s t \<and> \<not> (\<exists>t'. own_step c t t')"
  then have run: "(own_step c)\<^sup>*\<^sup>* s t" and stuck: "\<not> (\<exists>t'. own_step c t t')" by auto
  from run have "rs_now t = rs_now s \<and> rs_active t = rs_active s \<and>
      (overdue c t \<and> rs_results t = rs_results s \<or>
       (\<exists>r. rs_phase t = Returned r \<and> (rs_results s = [] \<and> 0 < rs_active s \<longrightarrow> r = None)))"
  proof (induction rule: rtranclp_induct)
    case (step y z)
    have "overdue c y" "rs_results y = rs_results s"
      using step.IH step.hyps(2) by (auto elim: own_step_cases)
    then show ?case using step.IH overdue_step [OF _ step.hyps(2)] by simp
  qed (use over in simp)
  then show "rs_now t = rs_now s" "rs_active t = rs_active s"
    "\<exists>r. rs_phase t = Returned r \<and> (rs_results s = [] \<and> 0 < rs_active s \<longrightarrow> r = None)"
    using overdue_progress [OF _ assms] stuck by blast+
next
  assume serving: "rs_phase s = Serving \<and> rs_cancelled s"
  then show "\<exists>v. own_step c s v" using own_step.serving_cancelled by blast
  assume "own_step c s t \<and> rs_results s = []"
  then have "t = begin_drain c s" using serving by (auto elim: own_step_cases)
  then show "rs_phase t \<in> {MinDrain, ShuttingDown}" "rs_drain_start t = rs_now s" "fst (readyz (rs_health t)) = 503"
    by (simp_all add: run_defs readyz_def)
qed

text \<open>A drain with three requests that never finish, at its deadline.\<close>

definition sample_overdue :: run_state where
  "sample_overdue = (begin_shutdown (sample_start\<lparr>rs_cancelled := True\<rparr>))\<lparr>rs_active := 3, rs_now := 30\<rparr>"

theorem shutdown_finishes_in_time_witness:
  "\<exists>t. (own_step \<lparr>dc_Timeout = 30, dc_MinDuration = 10\<rparr>)\<^sup>*\<^sup>* sample_overdue t \<and>
     rs_phase t = Returned None \<and> rs_now t = 30 \<and> rs_active t = 3"
proof -
  let ?c = "\<lparr>dc_Timeout = 30, dc_MinDuration = 10\<rparr>"
  let ?t = "sample_overdue\<lparr>rs_phase := Returned None\<rparr>"
  have over: "rs_phase sample_overdue \<in> {MinDrain, ShuttingDown} \<and> rs_drain_start sample_overdue + dc_Timeout ?c \<le> rs_now sample_overdue"
    "rs_results sample_overdue = []" "rs_active sample_overdue = 3" "rs_now sample_overdue = 30"
    "rs_phase sample_overdue = ShuttingDown"
    by (simp_all add: sample_overdue_def begin_shutdown_def sample_start_def RunHTTPServers_def)
  have step: "own_step ?c sample_overdue ?t"
    using own_step.shutdown_deadline [of sample_overdue ?c] over by simp
  have stuck: "\<not> (\<exists>t'. own_step ?c ?t t')" by (auto elim: own_step_cases)
  have run: "(own_step ?c)\<^sup>*\<^sup>* sample_overdue ?t" using step by (rule r_into_rtranclp)
  have "drain_Validate ?c = None" by (simp add: drain_Validate_def)
  from shutdown_finishes_in_time [OF this, of sample_overdue _ ?t] over run stuck
  have "\<exists>r. rs_phase ?t = Returned r \<and> (rs_results sample_overdue = [] \<and> 0 < rs_active sample_overdue \<longrightarrow> r = None)"
    "rs_now ?t = rs_now sample_overdue" "rs_active ?t = rs_active sample_overdue"
    by blast+
  then show ?thesis using run over by (intro exI [of _ ?t]) simp
qed

lemma check_name_inj [simp]: "check_name i = check_name j \<longleftrightarrow> i = j"
proof
  assume "check_name i = check_name j"
  then have "nat_to_dec i = nat_to_dec j"
    by (simp add: check_name_def itoa_def)
  then show "i = j"
    by (metis dec_val_nat_to_dec)
qed simp

lemma check_name_ping [simp]: "check_name i \<noteq> ''healthz-ping''"
  by (simp add: check_name_def)

lemma gput_fresh: "k \<notin> fst ` set m \<Longrightarrow> gput k v m = m @ [(k, v)]"
  unfolding gput_def by (induction m) auto

lemma register_checks_set:
  assumes "\<And>j. i \<le> j \<Longrightarrow> check_name j \<notin> fst ` set m"
  shows "set (register_checks i cs m) =
    set m \<union> (\<lambda>k. (check_name (i + k), cs ! k)) ` {..<length cs}"
  using assms
proof (induction cs arbitrary: i m)
  case (Cons c cs)
  let ?m = "m @ [(check_name i, c)]"
  have m: "gput (check_name i) c m = ?m"
    using Cons.prems [of i] by (simp add: gput_fresh)
  have fresh: "check_name j \<notin> fst ` set ?m" if "Suc i \<le> j" for j
    using that Cons.prems [of j] by auto
  have IH: "set (register_checks (Suc i) cs ?m) =
      set ?m \<union> (\<lambda>k. (check_name (Suc i + k), cs ! k)) ` {..<length cs}"
    using fresh by (rule Cons.IH)
  have "(\<lambda>k. (check_name (i + k), (c # cs) ! k)) ` {..<Suc (length cs)} =
      insert (check_name i, c) ((\<lambda>k. (check_name (Suc i + k), cs ! k)) ` {..<length cs})"
    unfolding lessThan_Suc_eq_insert_0 image_insert image_image by simp
  then show ?case
    unfolding register_checks.simps(2) m IH length_Cons by simp
qed simp

text \<open>
  No check is lost in the map of the probe server: without exclusions the liveness endpoint
  answers 200 if every custom check passes and 500 if any fails, in any number and order;
  the generated names clash neither with each other nor with the ping check.
\<close>

theorem liveness_runs_every_check:
  "healthz [] (NewHealthProbeServer checks) = (if list_all (\<lambda>r. r = None) checks then 200 else 500)"
proof -
  have s: "set (register_checks 0 checks [(''healthz-ping'', None)]) =
      {(''healthz-ping'', None)} \<union> (\<lambda>k. (check_name k, checks ! k)) ` {..<length checks}"
    by (subst register_checks_set) auto
  have "list_ex (\<lambda>(name, r). r \<noteq> None) (register_checks 0 checks [(''healthz-ping'', None)]) \<longleftrightarrow>
      (\<exists>k < length checks. checks ! k \<noteq> None)"
    unfolding list_ex_iff s by auto
  then show ?thesis
    by (simp add: healthz_def NewHealthProbeServer_def list_all_length)
qed

end
