(* ===== verification/Reverse_Proxy.thy ===== *)
theory Reverse_Proxy
  imports Go_Http Go_Url
begin

text \<open>
  \<open>httputil.NewSingleHostReverseProxy\<close> as both proxies use it: the URL rewriting of its
  director, then the header rewriting of \<^theory_text>\<open>Go_Http\<close>. The result is the request that is
  handed to the transport, or \<open>None\<close> when the proxy's error handler answers instead. The
  lemmas show that what the target decodes from the wire is the path that was joined.
\<close>

record proxied =
  out_method :: string
  out_scheme :: string
  out_host :: string
  out_path :: string
  out_raw_path :: string
  out_raw_query :: string
  out_header :: header

definition rewrite_query :: "string \<Rightarrow> string \<Rightarrow> string" where
  "rewrite_query target_query query =
     (if target_query = [] \<or> query = [] then target_query @ query
      else target_query @ ''&'' @ query)"

definition single_host_reverse_proxy :: "url \<Rightarrow> http_request \<Rightarrow> proxied option" where
  "single_host_reverse_proxy target req =
     (case join_url_path (u_path target, u_raw_path target) (url_path req, url_raw_path req) of
        (p, raw) \<Rightarrow>
          (case reverse_proxy_header (remote_ip req) (req_header req) of
             None \<Rightarrow> None
           | Some h \<Rightarrow>
               Some \<lparr>out_method = req_method req, out_scheme = u_scheme target, out_host = u_host target,
                     out_path = p, out_raw_path = raw,
                     out_raw_query = rewrite_query (u_raw_query target) (url_raw_query req),
                     out_header = h\<rparr>))"

text \<open>The path on the request line.\<close>

definition wire_path :: "proxied \<Rightarrow> string" where
  "wire_path out =
     (let p = escaped_path (out_raw_path out) (out_path out) in if p = [] then ''/'' else p)"

text \<open>The request that the next server reads from the wire (\<open>http.ReadRequest\<close>), with the
  address \<open>ip\<close> of the connection: path decoded, raw form kept where it is not the default.\<close>

definition request_uri_of :: "proxied \<Rightarrow> string" where
  "request_uri_of out =
     wire_path out @ (if out_raw_query out = [] then [] else ''?'' @ out_raw_query out)"

definition received :: "string option \<Rightarrow> proxied \<Rightarrow> http_request option" where
  "received ip out =
     (case unescape False (wire_path out) of
        Inl e \<Rightarrow> None
      | Inr d \<Rightarrow>
          Some \<lparr>req_method = out_method out, request_uri = request_uri_of out, url_path = d,
                url_raw_path = (if escape_path d = wire_path out then [] else wire_path out),
                url_raw_query = out_raw_query out, req_header = out_header out, remote_ip = ip\<rparr>)"

section \<open>Escaping round trip\<close>

lemma upper_hex_is_hex: "d < 16 \<Longrightarrow> is_hex (upper_hex d)"
  by (auto simp: is_hex_def upper_hex_def is_digit_def)

lemma unhex_upper_hex: "d < 16 \<Longrightarrow> unhex (upper_hex d) = d"
  by (auto simp: unhex_def upper_hex_def is_digit_def is_lower_def)

lemma unescape_escape_char:
  assumes "unescape False s = Inr r"
  shows "unescape False (escape_char c @ s) = Inr (c # r)"
proof (cases "is_alnum c \<or> c \<in> set path_marks")
  case True
  then have "c \<noteq> CHR ''%''"
    by (auto simp: is_alnum_def is_letter_def is_upper_def is_lower_def is_digit_def path_marks_def)
  with True assms show ?thesis by (simp add: escape_char_def)
next
  case False
  have n: "(of_char c :: nat) div 16 < 16" "(of_char c :: nat) mod 16 < 16"
    by (auto intro: less_mult_imp_div_less)
  have "16 * ((of_char c :: nat) div 16) + of_char c mod 16 = of_char c"
    by simp
  then have "char_of (16 * unhex (upper_hex ((of_char c :: nat) div 16)) +
      unhex (upper_hex ((of_char c :: nat) mod 16))) = c"
    by (simp add: unhex_upper_hex [OF n(1)] unhex_upper_hex [OF n(2)])
  with False assms n show ?thesis
    by (simp add: escape_char_def upper_hex_is_hex)
qed

lemma unescape_escape_path: "unescape False (escape_path p) = Inr p"
proof (induction p)
  case (Cons c p)
  have "escape_path (c # p) = escape_char c @ escape_path p"
    by (simp add: escape_path_def)
  with unescape_escape_char [OF Cons.IH] show ?case by simp
qed simp

lemma escaped_path_decodes: "unescape False (escaped_path raw p) = Inr p"
  by (simp add: escaped_path_def unescape_escape_path)

lemma escape_path_eq_Nil [simp]: "escape_path p = [] \<longleftrightarrow> p = []"
  by (cases p) (auto simp: escape_path_def escape_char_def)

lemma unescape_Cons: "unescape host (c # cs) \<noteq> Inr []"
proof (cases "c = CHR ''%''")
  case True
  then show ?thesis
    by (cases cs rule: remdups_adj.cases) (auto split: sum.splits)
next
  case False
  then show ?thesis by (simp split: sum.splits)
qed

lemma unescape_Nil: "unescape host raw = Inr [] \<longleftrightarrow> raw = []"
  using unescape_Cons [of host] by (cases raw) auto

lemma escaped_path_eq_Nil [simp]: "escaped_path raw p = [] \<longleftrightarrow> p = []"
  using unescape_Nil [of False raw] by (auto simp: escaped_path_def)

lemma wire_path_decodes: "out_path out \<noteq> [] \<Longrightarrow> unescape False (wire_path out) = Inr (out_path out)"
  by (simp add: wire_path_def Let_def escaped_path_decodes)

text \<open>Joined to a target without a path of its own, a path that does not start with a slash
  gets one.\<close>

lemma escape_path_slash: "has_prefix (escape_path p) ''/'' \<longleftrightarrow> has_prefix p ''/''"
proof (cases p)
  case (Cons c s)
  have "CHR ''/'' \<in> set path_marks" by (simp add: path_marks_def)
  with Cons show ?thesis
    by (auto simp: has_prefix_def escape_path_def escape_char_def)
qed (simp add: has_prefix_def)

lemma join_empty_target:
  "join_url_path ([], []) (p, []) = ((if has_prefix p ''/'' then p else CHR ''/'' # p), [])"
  by (simp add: join_url_path_def single_joining_slash_def Let_def)

lemma join_empty_target_not_Nil: "fst (join_url_path ([], []) b) \<noteq> []"
proof (cases "snd b = []")
  case True
  then show ?thesis
    by (cases b) (auto simp: join_empty_target has_prefix_def)
next
  case False
  have "escaped_path [] [] = []" by simp
  moreover have "fst b \<noteq> []" if "has_prefix (escaped_path (snd b) (fst b)) ''/''"
  proof
    assume "fst b = []"
    then have "escaped_path (snd b) (fst b) = []" by simp
    with that show False by (simp add: has_prefix_def)
  qed
  ultimately show ?thesis
    using False by (auto simp: join_url_path_def Let_def)
qed

lemma proxied_header:
  "single_host_reverse_proxy target req = Some out \<Longrightarrow>
   reverse_proxy_header (remote_ip req) (req_header req) = Some (out_header out) \<and>
   out_host out = u_host target \<and> out_scheme out = u_scheme target"
  by (auto simp: single_host_reverse_proxy_def split: prod.splits option.splits)

lemma no_upgrade_forwarded:
  assumes "\<not> values_contain_token (header_values (req_header req) ''Connection'') ''Upgrade''"
  shows "\<exists>out. single_host_reverse_proxy target req = Some out"
proof -
  have "upgrade_type (req_header req) = []" "is_print_ascii []"
    using assms by (simp_all add: upgrade_type_def is_print_ascii_def)
  then obtain h where "reverse_proxy_header (remote_ip req) (req_header req) = Some h"
    by (simp add: reverse_proxy_header_def Let_def)
  then show ?thesis
    by (simp add: single_host_reverse_proxy_def split: prod.splits)
qed

lemma no_connection_forwarded:
  "header_values (req_header req) ''Connection'' = [] \<Longrightarrow> \<exists>out. single_host_reverse_proxy target req = Some out"
  by (rule no_upgrade_forwarded) (simp add: values_contain_token_def)

lemma not_nominated: "header_values h ''Connection'' = [] \<Longrightarrow> \<not> nominated h k"
  by (simp add: nominated_def connection_tokens_none)

lemma proxied_path:
  assumes "single_host_reverse_proxy target req = Some out"
    and "u_path target = []" and "u_raw_path target = []"
  shows "out_path out = fst (join_url_path ([], []) (url_path req, url_raw_path req))"
    and "out_path out \<noteq> []"
proof -
  show "out_path out = fst (join_url_path ([], []) (url_path req, url_raw_path req))"
    using assms by (auto simp: single_host_reverse_proxy_def split: prod.splits option.splits)
  then show "out_path out \<noteq> []"
    by (simp add: join_empty_target_not_Nil)
qed

lemma received_some:
  assumes "out_path out \<noteq> []"
  obtains req where "received ip out = Some req" and "url_path req = out_path out"
    and "req_header req = out_header out" and "remote_ip req = ip"
  using wire_path_decodes [OF assms] that by (simp add: received_def)

end
