(* ===== verification/User_Server.thy ===== *)
theory User_Server
  imports Allowlist Transport_Pool Http_Server Reverse_Proxy
begin

text \<open>
  The user-server on the hub (pkg/userserver/user_server.go): its configuration, start-up and
  request handler. \<open>ServeHTTP\<close> takes what other goroutines do to the pool between its lock
  regions from the record \<open>serve_env\<close>, so the statements about it hold under every
  interleaving with add-on events. The tunnel library, the kubeconfig loader and the
  certificate readers appear by their results in the environment records.
\<close>

section \<open>Configuration\<close>

record userServer =
  us_proxyServerHost :: string
  us_proxyServerPort :: int
  us_proxyCACertPath :: string
  us_proxyCertPath :: string
  us_proxyKeyPath :: string
  us_serverCert :: string
  us_serverKey :: string
  us_serverPort :: int
  us_serviceProxyCACertPath :: string
  us_agentInstallNamespace :: string
  us_drain :: DrainConfig
  us_exposedServicesConfigMap :: string
  us_serviceAllowlist :: ServiceAllowlist
  us_maxConnsPerHost :: int
  us_maxIdleConnsPerHost :: int
  us_idleConnTimeout :: int
  us_enableHTTP2 :: bool
  us_serviceProxyRootCA :: string
  us_transportPool :: clusterTransportPool

definition newUserServer :: userServer where
  "newUserServer =
     \<lparr>us_proxyServerHost = [], us_proxyServerPort = 0, us_proxyCACertPath = [], us_proxyCertPath = [],
      us_proxyKeyPath = [], us_serverCert = [], us_serverKey = [], us_serverPort = 0,
      us_serviceProxyCACertPath = [], us_agentInstallNamespace = [],
      us_drain = \<lparr>dc_Timeout = 0, dc_MinDuration = 0\<rparr>, us_exposedServicesConfigMap = [],
      us_serviceAllowlist = \<lparr>al_services = []\<rparr>,
      us_maxConnsPerHost = 10, us_maxIdleConnsPerHost = 10, us_idleConnTimeout = 90 * second,
      us_enableHTTP2 = True, us_serviceProxyRootCA = [],
      us_transportPool = newClusterTransportPool\<rparr>"

text \<open>The flags of a command line, by their names.\<close>

record user_flags =
  f_host :: "string option"
  f_port :: "int option"
  f_proxy_ca_cert :: "string option"
  f_proxy_cert :: "string option"
  f_proxy_key :: "string option"
  f_server_cert :: "string option"
  f_server_key :: "string option"
  f_server_port :: "int option"
  f_service_proxy_ca_cert :: "string option"
  f_agent_install_namespace :: "string option"
  f_drain_timeout :: "int option"
  f_min_drain_duration :: "int option"
  f_exposed_services_configmap :: "string option"
  f_enable_http2 :: "bool option"

definition user_AddFlags :: "user_flags \<Rightarrow> userServer \<Rightarrow> userServer" where
  "user_AddFlags f k = k\<lparr>
     us_proxyServerHost := flag (us_proxyServerHost k) (f_host f),
     us_proxyServerPort := flag (us_proxyServerPort k) (f_port f),
     us_proxyCACertPath := flag (us_proxyCACertPath k) (f_proxy_ca_cert f),
     us_proxyCertPath := flag (us_proxyCertPath k) (f_proxy_cert f),
     us_proxyKeyPath := flag (us_proxyKeyPath k) (f_proxy_key f),
     us_serverCert := flag (us_serverCert k) (f_server_cert f),
     us_serverKey := flag (us_serverKey k) (f_server_key f),
     us_serverPort := flag (us_serverPort k) (f_server_port f),
     us_serviceProxyCACertPath := flag (us_serviceProxyCACertPath k) (f_service_proxy_ca_cert f),
     us_agentInstallNamespace := flag (us_agentInstallNamespace k) (f_agent_install_namespace f),
     us_drain := drain_AddFlags (f_drain_timeout f) (f_min_drain_duration f),
     us_exposedServicesConfigMap := flag ExposedServicesConfigMapName (f_exposed_services_configmap f),
     us_enableHTTP2 := flag True (f_enable_http2 f)\<rparr>"

datatype user_error =
    DrainError drain_error
  | ServerCertRequired
  | ServerKeyRequired
  | ServerPortRequired
  | ServiceProxyCACertRequired
  | PodNamespaceEmpty
  | ProxyTLSConfig go_error
  | LoadServiceProxyCA go_error
  | AddonWatcher watcher_error
  | AllowlistWatcher string
  | KubeConfig go_error
  | KubeClient go_error
  | AddonClient go_error
  | TLSConfigMapWatcher go_error
  | ConfigChecker go_error

definition user_Validate :: "userServer \<Rightarrow> user_error option" where
  "user_Validate k =
     (case drain_Validate (us_drain k) of
        Some err \<Rightarrow> Some (DrainError err)
      | None \<Rightarrow>
          if us_serverCert k = [] then Some ServerCertRequired
          else if us_serverKey k = [] then Some ServerKeyRequired
          else if us_serverPort k = 0 then Some ServerPortRequired
          else if us_serviceProxyCACertPath k = [] then Some ServiceProxyCACertRequired
          else None)"

section \<open>Start-up\<close>

text \<open>What the outside answers during \<open>init\<close> and \<open>Run\<close>. The results of the informers are the
  arguments of the two watchers.\<close>

record user_env =
  ue_pod_namespace :: string
  ue_kube_config :: "go_error option"
  ue_kube_client :: "go_error option"
  ue_addon_client :: "go_error option"
  ue_tls_config :: "go_error option"
  ue_new_pool :: "string \<Rightarrow> go_error + string"
  ue_addon_handler_err :: "string option"
  ue_addon_synced :: bool
  ue_addons :: "(string \<times> string) list"
  ue_addons_delivered :: nat
  ue_allowlist_handler_err :: "string option"
  ue_ctx_err :: "string option"
  ue_config_maps :: "config_map list"
  ue_config_maps_delivered :: nat
  ue_tls_watcher :: "go_error option"
  ue_config_checker :: "go_error option"

definition user_init ::
  "(string \<Rightarrow> string + ExposedService list) \<Rightarrow> user_env \<Rightarrow> userServer \<Rightarrow> user_error option \<times> userServer" where
  "user_init yaml e k =
     (case ue_tls_config e of
        Some err \<Rightarrow> (Some (ProxyTLSConfig err), k)
      | None \<Rightarrow>
          (case ue_new_pool e (us_serviceProxyCACertPath k) of
             Inl err \<Rightarrow> (Some (LoadServiceProxyCA err), k)
           | Inr ca \<Rightarrow>
               (let k = k\<lparr>us_serviceProxyRootCA := ca\<rparr> in
                case startManagedClusterAddonWatcher (ue_addon_handler_err e) (ue_addon_synced e)
                       (ue_ctx_err e) (ue_addons e) (ue_addons_delivered e) (us_transportPool k) of
                  (Some err, pool) \<Rightarrow> (Some (AddonWatcher err), k\<lparr>us_transportPool := pool\<rparr>)
                | (None, pool) \<Rightarrow>
                    (let k = k\<lparr>us_transportPool := pool\<rparr> in
                     case startServiceAllowlistWatcher yaml (ue_pod_namespace e)
                            (us_exposedServicesConfigMap k) (ue_allowlist_handler_err e) (ue_ctx_err e)
                            (ue_config_maps e) (ue_config_maps_delivered e) of
                       Inl err \<Rightarrow> (Some (AllowlistWatcher err), k)
                     | Inr al \<Rightarrow> (None, k\<lparr>us_serviceAllowlist := al\<rparr>)))))"

text \<open>\<open>Run\<close> up to the start of the servers: the error it returns, or the server it serves with.
  The deferred \<open>closeAll\<close> runs on every return after \<open>init\<close>.\<close>

definition user_Run ::
  "(string \<Rightarrow> string + ExposedService list) \<Rightarrow> user_env \<Rightarrow> userServer \<Rightarrow> (user_error \<times> userServer) + userServer" where
  "user_Run yaml e k =
     (case user_Validate k of
        Some err \<Rightarrow> Inl (err, k)
      | None \<Rightarrow>
          if ue_pod_namespace e = [] then Inl (PodNamespaceEmpty, k)
          else case ue_kube_config e of Some err \<Rightarrow> Inl (KubeConfig err, k)
          | None \<Rightarrow> (case ue_kube_client e of Some err \<Rightarrow> Inl (KubeClient err, k)
          | None \<Rightarrow> (case ue_addon_client e of Some err \<Rightarrow> Inl (AddonClient err, k)
          | None \<Rightarrow> (case user_init yaml e k of
               (Some err, k) \<Rightarrow> Inl (err, k)
             | (None, k) \<Rightarrow>
                 (let stopped = k\<lparr>us_transportPool := closeAll (us_transportPool k)\<rparr> in
                  case ue_tls_watcher e of Some err \<Rightarrow> Inl (TLSConfigMapWatcher err, stopped)
                  | None \<Rightarrow> (case ue_config_checker e of Some err \<Rightarrow> Inl (ConfigChecker err, stopped)
                  | None \<Rightarrow> Inr k))))))"

section \<open>Transports\<close>

text \<open>A dialler gets the result of \<open>getTunnel\<close> and answers with the tunnel it dials through.\<close>

record http_transport =
  ht_MaxConnsPerHost :: int
  ht_MaxIdleConns :: int
  ht_MaxIdleConnsPerHost :: int
  ht_IdleConnTimeout :: int
  ht_TLSHandshakeTimeout :: int
  ht_RootCAs :: string
  ht_MinVersion :: nat
  ht_ForceAttemptHTTP2 :: bool
  ht_ExpectContinueTimeout :: int
  ht_DialContext :: "go_error + nat \<Rightarrow> go_error + nat"

definition VersionTLS12 :: nat where
  "VersionTLS12 = 0x0303"

definition newCachedTransport :: "userServer \<Rightarrow> string \<Rightarrow> http_transport" where
  "newCachedTransport k clusterName =
     \<lparr>ht_MaxConnsPerHost = us_maxConnsPerHost k, ht_MaxIdleConns = us_maxIdleConnsPerHost k,
      ht_MaxIdleConnsPerHost = us_maxIdleConnsPerHost k, ht_IdleConnTimeout = us_idleConnTimeout k,
      ht_TLSHandshakeTimeout = 10 * second, ht_RootCAs = us_serviceProxyRootCA k,
      ht_MinVersion = VersionTLS12, ht_ForceAttemptHTTP2 = us_enableHTTP2 k,
      ht_ExpectContinueTimeout = 1 * second,
      ht_DialContext = (\<lambda>getTunnel. case getTunnel of Inl err \<Rightarrow> Inl err | Inr tunnel \<Rightarrow> Inr tunnel)\<rparr>"

definition newUpgradeTransport :: "userServer \<Rightarrow> nat \<Rightarrow> http_transport" where
  "newUpgradeTransport k tunnel =
     \<lparr>ht_MaxConnsPerHost = 0, ht_MaxIdleConns = 0,
      ht_MaxIdleConnsPerHost = 0, ht_IdleConnTimeout = us_idleConnTimeout k,
      ht_TLSHandshakeTimeout = 10 * second, ht_RootCAs = us_serviceProxyRootCA k,
      ht_MinVersion = VersionTLS12, ht_ForceAttemptHTTP2 = False,
      ht_ExpectContinueTimeout = 1 * second, ht_DialContext = (\<lambda>_. Inr tunnel)\<rparr>"

section \<open>Requests\<close>

text \<open>\<open>httpstream.IsUpgradeRequest\<close> of the vendored k8s.io/streaming.\<close>

definition IsUpgradeRequest :: "http_request \<Rightarrow> bool" where
  "IsUpgradeRequest req \<longleftrightarrow>
     list_ex (\<lambda>h. contains (to_lower h) (to_lower ''Upgrade'')) (header_values (req_header req) ''Connection'')"

datatype transport_ref = Cached nat | Dedicated nat

text \<open>The body of \<open>http.Error\<close>: the text of an error value, or a text of the handler's own.\<close>

datatype http_body = TargetErrorBody target_error | UrlErrorBody url_error | GoErrorBody go_error
  | TextBody string

datatype user_response =
    HttpError nat http_body
  | ProxyTo transport_ref proxied

definition writeClusterNotFound :: "string \<Rightarrow> user_response" where
  "writeClusterNotFound clusterName =
     HttpError 404 (TextBody (''cluster '' @ go_quote clusterName @ '' does not have the '' @ AddonName
       @ '' add-on installed''))"

definition notAllowlisted :: "TargetServiceConfig \<Rightarrow> user_response" where
  "notAllowlisted tsc =
     HttpError 403 (TextBody (''service '' @ tsc_namespace tsc @ ''/'' @ tsc_service tsc
       @ '' is not in the exposed services allowlist''))"

text \<open>The error handler of the reverse proxy, on the one error that arises before the transport is
  reached.\<close>

definition user_ErrorHandler :: "string \<Rightarrow> user_response" where
  "user_ErrorHandler e = HttpError 502 (TextBody (''proxy to anp-proxy-server failed because '' @ e))"

definition invalid_protocol :: "http_request \<Rightarrow> string" where
  "invalid_protocol req =
     ''client tried to switch to invalid protocol '' @ go_quote (upgrade_type (req_header req))"

text \<open>What happens around one request: the failure of the request dump (at high verbosity only),
  the allowlist at the moment of the check, the result of \<open>getTunnel\<close>, and the steps of other
  goroutines before \<open>getOrCreate\<close> and between its two lock regions.\<close>

record serve_env =
  se_dump_err :: "go_error option"
  se_allowlist :: ServiceAllowlist
  se_tunnel :: "go_error + nat"
  se_before :: "clusterTransportPool \<Rightarrow> clusterTransportPool"
  se_between :: "clusterTransportPool \<Rightarrow> clusterTransportPool"

definition parse_target :: "http_request \<Rightarrow> target_error + TargetServiceConfig" where
  "parse_target req =
     (case GetProxyType (request_uri req) of
        ProxyTypeService \<Rightarrow> GetTargetServiceConfig (request_uri req)
      | ProxyTypeKubeAPIServer \<Rightarrow> GetTargetServiceConfigForKubeAPIServer (request_uri req))"

definition proxy_request :: "url \<Rightarrow> transport_ref \<Rightarrow> http_request \<Rightarrow> user_response" where
  "proxy_request targetURL transport req =
     (case single_host_reverse_proxy targetURL req of
        None \<Rightarrow> user_ErrorHandler (invalid_protocol req)
      | Some out \<Rightarrow> ProxyTo transport out)"

definition user_ServeHTTP ::
  "(string \<Rightarrow> string) \<Rightarrow> (string \<Rightarrow> url_error + string) \<Rightarrow> serve_env \<Rightarrow> http_request
     \<Rightarrow> clusterTransportPool \<Rightarrow> user_response \<times> clusterTransportPool" where
  "user_ServeHTTP sha256 ipl e req pool =
     (case se_dump_err e of
        Some err \<Rightarrow> (HttpError 400 (GoErrorBody err), pool)
      | None \<Rightarrow>
     (case parse_target req of
        Inl err \<Rightarrow> (HttpError 400 (TargetErrorBody err), pool)
      | Inr tsc \<Rightarrow>
          if \<not> pool_isAllowed pool (tsc_cluster tsc)
          then (writeClusterNotFound (tsc_cluster tsc), pool)
          else if GetProxyType (request_uri req) = ProxyTypeService \<and> \<not> IsAllowed (se_allowlist e) tsc
          then (notAllowlisted tsc, pool)
          else
            (case url_parse ipl (serviceProxyURL sha256 (tsc_cluster tsc)) of
               Inl err \<Rightarrow> (HttpError 400 (UrlErrorBody err), pool)
             | Inr targetURL \<Rightarrow>
                 if IsUpgradeRequest req then
                   (case se_tunnel e of
                      Inl err \<Rightarrow> (HttpError 400 (GoErrorBody err), pool)
                    | Inr tunnel \<Rightarrow>
                        (proxy_request targetURL (Dedicated tunnel) (UpdateRequest tsc req), pool))
                 else
                   (case getOrCreate (se_between e) (tsc_cluster tsc) (se_before e pool) of
                      (None, pool) \<Rightarrow> (writeClusterNotFound (tsc_cluster tsc), pool)
                    | (Some t, pool) \<Rightarrow>
                        (proxy_request targetURL (Cached t) (UpdateRequest tsc req), pool)))))"

section \<open>Lemmas\<close>

lemma UpdateRequest_frame:
  "url_path (UpdateRequest t req) = tsc_path t"
  "url_raw_path (UpdateRequest t req) = url_raw_path req"
  "url_raw_query (UpdateRequest t req) = url_raw_query req"
  "remote_ip (UpdateRequest t req) = remote_ip req"
  "req_method (UpdateRequest t req) = req_method req"
  by (simp_all add: UpdateRequest_def Let_def)

lemma connection_not_target:
  "canonical_key ''Connection'' \<notin> set [''Cluster-Proxy-Proto'', ''Cluster-Proxy-Namespace'',
    ''Cluster-Proxy-Service'', ''Cluster-Proxy-Port'']"
  by (simp add: canonical_hop_keys)

lemma nominated_UpdateRequest:
  "nominated (req_header (UpdateRequest t req)) k = nominated (req_header req) k"
  by (simp add: nominated_def connection_tokens_def UpdateRequest_values_other [OF connection_not_target])

lemma target_keys_not_proxy_written:
  "canonical_key HeaderClusterProxyProto \<notin> set proxy_written"
  "canonical_key HeaderClusterProxyNamespace \<notin> set proxy_written"
  "canonical_key HeaderClusterProxyService \<notin> set proxy_written"
  "canonical_key HeaderClusterProxyPort \<notin> set proxy_written"
  by (simp_all add: target_header_keys proxy_written_def hop_headers_def)

lemma stamped_header_after_proxy:
  assumes "single_host_reverse_proxy u (UpdateRequest t req) = Some out"
    and "canonical_key k \<notin> set proxy_written"
  shows "header_values (out_header out) k =
    (if nominated (req_header req) k then [] else header_values (req_header (UpdateRequest t req)) k)"
  using reverse_proxy_values [OF conjunct1 [OF proxied_header [OF assms(1)]] assms(2)]
  by (simp add: nominated_UpdateRequest)

text \<open>A request is forwarded in one way: by the reverse proxy to the cluster's service-proxy URL.\<close>

lemma forwarded_cases:
  assumes "fst (user_ServeHTTP sha256 ipl e req pool) = ProxyTo tr out"
  obtains tsc where "parse_target req = Inr tsc" and "pool_isAllowed pool (tsc_cluster tsc)"
    and "GetProxyType (request_uri req) = ProxyTypeService \<Longrightarrow> IsAllowed (se_allowlist e) tsc"
    and "single_host_reverse_proxy (empty_url\<lparr>u_scheme := ''https'',
           u_host := GenerateServiceProxyHost sha256 (tsc_cluster tsc) @ '':7443''\<rparr>)
           (UpdateRequest tsc req) = Some out"
    and "(\<exists>tunnel. IsUpgradeRequest req \<and> se_tunnel e = Inr tunnel \<and> tr = Dedicated tunnel) \<or>
      (\<exists>t pool'. \<not> IsUpgradeRequest req \<and> tr = Cached t \<and>
        getOrCreate (se_between e) (tsc_cluster tsc) (se_before e pool) = (Some t, pool') \<and>
        snd (user_ServeHTTP sha256 ipl e req pool) = pool')"
  using assms that
  by (simp add: user_ServeHTTP_def proxy_url_parse proxy_request_def writeClusterNotFound_def
        notAllowlisted_def user_ErrorHandler_def
      split: option.splits sum.splits if_splits prod.splits)

lemma getOrCreate_made_for:
  assumes "members_only p" and "\<And>q. members_only q \<Longrightarrow> members_only (others q)"
    and "getOrCreate others c p = (Some t, p')"
  shows "cp_made p' ! t = c \<and> pool_isAllowed p' c \<and> members_only p'"
proof (cases "getOrCreate_read c p")
  case (ReadDone r)
  with assms(3) have "p' = p" and "getOrCreate_read c p = ReadDone (Some t)"
    by (auto simp: getOrCreate_def)
  with read_made_for [OF assms(1)] assms(1) show ?thesis by (simp add: pool_isAllowed_def)
next
  case ReadMiss
  with assms(3) have w: "getOrCreate_write c (others p) = (Some t, p')"
    by (simp add: getOrCreate_def)
  show ?thesis
    using write_made_for [OF assms(2) [OF assms(1)] w] members_only_create [OF assms(2) [OF assms(1)] w]
    by (simp add: pool_isAllowed_def)
qed

lemma unescape_slash: "unescape False raw = Inr p \<Longrightarrow> has_prefix raw ''/'' \<Longrightarrow> has_prefix p ''/''"
  by (cases raw) (auto simp: has_prefix_def split: sum.splits)

lemma join_relative:
  assumes "\<not> has_prefix p ''/''"
  shows "fst (join_url_path ([], []) (p, raw)) = CHR ''/'' # p"
proof -
  have "\<not> has_prefix (escaped_path raw p) ''/''"
    using unescape_slash [of "escaped_path raw p" p] escaped_path_decodes [of raw p] assms by blast
  moreover have "escaped_path [] [] = []" by simp
  ultimately show ?thesis
    using assms by (auto simp: join_url_path_def single_joining_slash_def Let_def)
qed

section \<open>Properties\<close>

text \<open>A service request and an environment for the witnesses.\<close>

definition nginx_request :: http_request where
  "nginx_request =
     \<lparr>req_method = ''GET'',
      request_uri = ''/c1/api/v1/namespaces/web/services/https:nginx:80/proxy-service/a%20b?q=1'',
      url_path = ''/c1/api/v1/namespaces/web/services/https:nginx:80/proxy-service/a b'',
      url_raw_path = [], url_raw_query = ''q=1'',
      req_header = [(''Cluster-Proxy-Service'', [''other''])], remote_ip = None\<rparr>"

definition nginx_env :: serve_env where
  "nginx_env =
     \<lparr>se_dump_err = None,
      se_allowlist = \<lparr>al_services = [\<lparr>es_namespace = ''web'', es_service = ''nginx'', es_port = [],
        es_protocol = ''https''\<rparr>]\<rparr>,
      se_tunnel = Inr 0, se_before = (\<lambda>p. p), se_between = (\<lambda>p. p)\<rparr>"

definition nginx_tsc :: TargetServiceConfig where
  "nginx_tsc =
     \<lparr>tsc_cluster = ''c1'', tsc_proto = ''https'', tsc_service = ''nginx'', tsc_namespace = ''web'',
      tsc_port = ''80'', tsc_path = ''a%20b''\<rparr>"

lemma nginx_parse_target: "parse_target nginx_request = Inr nginx_tsc"
  by (simp add: parse_target_def nginx_request_def nginx_tsc_def GetProxyType_def
      GetTargetServiceConfig_def SplitSchemeNamePort_def)

lemma nginx_proxy_type: "GetProxyType (request_uri nginx_request) = ProxyTypeService"
  by (simp add: nginx_request_def GetProxyType_def)

lemma nginx_no_upgrade:
  "header_values (req_header nginx_request) ''Connection'' = []"
  "header_values (req_header (UpdateRequest t nginx_request)) ''Connection'' = []"
proof -
  show c: "header_values (req_header nginx_request) ''Connection'' = []"
    by (simp add: nginx_request_def header_values_def canonical_hop_keys gget_def)
  show "header_values (req_header (UpdateRequest t nginx_request)) ''Connection'' = []"
    using c by (simp add: UpdateRequest_values_other [OF connection_not_target])
qed

lemma nginx_forwarded:
  "\<exists>out. fst (user_ServeHTTP sha256 ipl nginx_env nginx_request c1_pool) = ProxyTo (Cached 0) out"
proof -
  obtain out where "single_host_reverse_proxy (empty_url\<lparr>u_scheme := ''https'',
      u_host := GenerateServiceProxyHost sha256 ''c1'' @ '':7443''\<rparr>)
      (UpdateRequest nginx_tsc nginx_request) = Some out"
    using no_connection_forwarded [OF nginx_no_upgrade(2)] by blast
  moreover have "getOrCreate (\<lambda>p. p) ''c1'' c1_pool = (Some 0, c1_pool)"
    by (simp add: getOrCreate_def getOrCreate_read_def c1_pool_eq gget_def)
  moreover have "pool_isAllowed c1_pool ''c1''"
    by (simp add: pool_isAllowed_def c1_pool_eq gget_def)
  moreover have "IsAllowed (se_allowlist nginx_env) nginx_tsc"
    by (simp add: nginx_env_def nginx_tsc_def IsAllowed_def matches_def)
  moreover have "\<not> IsUpgradeRequest nginx_request"
    by (simp add: IsUpgradeRequest_def nginx_no_upgrade)
  moreover have "se_dump_err nginx_env = None" "tsc_cluster nginx_tsc = ''c1''"
    "se_before nginx_env = (\<lambda>p. p)" "se_between nginx_env = (\<lambda>p. p)"
    by (simp_all add: nginx_tsc_def nginx_env_def)
  ultimately show ?thesis
    by (simp add: user_ServeHTTP_def nginx_parse_target nginx_proxy_type proxy_url_parse proxy_request_def)
qed

text \<open>
  C3. The user-server forwards nothing that policy does not permit, under every interleaving
  with add-on events: a forwarded request has a well-formed URI whose cluster was a member
  of the pool and, if it is for a service, whose target was on the allowlist in force at
  the check. It goes over https to the service-proxy host of that cluster and of no other.
\<close>

theorem user_server_forwards_only_permitted:
  assumes "fst (user_ServeHTTP sha256 ipl e req pool) = ProxyTo tr out"
  shows "(case parse_target req of
      Inl err \<Rightarrow> False
    | Inr tsc \<Rightarrow>
        pool_isAllowed pool (tsc_cluster tsc) \<and>
        (if GetProxyType (request_uri req) = ProxyTypeService then IsAllowed (se_allowlist e) tsc else True) \<and>
        out_scheme out = ''https'' \<and>
        out_host out = GenerateServiceProxyHost sha256 (tsc_cluster tsc) @ '':7443'')"
  using assms
  by (elim forwarded_cases) (auto dest: proxied_header simp: empty_url_def)

theorem user_server_forwards_only_permitted_witness:
  "\<exists>out. fst (user_ServeHTTP (\<lambda>s. s) Inr nginx_env nginx_request c1_pool) = ProxyTo (Cached 0) out \<and>
     IsAllowed (se_allowlist nginx_env) nginx_tsc \<and>
     out_host out = GenerateServiceProxyHost (\<lambda>s. s) ''c1'' @ '':7443''"
proof -
  obtain out where out: "fst (user_ServeHTTP (\<lambda>s. s) Inr nginx_env nginx_request c1_pool) = ProxyTo (Cached 0) out"
    using nginx_forwarded by blast
  then show ?thesis
    using user_server_forwards_only_permitted [OF out]
    by (simp add: nginx_parse_target nginx_proxy_type nginx_tsc_def)
qed

text \<open>
  The transport of a forwarded request belongs to its cluster: a request that is not an
  upgrade is sent on a cached transport that was made for its own cluster, which was a
  member again at the moment it was handed out, whatever other goroutines did to the pool
  in the meantime, as long as they keep the pool's own invariant.
\<close>

theorem forwarded_on_own_transport:
  assumes "fst (user_ServeHTTP sha256 ipl e req pool) = ProxyTo (Cached t) out"
    and "members_only pool"
    and "\<And>p. members_only p \<Longrightarrow> members_only (se_before e p)"
    and "\<And>p. members_only p \<Longrightarrow> members_only (se_between e p)"
  shows "(case parse_target req of
      Inl err \<Rightarrow> False
    | Inr tsc \<Rightarrow>
        cp_made (snd (user_ServeHTTP sha256 ipl e req pool)) ! t = tsc_cluster tsc \<and>
        pool_isAllowed (snd (user_ServeHTTP sha256 ipl e req pool)) (tsc_cluster tsc) \<and>
        \<not> IsUpgradeRequest req)"
  using assms(1)
proof (rule forwarded_cases)
  fix tsc
  assume tsc: "parse_target req = Inr tsc"
    and tr: "(\<exists>tunnel. IsUpgradeRequest req \<and> se_tunnel e = Inr tunnel \<and> Cached t = Dedicated tunnel) \<or>
      (\<exists>t' pool'. \<not> IsUpgradeRequest req \<and> Cached t = Cached t' \<and>
        getOrCreate (se_between e) (tsc_cluster tsc) (se_before e pool) = (Some t', pool') \<and>
        snd (user_ServeHTTP sha256 ipl e req pool) = pool')"
  then obtain pool' where get: "getOrCreate (se_between e) (tsc_cluster tsc) (se_before e pool) = (Some t, pool')"
    and "snd (user_ServeHTTP sha256 ipl e req pool) = pool'" and "\<not> IsUpgradeRequest req"
    by auto
  with getOrCreate_made_for [OF assms(3) [OF assms(2)] assms(4) get] tsc show ?thesis
    by simp
qed

theorem forwarded_on_own_transport_witness:
  "cp_made (snd (user_ServeHTTP (\<lambda>s. s) Inr nginx_env nginx_request c1_pool)) ! 0 = ''c1''"
proof -
  obtain out where out: "fst (user_ServeHTTP (\<lambda>s. s) Inr nginx_env nginx_request c1_pool) = ProxyTo (Cached 0) out"
    using nginx_forwarded by blast
  have "members_only c1_pool"
    by (simp add: members_only_def c1_pool_eq gmap_ok_def gget_def)
  then show ?thesis
    using forwarded_on_own_transport [OF out]
    by (simp add: nginx_env_def nginx_parse_target nginx_tsc_def)
qed

text \<open>
  The path that reaches the service-proxy: what it decodes from the request line is a slash
  and the text that stood after the prefix in the client's URI, byte for byte. Since that
  text is still percent-encoded, an escape of the client arrives as the literal text of the
  escape (the witness: \<open>a%20b\<close> is put on the wire as \<open>a%2520b\<close>).
\<close>

theorem forwarded_path_text:
  assumes "fst (user_ServeHTTP sha256 ipl e req pool) = ProxyTo tr out"
    and "parse_target req = Inr tsc" and "\<not> has_prefix (tsc_path tsc) ''/''"
  shows "unescape False (wire_path out) = Inr (CHR ''/'' # tsc_path tsc) \<and>
    out_raw_query out = url_raw_query req"
  using assms(1)
proof (rule forwarded_cases)
  fix tsc'
  assume "parse_target req = Inr tsc'"
    and out: "single_host_reverse_proxy (empty_url\<lparr>u_scheme := ''https'',
      u_host := GenerateServiceProxyHost sha256 (tsc_cluster tsc') @ '':7443''\<rparr>)
      (UpdateRequest tsc' req) = Some out"
  then have "out_path out = CHR ''/'' # tsc_path tsc"
    using assms(2,3) proxied_path(1) [OF out] join_relative [of "tsc_path tsc"]
    by (simp add: empty_url_def UpdateRequest_frame)
  moreover have "out_raw_query out = url_raw_query req"
    using out by (auto simp: single_host_reverse_proxy_def rewrite_query_def empty_url_def
        UpdateRequest_frame split: prod.splits option.splits)
  ultimately show ?thesis
    using wire_path_decodes [of out] by simp
qed

theorem forwarded_path_text_witness:
  "\<exists>out. fst (user_ServeHTTP (\<lambda>s. s) Inr nginx_env nginx_request c1_pool) = ProxyTo (Cached 0) out \<and>
     unescape False (wire_path out) = Inr ''/a%20b''"
proof -
  obtain out where out: "fst (user_ServeHTTP (\<lambda>s. s) Inr nginx_env nginx_request c1_pool) = ProxyTo (Cached 0) out"
    using nginx_forwarded by blast
  then show ?thesis
    using forwarded_path_text [OF out nginx_parse_target] by (simp add: nginx_tsc_def has_prefix_def)
qed

lemma fold_addons_member:
  "pool_isAllowed (fold (\<lambda>(name, namespace). addon_handler (AddonAdded (Addon name namespace))) addons p) c \<Longrightarrow>
   pool_isAllowed p c \<or> (AddonName, c) \<in> set addons"
proof (induction addons arbitrary: p)
  case (Cons a addons)
  obtain name namespace where a: "a = (name, namespace)" by (cases a)
  have "pool_isAllowed (addon_handler (AddonAdded (Addon name namespace)) p) c \<or> (AddonName, c) \<in> set addons"
    using Cons a by simp
  then show ?case
    using handler_membership [of "AddonAdded (Addon name namespace)" p c]
    by (auto simp: a split: if_splits)
qed simp

lemma addon_watcher_member:
  assumes "startManagedClusterAddonWatcher add_err synced ctx_err listed delivered pool = (err, pool')"
    and "pool_isAllowed pool' c"
  shows "pool_isAllowed pool c \<or> (AddonName, c) \<in> set listed"
proof -
  have "pool' = pool \<or> pool' = fold (\<lambda>(name, namespace). addon_handler (AddonAdded (Addon name namespace)))
      (take delivered (filter (\<lambda>(name, namespace). name = AddonName) listed)) pool"
    using assms(1) by (auto simp: startManagedClusterAddonWatcher_def Let_def split: option.splits if_splits)
  then show ?thesis
    using assms(2) fold_addons_member
      [of "take delivered (filter (\<lambda>(name, namespace). name = AddonName) listed)" pool c]
    by (auto dest!: in_set_takeD)
qed

text \<open>
  Start-up admits only what the hub lists: when \<open>Run\<close> gets as far as serving, its
  configuration is valid, every cluster it serves has a \<open>cluster-proxy\<close> add-on among the
  listed ones, and every service it exposes is permitted by the configured ConfigMap in the
  pod's namespace.
\<close>

theorem startup_admits_only_listed:
  assumes "user_Run yaml e (user_AddFlags f newUserServer) = Inr k"
  shows "drain_Validate (us_drain k) = None \<and> us_serverCert k \<noteq> [] \<and>
    (if pool_isAllowed (us_transportPool k) c then (AddonName, c) \<in> set (ue_addons e) else True) \<and>
    (if IsAllowed (us_serviceAllowlist k) tsc
     then (\<exists>cm\<in>set (ue_config_maps e). cm_namespace cm = ue_pod_namespace e \<and>
       cm_name cm = flag ExposedServicesConfigMapName (f_exposed_services_configmap f) \<and>
       permits yaml (cm_data cm) tsc)
     else True)"
proof -
  let ?k = "user_AddFlags f newUserServer"
  have v: "user_Validate ?k = None" and i: "user_init yaml e ?k = (None, k)"
    using assms by (auto simp: user_Run_def Let_def split: option.splits if_splits prod.splits)
  then obtain ca pool al where
    w: "startManagedClusterAddonWatcher (ue_addon_handler_err e) (ue_addon_synced e)
          (ue_ctx_err e) (ue_addons e) (ue_addons_delivered e) newClusterTransportPool = (None, pool)"
    and al: "startServiceAllowlistWatcher yaml (ue_pod_namespace e)
        (flag ExposedServicesConfigMapName (f_exposed_services_configmap f))
        (ue_allowlist_handler_err e) (ue_ctx_err e)
        (ue_config_maps e) (ue_config_maps_delivered e) = Inr al"
    and k: "k = ?k\<lparr>us_serviceProxyRootCA := ca, us_transportPool := pool, us_serviceAllowlist := al\<rparr>"
    by (auto simp: user_init_def Let_def user_AddFlags_def newUserServer_def
        split: option.splits sum.splits prod.splits)
  have "\<not> pool_isAllowed newClusterTransportPool c"
    by (simp add: pool_isAllowed_def newClusterTransportPool_def)
  then show ?thesis
    using v addon_watcher_member [OF w, of c] watcher_start_allowed [OF al, of tsc]
    by (auto simp: k user_Validate_def user_AddFlags_def split: option.splits if_splits)
qed

definition sample_flags :: user_flags where
  "sample_flags =
     \<lparr>f_host = None, f_port = None, f_proxy_ca_cert = None, f_proxy_cert = None, f_proxy_key = None,
      f_server_cert = Some ''tls.crt'', f_server_key = Some ''tls.key'', f_server_port = Some 9092,
      f_service_proxy_ca_cert = Some ''ca.crt'', f_agent_install_namespace = None,
      f_drain_timeout = None, f_min_drain_duration = None, f_exposed_services_configmap = None,
      f_enable_http2 = None\<rparr>"

definition sample_env :: user_env where
  "sample_env =
     \<lparr>ue_pod_namespace = ''ocm'', ue_kube_config = None, ue_kube_client = None, ue_addon_client = None,
      ue_tls_config = None, ue_new_pool = Inr, ue_addon_handler_err = None, ue_addon_synced = True,
      ue_addons = [(AddonName, ''c1''), (''other'', ''c2'')], ue_addons_delivered = 1,
      ue_allowlist_handler_err = None, ue_ctx_err = None, ue_config_maps = [], ue_config_maps_delivered = 0,
      ue_tls_watcher = None, ue_config_checker = None\<rparr>"

lemma sample_Run:
  "\<exists>k. user_Run (\<lambda>_. Inl ''no YAML'') sample_env (user_AddFlags sample_flags newUserServer) = Inr k \<and>
     us_transportPool k = allow ''c1'' newClusterTransportPool"
proof -
  have "user_Validate (user_AddFlags sample_flags newUserServer) = None"
    by (simp add: user_Validate_def user_AddFlags_def sample_flags_def newUserServer_def flag_def
        drain_AddFlags_def drain_Validate_def DefaultDrainTimeout_def DefaultMinDrainDuration_def second_def)
  moreover have "startManagedClusterAddonWatcher None True None
      [(AddonName, ''c1''), (''other'', ''c2'')] 1 newClusterTransportPool =
      (None, allow ''c1'' newClusterTransportPool)"
    by (simp add: startManagedClusterAddonWatcher_def AddonName_def)
  ultimately show ?thesis
    by (simp add: user_Run_def user_init_def sample_env_def startServiceAllowlistWatcher_def
        user_AddFlags_def newUserServer_def)
qed

theorem startup_admits_only_listed_witness:
  "\<exists>k. user_Run (\<lambda>_. Inl ''no YAML'') sample_env (user_AddFlags sample_flags newUserServer) = Inr k \<and>
     pool_isAllowed (us_transportPool k) ''c1'' \<and> (AddonName, ''c1'') \<in> set (ue_addons sample_env)"
proof -
  obtain k where k: "user_Run (\<lambda>_. Inl ''no YAML'') sample_env (user_AddFlags sample_flags newUserServer) = Inr k"
    and p: "us_transportPool k = allow ''c1'' newClusterTransportPool"
    using sample_Run by blast
  have m: "pool_isAllowed (us_transportPool k) ''c1''"
    by (simp add: p pool_isAllowed_def allow_def)
  with k startup_admits_only_listed [OF k, of "''c1''" nginx_tsc] show ?thesis by auto
qed

end
