(* ===== verification/Token_Auth.thy ===== *)
theory Token_Auth
  imports Http_Server
begin

text \<open>
  Token authentication by TokenReview (pkg/serviceproxy/token_authenticator.go) and the result
  cache in front of it (k8s.io/apiserver/pkg/authentication/token/cache as vendored). The
  TokenReview API of a cluster is the parameter \<open>review\<close>. The cache is modelled twice: as the function that one request
  runs through, and as a state machine of concurrent requests, in which the shared lookups take time, fail and crash and
  callers give up. The locale \<open>token_cache\<close> states what a cache promises its client: no record it returns is older than
  the TTL and the time a lookup may take.
\<close>

section \<open>Identities and results\<close>

record user_info =
  ui_name :: string
  ui_uid :: string
  ui_groups :: "string list"
  ui_extra :: "(string, string list) gmap option"

text \<open>The three shapes of \<open>(response, authenticated, error)\<close> that an authenticator returns.\<close>

datatype auth_result = Authenticated user_info | NotAuthenticated | AuthError go_error

record token_review_status =
  trs_error :: string
  trs_authenticated :: bool
  trs_username :: string
  trs_uid :: string
  trs_groups :: "string list"
  trs_extra :: "(string, string list) gmap option"

section \<open>TokenReview\<close>

definition authRejectionPatterns :: "string list" where
  "authRejectionPatterns = [''invalid bearer token'']"

definition isAuthRejection :: "string \<Rightarrow> bool" where
  "isAuthRejection statusError =
     (let lower = to_lower statusError
      in list_ex (\<lambda>pattern. contains lower pattern) authRejectionPatterns)"

text \<open>The loop copies the entries one by one into a new map.\<close>

definition convertExtra :: "(string, string list) gmap option \<Rightarrow> (string, string list) gmap option" where
  "convertExtra extra =
     (case extra of
        None \<Rightarrow> None
      | Some m \<Rightarrow> Some (fold (\<lambda>(k, v) result. gput k v result) m []))"

definition review_AuthenticateToken ::
  "string \<Rightarrow> (string \<Rightarrow> go_error + token_review_status) \<Rightarrow> string \<Rightarrow> auth_result" where
  "review_AuthenticateToken name review token =
     (case review token of
        Inl err \<Rightarrow> AuthError err
      | Inr status \<Rightarrow>
          if trs_error status \<noteq> [] then
            (if isAuthRejection (trs_error status)
             then AuthError (Wrapped (name @ '' TokenReview: '' @ trs_error status @ '': ''
                    @ error_text ErrTokenNotAuthenticated) ErrTokenNotAuthenticated)
             else AuthError (ErrorText (name @ '' TokenReview: '' @ trs_error status)))
          else if \<not> trs_authenticated status then NotAuthenticated
          else Authenticated
            \<lparr>ui_name = trs_username status, ui_uid = trs_uid status, ui_groups = trs_groups status,
             ui_extra = convertExtra (trs_extra status)\<rparr>)"

section \<open>The result cache\<close>

text \<open>
  A record of the cache is a result with the time at which it expires. The cache key is a keyed
  hash of the token; the model uses the token itself.
\<close>

type_synonym token_cache_state = "(string, auth_result \<times> int) gmap"

definition cache_get :: "int \<Rightarrow> token_cache_state \<Rightarrow> string \<Rightarrow> auth_result option" where
  "cache_get now cache token =
     (case gget cache token of
        None \<Rightarrow> None
      | Some (record, expiry) \<Rightarrow> if now < expiry then Some record else None)"

definition cache_set :: "int \<Rightarrow> string \<Rightarrow> auth_result \<Rightarrow> int \<Rightarrow> token_cache_state \<Rightarrow> token_cache_state" where
  "cache_set now token record ttl cache = gput token (record, now + ttl) cache"

text \<open>The end of a shared lookup: what it stores at the time it returns.\<close>

definition store_record ::
  "bool \<Rightarrow> int \<Rightarrow> int \<Rightarrow> int \<Rightarrow> string \<Rightarrow> auth_result \<Rightarrow> token_cache_state \<Rightarrow> token_cache_state" where
  "store_record cacheErrs successTTL failureTTL now token record cache =
     (case record of
        Authenticated u \<Rightarrow> if successTTL > 0 then cache_set now token record successTTL cache else cache
      | NotAuthenticated \<Rightarrow> if failureTTL > 0 then cache_set now token record failureTTL cache else cache
      | AuthError err \<Rightarrow>
          if cacheErrs \<and> failureTTL > 0 then cache_set now token record failureTTL cache else cache)"

definition errAuthnCrash :: go_error where
  "errAuthnCrash = ErrorText ''Internal error occurred: authentication failed unexpectedly''"

definition sharedLookupTimeout :: int where
  "sharedLookupTimeout = 30 * second"

text \<open>
  One request. \<open>delegate now token\<close> is what the authenticator behind the cache answers at time \<open>now\<close>. On a miss the
  request waits for a lookup: it returns after some time, or it panics and the recovery makes an error of it,
  or the request's context is done first and the request does not wait for the lookup.
\<close>

datatype lookup_fate = LookupReturns int | LookupCrashes | CallerGone go_error

definition cached_AuthenticateToken ::
  "(int \<Rightarrow> string \<Rightarrow> auth_result) \<Rightarrow> bool \<Rightarrow> int \<Rightarrow> int \<Rightarrow> lookup_fate \<Rightarrow> int \<Rightarrow> string \<Rightarrow> token_cache_state
     \<Rightarrow> auth_result \<times> token_cache_state" where
  "cached_AuthenticateToken delegate cacheErrs successTTL failureTTL fate now token cache =
     (case cache_get now cache token of
        Some record \<Rightarrow> (record, cache)
      | None \<Rightarrow>
          (case fate of
             LookupReturns d \<Rightarrow>
               (let record = delegate now token
                in (record, store_record cacheErrs successTTL failureTTL (now + d) token record cache))
           | LookupCrashes \<Rightarrow> (AuthError errAuthnCrash, cache)
           | CallerGone err \<Rightarrow> (AuthError err, cache)))"

definition newTokenReviewAuthenticator ::
  "(int \<Rightarrow> string \<Rightarrow> go_error + token_review_status) \<Rightarrow> string \<Rightarrow> int \<Rightarrow> lookup_fate \<Rightarrow> int \<Rightarrow> string
     \<Rightarrow> token_cache_state \<Rightarrow> auth_result \<times> token_cache_state" where
  "newTokenReviewAuthenticator client providerName cacheTTL fate now token cache =
     (let delegate = (\<lambda>now. review_AuthenticateToken providerName (client now)) in
      if cacheTTL \<le> 0 then (delegate now token, cache)
      else cached_AuthenticateToken delegate False cacheTTL cacheTTL fate now token cache)"

section \<open>Concurrent requests\<close>

text \<open>
  A lookup that requests for one token share (singleflight): it has still to check the cache again, it waits for the
  delegate since a time, or the API has decided, at a time, and the answer is under way.
\<close>

datatype flight = Checking | Asking int | Decided int int auth_result

text \<open>The tokens of the requests that wait, and the answers given so far with their times.\<close>

record cached_auth =
  ca_now :: int
  ca_cache :: token_cache_state
  ca_flights :: "(string, flight) gmap"
  ca_waiting :: "string list"
  ca_answers :: "(int \<times> string \<times> auth_result) list"

definition finish_flight :: "string \<Rightarrow> auth_result \<Rightarrow> cached_auth \<Rightarrow> cached_auth" where
  "finish_flight token record s =
     s\<lparr>ca_flights := gdel token (ca_flights s),
       ca_waiting := filter (\<lambda>t. t \<noteq> token) (ca_waiting s),
       ca_answers := map (\<lambda>t. (ca_now s, t, record)) (filter (\<lambda>t. t = token) (ca_waiting s)) @ ca_answers s\<rparr>"

text \<open>
  The steps for the TTL of both kinds of results and without caching errors, as the constructor sets it up. A lookup has a
  context of its own with a timeout; a delegate that has not returned by then returns an error.
\<close>

inductive cached_step :: "(int \<Rightarrow> string \<Rightarrow> auth_result) \<Rightarrow> int \<Rightarrow> cached_auth \<Rightarrow> cached_auth \<Rightarrow> bool"
  for delegate ttl where
  tick: "0 \<le> d \<Longrightarrow> cached_step delegate ttl s (s\<lparr>ca_now := ca_now s + d\<rparr>)"
| hit: "cache_get (ca_now s) (ca_cache s) token = Some r \<Longrightarrow>
    cached_step delegate ttl s (s\<lparr>ca_answers := (ca_now s, token, r) # ca_answers s\<rparr>)"
| miss: "cache_get (ca_now s) (ca_cache s) token = None \<Longrightarrow>
    cached_step delegate ttl s (s\<lparr>ca_waiting := token # ca_waiting s,
      ca_flights := (if gget (ca_flights s) token = None then gput token Checking (ca_flights s) else ca_flights s)\<rparr>)"
| raced: "gget (ca_flights s) token = Some Checking \<Longrightarrow> cache_get (ca_now s) (ca_cache s) token = Some r \<Longrightarrow>
    cached_step delegate ttl s (finish_flight token r s)"
| ask: "gget (ca_flights s) token = Some Checking \<Longrightarrow> cache_get (ca_now s) (ca_cache s) token = None \<Longrightarrow>
    cached_step delegate ttl s (s\<lparr>ca_flights := gput token (Asking (ca_now s)) (ca_flights s)\<rparr>)"
| decide: "gget (ca_flights s) token = Some (Asking asked) \<Longrightarrow>
    cached_step delegate ttl s
      (s\<lparr>ca_flights := gput token (Decided asked (ca_now s) (delegate (ca_now s) token)) (ca_flights s)\<rparr>)"
| returns: "gget (ca_flights s) token = Some (Decided asked t r) \<Longrightarrow> ca_now s \<le> asked + sharedLookupTimeout \<Longrightarrow>
    cached_step delegate ttl s
      (finish_flight token r (s\<lparr>ca_cache := store_record False ttl ttl (ca_now s) token r (ca_cache s)\<rparr>))"
| fails: "gget (ca_flights s) token = Some f \<Longrightarrow> f \<noteq> Checking \<Longrightarrow>
    cached_step delegate ttl s
      (finish_flight token (AuthError err) (s\<lparr>ca_cache := store_record False ttl ttl (ca_now s) token (AuthError err) (ca_cache s)\<rparr>))"
| crashes: "gget (ca_flights s) token = Some f \<Longrightarrow>
    cached_step delegate ttl s (finish_flight token (AuthError errAuthnCrash) s)"
| gives_up: "ca_waiting s = ws @ token # ws' \<Longrightarrow>
    cached_step delegate ttl s (s\<lparr>ca_waiting := ws @ ws', ca_answers := (ca_now s, token, AuthError err) # ca_answers s\<rparr>)"

definition cached_init :: "cached_auth \<Rightarrow> bool" where
  "cached_init s \<longleftrightarrow> ca_cache s = [] \<and> ca_flights s = [] \<and> ca_waiting s = [] \<and> ca_answers s = []"

inductive_cases cached_stepE: "cached_step delegate ttl s t"

section \<open>The contract of a token cache\<close>

text \<open>
  \<open>fresh\<close> relates a cache to the answers of the source. Whatever is stored not later than \<open>slack\<close> after the source
  gave it is, when it is read back, at most \<open>ttl + slack\<close> old.
\<close>

locale token_cache =
  fixes source :: "int \<Rightarrow> string \<Rightarrow> auth_result"
    and get :: "int \<Rightarrow> 'c \<Rightarrow> string \<Rightarrow> auth_result option"
    and put :: "int \<Rightarrow> string \<Rightarrow> auth_result \<Rightarrow> 'c \<Rightarrow> 'c"
    and ttl :: int and slack :: int
    and fresh :: "int \<Rightarrow> 'c \<Rightarrow> bool"
  assumes get_recent: "fresh now c \<Longrightarrow> get now c token = Some r \<Longrightarrow>
      \<exists>t. t \<le> now \<and> now - (ttl + slack) \<le> t \<and> source t token = r"
    and put_fresh: "fresh now c \<Longrightarrow> source t token = r \<Longrightarrow> t \<le> now \<Longrightarrow> now - slack \<le> t \<Longrightarrow> fresh now (put now token r c)"
    and put_error: "put now token (AuthError err) c = c"
    and fresh_later: "fresh now c \<Longrightarrow> now \<le> later \<Longrightarrow> fresh later c"
begin

text \<open>An answer that is accounted for: an error, which lets nobody in, or a recent answer of the source.\<close>

definition recent :: "int \<Rightarrow> string \<Rightarrow> auth_result \<Rightarrow> bool" where
  "recent now token r \<longleftrightarrow> (\<exists>err. r = AuthError err) \<or> (\<exists>t. t \<le> now \<and> now - (ttl + slack) \<le> t \<and> source t token = r)"

lemma recent_get: "fresh now c \<Longrightarrow> get now c token = Some r \<Longrightarrow> recent now token r"
  using get_recent unfolding recent_def by blast

lemma recent_put:
  assumes "fresh now c" and "source t token = r" and "t \<le> now" and "now - slack \<le> t" and "0 \<le> ttl"
  shows "recent now token r" and "fresh now (put now token r c)"
  using put_fresh [OF assms(1-4)] assms unfolding recent_def by (auto intro: exI [of _ t])

end

text \<open>The cache of the TokenReview authenticator: every record came from the review, within the
  TTL and the timeout of a lookup before its expiry.\<close>

definition cache_fresh ::
  "(int \<Rightarrow> string \<Rightarrow> auth_result) \<Rightarrow> int \<Rightarrow> int \<Rightarrow> token_cache_state \<Rightarrow> bool" where
  "cache_fresh source ttl now cache \<longleftrightarrow>
     (\<forall>token r expiry. gget cache token = Some (r, expiry) \<longrightarrow>
        (\<exists>t. t \<le> now \<and> expiry - (ttl + sharedLookupTimeout) \<le> t \<and> source t token = r))"

interpretation tc: token_cache source cache_get "store_record False ttl ttl" ttl sharedLookupTimeout "cache_fresh source ttl"
  for source ttl
proof unfold_locales
  fix now later t :: int and c :: token_cache_state and token r err
  show "store_record False ttl ttl now token (AuthError err) c = c" by (simp add: store_record_def)
  assume f: "cache_fresh source ttl now c"
  show "cache_fresh source ttl later c" if "now \<le> later"
    using f that unfolding cache_fresh_def by (meson order_trans)
  show "\<exists>t. t \<le> now \<and> now - (ttl + sharedLookupTimeout) \<le> t \<and> source t token = r" if g: "cache_get now c token = Some r"
  proof -
    obtain expiry where e: "gget c token = Some (r, expiry)" "now < expiry"
      using g by (auto simp: cache_get_def split: option.splits if_splits)
    then obtain t where "t \<le> now" "expiry - (ttl + sharedLookupTimeout) \<le> t" "source t token = r"
      using f unfolding cache_fresh_def by blast
    then show ?thesis using e(2) by (intro exI [of _ t]) simp
  qed
  assume s: "source t token = r" "t \<le> now" "now - sharedLookupTimeout \<le> t"
  then have "\<exists>t. t \<le> now \<and> now + ttl - (ttl + sharedLookupTimeout) \<le> t \<and> source t token = r"
    by (intro exI [of _ t]) simp
  with f show "cache_fresh source ttl now (store_record False ttl ttl now token r c)"
    by (auto simp: store_record_def cache_set_def cache_fresh_def gm.get_put split: auth_result.split)
qed

section \<open>The invariant of the concurrent cache\<close>

definition flight_ok :: "(int \<Rightarrow> string \<Rightarrow> auth_result) \<Rightarrow> int \<Rightarrow> string \<Rightarrow> flight \<Rightarrow> bool" where
  "flight_ok source now token f =
     (case f of
        Checking \<Rightarrow> True
      | Asking asked \<Rightarrow> asked \<le> now
      | Decided asked t r \<Rightarrow> asked \<le> t \<and> t \<le> now \<and> source t token = r)"

definition cached_inv :: "(int \<Rightarrow> string \<Rightarrow> auth_result) \<Rightarrow> int \<Rightarrow> cached_auth \<Rightarrow> bool" where
  "cached_inv source ttl s \<longleftrightarrow> cache_fresh source ttl (ca_now s) (ca_cache s) \<and>
     (\<forall>token f. gget (ca_flights s) token = Some f \<longrightarrow> flight_ok source (ca_now s) token f) \<and>
     (\<forall>(at, token, r) \<in> set (ca_answers s). tc.recent source ttl at token r)"

lemma flight_later: "flight_ok source now token f \<Longrightarrow> now \<le> later \<Longrightarrow> flight_ok source later token f"
  by (auto simp: flight_ok_def split: flight.splits)

lemma recent_error: "tc.recent source ttl now token (AuthError err)"
  by (simp add: tc.recent_def)

lemma finish_inv:
  assumes "cached_inv source ttl s" and "tc.recent source ttl (ca_now s) token r"
    and "cache_fresh source ttl (ca_now s) c"
  shows "cached_inv source ttl (finish_flight token r (s\<lparr>ca_cache := c\<rparr>))"
  using assms by (auto simp: cached_inv_def finish_flight_def gm.get_del split: if_splits)

lemma cached_inv_step:
  assumes "0 \<le> ttl" and "cached_inv source ttl s" and "cached_step source ttl s s'"
  shows "cached_inv source ttl s'"
proof -
  have f: "cache_fresh source ttl (ca_now s) (ca_cache s)" using assms(2) by (simp add: cached_inv_def)
  from assms(3) show ?thesis
  proof cases
    case (tick d)
    then show ?thesis
      using assms(2) tc.fresh_later [OF f, of "ca_now s + d"] flight_later [of source "ca_now s"] by (auto simp: cached_inv_def)
  next
    case (hit token r)
    then show ?thesis using assms(2) tc.recent_get [OF f] by (auto simp: cached_inv_def)
  next
    case (miss token)
    then show ?thesis using assms(2) by (auto simp: cached_inv_def gm.get_put flight_ok_def)
  next
    case (raced token r)
    then show ?thesis using finish_inv [OF assms(2) tc.recent_get [OF f] f] by simp
  next
    case (ask token)
    then show ?thesis using assms(2) by (auto simp: cached_inv_def gm.get_put flight_ok_def)
  next
    case (decide token asked)
    then show ?thesis using assms(2) by (fastforce simp: cached_inv_def gm.get_put flight_ok_def)
  next
    case (returns token asked t r)
    then have "flight_ok source (ca_now s) token (Decided asked t r)"
      using assms(2) by (simp add: cached_inv_def)
    then have "asked \<le> t" "t \<le> ca_now s" "source t token = r" by (simp_all add: flight_ok_def)
    then have "tc.recent source ttl (ca_now s) token r" "cache_fresh source ttl (ca_now s) (store_record False ttl ttl (ca_now s) token r (ca_cache s))"
      using tc.recent_put [OF f, of t token r] returns(3) assms(1) by auto
    then show ?thesis unfolding returns(1) by (rule finish_inv [OF assms(2)])
  next
    case (fails token f err)
    then show ?thesis using finish_inv [OF assms(2) recent_error f] by (simp add: tc.put_error)
  next
    case (crashes token f)
    then show ?thesis using finish_inv [OF assms(2) recent_error f] by simp
  next
    case (gives_up ws token ws' err)
    then show ?thesis using assms(2) recent_error by (auto simp: cached_inv_def)
  qed
qed

lemma cached_reach_inv:
  assumes "0 \<le> ttl" and "reach cached_init (cached_step source ttl) s"
  shows "cached_inv source ttl s"
  using assms(2)
proof (induction rule: reach.induct)
  case (start s)
  then show ?case by (simp add: cached_init_def cached_inv_def cache_fresh_def)
next
  case (step s t)
  then show ?case using cached_inv_step [OF assms(1)] by blast
qed

text \<open>The machine runs a request that nobody else shares as the function says, with the answer at the time at which it
  is given.\<close>

lemma cached_call_runs:
  assumes "cache_get (ca_now s) (ca_cache s) token = None" and "gget (ca_flights s) token = None"
    and "0 \<le> d" and "d \<le> sharedLookupTimeout"
    and "cached_AuthenticateToken source False ttl ttl (LookupReturns d) (ca_now s) token (ca_cache s) = (r, cache')"
  shows "\<exists>t. (cached_step source ttl)\<^sup>*\<^sup>* s t \<and> ca_cache t = cache' \<and> ca_now t = ca_now s + d \<and>
    (ca_now s + d, token, r) \<in> set (ca_answers t)"
proof -
  let ?step = "cached_step source ttl"
  define s1 where "s1 = s\<lparr>ca_waiting := token # ca_waiting s, ca_flights := gput token Checking (ca_flights s)\<rparr>"
  define s2 where "s2 = s1\<lparr>ca_flights := gput token (Asking (ca_now s)) (ca_flights s1)\<rparr>"
  define s3 where "s3 = s2\<lparr>ca_flights := gput token (Decided (ca_now s) (ca_now s) (source (ca_now s) token)) (ca_flights s2)\<rparr>"
  define s4 where "s4 = s3\<lparr>ca_now := ca_now s3 + d\<rparr>"
  define s5 where "s5 = finish_flight token (source (ca_now s) token)
    (s4\<lparr>ca_cache := store_record False ttl ttl (ca_now s4) token (source (ca_now s) token) (ca_cache s4)\<rparr>)"
  note defs = s1_def s2_def s3_def s4_def
  have r: "r = source (ca_now s) token" "cache' = store_record False ttl ttl (ca_now s + d) token r (ca_cache s)"
    using assms(1,5) by (auto simp: cached_AuthenticateToken_def Let_def)
  have "?step s s1" using cached_step.miss [OF assms(1), of source ttl] assms(2) by (simp add: s1_def)
  moreover have "?step s1 s2" using cached_step.ask [of s1 token source ttl] assms(1) by (simp add: s1_def s2_def gm.get_put)
  moreover have "?step s2 s3" using cached_step.decide [of s2 token "ca_now s" source ttl] by (simp add: s1_def s2_def s3_def gm.get_put)
  moreover have "?step s3 s4" unfolding s4_def by (rule cached_step.tick [OF assms(3)])
  moreover have "?step s4 s5" unfolding s5_def
    by (rule cached_step.returns [of s4 token "ca_now s" "ca_now s"]) (use assms(4) in \<open>simp_all add: defs gm.get_put\<close>)
  ultimately have "?step\<^sup>*\<^sup>* s s5" by (meson converse_rtranclp_into_rtranclp rtranclp.rtrancl_refl)
  then show ?thesis
    using r by (intro exI [of _ s5]) (simp add: s5_def finish_flight_def defs)
qed

lemma fold_gput_get:
  assumes "gmap_ok m"
  shows "gget (fold (\<lambda>(k, v) result. gput k v result) m acc) k =
    (case gget m k of Some v \<Rightarrow> Some v | None \<Rightarrow> gget acc k)"
  using assms
proof (induction m arbitrary: acc)
  case Nil
  then show ?case by simp
next
  case (Cons e m)
  obtain k' v where e: "e = (k', v)" by (cases e)
  have "gmap_ok m" and "gget m k' = None"
    using Cons.prems by (auto simp: e gmap_ok_def gget_def map_of_eq_None_iff)
  then show ?case
    using Cons.IH [of "gput k' v acc"]
    by (auto simp: e gm.get_put gget_Cons split: option.splits)
qed

lemma convertExtra_get:
  "gmap_ok m \<Longrightarrow> \<exists>m'. convertExtra (Some m) = Some m' \<and> gget m' = gget m"
  by (auto simp: convertExtra_def fun_eq_iff fold_gput_get split: option.splits)

section \<open>Properties\<close>

text \<open>
  C29. No authentication answer is older than the cache TTL and the time one lookup may take. In every state that any
  number of concurrent requests reach from an empty cache, also when lookups are slow, fail or crash, when requests share them
  and when callers give up: an answer that was given at a time is an error, which lets nobody in, or the answer that the TokenReview
  API of the cluster itself gave for that very token, not later than that time and not earlier than the TTL plus 30 seconds before. So
  a user whom the service-proxy lets in was authenticated by the API, without an error and under that name, within this time: a
  revoked token is refused after it.
\<close>

theorem cached_answers_are_recent:
  assumes "0 < ttl" and "reach cached_init (cached_step (\<lambda>now. review_AuthenticateToken name (client now)) ttl) s"
    and "(at, token, r) \<in> set (ca_answers s)"
  shows "(\<exists>err. r = AuthError err) \<or>
    (\<exists>t st. t \<le> at \<and> at - (ttl + 30 * 10 ^ 9) \<le> t \<and> client t token = Inr st \<and> trs_error st = [] \<and>
       (if trs_authenticated st
        then \<exists>u. r = Authenticated u \<and> ui_name u = trs_username st \<and> ui_uid u = trs_uid st \<and> ui_groups u = trs_groups st
        else r = NotAuthenticated))"
proof (cases "\<exists>err. r = AuthError err")
  case False
  have "0 \<le> ttl" using assms(1) by simp
  from cached_reach_inv [OF this assms(2)] assms(3) False
  obtain t where t: "t \<le> at" "at - (ttl + sharedLookupTimeout) \<le> t" "review_AuthenticateToken name (client t) token = r"
    by (auto simp: cached_inv_def tc.recent_def)
  obtain st where "client t token = Inr st" "trs_error st = []"
    using t(3) False by (auto simp: review_AuthenticateToken_def split: sum.splits if_splits)
  then show ?thesis
    using t by (intro disjI2 exI [of _ t] exI [of _ st])
      (auto simp: review_AuthenticateToken_def sharedLookupTimeout_def second_def)
qed simp

definition alice_status :: token_review_status where
  "alice_status = \<lparr>trs_error = [], trs_authenticated = True, trs_username = ''alice'', trs_uid = ''7'',
     trs_groups = [''dev''], trs_extra = None\<rparr>"

definition quiet_auth :: cached_auth where
  "quiet_auth = \<lparr>ca_now = 3, ca_cache = [], ca_flights = [], ca_waiting = [], ca_answers = []\<rparr>"

text \<open>A review that takes two time units, for a token that is revoked at time five.\<close>

theorem cached_answers_are_recent_witness:
  "\<exists>s u. (cached_step (\<lambda>now. review_AuthenticateToken ''hub'' (\<lambda>_. Inr (alice_status\<lparr>trs_authenticated := now < 5\<rparr>))) 10)\<^sup>*\<^sup>*
       quiet_auth s \<and> (5, ''tok'', Authenticated u) \<in> set (ca_answers s) \<and> ui_name u = ''alice''"
proof -
  define client :: "int \<Rightarrow> string \<Rightarrow> go_error + token_review_status"
    where "client = (\<lambda>now _. Inr (alice_status\<lparr>trs_authenticated := now < 5\<rparr>))"
  let ?source = "\<lambda>now. review_AuthenticateToken ''hub'' (client now)"
  obtain r cache' where call: "cached_AuthenticateToken ?source False 10 10 (LookupReturns 2) 3 ''tok'' [] = (r, cache')"
    by fastforce
  have r: "r = Authenticated \<lparr>ui_name = ''alice'', ui_uid = ''7'', ui_groups = [''dev''], ui_extra = None\<rparr>"
    using call by (simp add: cached_AuthenticateToken_def cache_get_def gget_def review_AuthenticateToken_def client_def
        alice_status_def convertExtra_def Let_def)
  obtain s where run: "(cached_step ?source 10)\<^sup>*\<^sup>* quiet_auth s" and answer: "(3 + 2, ''tok'', r) \<in> set (ca_answers s)"
    using cached_call_runs [of quiet_auth "''tok''" 2 ?source 10 r cache'] call
    by (auto simp: quiet_auth_def cache_get_def gget_def sharedLookupTimeout_def second_def)
  have "reach cached_init (cached_step ?source 10) quiet_auth"
    by (rule reach.start) (simp add: cached_init_def quiet_auth_def)
  with run have reached: "reach cached_init (cached_step ?source 10) s"
    by (induction rule: rtranclp_induct) (auto intro: reach.step)
  obtain t st where "client t ''tok'' = Inr st" "trs_authenticated st"
      "\<exists>u. r = Authenticated u \<and> ui_name u = trs_username st \<and> ui_uid u = trs_uid st \<and> ui_groups u = trs_groups st"
    using cached_answers_are_recent [OF _ reached answer] r by (auto split: if_splits)
  then have "\<exists>u. r = Authenticated u \<and> ui_name u = ''alice''" by (auto simp: client_def alice_status_def)
  with run answer show ?thesis unfolding client_def by auto
qed

text \<open>
  What a TokenReview means: a token is authenticated exactly if the API answers with
  \<open>authenticated\<close> and no error; the identity is the one the API names; and an error of the
  status counts as a rejection of the token exactly if it says, in any case, that the bearer
  token is invalid, every other one as a failure that stops the request.
\<close>

theorem token_review_meaning:
  "(case review_AuthenticateToken name review token of
      Authenticated u \<Rightarrow> (\<exists>st. review token = Inr st \<and> trs_error st = [] \<and> trs_authenticated st \<and>
        ui_name u = trs_username st \<and> ui_uid u = trs_uid st \<and> ui_groups u = trs_groups st)
    | NotAuthenticated \<Rightarrow> (\<exists>st. review token = Inr st \<and> trs_error st = [] \<and> \<not> trs_authenticated st)
    | AuthError err \<Rightarrow> review token = Inl err \<or>
        (\<exists>st. review token = Inr st \<and> trs_error st \<noteq> [] \<and>
          (errors_is err ErrTokenNotAuthenticated =
             contains (to_lower (trs_error st)) ''invalid bearer token'')))"
  by (auto simp: review_AuthenticateToken_def isAuthRejection_def authRejectionPatterns_def Let_def
      split: sum.splits)

text \<open>
  Errors are never cached, so a rejection that the API reports as an error (\<open>invalid bearer
  token\<close>, the answer of current Kubernetes for an unknown token) is not cached either: each
  further request with that token causes another TokenReview. Only the plain
  unauthenticated answer is cached as the comment at the constructor promises.
\<close>

theorem rejections_by_error_not_cached:
  assumes "0 < ttl" and "cache_get now cache token = None"
  shows "(case newTokenReviewAuthenticator client name ttl fate now token cache of
      (AuthError err, cache') \<Rightarrow> cache' = cache
    | (r, cache') \<Rightarrow> (\<exists>d. fate = LookupReturns d \<and> cache_get (now + d) cache' token = Some r))"
  using assms
  by (auto simp: newTokenReviewAuthenticator_def cached_AuthenticateToken_def cache_get_def [of "now + _"] store_record_def
      cache_set_def gm.get_put Let_def split: auth_result.splits lookup_fate.splits)

theorem rejections_by_error_not_cached_witness:
  "newTokenReviewAuthenticator (\<lambda>_ _. Inr (alice_status\<lparr>trs_error := ''Invalid bearer token''\<rparr>))
     ''hub'' 10 (LookupReturns 1) 0 ''tok'' [] =
   (AuthError (Wrapped ''hub TokenReview: Invalid bearer token: token not authenticated''
      ErrTokenNotAuthenticated), [])"
proof -
  have "isAuthRejection ''Invalid bearer token''"
    by code_simp
  then have r: "review_AuthenticateToken ''hub'' (\<lambda>_. Inr (alice_status\<lparr>trs_error := ''Invalid bearer token''\<rparr>)) ''tok'' =
      AuthError (Wrapped ''hub TokenReview: Invalid bearer token: token not authenticated'' ErrTokenNotAuthenticated)"
    by (simp add: review_AuthenticateToken_def)
  then have "fst (newTokenReviewAuthenticator (\<lambda>_ _. Inr (alice_status\<lparr>trs_error := ''Invalid bearer token''\<rparr>))
      ''hub'' 10 (LookupReturns 1) 0 ''tok'' []) =
      AuthError (Wrapped ''hub TokenReview: Invalid bearer token: token not authenticated'' ErrTokenNotAuthenticated)"
    by (simp add: newTokenReviewAuthenticator_def cached_AuthenticateToken_def cache_get_def Let_def)
  then show ?thesis
    using rejections_by_error_not_cached [of 10 0 "[]" "''tok''" "LookupReturns 1"
        "\<lambda>_ _. Inr (alice_status\<lparr>trs_error := ''Invalid bearer token''\<rparr>)" "''hub''"]
    by (simp add: cache_get_def split: prod.splits)
qed

end
