(* ===== verification/Oidc.thy ===== *)
theory Oidc
  imports Token_Auth Service_Url
begin

text \<open>
  OIDC authentication of the service-proxy (pkg/serviceproxy/oidc_authenticator.go,
  oidc_auth_provider.go, oidc_configmap_controller.go): the options and the JWT configuration
  built from them, the authenticator whose delegate is replaced when the CA bundle changes,
  and the controller that feeds it. The Kubernetes OIDC library is a parameter: \<open>newDelegate\<close>
  says whether a delegate can be built from a CA bundle, \<open>dauth\<close> and \<open>dhealth\<close> what it
  answers. The step relation \<open>oidc_step\<close> takes a reconciliation apart at every point where a request
  can read the authenticator: after the configuration is recorded, after the old delegate is taken
  out, after it is cancelled, and after the new one is published.
\<close>

section \<open>Options\<close>

record oidcOptions =
  oo_issuerURL :: string
  oo_clientID :: string
  oo_usernameClaim :: string
  oo_usernamePrefix :: string
  oo_groupsClaim :: string
  oo_groupsPrefix :: string
  oo_caConfigMap :: string
  oo_signingAlgs :: "string list"
  oo_requiredClaims :: "(string, string) gmap"
  oo_reservedNamePrefixes :: "string list"

definition newOIDCAuthProviderFactory :: oidcOptions where
  "newOIDCAuthProviderFactory =
     \<lparr>oo_issuerURL = [], oo_clientID = [], oo_usernameClaim = ''sub'', oo_usernamePrefix = [],
      oo_groupsClaim = [], oo_groupsPrefix = [], oo_caConfigMap = [], oo_signingAlgs = [''RS256''],
      oo_requiredClaims = [], oo_reservedNamePrefixes = [''system:'']\<rparr>"

definition effectiveUsernamePrefix :: "oidcOptions \<Rightarrow> string" where
  "effectiveUsernamePrefix opts =
     (let prefix = oo_usernamePrefix opts;
          prefix = (if prefix = [] \<and> oo_usernameClaim opts \<noteq> ''email''
                    then oo_issuerURL opts @ ''#'' else prefix)
      in if prefix = ''-'' then [] else prefix)"

record user_validation_rule =
  uvr_expression :: string
  uvr_message :: string

record jwt_config =
  jc_issuer_url :: string
  jc_audiences :: "string list"
  jc_username_claim :: string
  jc_username_prefix :: string
  jc_groups :: "(string \<times> string) option"
  jc_user_rules :: "user_validation_rule list"
  jc_claim_rules :: "(string \<times> string) list"

definition reserved_rules :: "string \<Rightarrow> user_validation_rule list" where
  "reserved_rules prefix =
     [\<lparr>uvr_expression = ''!user.username.startsWith('' @ go_quote prefix @ '')'',
       uvr_message = ''username cannot use the reserved '' @ prefix @ '' prefix''\<rparr>,
      \<lparr>uvr_expression = ''user.groups.all(group, !group.startsWith('' @ go_quote prefix @ ''))'',
       uvr_message = ''groups cannot use the reserved '' @ prefix @ '' prefix''\<rparr>]"

definition buildJWTAuthenticatorConfig :: "oidcOptions \<Rightarrow> jwt_config" where
  "buildJWTAuthenticatorConfig opts =
     \<lparr>jc_issuer_url = oo_issuerURL opts, jc_audiences = [oo_clientID opts],
      jc_username_claim = oo_usernameClaim opts, jc_username_prefix = effectiveUsernamePrefix opts,
      jc_groups = (if oo_groupsClaim opts \<noteq> [] then Some (oo_groupsClaim opts, oo_groupsPrefix opts) else None),
      jc_user_rules = concat (map reserved_rules (oo_reservedNamePrefixes opts)),
      jc_claim_rules =
        map (\<lambda>claim. (claim, case gget (oo_requiredClaims opts) claim of Some v \<Rightarrow> v | None \<Rightarrow> []))
          (sort (gkeys (oo_requiredClaims opts)))\<rparr>"

datatype oidc_error =
    SpecifiedTogether
  | EmptyReservedPrefix
  | InvalidOIDCConfiguration string
  | UnsupportedSigningAlgorithm string

text \<open>\<open>compile\<close> is the validation of the Kubernetes API server on the JWT configuration and
  \<open>validSigningAlgs\<close> its list of algorithms.\<close>

fun check_algs :: "string list \<Rightarrow> string list \<Rightarrow> oidc_error option" where
  "check_algs validSigningAlgs [] = None"
| "check_algs validSigningAlgs (alg # algs) =
     (if alg \<notin> set validSigningAlgs then Some (UnsupportedSigningAlgorithm alg)
      else check_algs validSigningAlgs algs)"

definition validateOIDCOptions ::
  "(jwt_config \<Rightarrow> string option) \<Rightarrow> string list \<Rightarrow> oidcOptions \<Rightarrow> oidc_error option" where
  "validateOIDCOptions compile validSigningAlgs opts =
     (if (oo_issuerURL opts = []) \<noteq> (oo_clientID opts = []) then Some SpecifiedTogether
      else if oo_issuerURL opts = [] then None
      else if [] \<in> set (oo_reservedNamePrefixes opts) then Some EmptyReservedPrefix
      else
        (case compile (buildJWTAuthenticatorConfig opts) of
           Some err \<Rightarrow> Some (InvalidOIDCConfiguration err)
         | None \<Rightarrow> check_algs validSigningAlgs (oo_signingAlgs opts)))"

definition oidc_enabled :: "oidcOptions \<Rightarrow> bool" where
  "oidc_enabled opts \<longleftrightarrow> oo_issuerURL opts \<noteq> []"

section \<open>The authenticator\<close>

text \<open>A delegate with the CA bundle it was built from (\<open>None\<close> for the system roots) and the
  configuration key it was built for; its number makes it distinct from all others.\<close>

record delegate =
  de_number :: nat
  de_key :: string
  de_ca :: "string option"

text \<open>Where the goroutine that holds \<open>reconcileMu\<close> stands: nobody reconciles; the new configuration is
  recorded, in place of another; the delegate has been taken out under \<open>mu\<close> and its cancel function is
  still to be called; the new delegate is being built.\<close>

datatype oidc_work = BuildWork string "string option" | UnavailableWork string go_error

datatype oidc_pc =
    PcIdle
  | PcObserved oidc_work string
  | PcSwapped oidc_work "nat option"
  | PcBuilding string "string option"

record oidcAuthenticator =
  oa_observed :: string
  oa_pc :: oidc_pc
  oa_delegate :: "delegate option"
  oa_error :: "go_error option"
  oa_built :: nat
  oa_cancelled :: "nat list"

definition empty_authenticator :: oidcAuthenticator where
  "empty_authenticator =
     \<lparr>oa_observed = [], oa_pc = PcIdle, oa_delegate = None,
      oa_error = Some (ErrorText ''oidc authenticator is not initialized''),
      oa_built = 0, oa_cancelled = []\<rparr>"

text \<open>\<open>replaceDelegate\<close>: the exchange under \<open>mu\<close>, then, outside the lock, the old delegate is cancelled.\<close>

definition swapDelegate ::
  "delegate option \<Rightarrow> go_error option \<Rightarrow> oidcAuthenticator \<Rightarrow> nat option \<times> oidcAuthenticator" where
  "swapDelegate new initializationError a =
     (map_option de_number (oa_delegate a), a\<lparr>oa_delegate := new, oa_error := initializationError\<rparr>)"

definition cancelOld :: "nat option \<Rightarrow> oidcAuthenticator \<Rightarrow> oidcAuthenticator" where
  "cancelOld oldCancel a =
     (case oldCancel of None \<Rightarrow> a | Some n \<Rightarrow> a\<lparr>oa_cancelled := n # oa_cancelled a\<rparr>)"

definition replaceDelegate ::
  "delegate option \<Rightarrow> go_error option \<Rightarrow> oidcAuthenticator \<Rightarrow> oidcAuthenticator" where
  "replaceDelegate new initializationError a =
     (case swapDelegate new initializationError a of (oldCancel, b) \<Rightarrow> cancelOld oldCancel b)"

definition reconcile_begin :: "string \<Rightarrow> oidcAuthenticator \<Rightarrow> oidcAuthenticator" where
  "reconcile_begin configurationKey a =
     replaceDelegate None (Some (ErrorText ''oidc authenticator is initializing''))
       (a\<lparr>oa_observed := configurationKey\<rparr>)"

definition reconcile_finish ::
  "(string option \<Rightarrow> go_error option) \<Rightarrow> string \<Rightarrow> string option \<Rightarrow> oidcAuthenticator
     \<Rightarrow> go_error option \<times> oidcAuthenticator" where
  "reconcile_finish newDelegate configurationKey caBundle a =
     (case newDelegate caBundle of
        Some err \<Rightarrow>
          (let initializationError = wrap ''failed to initialize OIDC authenticator: '' err
           in (Some initializationError, replaceDelegate None (Some initializationError) a))
      | None \<Rightarrow>
          (None, replaceDelegate
             (Some \<lparr>de_number = oa_built a, de_key = configurationKey, de_ca = caBundle\<rparr>) None
             (a\<lparr>oa_built := Suc (oa_built a)\<rparr>)))"

text \<open>The result is \<open>changed\<close>, the error and the new state.\<close>

definition reconcileCABundle ::
  "(string option \<Rightarrow> go_error option) \<Rightarrow> string \<Rightarrow> string option \<Rightarrow> oidcAuthenticator
     \<Rightarrow> bool \<times> go_error option \<times> oidcAuthenticator" where
  "reconcileCABundle newDelegate configurationKey caBundle a =
     (if oa_observed a = configurationKey then (False, None, a)
      else (True, reconcile_finish newDelegate configurationKey caBundle
                    (reconcile_begin configurationKey a)))"

definition markUnavailable ::
  "string \<Rightarrow> go_error \<Rightarrow> oidcAuthenticator \<Rightarrow> bool \<times> oidcAuthenticator" where
  "markUnavailable configurationKey err a =
     (if oa_observed a = configurationKey then (False, a)
      else (True, replaceDelegate None (Some err) (a\<lparr>oa_observed := configurationKey\<rparr>)))"

definition newOIDCAuthenticator ::
  "(string option \<Rightarrow> go_error option) \<Rightarrow> oidcOptions \<Rightarrow> go_error + oidcAuthenticator" where
  "newOIDCAuthenticator newDelegate opts =
     (if oo_caConfigMap opts \<noteq> [] then Inr empty_authenticator
      else
        (case reconcileCABundle newDelegate ''system-roots'' None empty_authenticator of
           (_, Some err, _) \<Rightarrow> Inl err
         | (_, None, a) \<Rightarrow> Inr a))"

text \<open>The snapshot of the delegate is taken under the lock; a nil delegate with a nil error would
  be read as an unauthenticated token.\<close>

definition oidc_AuthenticateToken ::
  "(delegate \<Rightarrow> go_error option) \<Rightarrow> (delegate \<Rightarrow> string \<Rightarrow> auth_result) \<Rightarrow> oidcAuthenticator \<Rightarrow> string
     \<Rightarrow> auth_result" where
  "oidc_AuthenticateToken dhealth dauth a token =
     (case oa_delegate a of
        None \<Rightarrow> (case oa_error a of Some err \<Rightarrow> AuthError err | None \<Rightarrow> NotAuthenticated)
      | Some d \<Rightarrow>
          (case dauth d token of
             AuthError err \<Rightarrow>
               (case dhealth d of
                  Some healthErr \<Rightarrow> AuthError healthErr
                | None \<Rightarrow> AuthError (Wrapped (error_text err @ '': '' @ error_text ErrTokenNotAuthenticated)
                            ErrTokenNotAuthenticated))
           | r \<Rightarrow> r))"

section \<open>The ConfigMap controller\<close>

definition caConfigurationKey :: "(string \<Rightarrow> string) \<Rightarrow> string \<Rightarrow> string \<Rightarrow> string" where
  "caConfigurationKey sha256 source caBundle = source @ '':'' @ hex_encode (sha256 caBundle)"

definition oidcCAConfigMapKey :: string where
  "oidcCAConfigMapKey = ''ca.crt''"

record ca_config_map =
  ccm_namespace :: string
  ccm_name :: string
  ccm_data :: "(string, string) gmap"
  ccm_binary_data :: "(string, string) gmap"

definition oidcCABundle :: "ca_config_map \<Rightarrow> go_error + string" where
  "oidcCABundle configMap =
     (let fromBinary = gget (ccm_binary_data configMap) oidcCAConfigMapKey;
          caBundle = (case gget (ccm_data configMap) oidcCAConfigMapKey of
                        Some d \<Rightarrow> Some d | None \<Rightarrow> fromBinary);
          whole = ''OIDC CA ConfigMap '' @ ccm_namespace configMap @ ''/'' @ ccm_name configMap
      in case caBundle of
           None \<Rightarrow> Inl (ErrorText (whole @ '' does not contain '' @ oidcCAConfigMapKey))
         | Some b \<Rightarrow>
             if b = [] then Inl (ErrorText (whole @ '' has an empty '' @ oidcCAConfigMapKey @ '' entry''))
             else Inr b)"

text \<open>The lister's answer: not found, another error, or the ConfigMap.\<close>

datatype lister_result = NotFound | ListerError go_error | Found ca_config_map

definition reconcile ::
  "(string \<Rightarrow> string) \<Rightarrow> (string option \<Rightarrow> go_error option) \<Rightarrow> string \<Rightarrow> string \<Rightarrow> lister_result
     \<Rightarrow> oidcAuthenticator \<Rightarrow> go_error option \<times> oidcAuthenticator" where
  "reconcile sha256 newDelegate namespace name got a =
     (let whole = ''OIDC CA ConfigMap '' @ namespace @ ''/'' @ name in
      case got of
        NotFound \<Rightarrow>
          (None, snd (markUnavailable ''configmap-missing'' (ErrorText (whole @ '' is not available'')) a))
      | ListerError err \<Rightarrow>
          (Some (wrap (''failed to get '' @ whole @ '' from informer cache: '') err), a)
      | Found configMap \<Rightarrow>
          (case oidcCABundle configMap of
             Inl err \<Rightarrow>
               (None, snd (markUnavailable
                  (caConfigurationKey sha256 ''configmap-invalid'' (error_text err)) err a))
           | Inr caBundle \<Rightarrow>
               (None, snd (snd (reconcileCABundle newDelegate
                  (caConfigurationKey sha256 ''configmap'' caBundle) (Some caBundle) a)))))"

text \<open>The start of the controller: the informer's sync, the first reconciliation.\<close>

definition startOIDCCAConfigMapController ::
  "(string \<Rightarrow> string) \<Rightarrow> (string option \<Rightarrow> go_error option) \<Rightarrow> string \<Rightarrow> string \<Rightarrow> go_error option
     \<Rightarrow> lister_result \<Rightarrow> oidcAuthenticator \<Rightarrow> go_error option \<times> oidcAuthenticator" where
  "startOIDCCAConfigMapController sha256 newDelegate namespace name sync_err got a =
     (case sync_err of
        Some err \<Rightarrow> (Some (wrap ''failed to sync OIDC CA ConfigMap informer: '' err), a)
      | None \<Rightarrow> reconcile sha256 newDelegate namespace name got a)"

text \<open>\<open>oidcAuthProviderFactory.build\<close>.\<close>

definition oidc_build ::
  "(string \<Rightarrow> string) \<Rightarrow> (string option \<Rightarrow> go_error option) \<Rightarrow> string \<Rightarrow> go_error option \<Rightarrow> lister_result
     \<Rightarrow> oidcOptions \<Rightarrow> go_error + oidcAuthenticator" where
  "oidc_build sha256 newDelegate podNamespace sync_err got opts =
     (case newOIDCAuthenticator newDelegate opts of
        Inl err \<Rightarrow> Inl err
      | Inr a \<Rightarrow>
          if oo_caConfigMap opts \<noteq> [] then
            (case startOIDCCAConfigMapController sha256 newDelegate podNamespace (oo_caConfigMap opts)
                    sync_err got a of
               (Some err, _) \<Rightarrow> Inl (wrap ''failed to start OIDC CA ConfigMap controller: '' err)
             | (None, a) \<Rightarrow> Inr a)
          else Inr a)"

section \<open>Steps\<close>

text \<open>A reconciliation holds \<open>reconcileMu\<close>, so a second one starts only when the first is over. Taking the
  delegate out of \<open>replaceDelegate\<close> when the new one is published finds none, since the first exchange
  has removed it; that exchange is one step.\<close>

fun work_key :: "oidc_work \<Rightarrow> string" where
  "work_key (BuildWork key ca) = key"
| "work_key (UnavailableWork key err) = key"

fun work_error :: "oidc_work \<Rightarrow> go_error" where
  "work_error (BuildWork key ca) = ErrorText ''oidc authenticator is initializing''"
| "work_error (UnavailableWork key err) = err"

fun after_cancel :: "oidc_work \<Rightarrow> oidc_pc" where
  "after_cancel (BuildWork key ca) = PcBuilding key ca"
| "after_cancel (UnavailableWork key err) = PcIdle"

inductive oidc_step :: "(string option \<Rightarrow> go_error option) \<Rightarrow> oidcAuthenticator \<Rightarrow> oidcAuthenticator \<Rightarrow> bool"
  for newDelegate where
  observe_step: "oa_pc a = PcIdle \<Longrightarrow> oa_observed a \<noteq> work_key w \<Longrightarrow>
    oidc_step newDelegate a (a\<lparr>oa_observed := work_key w, oa_pc := PcObserved w (oa_observed a)\<rparr>)"
| swap_step: "oa_pc a = PcObserved w previous \<Longrightarrow> swapDelegate None (Some (work_error w)) a = (old, b) \<Longrightarrow>
    oidc_step newDelegate a (b\<lparr>oa_pc := PcSwapped w old\<rparr>)"
| cancel_step: "oa_pc a = PcSwapped w old \<Longrightarrow>
    oidc_step newDelegate a ((cancelOld old a)\<lparr>oa_pc := after_cancel w\<rparr>)"
| publish_step: "oa_pc a = PcBuilding key ca \<Longrightarrow> reconcile_finish newDelegate key ca a = (err, b) \<Longrightarrow>
    oidc_step newDelegate a (b\<lparr>oa_pc := PcIdle\<rparr>)"

definition oidc_init :: "oidcAuthenticator \<Rightarrow> bool" where
  "oidc_init a \<longleftrightarrow> a = empty_authenticator"

text \<open>The configuration that is in force for requests: the observed one, except in the instant after a new
  one was recorded and before the delegate is taken out.\<close>

definition key_in_force :: "oidcAuthenticator \<Rightarrow> string" where
  "key_in_force a = (case oa_pc a of PcObserved w previous \<Rightarrow> previous | _ \<Rightarrow> oa_observed a)"

definition to_cancel :: "oidcAuthenticator \<Rightarrow> nat set" where
  "to_cancel a = (case oa_pc a of PcSwapped w (Some n) \<Rightarrow> {n} | _ \<Rightarrow> {})"

definition live_delegates :: "oidcAuthenticator \<Rightarrow> nat set" where
  "live_delegates a = {..<oa_built a} - set (oa_cancelled a)"

text \<open>A published delegate is the one for the configuration in force and can be built from its bundle;
  without one there is an error to report; and the delegates that are not cancelled are the
  published one and the one whose cancel function is about to be called.\<close>

definition oidc_inv :: "(string option \<Rightarrow> go_error option) \<Rightarrow> oidcAuthenticator \<Rightarrow> bool" where
  "oidc_inv newDelegate a \<longleftrightarrow>
     (case oa_delegate a of
        None \<Rightarrow> oa_error a \<noteq> None \<and> live_delegates a = to_cancel a
      | Some d \<Rightarrow> de_key d = key_in_force a \<and> newDelegate (de_ca d) = None \<and> live_delegates a = {de_number d}) \<and>
     (case oa_pc a of
        PcIdle \<Rightarrow> True
      | PcObserved w previous \<Rightarrow> oa_observed a = work_key w
      | PcSwapped w old \<Rightarrow> oa_observed a = work_key w \<and> oa_delegate a = None
      | PcBuilding key ca \<Rightarrow> oa_observed a = key \<and> oa_delegate a = None) \<and>
     set (oa_cancelled a) \<subseteq> {..<oa_built a}"

lemmas oidc_defs = replaceDelegate_def swapDelegate_def cancelOld_def reconcile_begin_def
  reconcile_finish_def markUnavailable_def Let_def

lemma oidc_inv_step:
  assumes "oidc_step newDelegate a b" and inv: "oidc_inv newDelegate a"
  shows "oidc_inv newDelegate b"
  using assms(1)
proof cases
  case (observe_step w)
  then show ?thesis
    using inv by (auto simp: oidc_inv_def key_in_force_def to_cancel_def live_delegates_def split: option.splits)
next
  case (swap_step w previous old b')
  then show ?thesis
    using inv by (auto simp: oidc_inv_def to_cancel_def live_delegates_def swapDelegate_def split: option.splits)
next
  case (cancel_step w old)
  then show ?thesis
    using inv by (cases w; cases old) (auto simp: oidc_inv_def to_cancel_def live_delegates_def cancelOld_def)
next
  case (publish_step key ca err b')
  then show ?thesis
    using inv
    by (cases "newDelegate ca")
      (auto simp: oidc_inv_def to_cancel_def live_delegates_def key_in_force_def oidc_defs lessThan_Suc)
qed

interpretation oidc: invariant_rule oidc_init "oidc_step newDelegate" "oidc_inv newDelegate"
  for newDelegate
proof unfold_locales
  show "oidc_inv newDelegate a" if "oidc_init a" for a
    using that by (simp add: oidc_init_def empty_authenticator_def oidc_inv_def live_delegates_def to_cancel_def)
qed (rule oidc_inv_step)

section \<open>Lemmas\<close>

text \<open>The operations of the controller are runs of the step relation.\<close>

lemma disable_reach:
  assumes "reach oidc_init (oidc_step nd) a" and idle: "oa_pc a = PcIdle" and "oa_observed a \<noteq> work_key w"
  shows "reach oidc_init (oidc_step nd)
    ((replaceDelegate None (Some (work_error w)) (a\<lparr>oa_observed := work_key w\<rparr>))\<lparr>oa_pc := after_cancel w\<rparr>)"
proof -
  let ?b = "a\<lparr>oa_observed := work_key w, oa_pc := PcObserved w (oa_observed a)\<rparr>"
  let ?c = "(snd (swapDelegate None (Some (work_error w)) ?b))\<lparr>oa_pc := PcSwapped w (map_option de_number (oa_delegate a))\<rparr>"
  have "reach oidc_init (oidc_step nd) ?b"
    by (rule reach.step [OF assms(1)]) (rule observe_step [OF idle assms(3)])
  moreover have "oidc_step nd ?b ?c"
    by (rule swap_step [of _ w "oa_observed a"]) (simp_all add: swapDelegate_def)
  moreover have "oidc_step nd ?c
      ((cancelOld (map_option de_number (oa_delegate a)) ?c)\<lparr>oa_pc := after_cancel w\<rparr>)"
    by (rule cancel_step) simp
  moreover have "(cancelOld (map_option de_number (oa_delegate a)) ?c)\<lparr>oa_pc := after_cancel w\<rparr> =
      (replaceDelegate None (Some (work_error w)) (a\<lparr>oa_observed := work_key w\<rparr>))\<lparr>oa_pc := after_cancel w\<rparr>"
    by (cases "oa_delegate a") (simp_all add: oidc_defs)
  ultimately show ?thesis by (metis reach.step)
qed

lemma pc_kept: "oa_pc (replaceDelegate new err a) = oa_pc a"
  "reconcile_finish nd key ca (a\<lparr>oa_pc := pc\<rparr>) = apsnd (\<lambda>b. b\<lparr>oa_pc := pc\<rparr>) (reconcile_finish nd key ca a)"
  by (cases "oa_delegate a"; cases "nd ca"; simp add: oidc_defs)+

lemma observed_kept [simp]:
  "oa_observed (replaceDelegate new err a) = oa_observed a"
  "oa_observed (reconcile_begin key a) = key"
  "oa_observed (snd (reconcile_finish nd key ca a)) = oa_observed a"
proof -
  show r: "oa_observed (replaceDelegate new err a) = oa_observed a" for new err a
    by (cases "oa_delegate a") (simp_all add: oidc_defs)
  show "oa_observed (reconcile_begin key a) = key" by (simp add: reconcile_begin_def r)
  show "oa_observed (snd (reconcile_finish nd key ca a)) = oa_observed a"
    by (cases "nd ca") (simp_all add: reconcile_finish_def Let_def r)
qed

lemma reconcileCABundle_reach:
  assumes "reach oidc_init (oidc_step nd) a" and "oa_pc a = PcIdle"
    and "reconcileCABundle nd key ca a = (changed, err, b)"
  shows "reach oidc_init (oidc_step nd) b \<and> oa_pc b = PcIdle"
proof (cases "oa_observed a = key")
  case False
  let ?m = "(reconcile_begin key a)\<lparr>oa_pc := PcBuilding key ca\<rparr>"
  have b: "reconcile_finish nd key ca (reconcile_begin key a) = (err, b)"
    using False assms(3) by (simp add: reconcileCABundle_def)
  have idle: "oa_pc b = PcIdle"
    using b assms(2) by (cases "nd ca") (auto simp: reconcile_finish_def reconcile_begin_def Let_def pc_kept)
  have "reach oidc_init (oidc_step nd) ?m"
    using disable_reach [OF assms(1,2), of "BuildWork key ca"] False by (simp add: reconcile_begin_def)
  moreover have "oidc_step nd ?m (b\<lparr>oa_pc := PcBuilding key ca\<rparr>\<lparr>oa_pc := PcIdle\<rparr>)"
    by (rule publish_step [of _ key ca _ err]) (simp_all add: pc_kept b)
  moreover have "b\<lparr>oa_pc := PcBuilding key ca\<rparr>\<lparr>oa_pc := PcIdle\<rparr> = b" using idle by simp
  ultimately show ?thesis using idle by (metis reach.step)
qed (use assms in \<open>simp add: reconcileCABundle_def\<close>)

lemma markUnavailable_reach:
  assumes "reach oidc_init (oidc_step nd) a" and "oa_pc a = PcIdle"
    and "markUnavailable key err a = (changed, b)"
  shows "reach oidc_init (oidc_step nd) b \<and> oa_pc b = PcIdle"
proof (cases "oa_observed a = key")
  case False
  then have b: "b = replaceDelegate None (Some err) (a\<lparr>oa_observed := key\<rparr>)"
    using assms(3) by (simp add: markUnavailable_def)
  then have idle: "oa_pc b = PcIdle" using assms(2) by (simp add: pc_kept)
  then have "b\<lparr>oa_pc := PcIdle\<rparr> = b" by simp
  moreover have "reach oidc_init (oidc_step nd) (b\<lparr>oa_pc := PcIdle\<rparr>)"
    using disable_reach [OF assms(1,2), of "UnavailableWork key err"] False b by simp
  ultimately show ?thesis using idle by metis
qed (use assms in \<open>simp add: markUnavailable_def\<close>)

lemma reconcile_reach:
  assumes "reach oidc_init (oidc_step nd) a" and "oa_pc a = PcIdle"
    and "reconcile sha256 nd namespace name got a = (err, b)"
  shows "reach oidc_init (oidc_step nd) b \<and> oa_pc b = PcIdle"
  using assms(3) markUnavailable_reach [OF assms(1,2)] reconcileCABundle_reach [OF assms(1,2)]
    assms(1,2)
  by (auto simp: reconcile_def Let_def split: lister_result.splits sum.splits)
     (metis prod.collapse)+

section \<open>Properties\<close>

text \<open>
  C7. The OIDC authenticator fails closed while its configuration changes, at every point where a
  request can read it. A delegate that a request finds was built, from a CA bundle that is valid, for the
  configuration in force: the one observed last, or, in the instant after a new one was recorded and
  before the delegate is taken out, the one before it. From then until the replacement is published
  there is no delegate. Without a delegate there is an error to report, so that no token counts as
  unauthenticated for lack of one. Of all delegates ever built only the published one is not
  cancelled, and, right after it was taken out, the one whose cancellation comes next.
\<close>

theorem oidc_fails_closed:
  assumes "reach oidc_init (oidc_step newDelegate) a"
  shows "(case oa_delegate a of
      None \<Rightarrow> oa_error a \<noteq> None \<and>
        {..<oa_built a} - set (oa_cancelled a) = (case oa_pc a of PcSwapped w (Some n) \<Rightarrow> {n} | _ \<Rightarrow> {})
    | Some d \<Rightarrow> newDelegate (de_ca d) = None \<and> {..<oa_built a} - set (oa_cancelled a) = {de_number d} \<and>
        (case oa_pc a of
           PcIdle \<Rightarrow> de_key d = oa_observed a
         | PcObserved w previous \<Rightarrow> de_key d = previous
         | PcSwapped w old \<Rightarrow> False
         | PcBuilding key ca \<Rightarrow> False))"
  using oidc.reach_inv [OF assms]
  by (auto simp: oidc_inv_def live_delegates_def to_cancel_def key_in_force_def split: option.splits oidc_pc.splits)

definition two_bundles :: oidcAuthenticator where
  "two_bundles = snd (snd (reconcileCABundle (\<lambda>_. None) ''configmap:2'' (Some ''ca2'')
     (snd (snd (reconcileCABundle (\<lambda>_. None) ''configmap:1'' (Some ''ca1'') empty_authenticator)))))"

lemma two_bundles_reach: "reach oidc_init (oidc_step (\<lambda>_. None)) two_bundles"
proof -
  have "reach oidc_init (oidc_step (\<lambda>_. None)) empty_authenticator"
    by (rule reach.start) (simp add: oidc_init_def)
  moreover have "oa_pc empty_authenticator = PcIdle"
    by (simp add: empty_authenticator_def)
  ultimately have "reach oidc_init (oidc_step (\<lambda>_. None))
      (snd (snd (reconcileCABundle (\<lambda>_. None) ''configmap:1'' (Some ''ca1'') empty_authenticator))) \<and>
      oa_pc (snd (snd (reconcileCABundle (\<lambda>_. None) ''configmap:1'' (Some ''ca1'') empty_authenticator))) = PcIdle"
    by (metis reconcileCABundle_reach prod.collapse)
  then show ?thesis
    unfolding two_bundles_def by (metis reconcileCABundle_reach prod.collapse)
qed

theorem oidc_fails_closed_witness:
  "(case oa_delegate two_bundles of
      None \<Rightarrow> False
    | Some d \<Rightarrow> de_key d = ''configmap:2'' \<and> {..<oa_built two_bundles} - set (oa_cancelled two_bundles) = {de_number d})"
  using oidc_fails_closed [OF two_bundles_reach]
  by (simp add: two_bundles_def reconcileCABundle_def oidc_defs empty_authenticator_def)

definition rejects :: "auth_result \<Rightarrow> bool" where
  "rejects r = (case r of Authenticated u \<Rightarrow> False | NotAuthenticated \<Rightarrow> True
     | AuthError err \<Rightarrow> errors_is err ErrTokenNotAuthenticated)"

text \<open>
  No token is rejected for the provider's fault: in a reachable state, with library errors
  that do not claim to be rejections, the OIDC authenticator rejects a token only if it has
  a delegate for the observed configuration whose health check passed before and which
  itself refused the token. While the authenticator is being initialised or its issuer is
  unhealthy the answer is an infrastructure error or the delegate's own acceptance.
\<close>

theorem oidc_rejects_only_refused_tokens:
  assumes "reach oidc_init (oidc_step newDelegate) a"
    and "rejects (oidc_AuthenticateToken dhealth dauth a token)"
    and "oa_error a \<noteq> None \<Longrightarrow> \<not> errors_is (the (oa_error a)) ErrTokenNotAuthenticated"
    and "\<And>d. dhealth d \<noteq> None \<Longrightarrow> \<not> errors_is (the (dhealth d)) ErrTokenNotAuthenticated"
  shows "(case oa_delegate a of
      None \<Rightarrow> False
    | Some d \<Rightarrow> (case dauth d token of
        Authenticated u \<Rightarrow> False | NotAuthenticated \<Rightarrow> True | AuthError err \<Rightarrow> dhealth d = None))"
proof (cases "oa_delegate a")
  case None
  then have "oa_error a \<noteq> None"
    using oidc.reach_inv [OF assms(1)] by (simp add: oidc_inv_def)
  then show ?thesis
    using None assms(2,3) by (auto simp: oidc_AuthenticateToken_def rejects_def)
next
  case (Some d)
  then show ?thesis
    using assms(2) assms(4) [of d]
    by (auto simp: oidc_AuthenticateToken_def rejects_def split: auth_result.splits option.splits)
qed

theorem oidc_rejects_only_refused_tokens_witness:
  "oa_delegate two_bundles \<noteq> None \<and>
   rejects (oidc_AuthenticateToken (\<lambda>_. None) (\<lambda>_ _. AuthError (ErrorText ''expired'')) two_bundles ''tok'')"
proof -
  have r: "rejects (oidc_AuthenticateToken (\<lambda>_. None) (\<lambda>_ _. AuthError (ErrorText ''expired'')) two_bundles ''tok'')"
    and e: "oa_error two_bundles = None"
    by (simp_all add: two_bundles_def reconcileCABundle_def oidc_defs empty_authenticator_def
        oidc_AuthenticateToken_def rejects_def)
  then show ?thesis
    using oidc_rejects_only_refused_tokens [OF two_bundles_reach r] by (auto split: option.splits)
qed

text \<open>
  The controller converges: reconciling the same ConfigMap again changes nothing, so
  repeated informer events and resyncs neither rebuild the delegate nor cancel it. (A bundle
  that no delegate can be built from is not tried again before the ConfigMap changes.)
\<close>

theorem oidc_reconcile_idempotent:
  "(case reconcile sha256 newDelegate namespace name got a of
      (err, b) \<Rightarrow> reconcile sha256 newDelegate namespace name got b = (err, b))"
  by (simp add: reconcile_def reconcileCABundle_def markUnavailable_def Let_def split: lister_result.split sum.split)

end
