(* ===== verification/Service_Proxy.thy ===== *)
theory Service_Proxy
  imports Oidc Target_Service Reverse_Proxy
begin

text \<open>
  The service-proxy on a managed cluster (pkg/serviceproxy/authentication.go, auth_provider.go,
  managed_cluster_auth_provider.go, hub_auth_provider.go, service_proxy.go): the chain of
  authentication providers, the translation of an authenticated identity into impersonation
  headers, and the request handler. A provider is a record of its three methods. The locale
  \<open>external_identity\<close> is the contract of the providers whose users the managed cluster does
  not know; it is interpreted for the hub and the OIDC provider.
\<close>

section \<open>Impersonation headers\<close>

definition impersonateHeaderPrefix :: string where
  "impersonateHeaderPrefix = ''Impersonate-''"

definition ImpersonateUserHeader :: string where
  "ImpersonateUserHeader = ''Impersonate-User''"

definition ImpersonateGroupHeader :: string where
  "ImpersonateGroupHeader = ''Impersonate-Group''"

definition AllAuthenticated :: string where
  "AllAuthenticated = ''system:authenticated''"

definition isImpersonationHeader :: "string \<Rightarrow> bool" where
  "isImpersonationHeader key \<longleftrightarrow>
     length key \<ge> length impersonateHeaderPrefix \<and>
     equal_fold (take (length impersonateHeaderPrefix) key) impersonateHeaderPrefix"

definition hasClientImpersonationHeaders :: "header \<Rightarrow> bool" where
  "hasClientImpersonationHeaders headers \<longleftrightarrow> list_ex isImpersonationHeader (gkeys headers)"

text \<open>The loop deletes the map entry under the key itself, not under its canonical form.\<close>

definition deleteImpersonationHeaders :: "header \<Rightarrow> header" where
  "deleteImpersonationHeaders headers =
     fold (\<lambda>key h. if isImpersonationHeader key then gdel key h else h) (gkeys headers) headers"

text \<open>\<open>impersonateUser\<close>, with the result of reading the service account token.\<close>

definition impersonateUser ::
  "go_error + string \<Rightarrow> string \<Rightarrow> string list \<Rightarrow> header \<Rightarrow> go_error + header" where
  "impersonateUser getImpersonateToken username groups h =
     (let h = deleteImpersonationHeaders h;
          h = fold (\<lambda>group h. header_add h ImpersonateGroupHeader group) groups h;
          h = header_set h ImpersonateUserHeader username
      in case getImpersonateToken of
           Inl err \<Rightarrow> Inl (ErrorText (''failed to get impersonate token: '' @ error_text err))
         | Inr token \<Rightarrow> Inr (header_set h ''Authorization'' (''Bearer '' @ token)))"

definition applyExternalIdentity ::
  "(string \<Rightarrow> string list \<Rightarrow> header \<Rightarrow> go_error + header) \<Rightarrow> user_info \<Rightarrow> header \<Rightarrow> go_error + header" where
  "applyExternalIdentity impersonate externalUser h =
     (let groups = ui_groups externalUser;
          groups = (if AllAuthenticated \<notin> set groups then groups @ [AllAuthenticated] else groups)
      in impersonate (ui_name externalUser) groups h)"

section \<open>Providers\<close>

record authProviderMetadata =
  am_id :: string
  am_displayName :: string
  am_authenticationTarget :: string
  am_standaloneFailureTarget :: string

definition standaloneTarget :: "authProviderMetadata \<Rightarrow> string" where
  "standaloneTarget m =
     (if am_standaloneFailureTarget m \<noteq> [] then am_standaloneFailureTarget m
      else am_authenticationTarget m)"

record authProvider =
  ap_Metadata :: authProviderMetadata
  ap_AuthenticateToken :: "string \<Rightarrow> auth_result"
  ap_ApplyIdentity :: "user_info \<Rightarrow> header \<Rightarrow> go_error + header"

definition managedClusterAuthProviderMetadata :: authProviderMetadata where
  "managedClusterAuthProviderMetadata =
     \<lparr>am_id = ''managed-cluster'', am_displayName = ''managed cluster'',
      am_authenticationTarget = ''managed cluster'', am_standaloneFailureTarget = ''the managed cluster''\<rparr>"

definition hubAuthProviderMetadata :: authProviderMetadata where
  "hubAuthProviderMetadata =
     \<lparr>am_id = ''hub'', am_displayName = ''hub'', am_authenticationTarget = ''hub cluster'',
      am_standaloneFailureTarget = []\<rparr>"

definition oidcAuthProviderMetadata :: authProviderMetadata where
  "oidcAuthProviderMetadata =
     \<lparr>am_id = ''oidc'', am_displayName = ''oidc'',
      am_authenticationTarget = ''the configured OIDC issuer'', am_standaloneFailureTarget = []\<rparr>"

definition hub_ApplyIdentity ::
  "(string \<Rightarrow> string list \<Rightarrow> header \<Rightarrow> go_error + header) \<Rightarrow> user_info \<Rightarrow> header \<Rightarrow> go_error + header" where
  "hub_ApplyIdentity impersonate hubUser h =
     (let username = ui_name hubUser;
          username = (if has_prefix username ''system:serviceaccount:''
                      then ''cluster:hub:'' @ username else username)
      in impersonate username (ui_groups hubUser) h)"

definition newManagedClusterAuthProvider :: "(string \<Rightarrow> auth_result) \<Rightarrow> authProvider" where
  "newManagedClusterAuthProvider token =
     \<lparr>ap_Metadata = managedClusterAuthProviderMetadata, ap_AuthenticateToken = token,
      ap_ApplyIdentity = (\<lambda>_ h. Inr h)\<rparr>"

definition hubAuthProvider ::
  "(string \<Rightarrow> auth_result) \<Rightarrow> (string \<Rightarrow> string list \<Rightarrow> header \<Rightarrow> go_error + header) \<Rightarrow> authProvider" where
  "hubAuthProvider token impersonate =
     \<lparr>ap_Metadata = hubAuthProviderMetadata, ap_AuthenticateToken = token,
      ap_ApplyIdentity = hub_ApplyIdentity impersonate\<rparr>"

definition oidcAuthProvider ::
  "(string \<Rightarrow> auth_result) \<Rightarrow> (string \<Rightarrow> string list \<Rightarrow> header \<Rightarrow> go_error + header) \<Rightarrow> authProvider" where
  "oidcAuthProvider token impersonate =
     \<lparr>ap_Metadata = oidcAuthProviderMetadata, ap_AuthenticateToken = token,
      ap_ApplyIdentity = applyExternalIdentity impersonate\<rparr>"

text \<open>A factory: whether it is enabled, its validation, the files it reads, and what it builds.\<close>

record authProviderFactory =
  fa_enabled :: bool
  fa_validate :: "go_error option"
  fa_configFiles :: "string list"
  fa_build :: "go_error + authProvider"

definition hubAuthProviderFactory :: "bool \<Rightarrow> string \<Rightarrow> go_error + authProvider \<Rightarrow> authProviderFactory" where
  "hubAuthProviderFactory enableImpersonation kubeConfig build =
     \<lparr>fa_enabled = enableImpersonation, fa_validate = None,
      fa_configFiles = (if enableImpersonation then [kubeConfig] else []), fa_build = build\<rparr>"

definition authProviderConfigFiles :: "authProviderFactory list \<Rightarrow> string list" where
  "authProviderConfigFiles factories = concat (map fa_configFiles factories)"

fun build_all :: "authProvider list \<Rightarrow> authProviderFactory list \<Rightarrow> go_error + authProvider list" where
  "build_all providers [] = Inr providers"
| "build_all providers (factory # rest) =
     (case fa_build factory of
        Inl err \<Rightarrow> Inl err
      | Inr provider \<Rightarrow> build_all (providers @ [provider]) rest)"

definition initializeAuthProviders ::
  "authProvider \<Rightarrow> authProviderFactory list \<Rightarrow> go_error + authProvider list" where
  "initializeAuthProviders managedCluster factories =
     (let enabledFactories = filter fa_enabled factories
      in if enabledFactories = [] then Inr []
         else build_all [managedCluster] enabledFactories)"

definition activeAuthProviderIDs :: "authProvider list \<Rightarrow> string list" where
  "activeAuthProviderIDs providers = map (am_id \<circ> ap_Metadata) providers"

section \<open>Authentication\<close>

definition authenticationFailureError :: "authProvider list \<Rightarrow> go_error" where
  "authenticationFailureError providers =
     (let metadata = map ap_Metadata providers;
          targets = map am_authenticationTarget metadata
      in case metadata of
           [] \<Rightarrow> ErrorText ''authentication failed: token is not valid for the managed cluster''
         | [m] \<Rightarrow> ErrorText (''authentication failed: token is not valid for '' @ standaloneTarget m)
         | [m, n] \<Rightarrow> ErrorText (''authentication failed: token is neither valid for ''
                       @ am_authenticationTarget m @ '' nor '' @ am_authenticationTarget n)
         | _ \<Rightarrow> ErrorText (''authentication failed: token is not valid for ''
                  @ join '', '' (butlast targets) @ '', or '' @ last targets))"

text \<open>The loop over the providers; \<open>all\<close> is the whole list, for the final message.\<close>

fun try_providers ::
  "authProvider list \<Rightarrow> string \<Rightarrow> authProvider list \<Rightarrow> header \<Rightarrow> go_error + header" where
  "try_providers all token [] h = Inl (authenticationFailureError all)"
| "try_providers all token (p # ps) h =
     (case ap_AuthenticateToken p token of
        AuthError err \<Rightarrow>
          if errors_is err ErrTokenNotAuthenticated then try_providers all token ps h
          else Inl (ErrorText (am_displayName (ap_Metadata p) @ '' authentication failed: '' @ error_text err))
      | NotAuthenticated \<Rightarrow> try_providers all token ps h
      | Authenticated u \<Rightarrow>
          (case ap_ApplyIdentity p u h of
             Inl err \<Rightarrow> Inl (ErrorText (''failed to apply '' @ am_displayName (ap_Metadata p)
                          @ '' identity: '' @ error_text err))
           | Inr h' \<Rightarrow> Inr h'))"

definition bearer_token :: "header \<Rightarrow> string" where
  "bearer_token h = trim_prefix (header_get h ''Authorization'') ''Bearer ''"

definition processAuthentication :: "authProvider list \<Rightarrow> header \<Rightarrow> go_error + header" where
  "processAuthentication providers h = try_providers providers (bearer_token h) providers h"

section \<open>The handler\<close>

datatype proxy_response =
    ProxyError nat go_error
  | TargetError nat target_error
  | BadGateway
  | Forward proxied

text \<open>\<open>dump_err\<close> is the failure of the request dump at high verbosity, \<open>transport\<close> whether the
  transport has been set up.\<close>

definition sp_ServeHTTP ::
  "(string \<Rightarrow> url_error + string) \<Rightarrow> go_error option \<Rightarrow> bool \<Rightarrow> authProvider list \<Rightarrow> http_request
     \<Rightarrow> proxy_response" where
  "sp_ServeHTTP ipl dump_err transport providers req =
     (case dump_err of
        Some err \<Rightarrow> ProxyError 400 err
      | None \<Rightarrow>
     (case GetTargetServiceURLFromRequest ipl req of
        Inl err \<Rightarrow> TargetError 400 err
      | Inr url \<Rightarrow>
          (case (if u_host url = KubeAPIServerHost
                    \<and> providers \<noteq> [] \<and> \<not> hasClientImpersonationHeaders (req_header req)
                 then processAuthentication providers (req_header req)
                 else Inr (req_header req)) of
             Inl err \<Rightarrow> ProxyError 401 err
           | Inr h \<Rightarrow>
               if \<not> transport then ProxyError 500 (ErrorText ''Internal Server Error'')
               else
                 (case single_host_reverse_proxy url (req\<lparr>req_header := h\<rparr>) of
                    None \<Rightarrow> BadGateway
                  | Some out \<Rightarrow> Forward out))))"

section \<open>Start-up\<close>

text \<open>\<open>loadRootCAs\<close>: the pool is the list of its certificates; files are read by \<open>read\<close>, which
  answers \<open>None\<close> when the file does not exist.\<close>

datatype file_result = FileMissing | FileError go_error | FileData string

definition loadRootCAs ::
  "(string \<Rightarrow> go_error + string list) \<Rightarrow> (string \<Rightarrow> file_result) \<Rightarrow> (string \<Rightarrow> go_error + string list)
     \<Rightarrow> string \<Rightarrow> string \<Rightarrow> go_error + string list \<times> bool" where
  "loadRootCAs newPool read parse rootCAFile additionalServiceCA =
     (case newPool rootCAFile of
        Inl err \<Rightarrow> Inl err
      | Inr rootCAs \<Rightarrow>
          if additionalServiceCA = [] then Inr (rootCAs, False)
          else
            (case read additionalServiceCA of
               FileMissing \<Rightarrow> Inr (rootCAs, False)
             | FileError err \<Rightarrow> Inl err
             | FileData pem \<Rightarrow>
                 (case parse pem of
                    Inl err \<Rightarrow> Inl (wrap (''failed to parse additional service CA ''
                                 @ additionalServiceCA @ '': '') err)
                  | Inr certs \<Rightarrow> Inr (rootCAs @ certs, True))))"

datatype sp_error = SpDrain drain_error | CertRequired | KeyRequired | FactoryError go_error

fun validate_factories :: "authProviderFactory list \<Rightarrow> sp_error option" where
  "validate_factories [] = None"
| "validate_factories (f # fs) =
     (case fa_validate f of Some err \<Rightarrow> Some (FactoryError err) | None \<Rightarrow> validate_factories fs)"

definition sp_validate :: "DrainConfig \<Rightarrow> string \<Rightarrow> string \<Rightarrow> authProviderFactory list \<Rightarrow> sp_error option" where
  "sp_validate drain cert key factories =
     (case drain_Validate drain of
        Some err \<Rightarrow> Some (SpDrain err)
      | None \<Rightarrow>
          if cert = [] then Some CertRequired
          else if key = [] then Some KeyRequired
          else validate_factories factories)"

text \<open>A 32-bit floating-point number is carried as its IEEE 754 bits; the default is 50.0.\<close>

type_synonym float32 = nat

definition defaultKubeClientQPS :: float32 where
  "defaultKubeClientQPS = 0x42480000"

record serviceProxy =
  sp_cert :: string
  sp_key :: string
  sp_additionalServiceCA :: string
  sp_rootCAs :: "string list"
  sp_maxIdleConns :: int
  sp_idleConnTimeout :: int
  sp_tLSHandshakeTimeout :: int
  sp_expectContinueTimeout :: int
  sp_drain :: DrainConfig
  sp_tokenReviewCacheTTL :: int
  sp_kubeClientQPS :: float32
  sp_kubeClientBurst :: int
  sp_podNamespace :: string
  sp_authProviderFactories :: "authProviderFactory list"
  sp_authProviders :: "authProvider list"
  sp_transport_ready :: bool

text \<open>\<open>newServiceProxy\<close>, with the default factories as an argument.\<close>

definition newServiceProxy :: "authProviderFactory list \<Rightarrow> serviceProxy" where
  "newServiceProxy defaultAuthProviderFactories =
     \<lparr>sp_cert = [], sp_key = [], sp_additionalServiceCA = [], sp_rootCAs = [], sp_maxIdleConns = 0,
      sp_idleConnTimeout = 0, sp_tLSHandshakeTimeout = 0, sp_expectContinueTimeout = 0,
      sp_drain = \<lparr>dc_Timeout = 0, dc_MinDuration = 0\<rparr>, sp_tokenReviewCacheTTL = 10 * second,
      sp_kubeClientQPS = defaultKubeClientQPS, sp_kubeClientBurst = 100, sp_podNamespace = [],
      sp_authProviderFactories = defaultAuthProviderFactories, sp_authProviders = [],
      sp_transport_ready = False\<rparr>"

record proxy_transport =
  pt_DialTimeout :: int
  pt_KeepAlive :: int
  pt_MaxIdleConns :: int
  pt_IdleConnTimeout :: int
  pt_TLSHandshakeTimeout :: int
  pt_ExpectContinueTimeout :: int
  pt_RootCAs :: "string list"
  pt_MinVersion :: nat
  pt_ForceAttemptHTTP2 :: bool

definition newProxyTransport :: "serviceProxy \<Rightarrow> proxy_transport" where
  "newProxyTransport s =
     \<lparr>pt_DialTimeout = 30 * second, pt_KeepAlive = 30 * second, pt_MaxIdleConns = sp_maxIdleConns s,
      pt_IdleConnTimeout = sp_idleConnTimeout s, pt_TLSHandshakeTimeout = sp_tLSHandshakeTimeout s,
      pt_ExpectContinueTimeout = sp_expectContinueTimeout s, pt_RootCAs = sp_rootCAs s,
      pt_MinVersion = 0x0303, pt_ForceAttemptHTTP2 = False\<rparr>"

text \<open>What the outside answers during \<open>Run\<close>.\<close>

record sp_env =
  se_config_checker :: "string list \<Rightarrow> go_error option"
  se_new_pool :: "string \<Rightarrow> go_error + string list"
  se_read :: "string \<Rightarrow> file_result"
  se_parse_certs :: "string \<Rightarrow> go_error + string list"
  se_in_cluster :: "go_error option"
  se_new_client :: "go_error option"
  se_pod_namespace :: string
  se_managed :: "string \<Rightarrow> auth_result"
  se_tls_watcher :: "go_error option"

datatype sp_run_error = SpGo go_error | SpValidate sp_error | SpPodNamespaceEmpty

definition rootCAFile :: string where
  "rootCAFile = ''/var/run/secrets/kubernetes.io/serviceaccount/ca.crt''"

text \<open>\<open>Run\<close> up to the start of the servers.\<close>

definition sp_Run :: "sp_env \<Rightarrow> serviceProxy \<Rightarrow> sp_run_error + serviceProxy" where
  "sp_Run e s =
     (let configFiles = [sp_cert s, sp_key s, rootCAFile] @ authProviderConfigFiles (sp_authProviderFactories s) in
      case se_config_checker e configFiles of Some err \<Rightarrow> Inl (SpGo err)
      | None \<Rightarrow> (case sp_validate (sp_drain s) (sp_cert s) (sp_key s) (sp_authProviderFactories s) of
          Some err \<Rightarrow> Inl (SpValidate err)
      | None \<Rightarrow> (case loadRootCAs (se_new_pool e) (se_read e) (se_parse_certs e) rootCAFile
                      (sp_additionalServiceCA s) of
          Inl err \<Rightarrow> Inl (SpGo err)
      | Inr (rootCAs, additionalCALoaded) \<Rightarrow>
          (case (if additionalCALoaded then se_config_checker e [sp_additionalServiceCA s] else None) of
             Some err \<Rightarrow> Inl (SpGo err)
      | None \<Rightarrow> (case se_in_cluster e of
             Some err \<Rightarrow> Inl (SpGo (ErrorText (''failed to get in-cluster config: '' @ error_text err)))
      | None \<Rightarrow> (case se_new_client e of Some err \<Rightarrow> Inl (SpGo err)
      | None \<Rightarrow>
          if se_pod_namespace e = [] then Inl SpPodNamespaceEmpty
          else
            (case initializeAuthProviders (newManagedClusterAuthProvider (se_managed e))
                    (sp_authProviderFactories s) of
               Inl err \<Rightarrow> Inl (SpGo err)
             | Inr providers \<Rightarrow>
                 (case se_tls_watcher e of
                    Some err \<Rightarrow> Inl (SpGo (wrap ''failed to start TLS ConfigMap watcher: '' err))
                  | None \<Rightarrow>
                      Inr (s\<lparr>sp_rootCAs := rootCAs, sp_transport_ready := True,
                             sp_podNamespace := se_pod_namespace e, sp_authProviders := providers\<rparr>)))))))))"

section \<open>Header lemmas\<close>

lemma fold_delete_get:
  "gget (fold (\<lambda>key h. if isImpersonationHeader key then gdel key h else h) keys h) k =
     (if k \<in> set keys \<and> isImpersonationHeader k then None else gget h k)"
  by (induction keys arbitrary: h) (auto simp: gm.get_del)

lemma deleteImpersonation_get:
  "gget (deleteImpersonationHeaders h) k = (if isImpersonationHeader k then None else gget h k)"
  using gkeys_iff [of k h] by (auto simp: deleteImpersonationHeaders_def fold_delete_get)

lemma deleteImpersonation_values:
  "header_values (deleteImpersonationHeaders h) k =
     (if isImpersonationHeader (canonical_key k) then [] else header_values h k)"
  by (simp add: header_values_def deleteImpersonation_get)

lemma impersonation_keys:
  "canonical_key ImpersonateUserHeader = ''Impersonate-User''"
  "canonical_key ImpersonateGroupHeader = ''Impersonate-Group''"
  "canonical_key ''Authorization'' = ''Authorization''"
  unfolding ImpersonateUserHeader_def ImpersonateGroupHeader_def by code_simp+

lemma impersonation_header_keys:
  "isImpersonationHeader ''Impersonate-User''" "isImpersonationHeader ''Impersonate-Group''"
  "\<not> isImpersonationHeader ''Authorization''" "\<not> isImpersonationHeader ''Connection''"
  "\<not> isImpersonationHeader ''Upgrade''"
  by code_simp+

lemma noClientImpersonation_values:
  assumes "\<not> hasClientImpersonationHeaders h" and "isImpersonationHeader (canonical_key k)"
  shows "header_values h k = []"
  using assms gkeys_iff [of "canonical_key k" h]
  by (auto simp: hasClientImpersonationHeaders_def list_ex_iff header_values_def split: option.splits)

text \<open>The values that \<open>impersonateUser\<close> leaves behind, for every header.\<close>

definition impersonated :: "string \<Rightarrow> string list \<Rightarrow> string \<Rightarrow> header \<Rightarrow> string \<Rightarrow> string list" where
  "impersonated username groups token h k =
     (if canonical_key k = ''Impersonate-User'' then [username]
      else if canonical_key k = ''Impersonate-Group'' then groups
      else if canonical_key k = ''Authorization'' then [''Bearer '' @ token]
      else if isImpersonationHeader (canonical_key k) then []
      else header_values h k)"

lemma impersonateUser_values:
  assumes "impersonateUser (Inr token) username groups h = Inr h'"
  shows "header_values h' k = impersonated username groups token h k"
proof -
  have h': "h' = header_set (header_set (fold (\<lambda>group h. header_add h ImpersonateGroupHeader group) groups
      (deleteImpersonationHeaders h)) ImpersonateUserHeader username) ''Authorization'' (''Bearer '' @ token)"
    using assms by (simp add: impersonateUser_def Let_def)
  show ?thesis
    by (simp add: h' hs.vals_set hs.vals_add_all deleteImpersonation_values impersonation_keys
        impersonation_header_keys impersonated_def)
qed

section \<open>The contract of an external identity\<close>

locale external_identity =
  fixes apply_identity :: "user_info \<Rightarrow> header \<Rightarrow> go_error + header"
    and name_of :: "user_info \<Rightarrow> string"
    and groups_of :: "user_info \<Rightarrow> string list"
    and token :: string
  assumes applied: "apply_identity u h = Inr h' \<Longrightarrow>
      header_values h' k = impersonated (name_of u) (groups_of u) token h k"
    and applies: "\<exists>h'. apply_identity u h = Inr h'"
begin

lemma applied_nominated:
  assumes "apply_identity u h = Inr h'"
  shows "nominated h' k = nominated h k"
proof -
  have "header_values h' ''Connection'' = header_values h ''Connection''"
    using applied [OF assms, of "''Connection''"]
    by (simp add: impersonated_def canonical_hop_keys impersonation_header_keys)
  then show ?thesis by (simp add: nominated_def connection_tokens_def)
qed

lemma forwarded_values:
  assumes "apply_identity u h = Inr h'" and "reverse_proxy_header ip h' = Some out"
    and "canonical_key k \<notin> set proxy_written"
  shows "header_values out k =
    (if nominated h k then [] else impersonated (name_of u) (groups_of u) token h k)"
  using reverse_proxy_values [OF assms(2,3)] applied_nominated [OF assms(1)] applied [OF assms(1)]
  by simp

end

definition hub_name :: "user_info \<Rightarrow> string" where
  "hub_name u = (if has_prefix (ui_name u) ''system:serviceaccount:''
                 then ''cluster:hub:'' @ ui_name u else ui_name u)"

definition external_groups :: "user_info \<Rightarrow> string list" where
  "external_groups u = (if AllAuthenticated \<in> set (ui_groups u) then ui_groups u
                        else ui_groups u @ [AllAuthenticated])"

lemma impersonateUser_applies: "\<exists>h'. impersonateUser (Inr token) name groups h = Inr h'"
  by (simp add: impersonateUser_def Let_def)

interpretation hub: external_identity "hub_ApplyIdentity (impersonateUser (Inr token))" hub_name ui_groups token
  for token
  by unfold_locales
     (auto simp: hub_ApplyIdentity_def hub_name_def Let_def intro: impersonateUser_values impersonateUser_applies)

interpretation ext: external_identity "applyExternalIdentity (impersonateUser (Inr token))" ui_name external_groups token
  for token
  by unfold_locales
     (auto simp: applyExternalIdentity_def external_groups_def Let_def
       intro: impersonateUser_values impersonateUser_applies)

section \<open>The provider chain\<close>

lemma try_providers_skip:
  "list_all (\<lambda>p. rejects (ap_AuthenticateToken p token)) ps \<Longrightarrow>
   try_providers all token (ps @ qs) h = try_providers all token qs h"
  by (induction ps) (auto simp: rejects_def split: auth_result.splits)

text \<open>The first provider that does not reject the token decides.\<close>

lemma try_providers_decides:
  assumes "try_providers all token ps h = Inr h'"
  obtains qs p rs u where "ps = qs @ p # rs" and "list_all (\<lambda>p. rejects (ap_AuthenticateToken p token)) qs"
    and "ap_AuthenticateToken p token = Authenticated u" and "ap_ApplyIdentity p u h = Inr h'"
  using assms
proof (induction ps arbitrary: thesis)
  case (Cons p ps)
  show ?case
  proof (cases "rejects (ap_AuthenticateToken p token)")
    case True
    then have "try_providers all token ps h = Inr h'"
      using Cons.prems(2) by (auto simp: rejects_def split: auth_result.splits if_splits)
    then obtain qs q rs u where "ps = qs @ q # rs" "list_all (\<lambda>p. rejects (ap_AuthenticateToken p token)) qs"
      "ap_AuthenticateToken q token = Authenticated u" "ap_ApplyIdentity q u h = Inr h'"
      using Cons.IH by blast
    with True Cons.prems(1) [of "p # qs" q rs u] show ?thesis by simp
  next
    case False
    then obtain u where "ap_AuthenticateToken p token = Authenticated u" "ap_ApplyIdentity p u h = Inr h'"
      using Cons.prems(2) by (auto simp: rejects_def split: auth_result.splits sum.splits if_splits)
    with Cons.prems(1) [of "[]" p ps u] show ?thesis by simp
  qed
qed simp

section \<open>Properties\<close>

text \<open>How a request gets through the handler.\<close>

lemma forward_cases:
  assumes "sp_ServeHTTP ipl dump transport providers req = Forward out"
  obtains url h where "GetTargetServiceURLFromRequest ipl req = Inr url"
    and "(if u_host url = KubeAPIServerHost \<and> providers \<noteq> [] \<and> \<not> hasClientImpersonationHeaders (req_header req)
          then processAuthentication providers (req_header req) else Inr (req_header req)) = Inr h"
    and "reverse_proxy_header (remote_ip req) h = Some (out_header out)"
    and "out_host out = u_host url" and "out_scheme out = u_scheme url"
proof -
  obtain url h where url: "GetTargetServiceURLFromRequest ipl req = Inr url"
    and h: "(if u_host url = KubeAPIServerHost \<and> providers \<noteq> [] \<and> \<not> hasClientImpersonationHeaders (req_header req)
          then processAuthentication providers (req_header req) else Inr (req_header req)) = Inr h"
    and out: "single_host_reverse_proxy url (req\<lparr>req_header := h\<rparr>) = Some out"
    using assms unfolding sp_ServeHTTP_def
    by (auto split: option.splits sum.splits if_split_asm)
  from proxied_header [OF out] have "reverse_proxy_header (remote_ip req) h = Some (out_header out)"
    "out_host out = u_host url" "out_scheme out = u_scheme url"
    by simp_all
  with url h that show thesis by blast
qed

text \<open>
  No request that the proxy does not authenticate itself gains anything by passing it: if
  the target is not the Kubernetes API, or no provider is configured, or the client asks
  for impersonation on its own account, then every header the target sees, credentials and
  impersonation headers included, is the client's own or has been removed. In particular
  the service account token of the proxy is not attached.
\<close>

theorem unauthenticated_headers_unchanged:
  assumes "sp_ServeHTTP ipl dump transport providers req = Forward out"
    and "out_host out \<noteq> KubeAPIServerHost \<or> providers = [] \<or> hasClientImpersonationHeaders (req_header req)"
    and "canonical_key k \<notin> set proxy_written"
  shows "header_values (out_header out) k =
    (if nominated (req_header req) k then [] else header_values (req_header req) k)"
  using assms(1)
proof (rule forward_cases)
  fix url h
  assume "(if u_host url = KubeAPIServerHost \<and> providers \<noteq> [] \<and> \<not> hasClientImpersonationHeaders (req_header req)
      then processAuthentication providers (req_header req) else Inr (req_header req)) = Inr h"
    and out: "reverse_proxy_header (remote_ip req) h = Some (out_header out)" "out_host out = u_host url"
  then have "h = req_header req"
    using assms(2) by (auto split: if_splits)
  with out reverse_proxy_values [OF _ assms(3)] show ?thesis by blast
qed

text \<open>A request to the API of the managed cluster, for the witnesses.\<close>

definition api_request :: "header \<Rightarrow> http_request" where
  "api_request h =
     UpdateRequest \<lparr>tsc_cluster = ''c1'', tsc_proto = ''https'', tsc_service = ''kubernetes'',
         tsc_namespace = ''default'', tsc_port = ''443'', tsc_path = ''api/v1/pods''\<rparr>
       \<lparr>req_method = ''GET'', request_uri = ''/api/v1/pods'', url_path = ''/api/v1/pods'', url_raw_path = [],
        url_raw_query = [], req_header = h, remote_ip = None\<rparr>"

definition refuse :: "string \<Rightarrow> auth_result" where
  "refuse _ = NotAuthenticated"

definition alice :: user_info where
  "alice = \<lparr>ui_name = ''alice'', ui_uid = [], ui_groups = [''dev''], ui_extra = None\<rparr>"

definition accept :: "string \<Rightarrow> auth_result" where
  "accept _ = Authenticated alice"

lemma api_request_url:
  "GetTargetServiceURLFromRequest ipl (api_request h) =
     Inr (empty_url\<lparr>u_scheme := ''https'', u_host := KubeAPIServerHost\<rparr>)"
  using kube_url_parse [of ipl]
  by (simp add: api_request_def target_url_UpdateRequest
      equal_fold_def kubeAPIServerService_def kubeAPIServerNamespace_def)

theorem unauthenticated_headers_unchanged_witness:
  "\<exists>out. sp_ServeHTTP Inr None True [] (api_request [(''Authorization'', [''Bearer t''])]) = Forward out \<and>
     header_values (out_header out) ''Authorization'' = [''Bearer t'']"
proof -
  let ?req = "api_request [(''Authorization'', [''Bearer t''])]"
  have c: "header_values (req_header ?req) ''Connection'' = []"
    and a: "header_values (req_header ?req) ''Authorization'' = [''Bearer t'']"
    by (simp_all add: api_request_def UpdateRequest_values_other canonical_hop_keys impersonation_keys)
       (simp_all add: header_values_def canonical_hop_keys impersonation_keys gget_def)
  obtain out where "single_host_reverse_proxy
      (empty_url\<lparr>u_scheme := ''https'', u_host := KubeAPIServerHost\<rparr>) ?req = Some out"
    using no_connection_forwarded [OF c] by blast
  then have out: "sp_ServeHTTP Inr None True [] ?req = Forward out"
    by (simp add: sp_ServeHTTP_def api_request_url)
  have "canonical_key ''Authorization'' \<notin> set proxy_written"
    by (simp add: impersonation_keys proxy_written_def hop_headers_def)
  then show ?thesis
    using unauthenticated_headers_unchanged [OF out, of "''Authorization''"] out not_nominated [OF c] a
    by simp
qed

text \<open>The chain of providers that \<open>defaultAuthProviderFactories\<close> leads to when both are enabled: the
  authenticators of the managed cluster, the hub and the OIDC issuer, and the token of the
  service account.\<close>

definition default_chain ::
  "(string \<Rightarrow> auth_result) \<Rightarrow> (string \<Rightarrow> auth_result) \<Rightarrow> (string \<Rightarrow> auth_result) \<Rightarrow> string \<Rightarrow> authProvider list" where
  "default_chain managed hubAuth oidcAuth token =
     [newManagedClusterAuthProvider managed, hubAuthProvider hubAuth (impersonateUser (Inr token)),
      oidcAuthProvider oidcAuth (impersonateUser (Inr token))]"

lemma default_chain_init:
  "initializeAuthProviders (newManagedClusterAuthProvider managed)
     [hubAuthProviderFactory True kubeConfig (Inr (hubAuthProvider hubAuth (impersonateUser (Inr token)))),
      \<lparr>fa_enabled = True, fa_validate = None, fa_configFiles = [],
       fa_build = Inr (oidcAuthProvider oidcAuth (impersonateUser (Inr token)))\<rparr>] =
   Inr (default_chain managed hubAuth oidcAuth token)"
  by (simp add: initializeAuthProviders_def hubAuthProviderFactory_def default_chain_def)

lemmas provider_defs = newManagedClusterAuthProvider_def hubAuthProvider_def oidcAuthProvider_def

lemma chain_outcome:
  assumes "processAuthentication (default_chain managed hubAuth oidcAuth token) h = Inr h'"
  shows "(case managed (bearer_token h) of
      Authenticated u \<Rightarrow> h' = h
    | _ \<Rightarrow> (case hubAuth (bearer_token h) of
        Authenticated u \<Rightarrow> hub_ApplyIdentity (impersonateUser (Inr token)) u h = Inr h'
      | _ \<Rightarrow> (case oidcAuth (bearer_token h) of
          Authenticated u \<Rightarrow> applyExternalIdentity (impersonateUser (Inr token)) u h = Inr h'
        | _ \<Rightarrow> False)))"
  using assms unfolding processAuthentication_def default_chain_def
  by (auto simp: provider_defs split: auth_result.splits if_splits sum.splits)

lemma chain_values:
  assumes "processAuthentication (default_chain managed hubAuth oidcAuth token) h = Inr h'"
    and "reverse_proxy_header ip h' = Some out" and "canonical_key k \<notin> set proxy_written"
  shows "(case managed (bearer_token h) of
      Authenticated u \<Rightarrow> header_values out k = (if nominated h k then [] else header_values h k)
    | _ \<Rightarrow> (case hubAuth (bearer_token h) of
        Authenticated u \<Rightarrow> header_values out k =
          (if nominated h k then [] else impersonated (hub_name u) (ui_groups u) token h k)
      | _ \<Rightarrow> (case oidcAuth (bearer_token h) of
          Authenticated u \<Rightarrow> header_values out k =
            (if nominated h k then [] else impersonated (ui_name u) (external_groups u) token h k)
        | _ \<Rightarrow> False)))"
proof -
  have "header_values out k = (if nominated h k then [] else impersonated (hub_name u) (ui_groups u) token h k)"
    if "hub_ApplyIdentity (impersonateUser (Inr token)) u h = Inr h'" for u
    using that by (rule hub.forwarded_values [OF _ assms(2,3)])
  moreover have "header_values out k =
      (if nominated h k then [] else impersonated (ui_name u) (external_groups u) token h k)"
    if "applyExternalIdentity (impersonateUser (Inr token)) u h = Inr h'" for u
    using that by (rule ext.forwarded_values [OF _ assms(2,3)])
  moreover have "header_values out k = (if nominated h k then [] else header_values h k)" if "h' = h"
    using that reverse_proxy_values [OF assms(2,3)] by simp
  ultimately show ?thesis
    using chain_outcome [OF assms(1)] by (simp split: auth_result.splits)
qed

lemma forward_authenticated:
  assumes "sp_ServeHTTP ipl dump transport providers req = Forward out"
    and "out_host out = KubeAPIServerHost" and "providers \<noteq> []"
    and "\<not> hasClientImpersonationHeaders (req_header req)"
  obtains h where "processAuthentication providers (req_header req) = Inr h"
    and "reverse_proxy_header (remote_ip req) h = Some (out_header out)"
  using assms by (elim forward_cases) auto

text \<open>
  C4. The API server sees exactly the authenticated identity: for a request to the Kubernetes
  API without impersonation headers of the client's own, forwarded by a proxy with the
  default chain of providers, the header values that arrive are (unless the client's
  \<open>Connection\<close> header has them removed) the client's own if the managed cluster knows the
  token; else the hub identity, a service account of the hub marked \<open>cluster:hub:\<close>, with its
  groups; else the OIDC identity, with its groups and \<open>system:authenticated\<close>; in both cases
  with the proxy's token in place of the client's and no other impersonation header. A
  request that nobody authenticated is not forwarded.
\<close>

theorem identity_forwarded_exactly:
  assumes "sp_ServeHTTP ipl dump transport (default_chain managed hubAuth oidcAuth token) req = Forward out"
    and "out_host out = KubeAPIServerHost" and "\<not> hasClientImpersonationHeaders (req_header req)"
    and "canonical_key k \<notin> set proxy_written"
  shows "(case managed (bearer_token (req_header req)) of
      Authenticated u \<Rightarrow> header_values (out_header out) k =
        (if nominated (req_header req) k then [] else header_values (req_header req) k)
    | _ \<Rightarrow> (case hubAuth (bearer_token (req_header req)) of
        Authenticated u \<Rightarrow> header_values (out_header out) k =
          (if nominated (req_header req) k then []
           else impersonated (hub_name u) (ui_groups u) token (req_header req) k)
      | _ \<Rightarrow> (case oidcAuth (bearer_token (req_header req)) of
          Authenticated u \<Rightarrow> header_values (out_header out) k =
            (if nominated (req_header req) k then []
             else impersonated (ui_name u) (external_groups u) token (req_header req) k)
        | _ \<Rightarrow> False)))"
proof -
  have "default_chain managed hubAuth oidcAuth token \<noteq> []"
    by (simp add: default_chain_def)
  then obtain h where "processAuthentication (default_chain managed hubAuth oidcAuth token) (req_header req) = Inr h"
    and "reverse_proxy_header (remote_ip req) h = Some (out_header out)"
    using forward_authenticated [OF assms(1,2) _ assms(3)] by blast
  then show ?thesis
    using assms(4) by (rule chain_values)
qed

text \<open>A request of alice, whom the hub authenticates, with any value of \<open>Connection\<close>.\<close>

definition alice_request :: "string list \<Rightarrow> http_request" where
  "alice_request connection =
     api_request ((''Authorization'', [''Bearer t'']) #
       (if connection = [] then [] else [(''Connection'', connection)]))"

definition hub_only :: "authProvider list" where
  "hub_only = default_chain refuse accept refuse ''sa''"

lemma alice_headers:
  "header_values (req_header (alice_request c)) ''Connection'' = c"
  "header_values (req_header (alice_request c)) ''Authorization'' = [''Bearer t'']"
  "\<not> hasClientImpersonationHeaders (req_header (alice_request c))"
proof -
  show "header_values (req_header (alice_request c)) ''Connection'' = c"
    "header_values (req_header (alice_request c)) ''Authorization'' = [''Bearer t'']"
    by (simp_all add: alice_request_def api_request_def UpdateRequest_values_other canonical_hop_keys impersonation_keys)
       (simp_all add: header_values_def canonical_hop_keys impersonation_keys gget_def)
  have "gkeys (req_header (alice_request c)) =
      (''Authorization'' # (if c = [] then [] else [''Connection''])) @
      [''Cluster-Proxy-Proto'', ''Cluster-Proxy-Namespace'', ''Cluster-Proxy-Service'', ''Cluster-Proxy-Port'']"
    by (simp add: alice_request_def api_request_def UpdateRequest_def Let_def header_set_def
        target_header_keys gkeys_def gput_def)
  moreover have "list_all (\<lambda>k. \<not> isImpersonationHeader k)
      [''Cluster-Proxy-Proto'', ''Cluster-Proxy-Namespace'', ''Cluster-Proxy-Service'', ''Cluster-Proxy-Port'']"
    by code_simp
  ultimately show "\<not> hasClientImpersonationHeaders (req_header (alice_request c))"
    by (simp add: hasClientImpersonationHeaders_def impersonation_header_keys)
qed

lemma hub_only_authenticates:
  "\<exists>h'. processAuthentication hub_only h = Inr h' \<and>
     hub_ApplyIdentity (impersonateUser (Inr ''sa'')) alice h = Inr h'"
  using hub.applies [of "''sa''" alice h]
  by (auto simp: processAuthentication_def hub_only_def default_chain_def provider_defs refuse_def accept_def)

lemma hub_only_forwards:
  assumes "GetTargetServiceURLFromRequest Inr req =
      Inr (empty_url\<lparr>u_scheme := ''https'', u_host := KubeAPIServerHost\<rparr>)"
    and "\<not> hasClientImpersonationHeaders (req_header req)"
    and "\<not> values_contain_token (header_values (req_header req) ''Connection'') ''Upgrade''"
  shows "\<exists>out. sp_ServeHTTP Inr None True hub_only req = Forward out \<and> out_host out = KubeAPIServerHost"
proof -
  let ?u = "empty_url\<lparr>u_scheme := ''https'', u_host := KubeAPIServerHost\<rparr>"
  obtain h where h: "processAuthentication hub_only (req_header req) = Inr h"
    and a: "hub_ApplyIdentity (impersonateUser (Inr ''sa'')) alice (req_header req) = Inr h"
    using hub_only_authenticates by blast
  have "header_values h ''Connection'' = header_values (req_header req) ''Connection''"
    using hub.applied [OF a, of "''Connection''"]
    by (simp add: impersonated_def canonical_hop_keys impersonation_header_keys)
  then obtain out where out: "single_host_reverse_proxy ?u (req\<lparr>req_header := h\<rparr>) = Some out"
    using no_upgrade_forwarded [of "req\<lparr>req_header := h\<rparr>" ?u] assms(3) by auto
  moreover have "hub_only \<noteq> []" by (simp add: hub_only_def default_chain_def)
  ultimately show ?thesis
    using h assms(1,2) proxied_header [OF out] by (simp add: sp_ServeHTTP_def)
qed

lemma alice_forwarded:
  "\<not> values_contain_token c ''Upgrade'' \<Longrightarrow>
   \<exists>out. sp_ServeHTTP Inr None True hub_only (alice_request c) = Forward out \<and>
     out_host out = KubeAPIServerHost"
  using hub_only_forwards [of "alice_request c"] alice_headers [of c] api_request_url
  by (simp add: alice_request_def)

theorem identity_forwarded_exactly_witness:
  "\<exists>out. sp_ServeHTTP Inr None True hub_only (alice_request []) = Forward out \<and>
     header_values (out_header out) ''Impersonate-User'' = [''alice''] \<and>
     header_values (out_header out) ''Authorization'' = [''Bearer sa'']"
proof -
  obtain out where out: "sp_ServeHTTP Inr None True hub_only (alice_request []) = Forward out"
    and host: "out_host out = KubeAPIServerHost"
    using alice_forwarded [of "[]"] by (auto simp: values_contain_token_def)
  note id = identity_forwarded_exactly [OF out [unfolded hub_only_def] host alice_headers(3)]
  have "\<not> nominated (req_header (alice_request [])) k" for k
    using alice_headers(1) by (rule not_nominated)
  moreover have "canonical_key ''Impersonate-User'' = ''Impersonate-User''"
    using impersonation_keys(1) by (simp add: ImpersonateUserHeader_def)
  ultimately show ?thesis
    using out id [of "''Impersonate-User''"] id [of "''Authorization''"] impersonation_keys
    by (simp add: refuse_def accept_def impersonated_def proxy_written_def hop_headers_def
        hub_name_def alice_def has_prefix_def)
qed

text \<open>
  A client that reaches the service-proxy directly can have the impersonation headers removed
  again: the reverse proxy deletes every header that the client's \<open>Connection\<close> header
  nominates, after authentication has set them. The request of a user known to the hub then
  arrives at the API server with the token of the proxy's service account and without any
  impersonation, and acts with the service account's own rights.
\<close>

theorem connection_header_strips_impersonation:
  assumes "sp_ServeHTTP ipl dump transport (default_chain managed hubAuth oidcAuth token) req = Forward out"
    and "out_host out = KubeAPIServerHost" and "\<not> hasClientImpersonationHeaders (req_header req)"
    and "rejects (managed (bearer_token (req_header req)))"
    and "hubAuth (bearer_token (req_header req)) = Authenticated u"
    and "nominated (req_header req) ''Impersonate-User''" and "nominated (req_header req) ''Impersonate-Group''"
    and "\<not> nominated (req_header req) ''Authorization''"
  shows "header_values (out_header out) ''Authorization'' = [''Bearer '' @ token] \<and>
    header_values (out_header out) ''Impersonate-User'' = [] \<and>
    header_values (out_header out) ''Impersonate-Group'' = []"
proof -
  have "default_chain managed hubAuth oidcAuth token \<noteq> []"
    by (simp add: default_chain_def)
  then obtain h where h: "processAuthentication (default_chain managed hubAuth oidcAuth token) (req_header req) = Inr h"
    and out: "reverse_proxy_header (remote_ip req) h = Some (out_header out)"
    using forward_authenticated [OF assms(1,2) _ assms(3)] by blast
  have keys: "canonical_key ''Impersonate-User'' = ''Impersonate-User''"
    "canonical_key ''Impersonate-Group'' = ''Impersonate-Group''"
    using impersonation_keys by (simp_all add: ImpersonateUserHeader_def ImpersonateGroupHeader_def)
  have v: "header_values (out_header out) k = (if nominated (req_header req) k then []
      else impersonated (hub_name u) (ui_groups u) token (req_header req) k)"
    if "canonical_key k \<notin> set proxy_written" for k
    using chain_values [OF h out that] assms(4,5)
    by (auto simp: rejects_def split: auth_result.splits)
  show ?thesis
    using assms(6-8) v [of "''Authorization''"] v [of "''Impersonate-User''"] v [of "''Impersonate-Group''"]
    by (simp add: keys impersonation_keys impersonated_def proxy_written_def hop_headers_def)
qed

theorem connection_header_strips_impersonation_witness:
  "\<exists>out. sp_ServeHTTP Inr None True hub_only (alice_request [''Impersonate-User, Impersonate-Group'']) = Forward out \<and>
     header_values (out_header out) ''Authorization'' = [''Bearer sa''] \<and>
     header_values (out_header out) ''Impersonate-User'' = []"
proof -
  let ?c = "[''Impersonate-User, Impersonate-Group'']"
  let ?h = "req_header (alice_request ?c)"
  have "\<not> values_contain_token ?c ''Upgrade''" by code_simp
  then obtain out where out: "sp_ServeHTTP Inr None True hub_only (alice_request ?c) = Forward out"
    and host: "out_host out = KubeAPIServerHost"
    using alice_forwarded by blast
  have toks: "connection_tokens ?h = [''Impersonate-User'', ''Impersonate-Group'']"
    unfolding connection_tokens_def alice_headers(1)
    by (simp add: trim_string_def is_space_def)
  have keys: "canonical_key ''Impersonate-User'' = ''Impersonate-User''"
    "canonical_key ''Impersonate-Group'' = ''Impersonate-Group''"
    using impersonation_keys by (simp_all add: ImpersonateUserHeader_def ImpersonateGroupHeader_def)
  have "nominated ?h ''Impersonate-User''" "nominated ?h ''Impersonate-Group''"
    "\<not> nominated ?h ''Authorization''"
    by (simp_all add: nominated_def toks keys impersonation_keys)
  then show ?thesis
    using connection_header_strips_impersonation [OF out [unfolded hub_only_def] host alice_headers(3)] out
    by (simp add: refuse_def accept_def rejects_def)
qed

text \<open>
  C8. An infrastructure failure never lets the next provider decide: if the providers before it
  reject the token and a provider answers with an error that is not a rejection, then the
  request is refused with that error, whatever providers follow and whatever they would say.
\<close>

theorem infrastructure_error_stops_chain:
  assumes "list_all (\<lambda>p. rejects (ap_AuthenticateToken p (bearer_token h))) ps"
    and "ap_AuthenticateToken p (bearer_token h) = AuthError err"
    and "\<not> errors_is err ErrTokenNotAuthenticated"
  shows "processAuthentication (ps @ p # qs) h =
    Inl (ErrorText (am_displayName (ap_Metadata p) @ '' authentication failed: '' @ error_text err))"
  using assms by (simp add: processAuthentication_def try_providers_skip)

theorem infrastructure_error_stops_chain_witness:
  "processAuthentication
     (default_chain refuse (\<lambda>_. AuthError (ErrorText ''timeout'')) accept ''sa'') [] =
   Inl (ErrorText ''hub authentication failed: timeout'')"
  using infrastructure_error_stops_chain
    [of "[]" "[newManagedClusterAuthProvider refuse]"
        "hubAuthProvider (\<lambda>_. AuthError (ErrorText ''timeout'')) (impersonateUser (Inr ''sa''))"
        "ErrorText ''timeout''" "[oidcAuthProvider accept (impersonateUser (Inr ''sa''))]"]
  by (simp add: default_chain_def provider_defs refuse_def rejects_def hubAuthProviderMetadata_def)

text \<open>
  A token that every provider rejects, or no token at all, gets 401 and goes nowhere: the
  request to the API of the managed cluster is answered with the message that names the
  providers tried, for any non-empty list of providers.
\<close>

theorem rejected_everywhere_is_401:
  assumes "GetTargetServiceURLFromRequest ipl req = Inr url" and "u_host url = KubeAPIServerHost"
    and "providers \<noteq> []" and "\<not> hasClientImpersonationHeaders (req_header req)"
    and "list_all (\<lambda>p. rejects (ap_AuthenticateToken p (bearer_token (req_header req)))) providers"
  shows "sp_ServeHTTP ipl None transport providers req =
    ProxyError 401 (authenticationFailureError providers)"
  using assms try_providers_skip [OF assms(5), of providers "[]"]
  by (simp add: sp_ServeHTTP_def processAuthentication_def)

theorem rejected_everywhere_is_401_witness:
  "sp_ServeHTTP Inr None True (default_chain refuse refuse refuse ''sa'') (alice_request []) =
   ProxyError 401 (ErrorText
     ''authentication failed: token is not valid for managed cluster, hub cluster, or the configured OIDC issuer'')"
proof -
  have u: "GetTargetServiceURLFromRequest Inr (alice_request []) =
      Inr (empty_url\<lparr>u_scheme := ''https'', u_host := KubeAPIServerHost\<rparr>)"
    by (simp add: alice_request_def api_request_url)
  have "authenticationFailureError (default_chain refuse refuse refuse ''sa'') = ErrorText
      ''authentication failed: token is not valid for managed cluster, hub cluster, or the configured OIDC issuer''"
    by (simp add: authenticationFailureError_def default_chain_def provider_defs
        managedClusterAuthProviderMetadata_def hubAuthProviderMetadata_def oidcAuthProviderMetadata_def)
  then show ?thesis
    using rejected_everywhere_is_401 [OF u, of "default_chain refuse refuse refuse ''sa''" True] alice_headers(3)
    by (simp add: default_chain_def provider_defs refuse_def rejects_def)
qed

lemma build_all_Inr:
  "build_all acc fs = Inr ps \<Longrightarrow> \<exists>qs. ps = acc @ qs \<and> map Inr qs = map fa_build fs"
proof (induction acc fs arbitrary: ps rule: build_all.induct)
  case (2 providers factory rest)
  then obtain provider where p: "fa_build factory = Inr provider"
    and rest: "build_all (providers @ [provider]) rest = Inr ps"
    by (auto split: sum.splits)
  from 2(1) [OF p rest] obtain qs where "ps = (providers @ [provider]) @ qs" "map Inr qs = map fa_build rest"
    by blast
  with p show ?case by (intro exI [of _ "provider # qs"]) simp
qed simp

text \<open>
  The service-proxy never serves with a chain other than the configured one: when \<open>Run\<close> gets as
  far as serving, its configuration is valid, the managed cluster is asked first, and the
  enabled providers follow in their order, each as its factory built it; without an enabled
  provider there is no proxy-side authentication at all. A provider that cannot be built
  prevents the start.
\<close>

theorem service_proxy_starts_with_configured_chain:
  assumes "sp_Run e s = Inr s'"
  shows "sp_validate (sp_drain s) (sp_cert s) (sp_key s) (sp_authProviderFactories s) = None \<and>
    sp_transport_ready s' \<and>
    (case filter fa_enabled (sp_authProviderFactories s) of
       [] \<Rightarrow> sp_authProviders s' = []
     | f # fs \<Rightarrow> map Inr (sp_authProviders s') =
         Inr (newManagedClusterAuthProvider (se_managed e)) # map fa_build (f # fs))"
proof -
  obtain rootCAs providers where v: "sp_validate (sp_drain s) (sp_cert s) (sp_key s) (sp_authProviderFactories s) = None"
    and i: "initializeAuthProviders (newManagedClusterAuthProvider (se_managed e)) (sp_authProviderFactories s) = Inr providers"
    and s': "s' = s\<lparr>sp_rootCAs := rootCAs, sp_transport_ready := True,
      sp_podNamespace := se_pod_namespace e, sp_authProviders := providers\<rparr>"
    using assms unfolding sp_Run_def Let_def
    by (auto split: option.splits sum.splits prod.splits if_split_asm)
  show ?thesis
    using v i build_all_Inr [of "[newManagedClusterAuthProvider (se_managed e)]"
        "filter fa_enabled (sp_authProviderFactories s)" providers]
    by (auto simp: s' initializeAuthProviders_def Let_def split: list.splits)
qed

theorem service_proxy_starts_with_configured_chain_witness:
  "\<exists>s'. sp_Run \<lparr>se_config_checker = (\<lambda>_. None), se_new_pool = (\<lambda>_. Inr [''root'']), se_read = (\<lambda>_. FileMissing),
       se_parse_certs = (\<lambda>_. Inr []), se_in_cluster = None, se_new_client = None, se_pod_namespace = ''ocm'',
       se_managed = refuse, se_tls_watcher = None\<rparr>
     ((newServiceProxy [hubAuthProviderFactory True ''kc'' (Inr (hubAuthProvider accept (impersonateUser (Inr ''sa''))))])
        \<lparr>sp_cert := ''c'', sp_key := ''k''\<rparr>) = Inr s' \<and>
     map Inr (sp_authProviders s') = [Inr (newManagedClusterAuthProvider refuse),
       Inr (hubAuthProvider accept (impersonateUser (Inr ''sa''))) :: go_error + authProvider]"
proof -
  let ?e = "\<lparr>se_config_checker = (\<lambda>_. None), se_new_pool = (\<lambda>_. Inr [''root'']), se_read = (\<lambda>_. FileMissing),
       se_parse_certs = (\<lambda>_. Inr []), se_in_cluster = None, se_new_client = None, se_pod_namespace = ''ocm'',
       se_managed = refuse, se_tls_watcher = None\<rparr>"
  let ?s = "(newServiceProxy [hubAuthProviderFactory True ''kc'' (Inr (hubAuthProvider accept (impersonateUser (Inr ''sa''))))])
        \<lparr>sp_cert := ''c'', sp_key := ''k''\<rparr>"
  have "\<exists>s'. sp_Run ?e ?s = Inr s'"
    by (simp add: sp_Run_def newServiceProxy_def hubAuthProviderFactory_def sp_validate_def drain_Validate_def
        loadRootCAs_def initializeAuthProviders_def)
  then obtain s' where s': "sp_Run ?e ?s = Inr s'" by blast
  with service_proxy_starts_with_configured_chain [OF s'] show ?thesis
    by (intro exI [of _ s']) (simp add: newServiceProxy_def hubAuthProviderFactory_def)
qed

end
