(* ===== verification/Service_Proxy_Command.thy ===== *)
theory Service_Proxy_Command
  imports Service_Proxy
begin

text \<open>
  The command of the service-proxy: its flags and those of the authentication providers, the factories
  with what they build, and the start (pkg/serviceproxy/service_proxy.go, auth_provider.go,
  hub_auth_provider.go, oidc_auth_provider.go and \<open>buildDelegate\<close> of oidc_authenticator.go). What a
  client of the hub or of the OIDC issuer answers, and whether one can be made, are arguments.
\<close>

section \<open>Flags\<close>

record hubAuthProviderOptions =
  ho_enableImpersonation :: bool
  ho_kubeConfig :: string

definition newHubAuthProviderFactory :: hubAuthProviderOptions where
  "newHubAuthProviderFactory = \<lparr>ho_enableImpersonation = True, ho_kubeConfig = []\<rparr>"

record hub_flags =
  hf_hub_kubeconfig :: "string option"
  hf_enable_impersonation :: "bool option"

definition hub_addFlags :: "hub_flags \<Rightarrow> hubAuthProviderOptions \<Rightarrow> hubAuthProviderOptions" where
  "hub_addFlags f h = h\<lparr>
     ho_kubeConfig := flag (ho_kubeConfig h) (hf_hub_kubeconfig f),
     ho_enableImpersonation := flag (ho_enableImpersonation h) (hf_enable_impersonation f)\<rparr>"

record oidc_flags =
  of_issuer_url :: "string option"
  of_client_id :: "string option"
  of_username_claim :: "string option"
  of_username_prefix :: "string option"
  of_groups_claim :: "string option"
  of_groups_prefix :: "string option"
  of_reserved_name_prefixes :: "string list option"
  of_ca_configmap :: "string option"
  of_signing_algs :: "string list option"
  of_required_claim :: "(string, string) gmap option"

definition oidc_addFlags :: "oidc_flags \<Rightarrow> oidcOptions \<Rightarrow> oidcOptions" where
  "oidc_addFlags f o1 = o1\<lparr>
     oo_issuerURL := flag (oo_issuerURL o1) (of_issuer_url f),
     oo_clientID := flag (oo_clientID o1) (of_client_id f),
     oo_usernameClaim := flag (oo_usernameClaim o1) (of_username_claim f),
     oo_usernamePrefix := flag (oo_usernamePrefix o1) (of_username_prefix f),
     oo_groupsClaim := flag (oo_groupsClaim o1) (of_groups_claim f),
     oo_groupsPrefix := flag (oo_groupsPrefix o1) (of_groups_prefix f),
     oo_reservedNamePrefixes := flag (oo_reservedNamePrefixes o1) (of_reserved_name_prefixes f),
     oo_caConfigMap := flag (oo_caConfigMap o1) (of_ca_configmap f),
     oo_signingAlgs := flag (oo_signingAlgs o1) (of_signing_algs f),
     oo_requiredClaims := flag (oo_requiredClaims o1) (of_required_claim f)\<rparr>"

record sp_flags =
  sf_cert :: "string option"
  sf_key :: "string option"
  sf_additional_service_ca :: "string option"
  sf_max_idle_conns :: "int option"
  sf_idle_conn_timeout :: "int option"
  sf_tls_handshake_timeout :: "int option"
  sf_expect_continue_timeout :: "int option"
  sf_drain_timeout :: "int option"
  sf_min_drain_duration :: "int option"
  sf_token_review_cache_ttl :: "int option"
  sf_hub :: hub_flags
  sf_oidc :: oidc_flags
  sf_kube_api_qps :: "float32 option"
  sf_kube_api_burst :: "int option"

text \<open>The flags of the proxy itself; those of the factories are applied where the factories are made.\<close>

definition sp_AddFlags :: "sp_flags \<Rightarrow> serviceProxy \<Rightarrow> serviceProxy" where
  "sp_AddFlags f s = s\<lparr>
     sp_cert := flag (sp_cert s) (sf_cert f),
     sp_key := flag (sp_key s) (sf_key f),
     sp_additionalServiceCA := flag (sp_additionalServiceCA s) (sf_additional_service_ca f),
     sp_maxIdleConns := flag 100 (sf_max_idle_conns f),
     sp_idleConnTimeout := flag (90 * second) (sf_idle_conn_timeout f),
     sp_tLSHandshakeTimeout := flag (10 * second) (sf_tls_handshake_timeout f),
     sp_expectContinueTimeout := flag (1 * second) (sf_expect_continue_timeout f),
     sp_drain := drain_AddFlags (sf_drain_timeout f) (sf_min_drain_duration f),
     sp_tokenReviewCacheTTL := flag (10 * second) (sf_token_review_cache_ttl f),
     sp_kubeClientQPS := flag defaultKubeClientQPS (sf_kube_api_qps f),
     sp_kubeClientBurst := flag 100 (sf_kube_api_burst f)\<rparr>"

section \<open>Building the providers\<close>

text \<open>The delegate for a CA bundle: \<open>newPool\<close> parses the bundle, and \<open>oidcNew\<close> is the constructor of the API
  server's authenticator with the root CAs (\<open>None\<close> for those of the host), the algorithms and the
  configuration.\<close>

definition buildDelegate ::
  "(string \<Rightarrow> go_error option) \<Rightarrow> (string option \<Rightarrow> string list \<Rightarrow> jwt_config \<Rightarrow> go_error option) \<Rightarrow> oidcOptions
     \<Rightarrow> string option \<Rightarrow> go_error option" where
  "buildDelegate newPool oidcNew opts caBundle =
     (case (case caBundle of None \<Rightarrow> None | Some b \<Rightarrow> newPool b) of
        Some err \<Rightarrow> Some (wrap ''failed to load oidc CA bundle: '' err)
      | None \<Rightarrow> oidcNew caBundle (oo_signingAlgs opts) (buildJWTAuthenticatorConfig opts))"

fun oidc_error_text :: "oidc_error \<Rightarrow> go_error" where
  "oidc_error_text SpecifiedTogether = ErrorText ''--oidc-issuer-url and --oidc-client-id must be specified together''"
| "oidc_error_text EmptyReservedPrefix = ErrorText ''--oidc-reserved-name-prefixes must not contain an empty prefix''"
| "oidc_error_text (InvalidOIDCConfiguration err) = ErrorText (''invalid OIDC configuration: '' @ err)"
| "oidc_error_text (UnsupportedSigningAlgorithm alg) = ErrorText (''unsupported OIDC signing algorithm '' @ go_quote alg)"

text \<open>What the providers depend on, besides the environment of the start: the hub's client and the delegate at
  the time of a request.\<close>

record provider_env =
  pe_hubConfig :: "string \<Rightarrow> go_error option"
  pe_hubClient :: "go_error + (int \<Rightarrow> string \<Rightarrow> go_error + token_review_status)"
  pe_now :: int
  pe_hubCache :: token_cache_state
  pe_hubLookup :: lookup_fate
  pe_compile :: "jwt_config \<Rightarrow> string option"
  pe_validAlgs :: "string list"
  pe_sha256 :: "string \<Rightarrow> string"
  pe_newPool :: "string \<Rightarrow> go_error option"
  pe_oidcNew :: "string option \<Rightarrow> string list \<Rightarrow> jwt_config \<Rightarrow> go_error option"
  pe_sync :: "go_error option"
  pe_caConfigMap :: lister_result
  pe_delegateHealth :: "delegate \<Rightarrow> go_error option"
  pe_delegateAuth :: "delegate \<Rightarrow> string \<Rightarrow> auth_result"
  pe_token :: "go_error + string"

definition hub_token :: "provider_env \<Rightarrow> (int \<Rightarrow> string \<Rightarrow> go_error + token_review_status) \<Rightarrow> int \<Rightarrow> string \<Rightarrow> auth_result" where
  "hub_token e client ttl token =
     fst (newTokenReviewAuthenticator client (am_displayName hubAuthProviderMetadata) ttl (pe_hubLookup e) (pe_now e)
       token (pe_hubCache e))"

definition hub_build :: "provider_env \<Rightarrow> int \<Rightarrow> hubAuthProviderOptions \<Rightarrow> go_error + authProvider" where
  "hub_build e ttl h =
     (case pe_hubConfig e (ho_kubeConfig h) of
        Some err \<Rightarrow> Inl err
      | None \<Rightarrow>
          (case pe_hubClient e of
             Inl err \<Rightarrow> Inl err
           | Inr client \<Rightarrow> Inr (hubAuthProvider (hub_token e client ttl) (impersonateUser (pe_token e)))))"

definition oidc_token :: "provider_env \<Rightarrow> oidcAuthenticator \<Rightarrow> string \<Rightarrow> auth_result" where
  "oidc_token e a = oidc_AuthenticateToken (pe_delegateHealth e) (pe_delegateAuth e) a"

definition oidc_factory_build :: "provider_env \<Rightarrow> string \<Rightarrow> oidcOptions \<Rightarrow> go_error + authProvider" where
  "oidc_factory_build e podNamespace opts =
     (case oidc_build (pe_sha256 e) (buildDelegate (pe_newPool e) (pe_oidcNew e) opts) podNamespace (pe_sync e) (pe_caConfigMap e) opts of
        Inl err \<Rightarrow> Inl err
      | Inr a \<Rightarrow> Inr (oidcAuthProvider (oidc_token e a) (impersonateUser (pe_token e))))"

definition defaultAuthProviderFactories ::
  "provider_env \<Rightarrow> string \<Rightarrow> int \<Rightarrow> hubAuthProviderOptions \<Rightarrow> oidcOptions \<Rightarrow> authProviderFactory list" where
  "defaultAuthProviderFactories e podNamespace ttl h opts =
     [hubAuthProviderFactory (ho_enableImpersonation h) (ho_kubeConfig h) (hub_build e ttl h),
      \<lparr>fa_enabled = oidc_enabled opts,
       fa_validate = map_option oidc_error_text (validateOIDCOptions (pe_compile e) (pe_validAlgs e) opts),
       fa_configFiles = [], fa_build = oidc_factory_build e podNamespace opts\<rparr>]"

section \<open>The command\<close>

definition NewServiceProxyCommand :: "sp_env \<Rightarrow> provider_env \<Rightarrow> sp_flags \<Rightarrow> sp_run_error + serviceProxy" where
  "NewServiceProxyCommand e pe f =
     sp_Run e (sp_AddFlags f (newServiceProxy
       (defaultAuthProviderFactories pe (se_pod_namespace e) (flag (10 * second) (sf_token_review_cache_ttl f))
          (hub_addFlags (sf_hub f) newHubAuthProviderFactory) (oidc_addFlags (sf_oidc f) newOIDCAuthProviderFactory))))"

section \<open>Properties\<close>

lemma command_chain:
  assumes "NewServiceProxyCommand e pe f = Inr s"
  shows "let h = hub_addFlags (sf_hub f) newHubAuthProviderFactory; opts = oidc_addFlags (sf_oidc f) newOIDCAuthProviderFactory;
      chain = (if ho_enableImpersonation h then [hub_build pe (flag (10 * second) (sf_token_review_cache_ttl f)) h] else []) @
        (if oidc_enabled opts then [oidc_factory_build pe (se_pod_namespace e) opts] else [])
    in validateOIDCOptions (pe_compile pe) (pe_validAlgs pe) opts = None \<and>
      map Inr (sp_authProviders s) =
        (if chain = [] then [] else Inr (newManagedClusterAuthProvider (se_managed e)) # chain)"
proof -
  note c = service_proxy_starts_with_configured_chain [OF assms [unfolded NewServiceProxyCommand_def]]
  then show ?thesis
    by (auto simp: sp_AddFlags_def newServiceProxy_def defaultAuthProviderFactories_def hubAuthProviderFactory_def
        sp_validate_def Let_def split: option.splits if_splits)
qed

lemma built_ids:
  "hub_build pe ttl h = Inr p \<Longrightarrow> am_id (ap_Metadata p) = ''hub''"
  "oidc_factory_build pe ns opts = Inr p \<Longrightarrow> am_id (ap_Metadata p) = ''oidc''"
  by (auto simp: hub_build_def oidc_factory_build_def hubAuthProvider_def oidcAuthProvider_def hubAuthProviderMetadata_def
      oidcAuthProviderMetadata_def split: option.splits sum.splits)

lemma flag_options:
  "ho_enableImpersonation (hub_addFlags hf newHubAuthProviderFactory) = flag True (hf_enable_impersonation hf)"
  "oidc_enabled (oidc_addFlags og newOIDCAuthProviderFactory) = (flag [] (of_issuer_url og) \<noteq> [])"
  by (simp_all add: hub_addFlags_def newHubAuthProviderFactory_def oidc_addFlags_def newOIDCAuthProviderFactory_def oidc_enabled_def)

text \<open>C20. The command line decides who authenticates: a service-proxy that starts asks the managed cluster, then the
  hub unless \<open>--enable-impersonation=false\<close>, then the OIDC issuer if \<open>--oidc-issuer-url\<close> is given, in this
  order; with the hub off and no issuer it authenticates nobody itself. An issuer without a client, or a client
  without an issuer, prevents the start, and so does a provider that cannot be built.\<close>

theorem flags_decide_authentication:
  assumes "NewServiceProxyCommand e pe f = Inr s"
  shows "activeAuthProviderIDs (sp_authProviders s) =
      (let others = (if flag True (hf_enable_impersonation (sf_hub f)) then [''hub''] else []) @
         (if flag [] (of_issuer_url (sf_oidc f)) \<noteq> [] then [''oidc''] else [])
       in if others = [] then [] else ''managed-cluster'' # others) \<and>
    (flag [] (of_issuer_url (sf_oidc f)) = [] \<longleftrightarrow> flag [] (of_client_id (sf_oidc f)) = [])"
proof
  let ?h = "hub_addFlags (sf_hub f) newHubAuthProviderFactory" and ?opts = "oidc_addFlags (sf_oidc f) newOIDCAuthProviderFactory"
  note c = command_chain [OF assms, unfolded Let_def]
  have managed: "am_id (ap_Metadata (newManagedClusterAuthProvider a)) = ''managed-cluster''" for a
    by (simp add: newManagedClusterAuthProvider_def managedClusterAuthProviderMetadata_def)
  show "activeAuthProviderIDs (sp_authProviders s) =
      (let others = (if flag True (hf_enable_impersonation (sf_hub f)) then [''hub''] else []) @
         (if flag [] (of_issuer_url (sf_oidc f)) \<noteq> [] then [''oidc''] else [])
       in if others = [] then [] else ''managed-cluster'' # others)"
    using c by (auto simp: activeAuthProviderIDs_def flag_options managed Let_def map_eq_Cons_conv
        simp: built_ids split: if_splits)
  have "oo_issuerURL ?opts = flag [] (of_issuer_url (sf_oidc f))" "oo_clientID ?opts = flag [] (of_client_id (sf_oidc f))"
    by (simp_all add: oidc_addFlags_def newOIDCAuthProviderFactory_def)
  then show "flag [] (of_issuer_url (sf_oidc f)) = [] \<longleftrightarrow> flag [] (of_client_id (sf_oidc f)) = []"
    using c by (auto simp: validateOIDCOptions_def split: if_splits)
qed

text \<open>An example: a service-proxy with the hub and an OIDC issuer.\<close>

definition example_sp_env :: sp_env where
  "example_sp_env =
     \<lparr>se_config_checker = (\<lambda>_. None), se_new_pool = (\<lambda>_. Inr [''root'']), se_read = (\<lambda>_. FileMissing),
      se_parse_certs = (\<lambda>_. Inr []), se_in_cluster = None, se_new_client = None, se_pod_namespace = ''ocm'',
      se_managed = refuse, se_tls_watcher = None\<rparr>"

definition example_provider_env :: provider_env where
  "example_provider_env =
     \<lparr>pe_hubConfig = (\<lambda>_. None), pe_hubClient = Inr (\<lambda>_ _. Inl (ErrorText ''down'')), pe_now = 0, pe_hubCache = [], pe_hubLookup = LookupReturns 1,
      pe_compile = (\<lambda>_. None), pe_validAlgs = [''RS256''], pe_sha256 = (\<lambda>s. s), pe_newPool = (\<lambda>_. None),
      pe_oidcNew = (\<lambda>_ _ _. None), pe_sync = None, pe_caConfigMap = NotFound, pe_delegateHealth = (\<lambda>_. None),
      pe_delegateAuth = (\<lambda>_. accept), pe_token = Inr ''sa''\<rparr>"

definition example_sp_flags :: sp_flags where
  "example_sp_flags =
     \<lparr>sf_cert = Some ''c'', sf_key = Some ''k'', sf_additional_service_ca = None, sf_max_idle_conns = None,
      sf_idle_conn_timeout = None, sf_tls_handshake_timeout = None, sf_expect_continue_timeout = None,
      sf_drain_timeout = None, sf_min_drain_duration = None, sf_token_review_cache_ttl = None,
      sf_hub = \<lparr>hf_hub_kubeconfig = Some ''kc'', hf_enable_impersonation = None\<rparr>,
      sf_oidc = \<lparr>of_issuer_url = Some ''https://issuer'', of_client_id = Some ''app'', of_username_claim = None,
        of_username_prefix = None, of_groups_claim = None, of_groups_prefix = None, of_reserved_name_prefixes = None,
        of_ca_configmap = None, of_signing_algs = None, of_required_claim = None\<rparr>,
      sf_kube_api_qps = None, sf_kube_api_burst = None\<rparr>"

lemma example_command_runs: "\<exists>s. NewServiceProxyCommand example_sp_env example_provider_env example_sp_flags = Inr s"
  by (simp add: NewServiceProxyCommand_def sp_Run_def example_sp_env_def example_provider_env_def example_sp_flags_def
      sp_AddFlags_def newServiceProxy_def defaultAuthProviderFactories_def hubAuthProviderFactory_def sp_validate_def
      drain_Validate_def drain_AddFlags_def DefaultDrainTimeout_def DefaultMinDrainDuration_def second_def flag_def
      hub_addFlags_def newHubAuthProviderFactory_def oidc_addFlags_def newOIDCAuthProviderFactory_def validateOIDCOptions_def
      oidc_enabled_def loadRootCAs_def initializeAuthProviders_def hub_build_def oidc_factory_build_def oidc_build_def
      newOIDCAuthenticator_def reconcileCABundle_def reconcile_finish_def reconcile_begin_def replaceDelegate_def
      empty_authenticator_def buildDelegate_def Let_def)

theorem flags_decide_authentication_witness:
  "\<exists>s. NewServiceProxyCommand example_sp_env example_provider_env example_sp_flags = Inr s \<and>
     activeAuthProviderIDs (sp_authProviders s) = [''managed-cluster'', ''hub'', ''oidc'']"
proof -
  obtain s where s: "NewServiceProxyCommand example_sp_env example_provider_env example_sp_flags = Inr s"
    using example_command_runs by blast
  then show ?thesis
    using flags_decide_authentication [OF s] by (auto simp: example_sp_flags_def flag_def Let_def)
qed

end
