(* ===== verification/Api_Types.thy ===== *)
theory Api_Types
  imports Prelude
begin

text \<open>
  The custom resource that configures the add-on (pkg/apis/proxy/v1alpha1/
  managedproxyconfiguration_types.go) and the names shared by hub and agent
  (pkg/common/constants.go). Pointers to optional parts are options. The defaults in the
  kubebuilder markers are applied by the API server and are not part of the Go types.
\<close>

section \<open>Names\<close>

definition ComponentNameProxyServer :: string where
  "ComponentNameProxyServer = ''proxy-server''"

definition SubjectGroupClusterProxy :: string where
  "SubjectGroupClusterProxy = ''open-cluster-management:cluster-proxy''"

definition SubjectUserClusterAddonAgent :: string where
  "SubjectUserClusterAddonAgent = ''open-cluster-management:cluster-proxy:addon-agent''"

definition LabelKeyComponentName :: string where
  "LabelKeyComponentName = ''proxy.open-cluster-management.io/component-name''"

definition AnnotationKeyConfigurationGeneration :: string where
  "AnnotationKeyConfigurationGeneration = ''proxy.open-cluster-management.io/configuration-generation''"

definition AnnotationKeyTLSConfigHash :: string where
  "AnnotationKeyTLSConfigHash = ''proxy.open-cluster-management.io/tls-config-hash''"

definition AnnotationKeyRenderedHash :: string where
  "AnnotationKeyRenderedHash = ''proxy.open-cluster-management.io/rendered-hash''"

definition AgentClientSecretName :: string where
  "AgentClientSecretName = ''agent-client''"

section \<open>The resource\<close>

record AuthenticationSelfSigned =
  ss_AdditionalSANs :: "string list"

record CertificateSigner =
  cs_Type :: string
  cs_SelfSigned :: "AuthenticationSelfSigned option"

record CertificateSigningSecrets =
  sec_SigningProxyServerSecretName :: string
  sec_SigningProxyClientSecretName :: string
  sec_SigningAgentServerSecretName :: string

record CertificateDump =
  cd_Secrets :: CertificateSigningSecrets

record Authentication =
  au_Signer :: CertificateSigner
  au_Dump :: CertificateDump

record DeployPorts =
  dp_ProxyServer :: int
  dp_AgentServer :: int
  dp_HealthServer :: int
  dp_AdminServer :: int

record Deploy =
  dep_Ports :: DeployPorts

record NodePlacement =
  np_NodeSelector :: "(string, string) gmap"
  np_Tolerations :: "string list"

record AnnotationVar =
  av_Key :: string
  av_Value :: string

record EntryPointLoadBalancerService =
  lb_Name :: string
  lb_Annotations :: "AnnotationVar list"

record EntryPointHostname =
  hn_Value :: string

text \<open>The type is a string; \<open>EntryPointTypeOther\<close> is one that is none of the three the API names.\<close>

datatype EntryPointType =
    EntryPointTypeLoadBalancerService
  | EntryPointTypeHostname
  | EntryPointTypePortForward
  | EntryPointTypeOther string

record Entrypoint =
  ep_Type :: EntryPointType
  ep_LoadBalancerService :: "EntryPointLoadBalancerService option"
  ep_Hostname :: "EntryPointHostname option"
  ep_Port :: int

record ProxyServer =
  px_Image :: string
  px_Replicas :: int
  px_InClusterServiceName :: string
  px_Namespace :: string
  px_Entrypoint :: "Entrypoint option"
  px_AdditionalArgs :: "string list"
  px_NodePlacement :: NodePlacement

record ProxyAgent =
  pa_Image :: string
  pa_Replicas :: int
  pa_AdditionalArgs :: "string list"
  pa_AdditionalServiceProxyArgs :: "string list"
  pa_ImagePullSecrets :: "string list"
  pa_AdditionalServiceCAConfigMap :: string

record UserServer =
  usr_AdditionalSANs :: "string list"

record ManagedProxyConfigurationSpec =
  spec_Authentication :: Authentication
  spec_ProxyServer :: ProxyServer
  spec_ProxyAgent :: ProxyAgent
  spec_Deploy :: "Deploy option"
  spec_UserServer :: "UserServer option"

text \<open>A condition of a status; the transition time is the only part that does not count as
  content.\<close>

record Condition =
  co_Type :: string
  co_Status :: bool
  co_Reason :: string
  co_Message :: string
  co_LastTransitionTime :: int

record ManagedProxyConfigurationStatus =
  st_LastObservedGeneration :: int
  st_Conditions :: "Condition list"

record ManagedProxyConfiguration =
  mpc_Namespace :: string
  mpc_Name :: string
  mpc_Labels :: "(string, string) gmap"
  mpc_UID :: string
  mpc_Generation :: int
  mpc_Spec :: ManagedProxyConfigurationSpec
  mpc_Status :: ManagedProxyConfigurationStatus

definition ConditionTypeProxyServerDeployed :: string where
  "ConditionTypeProxyServerDeployed = ''ProxyServerDeployed''"

definition ConditionTypeProxyServerSecretSigned :: string where
  "ConditionTypeProxyServerSecretSigned = ''ProxyServerSecretSigned''"

definition ConditionTypeAgentServerSecretSigned :: string where
  "ConditionTypeAgentServerSecretSigned = ''AgentServerSecretSigned''"

definition ConditionTypeUserServerSecretSigned :: string where
  "ConditionTypeUserServerSecretSigned = ''UserServerSecretSigned''"

text \<open>Shorthands for the paths the controllers follow.\<close>

abbreviation proxy_server :: "ManagedProxyConfiguration \<Rightarrow> ProxyServer" where
  "proxy_server config \<equiv> spec_ProxyServer (mpc_Spec config)"

abbreviation proxy_namespace :: "ManagedProxyConfiguration \<Rightarrow> string" where
  "proxy_namespace config \<equiv> px_Namespace (proxy_server config)"

abbreviation signing_secrets :: "ManagedProxyConfiguration \<Rightarrow> CertificateSigningSecrets" where
  "signing_secrets config \<equiv> cd_Secrets (au_Dump (spec_Authentication (mpc_Spec config)))"

text \<open>A small configuration for the examples.\<close>

definition example_config :: ManagedProxyConfiguration where
  "example_config =
     \<lparr>mpc_Namespace = [], mpc_Name = ''cluster-proxy'', mpc_Labels = [], mpc_UID = ''1'', mpc_Generation = 3,
      mpc_Spec = \<lparr>
        spec_Authentication = \<lparr>
          au_Signer = \<lparr>cs_Type = ''SelfSigned'', cs_SelfSigned = None\<rparr>,
          au_Dump = \<lparr>cd_Secrets = \<lparr>sec_SigningProxyServerSecretName = ''proxy-server'',
            sec_SigningProxyClientSecretName = ''proxy-client'', sec_SigningAgentServerSecretName = ''agent-server''\<rparr>\<rparr>\<rparr>,
        spec_ProxyServer = \<lparr>px_Image = ''img'', px_Replicas = 1, px_InClusterServiceName = ''proxy-entrypoint'',
          px_Namespace = ''ocm'',
          px_Entrypoint = Some \<lparr>ep_Type = EntryPointTypePortForward, ep_LoadBalancerService = None,
            ep_Hostname = None, ep_Port = 8091\<rparr>,
          px_AdditionalArgs = [], px_NodePlacement = \<lparr>np_NodeSelector = [], np_Tolerations = []\<rparr>\<rparr>,
        spec_ProxyAgent = \<lparr>pa_Image = ''img'', pa_Replicas = 1, pa_AdditionalArgs = [],
          pa_AdditionalServiceProxyArgs = [], pa_ImagePullSecrets = [], pa_AdditionalServiceCAConfigMap = []\<rparr>,
        spec_Deploy = None, spec_UserServer = Some \<lparr>usr_AdditionalSANs = []\<rparr>\<rparr>,
      mpc_Status = \<lparr>st_LastObservedGeneration = 0, st_Conditions = []\<rparr>\<rparr>"

end
