(* ===== verification/Manifests.thy ===== *)
theory Manifests
  imports Api_Types Service_Url
begin

text \<open>
  The resources that the operator renders for the proxy servers on the hub
  (pkg/proxyserver/controllers/manifests.go). An object is its kind, its metadata and a
  spec with one constructor per kind; constant parts of the pod template are fields of the
  rendered record. The TLS settings' text forms come from the vendored sdk-go and are the
  parameters \<open>cipherString\<close> and \<open>versionString\<close>.
\<close>

record OwnerReference =
  or_APIVersion :: string
  or_Kind :: string
  or_Name :: string
  or_UID :: string
  or_BlockOwnerDeletion :: bool

record ObjectMeta =
  om_Namespace :: string
  om_Name :: string
  om_OwnerReferences :: "OwnerReference list"
  om_Labels :: "(string, string) gmap"
  om_Annotations :: "(string, string) gmap"

record ServiceSpec =
  svc_Selector :: "(string, string) gmap"
  svc_Type :: string
  svc_Ports :: "(string \<times> nat) list"
  svc_ClusterIP :: string
  svc_ClusterIPs :: "string list"
  svc_IPFamilies :: "string list"
  svc_IPFamilyPolicy :: "string option"

record SecurityContext =
  sc_DropCapabilities :: "string list"
  sc_Privileged :: bool
  sc_RunAsNonRoot :: bool
  sc_ReadOnlyRootFilesystem :: bool
  sc_AllowPrivilegeEscalation :: bool

record Container =
  cn_Name :: string
  cn_Image :: string
  cn_ImagePullPolicy :: string
  cn_Command :: "string list"
  cn_Args :: "string list"
  cn_SecurityContext :: SecurityContext
  cn_VolumeMounts :: "(string \<times> bool \<times> string) list"

record DeploymentSpec =
  de_Replicas :: int
  de_MatchLabels :: "(string, string) gmap"
  de_Strategy :: string
  de_PodLabels :: "(string, string) gmap"
  de_ServiceAccountName :: string
  de_PodRunAsNonRoot :: bool
  de_SeccompProfile :: string
  de_Containers :: "Container list"
  de_Volumes :: "(string \<times> string) list"
  de_NodeSelector :: "(string, string) gmap"
  de_Tolerations :: "string list"

record PolicyRule =
  pr_APIGroups :: "string list"
  pr_Verbs :: "string list"
  pr_Resources :: "string list"

datatype object_spec =
    ServiceAccountSpec
  | SecretSpec "(string, string) gmap"
  | ServiceObject ServiceSpec
  | DeploymentObject DeploymentSpec
  | RoleObject "PolicyRule list"
  | RoleBindingObject "string \<times> string" "(string \<times> string) list"
  | NamespaceObject
  | LeaseObject "int option" "int option"

record k8s_object =
  ob_Kind :: string
  ob_Meta :: ObjectMeta
  ob_Spec :: object_spec

definition signerSecretName :: string where
  "signerSecretName = ''proxy-server-ca''"

definition newOwnerReference :: "ManagedProxyConfiguration \<Rightarrow> OwnerReference" where
  "newOwnerReference config =
     \<lparr>or_APIVersion = ''proxy.open-cluster-management.io/v1alpha1'', or_Kind = ''ManagedProxyConfiguration'',
      or_Name = mpc_Name config, or_UID = mpc_UID config, or_BlockOwnerDeletion = True\<rparr>"

text \<open>The metadata that all of them share: the proxy server's namespace and the owner.\<close>

definition owned_meta :: "ManagedProxyConfiguration \<Rightarrow> string \<Rightarrow> ObjectMeta" where
  "owned_meta config name =
     \<lparr>om_Namespace = proxy_namespace config, om_Name = name,
      om_OwnerReferences = [newOwnerReference config], om_Labels = [], om_Annotations = []\<rparr>"

definition newServiceAccount :: "ManagedProxyConfiguration \<Rightarrow> k8s_object" where
  "newServiceAccount config =
     \<lparr>ob_Kind = ''ServiceAccount'', ob_Meta = owned_meta config AddonName, ob_Spec = ServiceAccountSpec\<rparr>"

definition newProxySecret :: "ManagedProxyConfiguration \<Rightarrow> string \<Rightarrow> k8s_object" where
  "newProxySecret config caData =
     \<lparr>ob_Kind = ''Secret'', ob_Meta = owned_meta config signerSecretName,
      ob_Spec = SecretSpec [(''ca.crt'', caData)]\<rparr>"

definition component_labels :: "(string, string) gmap" where
  "component_labels = [(LabelKeyComponentName, ComponentNameProxyServer)]"

definition proxy_ports :: "(string \<times> nat) list" where
  "proxy_ports = [(''proxy-server'', 8090), (''agent-server'', 8091)]"

definition newProxyService :: "ManagedProxyConfiguration \<Rightarrow> k8s_object" where
  "newProxyService config =
     \<lparr>ob_Kind = ''Service'', ob_Meta = owned_meta config (px_InClusterServiceName (proxy_server config)),
      ob_Spec = ServiceObject
        \<lparr>svc_Selector = component_labels, svc_Type = ''ClusterIP'', svc_Ports = proxy_ports,
         svc_ClusterIP = [], svc_ClusterIPs = [], svc_IPFamilies = [], svc_IPFamilyPolicy = None\<rparr>\<rparr>"

record TLSConfig =
  tls_MinVersion :: nat
  tls_CipherSuites :: "nat list"

definition proxyServerArgs ::
  "(nat list \<Rightarrow> string) \<Rightarrow> (nat \<Rightarrow> string) \<Rightarrow> ManagedProxyConfiguration \<Rightarrow> TLSConfig option \<Rightarrow> string list" where
  "proxyServerArgs cipherString versionString config tlsConfig =
     (let args = [''--server-count='' @ itoa (px_Replicas (proxy_server config)),
                  ''--proxy-strategies=destHost'',
                  ''--server-ca-cert=/etc/server-ca-pki/ca.crt'',
                  ''--server-cert=/etc/server-pki/tls.crt'',
                  ''--server-key=/etc/server-pki/tls.key'',
                  ''--cluster-ca-cert=/etc/server-ca-pki/ca.crt'',
                  ''--cluster-cert=/etc/agent-pki/tls.crt'',
                  ''--cluster-key=/etc/agent-pki/tls.key''] @ px_AdditionalArgs (proxy_server config)
      in case tlsConfig of
           None \<Rightarrow> args
         | Some tls \<Rightarrow>
             args
             @ (if length (tls_CipherSuites tls) > 0
                then [''--cipher-suites='' @ cipherString (tls_CipherSuites tls)] else [])
             @ (if tls_MinVersion tls \<noteq> 0
                then [''--tls-min-version='' @ versionString (tls_MinVersion tls)] else []))"

definition tlsConfigHash ::
  "(string \<Rightarrow> string) \<Rightarrow> (nat list \<Rightarrow> string) \<Rightarrow> (nat \<Rightarrow> string) \<Rightarrow> TLSConfig option \<Rightarrow> string" where
  "tlsConfigHash sha256 cipherString versionString tlsConfig =
     (case tlsConfig of
        None \<Rightarrow> []
      | Some tls \<Rightarrow>
          take 16 (hex_encode (sha256 (cipherString (tls_CipherSuites tls) @ [CHR 0x00]
            @ versionString (tls_MinVersion tls)))))"

definition newProxyServerDeployment ::
  "(string \<Rightarrow> string) \<Rightarrow> (nat list \<Rightarrow> string) \<Rightarrow> (nat \<Rightarrow> string) \<Rightarrow> ManagedProxyConfiguration \<Rightarrow> string
     \<Rightarrow> TLSConfig option \<Rightarrow> k8s_object" where
  "newProxyServerDeployment sha256 cipherString versionString config imagePullPolicy tlsConfig =
     (let hash = tlsConfigHash sha256 cipherString versionString tlsConfig;
          deployAnnotations = (if hash \<noteq> [] then [(AnnotationKeyTLSConfigHash, hash)] else [])
      in \<lparr>ob_Kind = ''Deployment'',
          ob_Meta = (owned_meta config (mpc_Name config))
            \<lparr>om_Labels := [(AnnotationKeyConfigurationGeneration, itoa (mpc_Generation config))],
             om_Annotations := deployAnnotations\<rparr>,
          ob_Spec = DeploymentObject
            \<lparr>de_Replicas = px_Replicas (proxy_server config),
             de_MatchLabels = component_labels,
             de_Strategy = ''Recreate'',
             de_PodLabels = component_labels,
             de_ServiceAccountName = AddonName,
             de_PodRunAsNonRoot = True,
             de_SeccompProfile = ''RuntimeDefault'',
             de_Containers =
               [\<lparr>cn_Name = ComponentNameProxyServer, cn_Image = px_Image (proxy_server config),
                 cn_ImagePullPolicy = imagePullPolicy, cn_Command = [''/proxy-server''],
                 cn_Args = proxyServerArgs cipherString versionString config tlsConfig,
                 cn_SecurityContext =
                   \<lparr>sc_DropCapabilities = [''ALL''], sc_Privileged = False, sc_RunAsNonRoot = True,
                    sc_ReadOnlyRootFilesystem = True, sc_AllowPrivilegeEscalation = False\<rparr>,
                 cn_VolumeMounts =
                   [(''proxy-server-ca-certs'', True, ''/etc/server-ca-pki/''),
                    (''proxy-server-certs'', True, ''/etc/server-pki/''),
                    (''proxy-agent-certs'', True, ''/etc/agent-pki/'')]\<rparr>],
             de_Volumes =
               [(''proxy-server-ca-certs'', signerSecretName),
                (''proxy-server-certs'', sec_SigningProxyServerSecretName (signing_secrets config)),
                (''proxy-agent-certs'', sec_SigningAgentServerSecretName (signing_secrets config))],
             de_NodeSelector = np_NodeSelector (px_NodePlacement (proxy_server config)),
             de_Tolerations = np_Tolerations (px_NodePlacement (proxy_server config))\<rparr>\<rparr>)"

definition newProxyServerRole :: "ManagedProxyConfiguration \<Rightarrow> k8s_object" where
  "newProxyServerRole config =
     \<lparr>ob_Kind = ''Role'', ob_Meta = owned_meta config ''cluster-proxy-addon-agent:portforward'',
      ob_Spec = RoleObject
        [\<lparr>pr_APIGroups = [[]], pr_Verbs = [''*''], pr_Resources = [''pods'', ''pods/portforward'']\<rparr>]\<rparr>"

definition newProxyServerRoleBinding :: "ManagedProxyConfiguration \<Rightarrow> k8s_object" where
  "newProxyServerRoleBinding config =
     \<lparr>ob_Kind = ''RoleBinding'', ob_Meta = owned_meta config ''cluster-proxy-addon-agent:portforward'',
      ob_Spec = RoleBindingObject (''Role'', ''cluster-proxy-addon-agent:portforward'')
        [(''Group'', SubjectGroupClusterProxy)]\<rparr>"

section \<open>Properties\<close>

text \<open>
  The rendered deployment is complete: every volume a container mounts is defined by the pod,
  is mounted read only and comes from the CA secret or one of the two signing secrets, and
  the selectors of the deployment, of the service and of the pods agree, so that the service
  reaches the pods.
\<close>

theorem deployment_is_consistent:
  "(case (ob_Spec (newProxyServerDeployment sha256 cs vs config pull tls), ob_Spec (newProxyService config)) of
      (DeploymentObject d, ServiceObject s) \<Rightarrow>
        list_all (\<lambda>c. map fst (cn_VolumeMounts c) = map fst (de_Volumes d) \<and>
            list_all (\<lambda>(_, readOnly, _). readOnly) (cn_VolumeMounts c) \<and>
            sc_RunAsNonRoot (cn_SecurityContext c) \<and> \<not> sc_Privileged (cn_SecurityContext c))
          (de_Containers d) \<and>
        map snd (de_Volumes d) = [signerSecretName, sec_SigningProxyServerSecretName (signing_secrets config),
          sec_SigningAgentServerSecretName (signing_secrets config)] \<and>
        svc_Selector s = de_PodLabels d \<and> de_MatchLabels d = de_PodLabels d
    | _ \<Rightarrow> False)"
  by (simp add: newProxyServerDeployment_def newProxyService_def Let_def)

end
