(* ===== verification/Proxy_Reconciler.thy ===== *)
theory Proxy_Reconciler
  imports Manifests
begin

text \<open>
  The operator's controller for ManagedProxyConfiguration
  (pkg/proxyserver/controllers/managedproxyconfiguration_controller.go). The API server is the
  argument \<open>api\<close> of every operation that calls it, over a cluster state of any type; the locale
  \<open>object_store\<close> states what the controller relies on (a write that succeeds is what the next read
  returns, a failed write changes nothing, optimistic locking by resource version), and it is
  interpreted on a store of versioned objects. The hash of a rendered resource, the TLS text
  forms, PEM and X.509 decoding, the name validation of apimachinery and the certificate rotation
  of sdk-go are parameters too. A Go panic is the value \<open>Panic\<close> of the error type.
\<close>

section \<open>The API server\<close>

type_synonym obj_key = "string \<times> string \<times> string"

record stored =
  so_Object :: k8s_object
  so_Version :: nat
  so_Ingress :: "string list"

datatype api_error = ApiNotFound | ApiAlreadyExists | ApiConflict | ApiOther string

text \<open>The requests the controller makes. A write carries the resource version set on the object
  that is sent, if any.\<close>

record 'c api =
  ap_get :: "'c \<Rightarrow> obj_key \<Rightarrow> api_error + stored"
  ap_create :: "k8s_object \<Rightarrow> nat option \<Rightarrow> 'c \<Rightarrow> api_error option \<times> 'c"
  ap_update :: "k8s_object \<Rightarrow> nat option \<Rightarrow> 'c \<Rightarrow> api_error option \<times> 'c"
  ap_scale :: "'c \<Rightarrow> string \<Rightarrow> string \<Rightarrow> api_error + int"
  ap_status :: "string \<Rightarrow> ManagedProxyConfigurationStatus \<Rightarrow> 'c \<Rightarrow> api_error option \<times> 'c"

definition key_of :: "k8s_object \<Rightarrow> obj_key" where
  "key_of r = (ob_Kind r, om_Namespace (ob_Meta r), om_Name (ob_Meta r))"

section \<open>Applying one resource\<close>

datatype rec_error =
    HashError string
  | GetFailed string api_error
  | CreateFailed string api_error
  | UpdateFailed string api_error
  | BadGeneration string
  | NotAService
  | NamespaceCreate api_error
  | NamespaceGet api_error
  | EntrypointService api_error
  | EntrypointGet api_error
  | ExternalIPNotProvisioned
  | RotationFailed string string
  | StateError api_error
  | ConfigNotFound
  | StatusUpdate api_error
  | Livelock
  | Panic string

definition annotation :: "(string, string) gmap \<Rightarrow> string \<Rightarrow> string" where
  "annotation m k = (case gget m k of None \<Rightarrow> [] | Some v \<Rightarrow> v)"

text \<open>The annotations that \<open>ensure\<close> sets before it applies the resource.\<close>

definition annotate :: "int \<Rightarrow> string \<Rightarrow> k8s_object \<Rightarrow> k8s_object" where
  "annotate incomingGeneration renderedHash r =
     (let annotations = om_Annotations (ob_Meta r);
          annotations = gput AnnotationKeyConfigurationGeneration (itoa incomingGeneration) annotations;
          annotations = gput AnnotationKeyRenderedHash renderedHash annotations
      in r\<lparr>ob_Meta := (ob_Meta r)\<lparr>om_Annotations := annotations\<rparr>\<rparr>)"

text \<open>\<open>serviceForUpdate\<close>, on the stored object (or the empty one, when it was not found before).\<close>

definition empty_service :: ServiceSpec where
  "empty_service = \<lparr>svc_Selector = [], svc_Type = [], svc_Ports = [], svc_ClusterIP = [], svc_ClusterIPs = [],
     svc_IPFamilies = [], svc_IPFamilyPolicy = None\<rparr>"

definition serviceForUpdate :: "k8s_object \<Rightarrow> k8s_object option \<Rightarrow> rec_error + k8s_object" where
  "serviceForUpdate r current =
     (case ob_Spec r of
        ServiceObject d \<Rightarrow>
          (let c = (case current of
                      Some q \<Rightarrow> (case ob_Spec q of ServiceObject s \<Rightarrow> s | _ \<Rightarrow> empty_service)
                    | None \<Rightarrow> empty_service);
               d = d\<lparr>svc_ClusterIP := svc_ClusterIP c, svc_ClusterIPs := svc_ClusterIPs c\<rparr>;
               d = (if svc_IPFamilies d = [] then d\<lparr>svc_IPFamilies := svc_IPFamilies c\<rparr> else d);
               d = (if svc_IPFamilyPolicy d = None then d\<lparr>svc_IPFamilyPolicy := svc_IPFamilyPolicy c\<rparr> else d)
           in Inr (r\<lparr>ob_Spec := ServiceObject d\<rparr>))
      | _ \<Rightarrow> Inl NotAService)"

text \<open>Whether the stored annotations are behind the rendered ones.\<close>

definition outdated ::
  "int \<Rightarrow> string \<Rightarrow> (string, string) gmap \<Rightarrow> (string, string) gmap \<Rightarrow> rec_error + bool" where
  "outdated incomingGeneration renderedHash annotations currentAnnotations =
     (let gen = annotation currentAnnotations AnnotationKeyConfigurationGeneration;
          tlsHashChanged = annotation annotations AnnotationKeyTLSConfigHash
                             \<noteq> annotation currentAnnotations AnnotationKeyTLSConfigHash;
          renderedHashChanged = renderedHash \<noteq> annotation currentAnnotations AnnotationKeyRenderedHash
      in case (if gen \<noteq> [] then atoi gen else Some 0) of
           None \<Rightarrow> Inl (BadGeneration gen)
         | Some currentGeneration \<Rightarrow>
             Inr (incomingGeneration > currentGeneration \<or> tlsHashChanged \<or> renderedHashChanged))"

text \<open>
  One attempt of \<open>ensure\<close>: \<open>before_get\<close>, \<open>before_create\<close> and \<open>before_update\<close> are what other
  clients do to the cluster before the controller's calls. The resource that is applied carries a resource version
  (\<open>rv\<close>) once an update has set one on it; an update of a Service works on a copy, so it does
  not. The result is \<open>created\<close> and \<open>updated\<close> or an error, or after a conflict another attempt
  with the resource as it then is.
\<close>

type_synonym 'c others = "('c \<Rightarrow> 'c) \<times> ('c \<Rightarrow> 'c) \<times> ('c \<Rightarrow> 'c)"

definition nobody :: "'c others" where
  "nobody = (\<lambda>c. c, \<lambda>c. c, \<lambda>c. c)"

datatype attempt_result = Done "rec_error + bool \<times> bool" | Retry "nat option"

definition update_existing ::
  "'c api \<Rightarrow> int \<Rightarrow> string \<Rightarrow> k8s_object \<Rightarrow> nat option \<Rightarrow> stored option \<Rightarrow> 'c \<Rightarrow> attempt_result \<times> 'c" where
  "update_existing api incomingGeneration renderedHash resource rv current cl =
     (case outdated incomingGeneration renderedHash (om_Annotations (ob_Meta resource))
             (case current of None \<Rightarrow> [] | Some s \<Rightarrow> om_Annotations (ob_Meta (so_Object s))) of
        Inl err \<Rightarrow> (Done (Inl err), cl)
      | Inr False \<Rightarrow> (Done (Inr (False, False)), cl)
      | Inr True \<Rightarrow>
          (case (if ob_Kind resource = ''Service''
                 then serviceForUpdate resource (map_option so_Object current) else Inr resource) of
             Inl err \<Rightarrow> (Done (Inl err), cl)
           | Inr resourceToUpdate \<Rightarrow>
               (case ap_update api resourceToUpdate (map_option so_Version current) cl of
                  (Some ApiConflict, cl) \<Rightarrow>
                    (Retry (if ob_Kind resource = ''Service'' then rv else map_option so_Version current), cl)
                | (Some err, cl) \<Rightarrow> (Done (Inl (UpdateFailed (ob_Kind resource) err)), cl)
                | (None, cl) \<Rightarrow> (Done (Inr (False, True)), cl))))"

definition attempt ::
  "'c api \<Rightarrow> (object_spec \<Rightarrow> string + string) \<Rightarrow> 'c others \<Rightarrow> int \<Rightarrow> k8s_object \<Rightarrow> nat option
     \<Rightarrow> 'c \<Rightarrow> attempt_result \<times> 'c" where
  "attempt api specHash others incomingGeneration rendered rv cl =
     (case others of (before_get, before_create, before_update) \<Rightarrow>
      case specHash (ob_Spec rendered) of
        Inl err \<Rightarrow> (Done (Inl (HashError err)), cl)
      | Inr renderedHash \<Rightarrow>
          (let resource = annotate incomingGeneration renderedHash rendered;
               cl = before_get cl in
           case ap_get api cl (key_of resource) of
             Inr current \<Rightarrow>
               update_existing api incomingGeneration renderedHash resource rv (Some current) (before_update cl)
           | Inl ApiNotFound \<Rightarrow>
               (case ap_create api resource rv (before_create cl) of
                  (None, cl) \<Rightarrow> (Done (Inr (True, False)), cl)
                | (Some ApiAlreadyExists, cl) \<Rightarrow>
                    update_existing api incomingGeneration renderedHash resource rv None (before_update cl)
                | (Some err, cl) \<Rightarrow> (Done (Inl (CreateFailed (ob_Kind resource) err)), cl))
           | Inl err \<Rightarrow> (Done (Inl (GetFailed (ob_Kind resource) err)), cl)))"

text \<open>
  \<open>ensure\<close> with its retries: each element of \<open>others\<close> is what other clients do during one
  attempt, and the attempt after the last element is undisturbed. A conflict in an undisturbed
  attempt would repeat for ever: \<open>Livelock\<close>.
\<close>

fun ensure_from ::
  "'c api \<Rightarrow> (object_spec \<Rightarrow> string + string) \<Rightarrow> 'c others list
     \<Rightarrow> int \<Rightarrow> k8s_object \<Rightarrow> nat option \<Rightarrow> 'c \<Rightarrow> (rec_error + bool \<times> bool) \<times> 'c" where
  "ensure_from api specHash [] incomingGeneration rendered rv cl =
     (case attempt api specHash nobody incomingGeneration rendered rv cl of
        (Done r, cl) \<Rightarrow> (r, cl)
      | (Retry _, cl) \<Rightarrow> (Inl Livelock, cl))"
| "ensure_from api specHash (o1 # others) incomingGeneration rendered rv cl =
     (case attempt api specHash o1 incomingGeneration rendered rv cl of
        (Done r, cl) \<Rightarrow> (r, cl)
      | (Retry rv, cl) \<Rightarrow> ensure_from api specHash others incomingGeneration rendered rv cl)"

definition ensure ::
  "'c api \<Rightarrow> (object_spec \<Rightarrow> string + string) \<Rightarrow> 'c others list
     \<Rightarrow> int \<Rightarrow> k8s_object \<Rightarrow> 'c \<Rightarrow> (rec_error + bool \<times> bool) \<times> 'c" where
  "ensure api specHash others incomingGeneration rendered cl =
     ensure_from api specHash others incomingGeneration rendered None cl"

section \<open>Deploying the proxy servers\<close>

text \<open>What other clients do while one resource is applied is the head of \<open>others\<close>.\<close>

fun ensure_all ::
  "'c api \<Rightarrow> (object_spec \<Rightarrow> string + string) \<Rightarrow> 'c others list list \<Rightarrow> int \<Rightarrow> bool
     \<Rightarrow> k8s_object list \<Rightarrow> 'c \<Rightarrow> (rec_error + bool) \<times> 'c" where
  "ensure_all api specHash others generation modified [] cl = (Inr modified, cl)"
| "ensure_all api specHash others generation modified (r # rs) cl =
     (case ensure api specHash (case others of [] \<Rightarrow> [] | o1 # _ \<Rightarrow> o1) generation r cl of
        (Inl err, cl) \<Rightarrow> (Inl err, cl)
      | (Inr (created, updated), cl) \<Rightarrow>
          ensure_all api specHash (tl others) generation (modified \<or> created \<or> updated) rs cl)"

text \<open>The rendering inputs: CA data, image pull policy, TLS settings and the functions on them.\<close>

record render_env =
  re_sha256 :: "string \<Rightarrow> string"
  re_cipherString :: "nat list \<Rightarrow> string"
  re_versionString :: "nat \<Rightarrow> string"
  re_caData :: string
  re_imagePullPolicy :: string
  re_tlsConfig :: "TLSConfig option"

definition proxy_resources :: "render_env \<Rightarrow> ManagedProxyConfiguration \<Rightarrow> k8s_object list" where
  "proxy_resources e config =
     [newServiceAccount config,
      newProxyService config,
      newProxySecret config (re_caData e),
      newProxyServerDeployment (re_sha256 e) (re_cipherString e) (re_versionString e) config
        (re_imagePullPolicy e) (re_tlsConfig e),
      newProxyServerRole config,
      newProxyServerRoleBinding config]"

definition deployProxyServer ::
  "'c api \<Rightarrow> (object_spec \<Rightarrow> string + string) \<Rightarrow> 'c others list list \<Rightarrow> render_env
     \<Rightarrow> ManagedProxyConfiguration \<Rightarrow> 'c \<Rightarrow> (rec_error + bool) \<times> 'c" where
  "deployProxyServer api specHash others e config cl =
     ensure_all api specHash others (mpc_Generation config) False (proxy_resources e config) cl"

section \<open>Entry point\<close>

text \<open>\<open>isQualifiedName\<close> and \<open>isValidLabelValue\<close> return the list of complaints, as in apimachinery.\<close>

definition getAnnotation ::
  "(string \<Rightarrow> string list) \<Rightarrow> (string \<Rightarrow> string list) \<Rightarrow> AnnotationVar list \<Rightarrow> (string, string) gmap" where
  "getAnnotation isQualifiedName isValidLabelValue vars =
     fold (\<lambda>v m.
         if length (isQualifiedName (av_Key v)) = 0 then m
         else if length (isValidLabelValue (av_Value v)) > 0 then m
         else gput (av_Key v) (av_Value v) m)
       vars []"

record entry_env =
  ee_isQualifiedName :: "string \<Rightarrow> string list"
  ee_isValidLabelValue :: "string \<Rightarrow> string list"

definition lb_service :: "entry_env \<Rightarrow> ManagedProxyConfiguration \<Rightarrow> EntryPointLoadBalancerService \<Rightarrow> k8s_object" where
  "lb_service e config lb =
     \<lparr>ob_Kind = ''Service'',
      ob_Meta = \<lparr>om_Namespace = proxy_namespace config, om_Name = lb_Name lb, om_OwnerReferences = [],
        om_Labels = [],
        om_Annotations = getAnnotation (ee_isQualifiedName e) (ee_isValidLabelValue e) (lb_Annotations lb)\<rparr>,
      ob_Spec = ServiceObject
        \<lparr>svc_Selector = component_labels, svc_Type = ''LoadBalancer'', svc_Ports = proxy_ports,
         svc_ClusterIP = [], svc_ClusterIPs = [], svc_IPFamilies = [], svc_IPFamilyPolicy = None\<rparr>\<rparr>"

definition ensureEntrypoint ::
  "'c api \<Rightarrow> entry_env \<Rightarrow> ManagedProxyConfiguration \<Rightarrow> 'c \<Rightarrow> (rec_error + string) \<times> 'c" where
  "ensureEntrypoint api e config cl =
     (case px_Entrypoint (proxy_server config) of
        None \<Rightarrow> (Inl (Panic ''nil Entrypoint''), cl)
      | Some ep \<Rightarrow>
          if ep_Type ep = EntryPointTypeLoadBalancerService then
            (case ep_LoadBalancerService ep of
               None \<Rightarrow> (Inl (Panic ''nil LoadBalancerService''), cl)
             | Some lb \<Rightarrow>
                 (let proxyService = lb_service e config lb in
                  case ap_create api proxyService None cl of
                    (err, cl) \<Rightarrow>
                      if err \<noteq> None \<and> err \<noteq> Some ApiAlreadyExists
                      then (Inl (EntrypointService (the err)), cl)
                      else
                        (case ap_get api cl (key_of proxyService) of
                           Inl err \<Rightarrow> (Inl (EntrypointGet err), cl)
                         | Inr lbSvc \<Rightarrow>
                             (case so_Ingress lbSvc of
                                [] \<Rightarrow> (Inl ExternalIPNotProvisioned, cl)
                              | ip # _ \<Rightarrow> (Inr ip, cl)))))
          else (Inr [], cl))"

section \<open>Certificates\<close>

record rotation =
  ro_Namespace :: string
  ro_Name :: string
  ro_SANs :: "string list"
  ro_ClientAuth :: bool
  ro_Failure :: string

definition buildUserServerSANs :: "ManagedProxyConfiguration \<Rightarrow> UserServer \<Rightarrow> string list" where
  "buildUserServerSANs config userServer =
     (let namespace = proxy_namespace config in
      [''127.0.0.1'', ''localhost'']
      @ [UserServerServiceName,
         UserServerServiceName @ ''.'' @ namespace,
         UserServerServiceName @ ''.'' @ namespace @ ''.svc'',
         UserServerServiceName @ ''.'' @ namespace @ ''.svc.cluster.local'']
      @ usr_AdditionalSANs userServer)"

text \<open>The names of the server certificates; a missing Hostname part is dereferenced.\<close>

definition server_sans :: "ManagedProxyConfiguration \<Rightarrow> string \<Rightarrow> rec_error + string list" where
  "server_sans config entrypoint =
     (let hostNames = (case cs_SelfSigned (au_Signer (spec_Authentication (mpc_Spec config))) of
                         None \<Rightarrow> [] | Some s \<Rightarrow> ss_AdditionalSANs s);
          svc = px_InClusterServiceName (proxy_server config) @ ''.'' @ proxy_namespace config;
          sans = hostNames @ [''127.0.0.1'', ''localhost'', svc, svc @ ''.svc'']
      in case (case px_Entrypoint (proxy_server config) of
                 None \<Rightarrow> Inr sans
               | Some ep \<Rightarrow>
                   if ep_Type ep = EntryPointTypeHostname then
                     (case ep_Hostname ep of
                        None \<Rightarrow> Inl (Panic ''nil Hostname'')
                      | Some h \<Rightarrow> Inr (sans @ [hn_Value h]))
                   else Inr sans) of
           Inl err \<Rightarrow> Inl err
         | Inr sans \<Rightarrow> Inr (if length entrypoint > 0 then sans @ [entrypoint] else sans))"

definition rotations :: "ManagedProxyConfiguration \<Rightarrow> string \<Rightarrow> rec_error + rotation list" where
  "rotations config entrypoint =
     (case server_sans config entrypoint of
        Inl err \<Rightarrow> Inl err
      | Inr sans \<Rightarrow>
          Inr ([\<lparr>ro_Namespace = proxy_namespace config,
                 ro_Name = sec_SigningProxyServerSecretName (signing_secrets config),
                 ro_SANs = sans, ro_ClientAuth = False, ro_Failure = ''fails to rotate proxy server cert''\<rparr>,
                \<lparr>ro_Namespace = proxy_namespace config,
                 ro_Name = sec_SigningAgentServerSecretName (signing_secrets config),
                 ro_SANs = sans, ro_ClientAuth = False, ro_Failure = ''fails to rotate proxy agent cert''\<rparr>,
                \<lparr>ro_Namespace = proxy_namespace config,
                 ro_Name = sec_SigningProxyClientSecretName (signing_secrets config),
                 ro_SANs = sans, ro_ClientAuth = True, ro_Failure = ''fails to rotate proxy client cert''\<rparr>]
               @ (case spec_UserServer (mpc_Spec config) of
                    None \<Rightarrow> []
                  | Some us \<Rightarrow>
                      [\<lparr>ro_Namespace = proxy_namespace config, ro_Name = UserServerSecretName,
                        ro_SANs = buildUserServerSANs config us, ro_ClientAuth = False,
                        ro_Failure = ''fails to rotate user server cert''\<rparr>])))"

text \<open>\<open>EnsureTargetCertKeyPair\<close> of the vendored rotation is \<open>ensureCert\<close>: it takes the CA that signs (its
  certificates and its key) and the certificates of the CA bundle.\<close>

type_synonym 'c ensure_cert =
  "string list \<times> string \<Rightarrow> string list \<Rightarrow> rotation \<Rightarrow> 'c \<Rightarrow> string option \<times> 'c"

fun rotate_all ::
  "'c ensure_cert \<Rightarrow> string list \<times> string \<Rightarrow> rotation list \<Rightarrow> 'c \<Rightarrow> rec_error option \<times> 'c" where
  "rotate_all ensureCert caPair [] cl = (None, cl)"
| "rotate_all ensureCert caPair (ro # ros) cl =
     (case ensureCert caPair (fst caPair) ro cl of
        (Some err, cl) \<Rightarrow> (Some (RotationFailed (ro_Failure ro) err), cl)
      | (None, cl) \<Rightarrow> rotate_all ensureCert caPair ros cl)"

definition ensureRotation ::
  "'c ensure_cert \<Rightarrow> string list \<times> string \<Rightarrow> ManagedProxyConfiguration \<Rightarrow> string \<Rightarrow> 'c
     \<Rightarrow> rec_error option \<times> 'c" where
  "ensureRotation ensureCert caPair config entrypoint cl =
     (case rotations config entrypoint of
        Inl err \<Rightarrow> (Some err, cl)
      | Inr ros \<Rightarrow> rotate_all ensureCert caPair ros cl)"

definition ensureNamespace :: "'c api \<Rightarrow> ManagedProxyConfiguration \<Rightarrow> 'c \<Rightarrow> rec_error option \<times> 'c" where
  "ensureNamespace api config cl =
     (let ns = \<lparr>ob_Kind = ''Namespace'', ob_Meta = \<lparr>om_Namespace = [], om_Name = proxy_namespace config,
                  om_OwnerReferences = [], om_Labels = [], om_Annotations = []\<rparr>, ob_Spec = NamespaceObject\<rparr>
      in case ap_get api cl (key_of ns) of
           Inl ApiNotFound \<Rightarrow>
             (case ap_create api ns None cl of
                (Some err, cl) \<Rightarrow> (Some (NamespaceCreate err), cl)
              | (None, cl) \<Rightarrow> (None, cl))
         | Inl err \<Rightarrow> (Some (NamespaceGet err), cl)
         | Inr _ \<Rightarrow> (None, cl))"

section \<open>Status\<close>

text \<open>\<open>pemDecode\<close> is \<open>None\<close> where \<open>pem.Decode\<close> returns a nil block; \<open>notAfter\<close> is the expiry of the
  certificate, \<open>None\<close> if it does not parse.\<close>

definition getPEMCertExpireTime ::
  "(string \<Rightarrow> string option) \<Rightarrow> (string \<Rightarrow> string option) \<Rightarrow> string \<Rightarrow> rec_error + string option" where
  "getPEMCertExpireTime pemDecode notAfter pemBytes =
     (case pemDecode pemBytes of
        None \<Rightarrow> Inl (Panic ''nil PEM block'')
      | Some b \<Rightarrow> Inr (notAfter b))"

record current_state =
  cu_isCurrentlyDeployed :: bool
  cu_isRedeployed :: bool
  cu_isSigned :: bool
  cu_replicas :: int
  cu_proxyServerCertExpireTime :: "string option"
  cu_agentServerCertExpireTime :: "string option"
  cu_userServerCertExpireTime :: "string option"

record state_env =
  sv_pemDecode :: "string \<Rightarrow> string option"
  sv_notAfter :: "string \<Rightarrow> string option"

text \<open>A secret's certificate. The client returns an empty object beside the error when the secret
  is not found: \<open>Inr (False, [])\<close>.\<close>

definition get_cert :: "'c api \<Rightarrow> 'c \<Rightarrow> string \<Rightarrow> string \<Rightarrow> api_error + bool \<times> string" where
  "get_cert api cl namespace name =
     (case ap_get api cl (''Secret'', namespace, name) of
        Inl ApiNotFound \<Rightarrow> Inr (False, [])
      | Inl err \<Rightarrow> Inl err
      | Inr s \<Rightarrow> (case ob_Spec (so_Object s) of
           SecretSpec data \<Rightarrow> Inr (True, annotation data ''tls.crt'') | _ \<Rightarrow> Inr (True, [])))"

definition getCurrentState ::
  "'c api \<Rightarrow> state_env \<Rightarrow> bool \<Rightarrow> ManagedProxyConfiguration \<Rightarrow> 'c \<Rightarrow> rec_error + current_state" where
  "getCurrentState api e isRedeployed config cl =
     (let namespace = proxy_namespace config;
          expire = getPEMCertExpireTime (sv_pemDecode e) (sv_notAfter e)
      in case (case ap_scale api cl namespace (mpc_Name config) of
                 Inl ApiNotFound \<Rightarrow> Inr (False, 0) | Inl err \<Rightarrow> Inl err | Inr n \<Rightarrow> Inr (True, n)) of
           Inl err \<Rightarrow> Inl (StateError err)
         | Inr (isCurrentlyDeployed, replicas) \<Rightarrow>
      (case get_cert api cl namespace (sec_SigningProxyServerSecretName (signing_secrets config)) of
           Inl err \<Rightarrow> Inl (StateError err)
         | Inr (signed1, proxyCert) \<Rightarrow>
      (case get_cert api cl namespace (sec_SigningAgentServerSecretName (signing_secrets config)) of
           Inl err \<Rightarrow> Inl (StateError err)
         | Inr (signed2, agentCert) \<Rightarrow>
      (case (case spec_UserServer (mpc_Spec config) of
               None \<Rightarrow> Inr None
             | Some _ \<Rightarrow>
                 (case get_cert api cl namespace UserServerSecretName of
                    Inl err \<Rightarrow> Inl (StateError err)
                  | Inr (False, _) \<Rightarrow> Inr None
                  | Inr (True, c) \<Rightarrow> expire c)) of
           Inl err \<Rightarrow> Inl err
         | Inr userExpire \<Rightarrow>
      (case expire proxyCert of
           Inl err \<Rightarrow> Inl err
         | Inr proxyExpire \<Rightarrow>
      (case expire agentCert of
           Inl err \<Rightarrow> Inl err
         | Inr agentExpire \<Rightarrow>
             Inr \<lparr>cu_isCurrentlyDeployed = isCurrentlyDeployed, cu_isRedeployed = isRedeployed,
                  cu_isSigned = (signed1 \<and> signed2), cu_replicas = replicas,
                  cu_proxyServerCertExpireTime = proxyExpire, cu_agentServerCertExpireTime = agentExpire,
                  cu_userServerCertExpireTime = userExpire\<rparr>))))))"

definition signed_condition :: "string \<Rightarrow> string option \<Rightarrow> Condition" where
  "signed_condition type expiry =
     (case expiry of
        None \<Rightarrow> \<lparr>co_Type = type, co_Status = False, co_Reason = ''NotYetSigned'', co_Message = [],
                 co_LastTransitionTime = 0\<rparr>
      | Some t \<Rightarrow> \<lparr>co_Type = type, co_Status = True, co_Reason = ''SuccessfullySigned'',
                   co_Message = ''Expiry:'' @ t, co_LastTransitionTime = 0\<rparr>)"

definition getConditions :: "current_state \<Rightarrow> Condition list" where
  "getConditions s =
     [\<lparr>co_Type = ConditionTypeProxyServerDeployed, co_Status = cu_isCurrentlyDeployed s,
       co_Reason = (if cu_isCurrentlyDeployed s then ''SuccessfullyDeployed'' else ''NotYetDeployed''),
       co_Message = ''Replicas: '' @ itoa (cu_replicas s), co_LastTransitionTime = 0\<rparr>,
      signed_condition ConditionTypeProxyServerSecretSigned (cu_proxyServerCertExpireTime s),
      signed_condition ConditionTypeAgentServerSecretSigned (cu_agentServerCertExpireTime s)]
     @ (case cu_userServerCertExpireTime s of
          None \<Rightarrow> []
        | Some t \<Rightarrow> [signed_condition ConditionTypeUserServerSecretSigned (Some t)])"

text \<open>\<open>meta.SetStatusCondition\<close> at time \<open>now\<close>.\<close>

fun setStatusCondition :: "int \<Rightarrow> Condition \<Rightarrow> Condition list \<Rightarrow> Condition list" where
  "setStatusCondition now c [] = [c\<lparr>co_LastTransitionTime := now\<rparr>]"
| "setStatusCondition now c (d # ds) =
     (if co_Type d = co_Type c
      then c\<lparr>co_LastTransitionTime := (if co_Status d = co_Status c then co_LastTransitionTime d else now)\<rparr> # ds
      else d # setStatusCondition now c ds)"

text \<open>What \<open>refreshStatus\<close> writes: \<open>None\<close> when nothing has to be written.\<close>

definition editing_status ::
  "int \<Rightarrow> bool \<Rightarrow> ManagedProxyConfiguration \<Rightarrow> current_state \<Rightarrow> ManagedProxyConfigurationStatus option" where
  "editing_status now isModified config currentState =
     (let expectingStatus = \<lparr>st_LastObservedGeneration = mpc_Generation config,
                             st_Conditions = getConditions currentState\<rparr>;
          currentStatus = (mpc_Status config)
            \<lparr>st_Conditions := map (\<lambda>c. c\<lparr>co_LastTransitionTime := 0\<rparr>) (st_Conditions (mpc_Status config))\<rparr>
      in if \<not> isModified \<and> expectingStatus = currentStatus then None
         else Some ((mpc_Status config)
           \<lparr>st_Conditions := fold (setStatusCondition now) (st_Conditions expectingStatus)
                               (st_Conditions (mpc_Status config))\<rparr>))"

definition refreshStatus ::
  "'c api \<Rightarrow> int \<Rightarrow> state_env \<Rightarrow> bool \<Rightarrow> ManagedProxyConfiguration \<Rightarrow> 'c \<Rightarrow> rec_error option \<times> 'c" where
  "refreshStatus api now e isModified config cl =
     (case getCurrentState api e isModified config cl of
        Inl err \<Rightarrow> (Some err, cl)
      | Inr currentState \<Rightarrow>
          (case editing_status now isModified config currentState of
             None \<Rightarrow> (None, cl)
           | Some status \<Rightarrow>
               (case ap_status api (mpc_Name config) status cl of
                  (Some err, cl) \<Rightarrow> (Some (StatusUpdate err), cl)
                | (None, cl) \<Rightarrow> (None, cl))))"

section \<open>The reconciler\<close>

record 'c reconcile_env =
  rc_specHash :: "object_spec \<Rightarrow> string + string"
  rc_render :: render_env
  rc_entry :: entry_env
  rc_CAPair :: "string list \<times> string"
  rc_rotate :: "'c ensure_cert"
  rc_state :: state_env
  rc_now :: int

text \<open>\<open>got\<close> is the configuration that is reconciled, \<open>None\<close> if it is gone.\<close>

definition Reconcile ::
  "'c api \<Rightarrow> 'c reconcile_env \<Rightarrow> 'c others list list \<Rightarrow> ManagedProxyConfiguration option \<Rightarrow> 'c
     \<Rightarrow> rec_error option \<times> 'c" where
  "Reconcile api e others got cl =
     (case got of
        None \<Rightarrow> (Some ConfigNotFound, cl)
      | Some config \<Rightarrow>
     (case ensureNamespace api config cl of
        (Some err, cl) \<Rightarrow> (Some err, cl)
      | (None, cl) \<Rightarrow>
     (case ensureEntrypoint api (rc_entry e) config cl of
        (Inl err, cl) \<Rightarrow> (Some err, cl)
      | (Inr entrypoint, cl) \<Rightarrow>
     (case ensureRotation (rc_rotate e) (rc_CAPair e) config entrypoint cl of
        (Some err, cl) \<Rightarrow> (Some err, cl)
      | (None, cl) \<Rightarrow>
     (case deployProxyServer api (rc_specHash e) others (rc_render e) config cl of
        (Inl err, cl) \<Rightarrow> (Some err, cl)
      | (Inr isModified, cl) \<Rightarrow> refreshStatus api (rc_now e) (rc_state e) isModified config cl)))))"

section \<open>What the controller relies on\<close>

text \<open>
  The laws of an API server: a read returns the object of that name; a write that succeeds is what the next read of that object returns
  (its annotations; of a Secret and a Lease also the content, \<open>stored_verbatim\<close>), and leaves every other object alone; a write that fails changes nothing, and a
  creation fails as a duplicate only if the object exists; an update that carries
  the stored resource version or none does not conflict, and one that carries another version
  conflicts; an object that carries a resource version is not created; writing a status changes no
  other object.
\<close>

definition stored_verbatim :: "object_spec \<Rightarrow> bool" where
  "stored_verbatim sp = (case sp of SecretSpec _ \<Rightarrow> True | LeaseObject _ _ \<Rightarrow> True | _ \<Rightarrow> False)"

locale object_store =
  fixes api :: "'c api"
  assumes get_key: "ap_get api c k = Inr s \<Longrightarrow> key_of (so_Object s) = k"
    and create_stored: "ap_create api r v c = (None, c') \<Longrightarrow>
      \<exists>s. ap_get api c' (key_of r) = Inr s \<and> om_Annotations (ob_Meta (so_Object s)) = om_Annotations (ob_Meta r)"
    and create_spec: "ap_create api r v c = (None, c') \<Longrightarrow> stored_verbatim (ob_Spec r) \<Longrightarrow>
      \<exists>s. ap_get api c' (key_of r) = Inr s \<and> ob_Spec (so_Object s) = ob_Spec r"
    and create_exists: "ap_create api r v c = (Some ApiAlreadyExists, c') \<Longrightarrow> \<exists>s. ap_get api c (key_of r) = Inr s"
    and create_frame: "ap_create api r v c = (None, c') \<Longrightarrow> k \<noteq> key_of r \<Longrightarrow> ap_get api c' k = ap_get api c k"
    and create_failed: "ap_create api r v c = (Some e, c') \<Longrightarrow> c' = c"
    and update_stored: "ap_update api r v c = (None, c') \<Longrightarrow>
      \<exists>s. ap_get api c' (key_of r) = Inr s \<and> om_Annotations (ob_Meta (so_Object s)) = om_Annotations (ob_Meta r)"
    and update_spec: "ap_update api r v c = (None, c') \<Longrightarrow> stored_verbatim (ob_Spec r) \<Longrightarrow>
      \<exists>s. ap_get api c' (key_of r) = Inr s \<and> ob_Spec (so_Object s) = ob_Spec r"
    and update_frame: "ap_update api r v c = (None, c') \<Longrightarrow> k \<noteq> key_of r \<Longrightarrow> ap_get api c' k = ap_get api c k"
    and update_failed: "ap_update api r v c = (Some e, c') \<Longrightarrow> c' = c"
    and update_current: "ap_get api c (key_of r) = Inr s \<Longrightarrow>
      fst (ap_update api r (Some (so_Version s)) c) \<noteq> Some ApiConflict"
    and update_stale: "ap_get api c (key_of r) = Inr s \<Longrightarrow> n \<noteq> so_Version s \<Longrightarrow>
      ap_update api r (Some n) c = (Some ApiConflict, c)"
    and update_unversioned: "fst (ap_update api r None c) \<noteq> Some ApiConflict"
    and create_versioned: "\<exists>msg. ap_create api r (Some n) c = (Some (ApiOther msg), c)"
    and status_frame: "ap_get api (snd (ap_status api name status c)) k = ap_get api c k"

section \<open>Annotations\<close>

lemma annotation_gput:
  "annotation (gput k v m) k' = (if k' = k then v else annotation m k')"
  by (simp add: annotation_def gm.get_put)

lemma annotation_keys_differ:
  "AnnotationKeyRenderedHash \<noteq> AnnotationKeyConfigurationGeneration"
  "AnnotationKeyTLSConfigHash \<noteq> AnnotationKeyConfigurationGeneration"
  "AnnotationKeyTLSConfigHash \<noteq> AnnotationKeyRenderedHash"
  by (simp_all add: AnnotationKeyRenderedHash_def AnnotationKeyConfigurationGeneration_def
      AnnotationKeyTLSConfigHash_def)

lemma annotate_frame:
  "key_of (annotate gen h r) = key_of r" "ob_Kind (annotate gen h r) = ob_Kind r"
  "ob_Spec (annotate gen h r) = ob_Spec r"
  by (simp_all add: annotate_def key_of_def Let_def)

lemma annotate_annotations:
  "annotation (om_Annotations (ob_Meta (annotate gen h r))) AnnotationKeyConfigurationGeneration = itoa gen"
  "annotation (om_Annotations (ob_Meta (annotate gen h r))) AnnotationKeyRenderedHash = h"
  "annotation (om_Annotations (ob_Meta (annotate gen h r))) AnnotationKeyTLSConfigHash =
     annotation (om_Annotations (ob_Meta r)) AnnotationKeyTLSConfigHash"
  using annotation_keys_differ by (simp_all add: annotate_def annotation_gput Let_def)

lemma serviceForUpdate_frame:
  assumes "serviceForUpdate r current = Inr q"
  shows "key_of q = key_of r" and "ob_Meta q = ob_Meta r" and "ob_Kind q = ob_Kind r"
  using assms by (auto simp: serviceForUpdate_def key_of_def Let_def split: object_spec.splits)

section \<open>Applying a resource against such a server\<close>

text \<open>
  A rendered resource has been applied, said of what is stored: the rendered-hash annotation is the hash of the
  rendered content, the TLS annotation is the rendered one, and the generation annotation is a number not below
  the configuration's generation.
\<close>

definition carries :: "int \<Rightarrow> string \<Rightarrow> k8s_object \<Rightarrow> (string, string) gmap \<Rightarrow> bool" where
  "carries gen h r stored \<longleftrightarrow>
     annotation stored AnnotationKeyRenderedHash = h \<and>
     annotation stored AnnotationKeyTLSConfigHash = annotation (om_Annotations (ob_Meta r)) AnnotationKeyTLSConfigHash \<and>
     (case atoi (annotation stored AnnotationKeyConfigurationGeneration) of None \<Rightarrow> False | Some g \<Rightarrow> gen \<le> g)"

definition settled ::
  "'c api \<Rightarrow> (object_spec \<Rightarrow> string + string) \<Rightarrow> int \<Rightarrow> k8s_object \<Rightarrow> 'c \<Rightarrow> bool" where
  "settled api specHash gen r cl =
     (case (specHash (ob_Spec r), ap_get api cl (key_of r)) of
        (Inr h, Inr s) \<Rightarrow> carries gen h r (om_Annotations (ob_Meta (so_Object s)))
      | _ \<Rightarrow> False)"

text \<open>The code's test decides it: \<open>ensure\<close> leaves a resource alone exactly when it has been applied.\<close>

lemma carries_not_outdated:
  assumes "carries gen h r stored"
  shows "outdated gen h (om_Annotations (ob_Meta (annotate gen h r))) stored = Inr False"
proof -
  have "atoi [] = None" by (simp add: atoi_def has_prefix_def)
  then show ?thesis
    using assms by (auto simp: carries_def outdated_def annotate_annotations Let_def split: option.splits)
qed

lemma not_outdated_carries:
  assumes "0 < gen" and "outdated gen h (om_Annotations (ob_Meta (annotate gen h r))) stored = Inr False"
  shows "carries gen h r stored"
  using assms by (auto simp: carries_def outdated_def annotate_annotations Let_def split: option.splits if_splits)

lemma annotated_carries:
  "0 \<le> gen \<Longrightarrow> gen < 2 ^ 63 \<Longrightarrow> carries gen h r (om_Annotations (ob_Meta (annotate gen h r)))"
  using atoi_itoa [of gen] by (simp add: carries_def annotate_annotations)

text \<open>What an undisturbed attempt comes to: it fails and changes nothing, or the resource is settled and
  nothing else is touched.\<close>

definition applied ::
  "'c api \<Rightarrow> (object_spec \<Rightarrow> string + string) \<Rightarrow> int \<Rightarrow> k8s_object \<Rightarrow> 'c \<Rightarrow> attempt_result \<Rightarrow> 'c \<Rightarrow> bool" where
  "applied api specHash gen r c res c' \<longleftrightarrow>
     (c' = c \<and> (\<exists>x. res = Done (Inl x) \<and> x \<noteq> Livelock)) \<or>
     (\<exists>created updated. res = Done (Inr (created, updated)) \<and> settled api specHash gen r c' \<and>
        (\<forall>k. k \<noteq> key_of r \<longrightarrow> ap_get api c' k = ap_get api c k) \<and> (\<not> created \<and> \<not> updated \<longrightarrow> c' = c))"

lemma settled_ensure:
  assumes "settled api specHash gen r cl"
  shows "ensure api specHash [] gen r cl = (Inr (False, False), cl)"
proof -
  obtain h s where hs: "specHash (ob_Spec r) = Inr h" "ap_get api cl (key_of r) = Inr s"
    "carries gen h r (om_Annotations (ob_Meta (so_Object s)))"
    using assms by (auto simp: settled_def split: sum.splits)
  from hs(1,2) carries_not_outdated [OF hs(3)] show ?thesis
    by (simp add: ensure_def attempt_def nobody_def update_existing_def annotate_frame Let_def)
qed

lemma settled_iff: "settled api specHash gen r cl \<longleftrightarrow>
    (\<exists>h s g. specHash (ob_Spec r) = Inr h \<and> ap_get api cl (key_of r) = Inr s \<and>
       annotation (om_Annotations (ob_Meta (so_Object s))) AnnotationKeyRenderedHash = h \<and>
       annotation (om_Annotations (ob_Meta (so_Object s))) AnnotationKeyTLSConfigHash =
         annotation (om_Annotations (ob_Meta r)) AnnotationKeyTLSConfigHash \<and>
       atoi (annotation (om_Annotations (ob_Meta (so_Object s))) AnnotationKeyConfigurationGeneration) = Some g \<and> gen \<le> g)"
  by (auto simp: settled_def carries_def split: sum.split option.split)

lemma settled_cong: "ap_get api cl' (key_of r) = ap_get api cl (key_of r) \<Longrightarrow>
    settled api specHash gen r cl' = settled api specHash gen r cl"
  by (simp add: settled_def)

lemma annotated_settled:
  assumes "specHash (ob_Spec r) = Inr h" and "0 \<le> gen" and "gen < 2 ^ 63"
    and "ap_get api cl (key_of r) = Inr s"
    and "om_Annotations (ob_Meta (so_Object s)) = om_Annotations (ob_Meta (annotate gen h r))"
  shows "settled api specHash gen r cl"
  using assms annotated_carries [OF assms(2,3), of h r] by (simp add: settled_def)

context object_store
begin

text \<open>The data of a secret is stored as it is sent.\<close>

lemma create_secret: "ap_create api r v c = (None, c') \<Longrightarrow> ob_Spec r = SecretSpec d \<Longrightarrow>
    \<exists>s. ap_get api c' (key_of r) = Inr s \<and> ob_Spec (so_Object s) = SecretSpec d"
  using create_spec by (fastforce simp: stored_verbatim_def)

lemma update_secret: "ap_update api r v c = (None, c') \<Longrightarrow> ob_Spec r = SecretSpec d \<Longrightarrow>
    \<exists>s. ap_get api c' (key_of r) = Inr s \<and> ob_Spec (so_Object s) = SecretSpec d"
  using update_spec by (fastforce simp: stored_verbatim_def)

text \<open>An update leaves the resource applied, touches no other object, and retries only after a
  conflict.\<close>

lemma update_sent_cases:
  assumes up: "ap_update api q v c = (e, c1)"
    and q: "key_of q = key_of r" "ob_Meta q = ob_Meta (annotate gen h r)"
    and h: "specHash (ob_Spec r) = Inr h" "0 \<le> gen" "gen < 2 ^ 63"
  shows "(e \<noteq> None \<and> c1 = c) \<or>
    (e = None \<and> settled api specHash gen r c1 \<and> (\<forall>k. k \<noteq> key_of r \<longrightarrow> ap_get api c1 k = ap_get api c k))"
proof (cases e)
  case None
  obtain s where s: "ap_get api c1 (key_of r) = Inr s"
      "om_Annotations (ob_Meta (so_Object s)) = om_Annotations (ob_Meta (annotate gen h r))"
    using update_stored [OF up [unfolded None]] q by auto
  have "settled api specHash gen r c1"
    by (rule annotated_settled [of specHash, OF h s])
  moreover have "\<forall>k. k \<noteq> key_of r \<longrightarrow> ap_get api c1 k = ap_get api c k"
    using update_frame [OF up [unfolded None]] q by auto
  ultimately show ?thesis using None by simp
next
  case (Some x)
  then show ?thesis using update_failed [OF up [unfolded Some]] by simp
qed

lemma update_existing_cases:
  assumes u: "update_existing api gen h (annotate gen h r) rv current c = (res, c')"
    and h: "specHash (ob_Spec r) = Inr h" "0 \<le> gen" "gen < 2 ^ 63"
  shows "(c' = c \<and> (\<exists>x. res = Done (Inl x))) \<or> (c' = c \<and> (\<exists>rv'. res = Retry rv')) \<or>
    (c' = c \<and> res = Done (Inr (False, False)) \<and>
       outdated gen h (om_Annotations (ob_Meta (annotate gen h r)))
         (case current of None \<Rightarrow> [] | Some s \<Rightarrow> om_Annotations (ob_Meta (so_Object s))) = Inr False) \<or>
    (res = Done (Inr (False, True)) \<and> settled api specHash gen r c' \<and>
       (\<forall>k. k \<noteq> key_of r \<longrightarrow> ap_get api c' k = ap_get api c k))"
proof -
  let ?a = "annotate gen h r"
  let ?q = "if ob_Kind ?a = ''Service'' then serviceForUpdate ?a (map_option so_Object current) else Inr ?a"
  consider (err) e where "outdated gen h (om_Annotations (ob_Meta ?a))
         (case current of None \<Rightarrow> [] | Some s \<Rightarrow> om_Annotations (ob_Meta (so_Object s))) = Inl e"
    | (keep) "outdated gen h (om_Annotations (ob_Meta ?a))
         (case current of None \<Rightarrow> [] | Some s \<Rightarrow> om_Annotations (ob_Meta (so_Object s))) = Inr False"
    | (old) "outdated gen h (om_Annotations (ob_Meta ?a))
         (case current of None \<Rightarrow> [] | Some s \<Rightarrow> om_Annotations (ob_Meta (so_Object s))) = Inr True"
    by (metis (full_types) sum.exhaust)
  then show ?thesis
  proof cases
    case err
    then show ?thesis using u unfolding update_existing_def by auto
  next
    case keep
    then show ?thesis using u unfolding update_existing_def by auto
  next
    case old
    show ?thesis
    proof (cases ?q)
      case (Inl e)
      then show ?thesis using u old unfolding update_existing_def by auto
    next
      case (Inr q)
      have meta: "key_of q = key_of r" "ob_Meta q = ob_Meta ?a"
        using Inr serviceForUpdate_frame [of ?a _ q] by (auto simp: annotate_frame split: if_splits)
      obtain e c1 where up: "ap_update api q (map_option so_Version current) c = (e, c1)"
        by fastforce
      have "c' = c1 \<and> (e = None \<longrightarrow> res = Done (Inr (False, True))) \<and>
          (e \<noteq> None \<longrightarrow> (\<exists>y. res = Done (Inl y)) \<or> (\<exists>rv'. res = Retry rv'))"
        using u old Inr up unfolding update_existing_def
        by (cases e; cases "the e") auto
      then show ?thesis using update_sent_cases [of _ _ _ _ _ r gen h specHash, OF up meta h] by auto
    qed
  qed
qed

lemma update_existing_conflict:
  assumes u: "update_existing api gen h (annotate gen h r) rv current c = (Retry rv', c')"
  shows "\<exists>q. key_of q = key_of r \<and> fst (ap_update api q (map_option so_Version current) c) = Some ApiConflict"
proof -
  let ?a = "annotate gen h r"
  let ?q = "if ob_Kind ?a = ''Service'' then serviceForUpdate ?a (map_option so_Object current) else Inr ?a"
  have old: "outdated gen h (om_Annotations (ob_Meta ?a))
         (case current of None \<Rightarrow> [] | Some s \<Rightarrow> om_Annotations (ob_Meta (so_Object s))) = Inr True"
    using u unfolding update_existing_def by (auto split: sum.splits bool.splits)
  obtain q where q: "?q = Inr q"
    using u old unfolding update_existing_def by (cases ?q) auto
  have "key_of q = key_of r"
    using q serviceForUpdate_frame [of ?a _ q] by (auto simp: annotate_frame split: if_splits)
  moreover have "fst (ap_update api q (map_option so_Version current) c) = Some ApiConflict"
    using u old q unfolding update_existing_def
    by (auto split: prod.splits option.splits api_error.splits)
  ultimately show ?thesis by blast
qed

lemma outdated_empty: "0 < gen \<Longrightarrow> outdated gen h m [] = Inr True"
  by (simp add: outdated_def annotation_def Let_def)

lemma update_existing_not_livelock:
  assumes "update_existing api gen h a rv current c = (Done (Inl x), c')"
  shows "x \<noteq> Livelock"
proof -
  let ?o = "outdated gen h (om_Annotations (ob_Meta a))
      (case current of None \<Rightarrow> [] | Some s \<Rightarrow> om_Annotations (ob_Meta (so_Object s)))"
  let ?q = "if ob_Kind a = ''Service'' then serviceForUpdate a (map_option so_Object current) else Inr a"
  have o: "?o \<noteq> Inl Livelock" by (simp add: outdated_def Let_def split: option.splits)
  have q: "?q \<noteq> Inl Livelock" by (simp add: serviceForUpdate_def Let_def split: object_spec.splits)
  show ?thesis
  proof (cases ?o)
    case (Inl e)
    then show ?thesis using assms o by (auto simp: update_existing_def)
  next
    case (Inr b)
    show ?thesis
    proof (cases ?q)
      case (Inl e)
      with assms q Inr \<open>?o = Inr b\<close> show ?thesis unfolding update_existing_def by (cases b) auto
    next
      case q: (Inr r)
      obtain e c1 where up: "ap_update api r (map_option so_Version current) c = (e, c1)" by fastforce
      show ?thesis
        using assms Inr q up unfolding update_existing_def by (cases b; cases e; cases "the e") auto
    qed
  qed
qed

lemma update_undisturbed:
  assumes u: "update_existing api gen h (annotate gen h r) rv cur c = (res, c')"
    and cur: "cur = None \<or> (\<exists>s. cur = Some s \<and> ap_get api c (key_of r) = Inr s)"
    and hash: "specHash (ob_Spec r) = Inr h" and g: "0 < gen" "gen < 2 ^ 63"
  shows "applied api specHash gen r c res c'"
proof -
  have g0: "0 \<le> gen" using g by simp
  have "\<not> (\<exists>rv'. res = Retry rv')"
    using update_existing_conflict [of gen h r rv cur c] u cur update_unversioned update_current by fastforce
  moreover have "settled api specHash gen r c" if "outdated gen h (om_Annotations (ob_Meta (annotate gen h r)))
       (case cur of None \<Rightarrow> [] | Some s \<Rightarrow> om_Annotations (ob_Meta (so_Object s))) = Inr False"
    using that cur hash outdated_empty [OF g(1)] not_outdated_carries [OF g(1)] by (auto simp: settled_def)
  moreover have "res \<noteq> Done (Inl Livelock)"
    using u update_existing_not_livelock by blast
  ultimately show ?thesis
    using update_existing_cases [of _ _ _ _ _ _ _ _ specHash, OF u hash g0 g(2)] by (auto simp: applied_def)
qed

lemma create_undisturbed:
  assumes at: "attempt api specHash nobody gen r rv c = (res, c')" and g: "0 < gen" "gen < 2 ^ 63"
    and hash: "specHash (ob_Spec r) = Inr h" and missing: "ap_get api c (key_of r) = Inl ApiNotFound"
  shows "applied api specHash gen r c res c'"
proof -
  obtain e1 c1 where cr: "ap_create api (annotate gen h r) rv c = (e1, c1)" by fastforce
  show ?thesis
  proof (cases e1)
    case None
    have r: "res = Done (Inr (True, False)) \<and> c' = c1"
      using at hash missing cr None unfolding attempt_def nobody_def by (simp add: annotate_frame Let_def)
    obtain s where s: "ap_get api c1 (key_of r) = Inr s"
        "om_Annotations (ob_Meta (so_Object s)) = om_Annotations (ob_Meta (annotate gen h r))"
      using create_stored [OF cr [unfolded None]] by (auto simp: annotate_frame)
    have "0 \<le> gen" using g by simp
    from r annotated_settled [of specHash, OF hash this g(2) s] create_frame [OF cr [unfolded None]]
    show ?thesis by (auto simp: annotate_frame applied_def)
  next
    case (Some x)
    have "c1 = c" by (rule create_failed [OF cr [unfolded Some]])
    moreover have "applied api specHash gen r c res c'"
      if "update_existing api gen h (annotate gen h r) rv None c = (res, c')"
      using update_undisturbed [OF that, of specHash] hash g by simp
    ultimately show ?thesis
      using at hash missing cr Some unfolding attempt_def nobody_def
      by (cases x) (auto simp: annotate_frame Let_def applied_def)
  qed
qed

lemma attempt_undisturbed:
  assumes at: "attempt api specHash nobody gen r rv c = (res, c')" and g: "0 < gen" "gen < 2 ^ 63"
  shows "applied api specHash gen r c res c'"
proof (cases "specHash (ob_Spec r)")
  case (Inl err)
  then show ?thesis using at unfolding attempt_def nobody_def by (auto simp: applied_def)
next
  case hash: (Inr h)
  show ?thesis
  proof (cases "ap_get api c (key_of r)")
    case get: (Inr s)
    then have "update_existing api gen h (annotate gen h r) rv (Some s) c = (res, c')"
      using at hash unfolding attempt_def nobody_def by (simp add: annotate_frame Let_def)
    then show ?thesis using update_undisturbed [of gen h r rv "Some s" c res c' specHash] get hash g by simp
  next
    case err: (Inl e)
    show ?thesis
    proof (cases "e = ApiNotFound")
      case True
      then show ?thesis using create_undisturbed [OF at g, of h] hash err by simp
    next
      case False
      then show ?thesis using at hash err unfolding attempt_def nobody_def
        by (cases e) (auto simp: annotate_frame Let_def applied_def)
    qed
  qed
qed

lemma ensure_undisturbed:
  assumes "ensure api specHash [] gen r c = (res, c')" and "0 < gen" and "gen < 2 ^ 63"
  shows "(c' = c \<and> (\<exists>x. res = Inl x \<and> x \<noteq> Livelock)) \<or>
    (\<exists>created updated. res = Inr (created, updated) \<and> settled api specHash gen r c' \<and>
       (\<forall>k. k \<noteq> key_of r \<longrightarrow> ap_get api c' k = ap_get api c k) \<and> (\<not> created \<and> \<not> updated \<longrightarrow> c' = c))"
proof -
  obtain ar c1 where at: "attempt api specHash nobody gen r None c = (ar, c1)" by fastforce
  obtain x where "ar = Done x" using attempt_undisturbed [OF at assms(2,3)] unfolding applied_def by blast
  with assms(1) at have "ar = Done res" "c1 = c'" by (simp_all add: ensure_def)
  then show ?thesis using attempt_undisturbed [OF at assms(2,3)] by (simp add: applied_def)
qed

lemma done_not_livelock:
  assumes "attempt api specHash o1 gen r rv c = (Done (Inl x), c')"
  shows "x \<noteq> Livelock"
proof (cases "specHash (ob_Spec r)")
  case (Inl err)
  then show ?thesis using assms by (auto simp: attempt_def split: prod.splits)
next
  case (Inr h)
  obtain bg bc bu where o1: "o1 = (bg, bc, bu)" by (cases o1) auto
  show ?thesis
  proof (cases "ap_get api (bg c) (key_of r)")
    case get: (Inr s)
    then show ?thesis using assms Inr o1 update_existing_not_livelock
      by (auto simp: attempt_def annotate_frame Let_def)
  next
    case err: (Inl e)
    obtain e1 c1 where cr: "ap_create api (annotate gen h r) rv (bc (bg c)) = (e1, c1)" by fastforce
    show ?thesis
      using assms Inr o1 err cr update_existing_not_livelock
      by (cases e; cases e1; cases "the e1") (auto simp: attempt_def annotate_frame Let_def)
  qed
qed

text \<open>Whatever other clients do during finitely many attempts, \<open>ensure\<close> returns.\<close>

lemma ensure_returns:
  assumes "0 < gen" and "gen < 2 ^ 63"
  shows "fst (ensure_from api specHash others gen r rv c) \<noteq> Inl Livelock"
proof (induction others arbitrary: rv c)
  case Nil
  obtain ar c1 where at: "attempt api specHash nobody gen r rv c = (ar, c1)" by fastforce
  show ?case using attempt_undisturbed [OF at assms] at by (auto simp: applied_def)
next
  case (Cons o1 others)
  obtain ar c1 where at: "attempt api specHash o1 gen r rv c = (ar, c1)" by fastforce
  show ?case
  proof (cases ar)
    case (Done x)
    then show ?thesis using at done_not_livelock [of specHash o1 gen r rv c] by auto
  next
    case (Retry rv')
    then show ?thesis using at Cons.IH by simp
  qed
qed

lemma ensure_all_undisturbed:
  assumes "ensure_all api specHash [] gen m rs c = (Inr m', c')" and "0 < gen" and "gen < 2 ^ 63"
    and "distinct (map key_of rs)"
  shows "(\<forall>r \<in> set rs. settled api specHash gen r c') \<and>
    (\<forall>k. k \<notin> key_of ` set rs \<longrightarrow> ap_get api c' k = ap_get api c k)"
  using assms(1,4)
proof (induction rs arbitrary: m c)
  case Nil
  then show ?case by simp
next
  case (Cons r rs)
  obtain res c1 where en: "ensure api specHash [] gen r c = (res, c1)" by fastforce
  obtain created updated where res: "res = Inr (created, updated)"
    using Cons.prems(1) en by (cases res) auto
  have c1: "settled api specHash gen r c1" "\<forall>k. k \<noteq> key_of r \<longrightarrow> ap_get api c1 k = ap_get api c k"
    using ensure_undisturbed [OF en assms(2,3)] res by auto
  have IH: "\<forall>q \<in> set rs. settled api specHash gen q c'"
      "\<forall>k. k \<notin> key_of ` set rs \<longrightarrow> ap_get api c' k = ap_get api c1 k"
    using Cons.IH [of "m \<or> created \<or> updated" c1] Cons.prems en res by auto
  have "ap_get api c' (key_of r) = ap_get api c1 (key_of r)"
    using IH(2) [rule_format, of "key_of r"] Cons.prems(2) by simp
  then have "settled api specHash gen r c'"
    using c1(1) settled_cong by metis
  then show ?case using IH c1(2) by auto
qed

end

lemma ensure_all_settled:
  assumes "\<forall>r \<in> set rs. settled api specHash gen r c"
  shows "ensure_all api specHash [] gen m rs c = (Inr m, c)"
  using assms by (induction rs) (auto simp: settled_ensure)

lemma proxy_resources_keys:
  "map key_of (proxy_resources e config) =
     map (\<lambda>(kind, name). (kind, proxy_namespace config, name))
       [(''ServiceAccount'', ''cluster-proxy''), (''Service'', px_InClusterServiceName (proxy_server config)),
        (''Secret'', ''proxy-server-ca''), (''Deployment'', mpc_Name config),
        (''Role'', ''cluster-proxy-addon-agent:portforward''), (''RoleBinding'', ''cluster-proxy-addon-agent:portforward'')]"
  by (simp add: proxy_resources_def key_of_def newServiceAccount_def newProxyService_def newProxySecret_def
      newProxyServerDeployment_def newProxyServerRole_def newProxyServerRoleBinding_def owned_meta_def
      signerSecretName_def AddonName_def Let_def)

lemma proxy_resources_distinct: "distinct (map key_of (proxy_resources e config))"
  by (simp add: proxy_resources_def key_of_def newServiceAccount_def newProxyService_def newProxySecret_def
      newProxyServerDeployment_def newProxyServerRole_def newProxyServerRoleBinding_def Let_def)

section \<open>A store of versioned objects\<close>

text \<open>A concrete server: a map from keys to objects, a counter for versions, and whether it can be
  reached.\<close>

record cluster =
  cl_Objects :: "(obj_key, stored) gmap"
  cl_Next :: nat
  cl_Down :: bool
  cl_Status :: "(string, ManagedProxyConfigurationStatus) gmap"

definition store :: "k8s_object \<Rightarrow> cluster \<Rightarrow> cluster" where
  "store r cl = cl\<lparr>cl_Objects := gput (key_of r)
      \<lparr>so_Object = r, so_Version = cl_Next cl, so_Ingress = []\<rparr> (cl_Objects cl), cl_Next := Suc (cl_Next cl)\<rparr>"

text \<open>An object is stored without its name, in effect: reading it puts the name of the entry.\<close>

definition at_key :: "obj_key \<Rightarrow> stored \<Rightarrow> stored" where
  "at_key k s = s\<lparr>so_Object := (so_Object s)\<lparr>ob_Kind := fst k,
     ob_Meta := (ob_Meta (so_Object s))\<lparr>om_Namespace := fst (snd k), om_Name := snd (snd k)\<rparr>\<rparr>\<rparr>"

definition store_api :: "cluster api" where
  "store_api =
     \<lparr>ap_get = (\<lambda>cl k. if cl_Down cl then Inl (ApiOther ''unreachable'')
        else case gget (cl_Objects cl) k of None \<Rightarrow> Inl ApiNotFound | Some s \<Rightarrow> Inr (at_key k s)),
      ap_create = (\<lambda>r v cl.
        if v \<noteq> None then (Some (ApiOther ''resourceVersion should not be set on objects to be created''), cl)
        else if cl_Down cl then (Some (ApiOther ''unreachable''), cl)
        else if gget (cl_Objects cl) (key_of r) \<noteq> None then (Some ApiAlreadyExists, cl)
        else (None, store r cl)),
      ap_update = (\<lambda>r v cl.
        if cl_Down cl then (Some (ApiOther ''unreachable''), cl)
        else case gget (cl_Objects cl) (key_of r) of
          None \<Rightarrow> (Some ApiNotFound, cl)
        | Some s \<Rightarrow>
            if v \<noteq> None \<and> v \<noteq> Some (so_Version s) then (Some ApiConflict, cl)
            else (None, store r cl)),
      ap_scale = (\<lambda>cl namespace name.
        if cl_Down cl then Inl (ApiOther ''unreachable'')
        else case gget (cl_Objects cl) (''Deployment'', namespace, name) of
          None \<Rightarrow> Inl ApiNotFound | Some s \<Rightarrow> Inr 0),
      ap_status = (\<lambda>name status cl.
        if cl_Down cl then (Some (ApiOther ''unreachable''), cl)
        else (None, cl\<lparr>cl_Status := gput name status (cl_Status cl)\<rparr>))\<rparr>"

lemma store_get: "gget (cl_Objects (store r cl)) k =
    (if k = key_of r then Some \<lparr>so_Object = r, so_Version = cl_Next cl, so_Ingress = []\<rparr>
     else gget (cl_Objects cl) k)"
  by (simp add: store_def gm.get_put)

lemma store_down [simp]: "cl_Down (store r cl) = cl_Down cl" "cl_Next (store r cl) = Suc (cl_Next cl)"
  by (simp_all add: store_def)

lemma store_api_get: "\<not> cl_Down cl \<Longrightarrow> ap_get store_api cl k =
    (case gget (cl_Objects cl) k of None \<Rightarrow> Inl ApiNotFound | Some s \<Rightarrow> Inr (at_key k s))"
  by (simp add: store_api_def)

lemma at_key_key [simp]: "key_of (so_Object (at_key k s)) = k"
  by (simp add: at_key_def key_of_def)

lemma at_key_frame [simp]:
  "om_Annotations (ob_Meta (so_Object (at_key k s))) = om_Annotations (ob_Meta (so_Object s))"
  "ob_Spec (so_Object (at_key k s)) = ob_Spec (so_Object s)" "so_Version (at_key k s) = so_Version s"
  by (simp_all add: at_key_def)

lemma at_key_self: "key_of (so_Object s) = k \<Longrightarrow> at_key k s = s"
  by (auto simp: at_key_def key_of_def)

interpretation sa: object_store store_api
  by unfold_locales
    (auto simp: store_api_def store_get split: if_splits option.splits)

section \<open>Properties of the deployment\<close>

text \<open>An example configuration, used by the witnesses.\<close>

definition example_render :: render_env where
  "example_render = \<lparr>re_sha256 = (\<lambda>s. s), re_cipherString = (\<lambda>_. []), re_versionString = (\<lambda>_. []),
     re_caData = ''ca'', re_imagePullPolicy = ''IfNotPresent'', re_tlsConfig = None\<rparr>"

definition empty_cluster :: cluster where
  "empty_cluster = \<lparr>cl_Objects = [], cl_Next = 1, cl_Down = False, cl_Status = []\<rparr>"

text \<open>C10. Against an API server that keeps its laws, an undisturbed deployment that succeeds has
  converged: running it again on the same configuration writes nothing and reports that nothing
  was modified.\<close>

theorem deploy_idempotent:
  assumes "object_store api" and "0 < mpc_Generation config" and "mpc_Generation config < 2 ^ 63"
    and "deployProxyServer api specHash [] e config cl = (Inr modified, cl')"
  shows "deployProxyServer api specHash [] e config cl' = (Inr False, cl')"
proof -
  have "\<forall>r \<in> set (proxy_resources e config). settled api specHash (mpc_Generation config) r cl'"
    using object_store.ensure_all_undisturbed [OF assms(1) assms(4) [unfolded deployProxyServer_def] assms(2,3)
        proxy_resources_distinct] by blast
  then show ?thesis by (simp add: deployProxyServer_def ensure_all_settled)
qed

text \<open>The example deployment, one resource at a time: each is new.\<close>

lemma ensure_new:
  assumes "\<not> cl_Down cl" and "gget (cl_Objects cl) (key_of r) = None" and "specHash (ob_Spec r) = Inr h"
  shows "ensure store_api specHash [] gen r cl = (Inr (True, False), store (annotate gen h r) cl)"
  using assms by (simp add: ensure_def attempt_def nobody_def store_api_def annotate_frame Let_def)

lemma ensure_all_new:
  assumes "\<not> cl_Down cl" and "\<forall>r \<in> set rs. gget (cl_Objects cl) (key_of r) = None"
    and "distinct (map key_of rs)" and "\<forall>r \<in> set rs. specHash (ob_Spec r) = Inr h"
  shows "ensure_all store_api specHash [] gen m rs cl
    = (Inr (m \<or> rs \<noteq> []), fold (\<lambda>r. store (annotate gen h r)) rs cl)"
  using assms
proof (induction rs arbitrary: m cl)
  case (Cons r rs)
  have "ensure store_api specHash [] gen r cl = (Inr (True, False), store (annotate gen h r) cl)"
    using Cons.prems by (intro ensure_new) auto
  moreover have "ensure_all store_api specHash [] gen True rs (store (annotate gen h r) cl)
      = (Inr (True \<or> rs \<noteq> []), fold (\<lambda>r. store (annotate gen h r)) rs (store (annotate gen h r) cl))"
    using Cons.prems by (intro Cons.IH) (auto simp: store_get annotate_frame image_iff)
  ultimately show ?case by simp
qed simp

lemma example_deploys:
  "\<exists>cl'. deployProxyServer store_api (\<lambda>_. Inr ''h'') [] example_render example_config empty_cluster = (Inr True, cl')"
  using ensure_all_new [of empty_cluster "proxy_resources example_render example_config" "\<lambda>_. Inr ''h''" "''h''"
      "mpc_Generation example_config" False] proxy_resources_distinct
  by (simp add: deployProxyServer_def empty_cluster_def proxy_resources_def)

theorem deploy_idempotent_witness:
  "\<exists>cl'. deployProxyServer store_api (\<lambda>_. Inr ''h'') [] example_render example_config empty_cluster = (Inr True, cl') \<and>
     deployProxyServer store_api (\<lambda>_. Inr ''h'') [] example_render example_config cl' = (Inr False, cl')"
proof -
  obtain cl' where d: "deployProxyServer store_api (\<lambda>_. Inr ''h'') [] example_render example_config empty_cluster
      = (Inr True, cl')"
    using example_deploys by blast
  show ?thesis
    using d deploy_idempotent [OF sa.object_store_axioms _ _ d] by (simp add: example_config_def)
qed

text \<open>C25. Applying a resource ends: however other clients change the cluster during any finite number
  of attempts, the retry after a conflict never goes on for ever.\<close>

theorem ensure_terminates:
  assumes "object_store api" and "0 < gen" and "gen < 2 ^ 63"
  shows "fst (ensure api specHash others gen r cl) \<noteq> Inl Livelock"
  unfolding ensure_def by (rule object_store.ensure_returns [OF assms])

theorem ensure_terminates_witness:
  "fst (ensure store_api (\<lambda>_. Inr ''h'') [(\<lambda>c. c, store (newServiceAccount example_config), store (newProxyServerRole example_config))]
     3 (newServiceAccount example_config) empty_cluster) \<noteq> Inl Livelock"
  by (rule ensure_terminates [OF sa.object_store_axioms]) simp_all

text \<open>C33. No lost update: when another client writes the object between the controller's read and its
  update, so that the stored version is not the one that was read, the attempt changes nothing and
  the controller starts over from a new read.\<close>

theorem concurrent_write_is_not_overwritten:
  assumes "object_store api" and "specHash (ob_Spec r) = Inr h"
    and "ap_get api cl (key_of r) = Inr s"
    and "ap_get api (before_update cl) (key_of r) = Inr s'" and "so_Version s' \<noteq> so_Version s"
    and "outdated gen h (om_Annotations (ob_Meta (annotate gen h r))) (om_Annotations (ob_Meta (so_Object s)))
           = Inr True"
    and "ob_Kind r = ''Service'' \<longrightarrow> (\<exists>svc. ob_Spec r = ServiceObject svc)"
  shows "\<exists>rv'. attempt api specHash (\<lambda>c. c, before_create, before_update) gen r rv cl = (Retry rv', before_update cl)"
proof -
  let ?a = "annotate gen h r"
  let ?q = "if ob_Kind ?a = ''Service'' then serviceForUpdate ?a (Some (so_Object s)) else Inr ?a"
  have "\<exists>q. ?q = Inr q"
    using assms(7) by (auto simp: serviceForUpdate_def annotate_frame Let_def)
  then obtain q where q: "?q = Inr q" by blast
  have "key_of q = key_of r"
    using q serviceForUpdate_frame [of ?a _ q] by (auto simp: annotate_frame split: if_splits)
  then have "ap_update api q (Some (so_Version s)) (before_update cl) = (Some ApiConflict, before_update cl)"
    using object_store.update_stale [OF assms(1), of "before_update cl" q s' "so_Version s"] assms(4,5) by simp
  then have "\<exists>rv'. update_existing api gen h ?a rv (Some s) (before_update cl) = (Retry rv', before_update cl)"
    using assms(6) q unfolding update_existing_def by (simp only: option.simps prod.simps sum.simps bool.simps
        option.map api_error.simps) simp
  then show ?thesis using assms(2,3) by (simp add: attempt_def annotate_frame Let_def)
qed

definition stored_account :: cluster where
  "stored_account = store (newServiceAccount example_config) empty_cluster"

lemma stored_account_facts:
  "\<not> cl_Down stored_account" "cl_Next stored_account = 2"
  "gget (cl_Objects stored_account) (key_of (newServiceAccount example_config)) =
     Some \<lparr>so_Object = newServiceAccount example_config, so_Version = 1, so_Ingress = []\<rparr>"
  by (simp_all add: stored_account_def store_get) (simp_all add: empty_cluster_def)

lemma stored_account_outdated:
  "outdated 3 ''h'' (om_Annotations (ob_Meta (annotate 3 ''h'' (newServiceAccount example_config))))
     (om_Annotations (ob_Meta (newServiceAccount example_config))) = Inr True"
proof -
  have "om_Annotations (ob_Meta (newServiceAccount example_config)) = []"
    by (simp add: newServiceAccount_def owned_meta_def)
  then show ?thesis by (simp add: outdated_def annotation_def gget_def Let_def)
qed

theorem concurrent_write_is_not_overwritten_witness:
  "\<exists>rv'. attempt store_api (\<lambda>_. Inr ''h'') (\<lambda>c. c, \<lambda>c. c, store (newServiceAccount example_config)) 3
      (newServiceAccount example_config) None stored_account
    = (Retry rv', store (newServiceAccount example_config) stored_account)"
  by (rule concurrent_write_is_not_overwritten [OF sa.object_store_axioms, where h = "''h''"
        and s = "\<lparr>so_Object = newServiceAccount example_config, so_Version = 1, so_Ingress = []\<rparr>"
        and s' = "\<lparr>so_Object = newServiceAccount example_config, so_Version = 2, so_Ingress = []\<rparr>"])
     (simp_all add: store_api_get stored_account_facts store_get stored_account_outdated at_key_self,
      simp add: newServiceAccount_def)

text \<open>An object that is deleted after a conflicting update cannot be created again by the same call:
  the resource version that the update left on the resource is refused, and the call fails, except
  for a Service, whose update works on a copy.\<close>

theorem deleted_after_conflict_fails:
  assumes "object_store api" and "specHash (ob_Spec r) = Inr h" and "ob_Kind r \<noteq> ''Service''"
    and "ap_get api cl (key_of r) = Inr s"
    and "attempt api specHash (\<lambda>c. c, before_create, before_update) gen r None cl = (Retry rv', cl')"
    and "ap_get api (delete cl') (key_of r) = Inl ApiNotFound"
  shows "\<exists>msg. fst (ensure api specHash [(\<lambda>c. c, before_create, before_update), (delete, \<lambda>c. c, \<lambda>c. c)] gen r cl)
    = Inl (CreateFailed (ob_Kind r) (ApiOther msg))"
proof -
  have "rv' = Some (so_Version s)"
    using assms(2-5)
    by (auto simp: attempt_def update_existing_def annotate_frame Let_def
        split: sum.splits bool.splits option.splits prod.splits api_error.splits)
  moreover obtain msg where "ap_create api (annotate gen h r) (Some (so_Version s)) (delete cl')
      = (Some (ApiOther msg), delete cl')"
    using object_store.create_versioned [OF assms(1)] by blast
  ultimately have "attempt api specHash (delete, \<lambda>c. c, \<lambda>c. c) gen r rv' cl'
      = (Done (Inl (CreateFailed (ob_Kind r) (ApiOther msg))), delete cl')"
    using assms(2,6) by (simp add: attempt_def annotate_frame Let_def)
  then show ?thesis using assms(5) by (auto simp: ensure_def)
qed

theorem deleted_after_conflict_fails_witness:
  "\<exists>msg. fst (ensure store_api (\<lambda>_. Inr ''h'')
      [(\<lambda>c. c, \<lambda>c. c, store (newServiceAccount example_config)), (\<lambda>_. empty_cluster, \<lambda>c. c, \<lambda>c. c)]
      3 (newServiceAccount example_config) stored_account)
    = Inl (CreateFailed (ob_Kind (newServiceAccount example_config)) (ApiOther msg))"
proof -
  obtain rv' where at: "attempt store_api (\<lambda>_. Inr ''h'') (\<lambda>c. c, \<lambda>c. c, store (newServiceAccount example_config)) 3
      (newServiceAccount example_config) None stored_account
    = (Retry rv', store (newServiceAccount example_config) stored_account)"
    using object_store.update_stale [OF sa.object_store_axioms]
    by (simp add: attempt_def update_existing_def store_api_get annotate_frame stored_account_facts
        stored_account_outdated Let_def)
       (simp add: newServiceAccount_def annotate_def store_api_def store_get stored_account_facts key_of_def Let_def
          store_def [of _ stored_account] gm.get_put)
  show ?thesis
    by (rule deleted_after_conflict_fails [OF sa.object_store_axioms _ _ _ at, where h = "''h''"
          and s = "\<lparr>so_Object = newServiceAccount example_config, so_Version = 1, so_Ingress = []\<rparr>"])
       (simp_all add: store_api_get stored_account_facts at_key_self,
        simp_all add: newServiceAccount_def store_api_def empty_cluster_def gget_def)
qed

text \<open>An update of a Service keeps the addresses the cluster assigned to it and takes the ports,
  selector and type that were rendered; IP families and policy are kept only where the rendered
  Service leaves them open.\<close>

theorem service_update_keeps_addresses:
  assumes "ob_Spec r = ServiceObject d" and "ob_Spec q = ServiceObject c"
  shows "serviceForUpdate r (Some q) = Inr (r\<lparr>ob_Spec := ServiceObject
    \<lparr>svc_Selector = svc_Selector d, svc_Type = svc_Type d, svc_Ports = svc_Ports d,
     svc_ClusterIP = svc_ClusterIP c, svc_ClusterIPs = svc_ClusterIPs c,
     svc_IPFamilies = (if svc_IPFamilies d = [] then svc_IPFamilies c else svc_IPFamilies d),
     svc_IPFamilyPolicy = (if svc_IPFamilyPolicy d = None then svc_IPFamilyPolicy c else svc_IPFamilyPolicy d)\<rparr>\<rparr>)"
  using assms by (cases d) (simp add: serviceForUpdate_def Let_def)

theorem service_update_keeps_addresses_witness:
  "\<exists>d'. serviceForUpdate (newProxyService example_config)
      (Some ((newProxyService example_config)\<lparr>ob_Spec := ServiceObject (empty_service\<lparr>svc_ClusterIP := ''10.0.0.7''\<rparr>)\<rparr>))
    = Inr ((newProxyService example_config)\<lparr>ob_Spec := ServiceObject d'\<rparr>) \<and> svc_ClusterIP d' = ''10.0.0.7''"
proof -
  let ?q = "(newProxyService example_config)\<lparr>ob_Spec := ServiceObject (empty_service\<lparr>svc_ClusterIP := ''10.0.0.7''\<rparr>)\<rparr>"
  obtain d where d: "ob_Spec (newProxyService example_config) = ServiceObject d"
    by (simp add: newProxyService_def)
  have q: "ob_Spec ?q = ServiceObject (empty_service\<lparr>svc_ClusterIP := ''10.0.0.7''\<rparr>)" by simp
  show ?thesis
    by (intro exI conjI, rule service_update_keeps_addresses [OF d q]) simp
qed

section \<open>Properties of the entry point, the certificates and the status\<close>

lemma getAnnotation_fold:
  "gget (fold (\<lambda>v m. if length (qn (av_Key v)) = 0 then m
         else if length (lv (av_Value v)) > 0 then m else gput (av_Key v) (av_Value v) m) vars m) k \<noteq> None \<Longrightarrow>
   gget m k \<noteq> None \<or> qn k \<noteq> []"
proof (induction vars arbitrary: m)
  case (Cons v vars)
  let ?m = "if length (qn (av_Key v)) = 0 then m
         else if length (lv (av_Value v)) > 0 then m else gput (av_Key v) (av_Value v) m"
  have "gget ?m k \<noteq> None \<or> qn k \<noteq> []" using Cons.prems by (intro Cons.IH) simp
  moreover have "gget ?m k = gget m k \<or> qn k \<noteq> []" by (auto simp: gm.get_put)
  ultimately show ?case by metis
qed simp

text \<open>The test for a valid annotation key is inverted: every annotation with a valid key is dropped
  from the load balancer Service, and only keys that the validation complains about are set.\<close>

theorem only_invalid_annotation_keys_are_set:
  assumes "gget (getAnnotation isQualifiedName isValidLabelValue vars) k = Some v"
  shows "isQualifiedName k \<noteq> []"
  using assms getAnnotation_fold [of isQualifiedName isValidLabelValue vars "[]" k]
  by (simp add: getAnnotation_def gget_def)

theorem only_invalid_annotation_keys_are_set_witness:
  "(\<lambda>k. if k = ''a b'' then [''invalid''] else []) ''a b'' \<noteq> ([] :: string list)"
  using only_invalid_annotation_keys_are_set [of "\<lambda>k. if k = ''a b'' then [''invalid''] else []" "\<lambda>_. []"
      "[\<lparr>av_Key = ''a b'', av_Value = ''x''\<rparr>]" "''a b''" "''x''"]
  by (simp add: getAnnotation_def gm.get_put)

text \<open>The observed generation is never written: whatever status the controller writes keeps the old
  value, so as soon as it differs from the generation of the configuration, every reconciliation
  writes the status again, also right after the status has just been written.\<close>

theorem status_never_settles:
  assumes "st_LastObservedGeneration (mpc_Status config) \<noteq> mpc_Generation config"
  shows "\<exists>status. editing_status now isModified config s = Some status \<and>
    editing_status now' False (config\<lparr>mpc_Status := status\<rparr>) s \<noteq> None"
proof -
  have differ: "\<lparr>st_LastObservedGeneration = mpc_Generation config, st_Conditions = x\<rparr> \<noteq> st\<lparr>st_Conditions := y\<rparr>"
    if "st_LastObservedGeneration st = st_LastObservedGeneration (mpc_Status config)" for x y st
    using that assms by (cases st) auto
  show ?thesis by (simp add: editing_status_def Let_def differ)
qed

theorem status_never_settles_witness:
  "\<exists>status. editing_status 5 False example_config
      \<lparr>cu_isCurrentlyDeployed = True, cu_isRedeployed = False, cu_isSigned = True, cu_replicas = 1,
       cu_proxyServerCertExpireTime = None, cu_agentServerCertExpireTime = None, cu_userServerCertExpireTime = None\<rparr>
      = Some status \<and>
    editing_status 6 False (example_config\<lparr>mpc_Status := status\<rparr>)
      \<lparr>cu_isCurrentlyDeployed = True, cu_isRedeployed = False, cu_isSigned = True, cu_replicas = 1,
       cu_proxyServerCertExpireTime = None, cu_agentServerCertExpireTime = None, cu_userServerCertExpireTime = None\<rparr>
      \<noteq> None"
  by (rule status_never_settles) (simp add: example_config_def)

text \<open>A reconciliation that finds the proxy server's certificate secret missing does not report it as
  unsigned: reading the expiry of the absent certificate dereferences nil.\<close>

theorem missing_secret_panics:
  assumes "pemDecode [] = None" and "sv_pemDecode e = pemDecode" and "spec_UserServer (mpc_Spec config) = None"
    and "ap_scale api cl (proxy_namespace config) (mpc_Name config) = Inr replicas"
    and "ap_get api cl (''Secret'', proxy_namespace config, sec_SigningProxyServerSecretName (signing_secrets config))
           = Inl ApiNotFound"
    and "ap_get api cl (''Secret'', proxy_namespace config, sec_SigningAgentServerSecretName (signing_secrets config))
           = Inl ApiNotFound"
  shows "getCurrentState api e isRedeployed config cl = Inl (Panic ''nil PEM block'')"
  using assms by (simp add: getCurrentState_def get_cert_def getPEMCertExpireTime_def Let_def)

theorem missing_secret_panics_witness:
  "getCurrentState store_api \<lparr>sv_pemDecode = (\<lambda>b. if b = [] then None else Some b), sv_notAfter = (\<lambda>_. None)\<rparr> False
     (example_config\<lparr>mpc_Spec := (mpc_Spec example_config)\<lparr>spec_UserServer := None\<rparr>\<rparr>)
     (store (newProxyServerDeployment (\<lambda>s. s) (\<lambda>_. []) (\<lambda>_. []) example_config [] None) empty_cluster)
   = Inl (Panic ''nil PEM block'')"
  by (rule missing_secret_panics [where pemDecode = "\<lambda>b. if b = [] then None else Some b" and replicas = 0])
     (simp_all add: store_api_def store_get key_of_def newProxyServerDeployment_def owned_meta_def Let_def,
      simp_all add: empty_cluster_def gget_def example_config_def)

lemma refreshStatus_frame:
  assumes "object_store api" and "refreshStatus api now e m config cl = (res, cl')"
  shows "ap_get api cl' k = ap_get api cl k"
proof (cases "getCurrentState api e m config cl")
  case (Inl err)
  then show ?thesis using assms(2) by (simp add: refreshStatus_def)
next
  case (Inr s)
  show ?thesis
  proof (cases "editing_status now m config s")
    case None
    then show ?thesis using assms(2) Inr by (simp add: refreshStatus_def)
  next
    case (Some status)
    obtain x c1 where w: "ap_status api (mpc_Name config) status cl = (x, c1)" by fastforce
    have "cl' = c1" using assms(2) Inr Some w by (cases x) (simp_all add: refreshStatus_def)
    then show ?thesis
      using object_store.status_frame [OF assms(1), of "mpc_Name config" status cl k] w by simp
  qed
qed

lemma reconcile_success_path:
  assumes "Reconcile api e others (Some config) cl = (None, cl')"
  shows "\<exists>c1 c2 c3 c4 entrypoint modified. ensureNamespace api config cl = (None, c1) \<and>
    ensureEntrypoint api (rc_entry e) config c1 = (Inr entrypoint, c2) \<and>
    ensureRotation (rc_rotate e) (rc_CAPair e) config entrypoint c2 = (None, c3) \<and>
    deployProxyServer api (rc_specHash e) others (rc_render e) config c3 = (Inr modified, c4) \<and>
    refreshStatus api (rc_now e) (rc_state e) modified config c4 = (None, cl')"
proof -
  obtain e1 c1 where n: "ensureNamespace api config cl = (e1, c1)" by fastforce
  have n1: "e1 = None" using assms n by (cases e1) (simp_all add: Reconcile_def)
  obtain r2 c2 where p: "ensureEntrypoint api (rc_entry e) config c1 = (r2, c2)" by fastforce
  obtain entrypoint where p1: "r2 = Inr entrypoint"
    using assms n n1 p by (cases r2) (simp_all add: Reconcile_def)
  obtain e3 c3 where ro: "ensureRotation (rc_rotate e) (rc_CAPair e) config entrypoint c2 = (e3, c3)" by fastforce
  have ro1: "e3 = None" using assms n n1 p p1 ro by (cases e3) (simp_all add: Reconcile_def)
  obtain r4 c4 where d: "deployProxyServer api (rc_specHash e) others (rc_render e) config c3 = (r4, c4)" by fastforce
  obtain modified where d1: "r4 = Inr modified"
    using assms n n1 p p1 ro ro1 d by (cases r4) (simp_all add: Reconcile_def)
  show ?thesis
    using assms n n1 p p1 ro ro1 d d1 by (simp add: Reconcile_def)
qed

text \<open>C32. A reconciliation that reports success has applied the six resources of the configuration, in the
  configured namespace: ServiceAccount, Service, CA Secret, Deployment, Role and RoleBinding. Each is stored, and what
  is stored is annotated with the hash of the rendered content, with the rendered TLS hash and with a generation that is
  not older than the configuration's, whatever was stored before.\<close>

theorem reconcile_success_applies:
  assumes "object_store api" and "0 < mpc_Generation config" and "mpc_Generation config < 2 ^ 63"
    and "Reconcile api e [] (Some config) cl = (None, cl')"
  shows "map key_of (proxy_resources (rc_render e) config) =
      map (\<lambda>(kind, name). (kind, proxy_namespace config, name))
        [(''ServiceAccount'', ''cluster-proxy''), (''Service'', px_InClusterServiceName (proxy_server config)),
         (''Secret'', ''proxy-server-ca''), (''Deployment'', mpc_Name config),
         (''Role'', ''cluster-proxy-addon-agent:portforward''),
         (''RoleBinding'', ''cluster-proxy-addon-agent:portforward'')] \<and>
    (\<forall>r \<in> set (proxy_resources (rc_render e) config). \<exists>h s generation.
       rc_specHash e (ob_Spec r) = Inr h \<and> ap_get api cl' (key_of r) = Inr s \<and>
       annotation (om_Annotations (ob_Meta (so_Object s))) ''proxy.open-cluster-management.io/rendered-hash'' = h \<and>
       annotation (om_Annotations (ob_Meta (so_Object s))) ''proxy.open-cluster-management.io/tls-config-hash'' =
         annotation (om_Annotations (ob_Meta r)) ''proxy.open-cluster-management.io/tls-config-hash'' \<and>
       atoi (annotation (om_Annotations (ob_Meta (so_Object s))) ''proxy.open-cluster-management.io/configuration-generation'')
         = Some generation \<and> mpc_Generation config \<le> generation)"
proof -
  obtain c3 c4 modified where
    d: "deployProxyServer api (rc_specHash e) [] (rc_render e) config c3 = (Inr modified, c4)"
    and st: "refreshStatus api (rc_now e) (rc_state e) modified config c4 = (None, cl')"
    using reconcile_success_path [OF assms(4)] by blast
  have "\<forall>r \<in> set (proxy_resources (rc_render e) config). settled api (rc_specHash e) (mpc_Generation config) r c4"
    using object_store.ensure_all_undisturbed [OF assms(1) d [unfolded deployProxyServer_def] assms(2,3)
        proxy_resources_distinct] by blast
  then have "\<forall>r \<in> set (proxy_resources (rc_render e) config). settled api (rc_specHash e) (mpc_Generation config) r cl'"
    using settled_cong [OF refreshStatus_frame [OF assms(1) st]] by blast
  from this [unfolded Ball_def settled_iff] show ?thesis
    by (auto simp: proxy_resources_keys AnnotationKeyRenderedHash_def AnnotationKeyTLSConfigHash_def
        AnnotationKeyConfigurationGeneration_def)
qed

text \<open>An environment in which the example configuration is reconciled: rotation stores a certificate
  secret and PEM blocks decode to themselves.\<close>

definition example_rotate :: "cluster ensure_cert" where
  "example_rotate ca certs ro cl = (None, store
     \<lparr>ob_Kind = ''Secret'', ob_Meta = \<lparr>om_Namespace = ro_Namespace ro, om_Name = ro_Name ro,
        om_OwnerReferences = [], om_Labels = [], om_Annotations = []\<rparr>,
      ob_Spec = SecretSpec [(''tls.crt'', ''cert'')]\<rparr> cl)"

definition example_env :: "cluster reconcile_env" where
  "example_env = \<lparr>rc_specHash = (\<lambda>_. Inr ''h''), rc_render = example_render,
     rc_entry = \<lparr>ee_isQualifiedName = (\<lambda>_. []), ee_isValidLabelValue = (\<lambda>_. [])\<rparr>,
     rc_CAPair = ([''ca''], ''key''), rc_rotate = example_rotate,
     rc_state = \<lparr>sv_pemDecode = (\<lambda>b. if b = [] then None else Some b), sv_notAfter = (\<lambda>_. Some ''2027'')\<rparr>,
     rc_now = 1\<rparr>"

definition example_secret :: "string \<Rightarrow> k8s_object" where
  "example_secret name = \<lparr>ob_Kind = ''Secret'', ob_Meta = \<lparr>om_Namespace = ''ocm'', om_Name = name,
        om_OwnerReferences = [], om_Labels = [], om_Annotations = []\<rparr>,
      ob_Spec = SecretSpec [(''tls.crt'', ''cert'')]\<rparr>"

definition example_rotated :: "cluster \<Rightarrow> cluster" where
  "example_rotated cl = store (example_secret UserServerSecretName) (store (example_secret ''proxy-client'')
     (store (example_secret ''agent-server'') (store (example_secret ''proxy-server'') cl)))"

lemma example_rotation:
  "ensureRotation example_rotate ca example_config [] cl = (None, example_rotated cl)"
  by (simp add: ensureRotation_def rotations_def server_sans_def example_config_def example_rotate_def
      example_rotated_def example_secret_def)

definition example_ns :: k8s_object where
  "example_ns = \<lparr>ob_Kind = ''Namespace'', ob_Meta = \<lparr>om_Namespace = [], om_Name = ''ocm'',
     om_OwnerReferences = [], om_Labels = [], om_Annotations = []\<rparr>, ob_Spec = NamespaceObject\<rparr>"

lemma example_namespace:
  "ensureNamespace store_api example_config empty_cluster = (None, store example_ns empty_cluster)"
  by (simp add: ensureNamespace_def store_api_def empty_cluster_def example_ns_def example_config_def Let_def)

lemma example_resources:
  "\<forall>r \<in> set (proxy_resources example_render example_config). ob_Kind r \<noteq> ''Namespace'' \<and>
     (ob_Kind r = ''Secret'' \<longrightarrow> om_Name (ob_Meta r) = ''proxy-server-ca'')"
  by (simp add: proxy_resources_def newServiceAccount_def newProxyService_def newProxySecret_def
      newProxyServerDeployment_def newProxyServerRole_def newProxyServerRoleBinding_def owned_meta_def
      signerSecretName_def Let_def)

lemma fold_store_get:
  assumes "\<forall>r \<in> set rs. key_of r \<noteq> k"
  shows "gget (cl_Objects (fold (\<lambda>r. store (annotate gen h r)) rs cl)) k = gget (cl_Objects cl) k"
  using assms by (induction rs arbitrary: cl) (auto simp: store_get annotate_frame)

lemma fold_store_down: "cl_Down (fold (\<lambda>r. store (annotate gen h r)) rs cl) = cl_Down cl"
  by (induction rs arbitrary: cl) auto

definition example_before :: cluster where
  "example_before = example_rotated (store example_ns empty_cluster)"

definition example_after :: cluster where
  "example_after = fold (\<lambda>r. store (annotate 3 ''h'' r)) (proxy_resources example_render example_config) example_before"

lemma example_up: "\<not> cl_Down example_before" "\<not> cl_Down example_after"
  by (simp_all add: example_after_def example_before_def example_rotated_def fold_store_down)
     (simp_all add: empty_cluster_def)

lemma example_keys:
  "key_of (example_secret name) = (''Secret'', ''ocm'', name)" "key_of example_ns = (''Namespace'', [], ''ocm'')"
  by (simp_all add: key_of_def example_secret_def example_ns_def)

lemma example_before_get:
  "k \<notin> {(''Secret'', ''ocm'', UserServerSecretName), (''Secret'', ''ocm'', ''proxy-client''),
      (''Secret'', ''ocm'', ''agent-server''), (''Secret'', ''ocm'', ''proxy-server''), (''Namespace'', [], ''ocm'')}
   \<Longrightarrow> gget (cl_Objects example_before) k = None"
  "name \<in> {UserServerSecretName, ''agent-server'', ''proxy-server''} \<Longrightarrow>
   \<exists>v. gget (cl_Objects example_before) (''Secret'', ''ocm'', name) =
     Some \<lparr>so_Object = example_secret name, so_Version = v, so_Ingress = []\<rparr>"
  by (auto simp: example_before_def example_rotated_def store_get example_keys UserServerSecretName_def empty_cluster_def)

lemma example_deploy:
  "deployProxyServer store_api (\<lambda>_. Inr ''h'') [] example_render example_config example_before = (Inr True, example_after)"
proof -
  have "\<forall>r \<in> set (proxy_resources example_render example_config). gget (cl_Objects example_before) (key_of r) = None"
    using example_resources by (auto simp: key_of_def UserServerSecretName_def intro!: example_before_get(1))
  then show ?thesis
    using ensure_all_new [OF example_up(1) _ proxy_resources_distinct, of example_render example_config
        "\<lambda>_. Inr ''h''" "''h''" 3 False]
    by (simp add: deployProxyServer_def example_after_def) (simp add: example_config_def proxy_resources_def)
qed

lemma example_after_secret:
  assumes "name \<noteq> ''proxy-server-ca''"
  shows "gget (cl_Objects example_after) (''Secret'', ''ocm'', name) = gget (cl_Objects example_before) (''Secret'', ''ocm'', name)"
  unfolding example_after_def
  by (rule fold_store_get) (use example_resources assms in \<open>auto simp: key_of_def\<close>)

lemma example_state: "\<exists>s. getCurrentState store_api (rc_state example_env) True example_config example_after = Inr s"
proof -
  have "ap_scale store_api example_after ''ocm'' ''cluster-proxy'' = Inr 0 \<or>
      ap_scale store_api example_after ''ocm'' ''cluster-proxy'' = Inl ApiNotFound"
    using example_up by (simp add: store_api_def split: option.split)
  moreover have "get_cert store_api example_after ''ocm'' name = Inr (True, ''cert'')"
    if "name \<in> {UserServerSecretName, ''agent-server'', ''proxy-server''}" for name
  proof -
    have "gget (cl_Objects example_after) (''Secret'', ''ocm'', name) = gget (cl_Objects example_before) (''Secret'', ''ocm'', name)"
      using that by (intro example_after_secret) (auto simp: UserServerSecretName_def)
    moreover have "ob_Spec (example_secret name) = SecretSpec [(''tls.crt'', ''cert'')]"
      by (simp add: example_secret_def)
    ultimately show ?thesis
      using example_before_get(2) [OF that] example_up
      by (auto simp: get_cert_def store_api_get annotation_def gget_def [of "[(_, _)]"])
  qed
  ultimately show ?thesis
    by (auto simp: getCurrentState_def getPEMCertExpireTime_def example_env_def example_config_def)
qed

lemma example_reconciles: "fst (Reconcile store_api example_env [] (Some example_config) empty_cluster) = None"
proof -
  obtain s where s: "getCurrentState store_api (rc_state example_env) True example_config example_after = Inr s"
    using example_state by blast
  have "fst (ap_status store_api name st example_after) = None" for name st
    using example_up by (simp add: store_api_def)
  then have "fst (case ap_status store_api name st example_after of (Some err, cl) \<Rightarrow> (Some (StatusUpdate err), cl)
      | (None, cl) \<Rightarrow> (None, cl)) = None" for name st
    by (simp add: split_beta)
  then have "fst (refreshStatus store_api 1 (rc_state example_env) True example_config example_after) = None"
    using s by (cases "editing_status 1 True example_config s") (simp_all add: refreshStatus_def)
  moreover have "ensureEntrypoint store_api (rc_entry example_env) example_config cl = (Inr [], cl)" for cl :: cluster
    by (simp add: ensureEntrypoint_def example_config_def)
  ultimately show ?thesis
    using example_namespace example_rotation example_deploy
    by (simp add: Reconcile_def example_env_def example_before_def)
qed

theorem reconcile_success_applies_witness:
  "list_all (\<lambda>r. settled store_api (\<lambda>_. Inr ''h'') 3 r
     (snd (Reconcile store_api example_env [] (Some example_config) empty_cluster))) (proxy_resources example_render example_config)"
proof -
  have gen: "mpc_Generation example_config = 3" by (simp add: example_config_def)
  obtain cl' where cl': "Reconcile store_api example_env [] (Some example_config) empty_cluster = (None, cl')"
    using example_reconciles by (metis prod.collapse)
  show ?thesis
    using reconcile_success_applies [OF sa.object_store_axioms _ _ cl'] gen cl'
    by (simp add: example_env_def list_all_iff settled_iff AnnotationKeyRenderedHash_def AnnotationKeyTLSConfigHash_def
        AnnotationKeyConfigurationGeneration_def)
qed

text \<open>The server certificates name every address an agent or a client may use: the Service inside
  the cluster, the configured extra names, the host name of the entry point and the address the load
  balancer was given; the user server's certificate is rotated exactly if a user server is configured,
  and names its Service.\<close>

theorem certificates_cover_endpoints:
  assumes "rotations config entrypoint = Inr ros"
  shows "(\<forall>ro \<in> set (take 3 ros).
      px_InClusterServiceName (proxy_server config) @ ''.'' @ proxy_namespace config \<in> set (ro_SANs ro) \<and>
      px_InClusterServiceName (proxy_server config) @ ''.'' @ proxy_namespace config @ ''.svc'' \<in> set (ro_SANs ro) \<and>
      (entrypoint \<noteq> [] \<longrightarrow> entrypoint \<in> set (ro_SANs ro)) \<and>
      (\<forall>ep h. px_Entrypoint (proxy_server config) = Some ep \<and> ep_Type ep = EntryPointTypeHostname \<and>
         ep_Hostname ep = Some h \<longrightarrow> hn_Value h \<in> set (ro_SANs ro)) \<and>
      (\<forall>s. cs_SelfSigned (au_Signer (spec_Authentication (mpc_Spec config))) = Some s \<longrightarrow>
         set (ss_AdditionalSANs s) \<subseteq> set (ro_SANs ro))) \<and>
    drop 3 ros = (case spec_UserServer (mpc_Spec config) of None \<Rightarrow> []
      | Some us \<Rightarrow> [\<lparr>ro_Namespace = proxy_namespace config, ro_Name = UserServerSecretName,
          ro_SANs = buildUserServerSANs config us, ro_ClientAuth = False,
          ro_Failure = ''fails to rotate user server cert''\<rparr>])"
proof -
  obtain sans where sans: "server_sans config entrypoint = Inr sans"
    using assms by (cases "server_sans config entrypoint") (simp_all add: rotations_def)
  have cover: "px_InClusterServiceName (proxy_server config) @ ''.'' @ proxy_namespace config \<in> set sans"
      "px_InClusterServiceName (proxy_server config) @ ''.'' @ proxy_namespace config @ ''.svc'' \<in> set sans"
      "entrypoint \<noteq> [] \<longrightarrow> entrypoint \<in> set sans"
      "\<forall>ep h. px_Entrypoint (proxy_server config) = Some ep \<and> ep_Type ep = EntryPointTypeHostname \<and>
         ep_Hostname ep = Some h \<longrightarrow> hn_Value h \<in> set sans"
      "\<forall>s. cs_SelfSigned (au_Signer (spec_Authentication (mpc_Spec config))) = Some s \<longrightarrow>
         set (ss_AdditionalSANs s) \<subseteq> set sans"
    using sans by (auto simp: server_sans_def Let_def split: option.splits if_splits)
  have ros: "take 3 ros = map (\<lambda>p. \<lparr>ro_Namespace = proxy_namespace config, ro_Name = fst p, ro_SANs = sans,
        ro_ClientAuth = fst (snd p), ro_Failure = snd (snd p)\<rparr>)
      [(sec_SigningProxyServerSecretName (signing_secrets config), False, ''fails to rotate proxy server cert''),
       (sec_SigningAgentServerSecretName (signing_secrets config), False, ''fails to rotate proxy agent cert''),
       (sec_SigningProxyClientSecretName (signing_secrets config), True, ''fails to rotate proxy client cert'')]"
      "drop 3 ros = (case spec_UserServer (mpc_Spec config) of None \<Rightarrow> []
      | Some us \<Rightarrow> [\<lparr>ro_Namespace = proxy_namespace config, ro_Name = UserServerSecretName,
          ro_SANs = buildUserServerSANs config us, ro_ClientAuth = False,
          ro_Failure = ''fails to rotate user server cert''\<rparr>])"
    using assms sans by (auto simp: rotations_def eval_nat_numeral)
  have all: "\<forall>ro \<in> set (take 3 ros). ro_SANs ro = sans" by (simp add: ros(1))
  show ?thesis
  proof (intro conjI ballI)
    fix ro assume "ro \<in> set (take 3 ros)"
    then have "ro_SANs ro = sans" using all by blast
    then show "entrypoint \<noteq> [] \<longrightarrow> entrypoint \<in> set (ro_SANs ro)"
      "\<forall>ep h. px_Entrypoint (proxy_server config) = Some ep \<and> ep_Type ep = EntryPointTypeHostname \<and>
         ep_Hostname ep = Some h \<longrightarrow> hn_Value h \<in> set (ro_SANs ro)"
      "\<forall>s. cs_SelfSigned (au_Signer (spec_Authentication (mpc_Spec config))) = Some s \<longrightarrow>
         set (ss_AdditionalSANs s) \<subseteq> set (ro_SANs ro)"
      "px_InClusterServiceName (proxy_server config) @ ''.'' @ proxy_namespace config \<in> set (ro_SANs ro)"
      "px_InClusterServiceName (proxy_server config) @ ''.'' @ proxy_namespace config @ ''.svc'' \<in> set (ro_SANs ro)"
      using cover by blast+
  qed (rule ros(2))
qed

theorem certificates_cover_endpoints_witness:
  "\<exists>ros. rotations example_config ''10.1.2.3'' = Inr ros \<and> list_all (\<lambda>ro. ''10.1.2.3'' \<in> set (ro_SANs ro)) (take 3 ros)"
proof -
  obtain ros where r: "rotations example_config ''10.1.2.3'' = Inr ros"
    by (simp add: rotations_def server_sans_def example_config_def)
  show ?thesis using r certificates_cover_endpoints [OF r] by (simp add: list_all_iff)
qed

end
