(* ===== verification/Agent_Addon.thy ===== *)
theory Agent_Addon
  imports Proxy_Reconciler "HOL-Library.List_Lexorder" "HOL-Library.Char_ord"
begin

text \<open>
  The add-on that the hub deploys on every managed cluster: chart values, registration and
  certificate signing (pkg/proxyagent/agent/agent.go, additional_values.go), image names
  (pkg/config/agent.go), the self-managed test and the merging of CA bundles (pkg/common). Values are
  JSON documents; a nil slice and an empty one are the same list. Reads of the hub, the override of an
  image by a cluster annotation, JSON parsing, PEM and X.509 are parameters. The variable
  \<open>AgentImageName\<close> of package config, which the code writes, is threaded as state.
\<close>

section \<open>Images\<close>

definition DefaultAddonInstallNamespace :: string where
  "DefaultAddonInstallNamespace = ''open-cluster-management-cluster-proxy''"

definition ParseImage :: "string \<Rightarrow> string \<times> string \<times> string" where
  "ParseImage imageName =
     (let imgParts = split CHR ''/'' imageName;
          registry = join ''/'' (butlast imgParts);
          parts = split CHR '':'' (last imgParts);
          img = hd parts;
          tag = (if length parts \<ge> 2 then last parts else ''latest'')
      in (registry, img, tag))"

definition GetParsedAgentImage :: "string \<Rightarrow> string \<Rightarrow> (string \<times> string \<times> string) \<times> string" where
  "GetParsedAgentImage defaultAgentImageName agentImageName =
     (let agentImageName = (if length agentImageName = 0 then defaultAgentImageName else agentImageName)
      in (ParseImage agentImageName, agentImageName))"

definition IsManagedProxyConfiguration :: "string \<Rightarrow> string \<Rightarrow> string \<Rightarrow> bool" where
  "IsManagedProxyConfiguration groupVersionGroup gr_Group gr_Resource =
     (if gr_Group \<noteq> groupVersionGroup then False
      else if gr_Resource \<noteq> ''managedproxyconfigurations'' then False
      else True)"

section \<open>Clusters and add-ons\<close>

record ManagedCluster =
  mc_Name :: string
  mc_Labels :: "(string, string) gmap"
  mc_Annotations :: "(string, string) gmap"
  mc_HubAcceptsClient :: bool

record ManagedClusterAddOn =
  ao_StatusNamespace :: string

definition SelfManagedClusterLabelKey :: string where
  "SelfManagedClusterLabelKey = ''local-cluster''"

definition IsClusterSelfManaged :: "ManagedCluster \<Rightarrow> bool" where
  "IsClusterSelfManaged cluster =
     (if length (mc_Labels cluster) = 0 then False
      else case gget (mc_Labels cluster) SelfManagedClusterLabelKey of
        None \<Rightarrow> False
      | Some val \<Rightarrow> equal_fold val ''true'')"

section \<open>Merging CA bundles\<close>

fun parse_bundles :: "(string \<Rightarrow> string + string list) \<Rightarrow> string list \<Rightarrow> string + string list" where
  "parse_bundles parseCertsPEM [] = Inr []"
| "parse_bundles parseCertsPEM (b # bs) =
     (if length b = 0 then parse_bundles parseCertsPEM bs
      else case parseCertsPEM b of
        Inl err \<Rightarrow> Inl err
      | Inr certs \<Rightarrow>
          (case parse_bundles parseCertsPEM bs of Inl err \<Rightarrow> Inl err | Inr rest \<Rightarrow> Inr (certs @ rest)))"

fun merge_certs :: "string list \<Rightarrow> string list \<Rightarrow> string list" where
  "merge_certs merged [] = merged"
| "merge_certs merged (c # cs) = merge_certs (if list_ex ((=) c) merged then merged else merged @ [c]) cs"

definition MergeCertificateData ::
  "(string \<Rightarrow> string + string list) \<Rightarrow> (string \<Rightarrow> string) \<Rightarrow> string list \<Rightarrow> string + string" where
  "MergeCertificateData parseCertsPEM pemEncode caBundles =
     (case parse_bundles parseCertsPEM caBundles of
        Inl err \<Rightarrow> Inl err
      | Inr all \<Rightarrow> Inr (concat (map pemEncode (merge_certs [] all))))"

section \<open>Chart values\<close>

datatype json = JNull | JBool bool | JNum int | JStr string | JList "json list" | JObj "(string \<times> json) list"

type_synonym chart_values = "(string, json) gmap"

definition jstrs :: "string list \<Rightarrow> json" where
  "jstrs xs = JList (map JStr xs)"

definition jmap :: "(string, string) gmap \<Rightarrow> json" where
  "jmap m = JObj (map (\<lambda>(k, v). (k, JStr v)) m)"

text \<open>\<open>MergeValues\<close> and \<open>mergeInterfaceMaps\<close> of the add-on framework do the same on their
  maps: the second map wins, except that two objects under one key are merged.\<close>

function MergeValues :: "(string, json) gmap \<Rightarrow> (string, json) gmap \<Rightarrow> (string, json) gmap" where
  "MergeValues a [] = a"
| "MergeValues a ((bk, bv) # b) =
     MergeValues
       (gput bk
         (case bv of
            JObj bm \<Rightarrow> (case gget a bk of Some (JObj am) \<Rightarrow> JObj (MergeValues am bm) | _ \<Rightarrow> bv)
          | _ \<Rightarrow> bv) a) b"
  by pat_completeness auto
termination
  by (relation "measure (\<lambda>(a, b). size_list (size_prod (\<lambda>_. 0) size) b)") auto

datatype agent_error =
    ConfigGet api_error
  | LoadBalancerGet api_error
  | LoadBalancerNotProvisioned
  | ImageOverride string
  | NodeSelectorError string
  | ServerCertGet api_error
  | NoTlsCrt
  | NoTlsKey
  | NormalizeError string
  | MergeCAError string
  | DeploymentConfigError string
  | SignerError string
  | BuildError string
  | AgentPanic string

record hub_reads =
  hr_config :: "string \<Rightarrow> api_error + ManagedProxyConfiguration"
  hr_service :: "string \<Rightarrow> string \<Rightarrow> api_error + stored"
  hr_secret :: "string \<Rightarrow> string \<Rightarrow> api_error + (string, string) gmap"

text \<open>Standard base64 with padding.\<close>

definition base64_char :: "nat \<Rightarrow> char" where
  "base64_char n =
     (if n < 26 then char_of (65 + n) else if n < 52 then char_of (71 + n)
      else if n < 62 then char_of (n - 4) else if n = 62 then CHR ''+'' else CHR ''/'')"

fun base64_encode :: "string \<Rightarrow> string" where
  "base64_encode [] = []"
| "base64_encode [a] =
     (let n = of_char a * 16 in [base64_char (n div 64), base64_char (n mod 64)] @ ''=='')"
| "base64_encode [a, b] =
     (let n = (of_char a * 256 + of_char b) * 4 in
      [base64_char (n div 4096), base64_char (n div 64 mod 64), base64_char (n mod 64)] @ ''='')"
| "base64_encode (a # b # c # s) =
     (let n = (of_char a * 256 + of_char b) * 256 + of_char c in
      [base64_char (n div 262144), base64_char (n div 4096 mod 64), base64_char (n div 64 mod 64),
       base64_char (n mod 64)] @ base64_encode s)"

section \<open>Values of the proxy agent\<close>

definition serviceDomain :: string where
  "serviceDomain = ''svc.cluster.local''"

text \<open>The load balancer is read first, then the entry point is chosen: the result is the host for
  the agents and the extra arguments of the add-on agent. The schema of the resource admits no other
  type, so the in-cluster default of the code is never used.\<close>

definition proxyServerLoadBalancer :: "hub_reads \<Rightarrow> ManagedProxyConfiguration \<Rightarrow> agent_error + stored option" where
  "proxyServerLoadBalancer hub proxyConfig =
     (case px_Entrypoint (proxy_server proxyConfig) of
        None \<Rightarrow> Inl (AgentPanic ''nil Entrypoint'')
      | Some ep \<Rightarrow>
          if ep_Type ep = EntryPointTypeLoadBalancerService then
            (case ep_LoadBalancerService ep of
               None \<Rightarrow> Inl (AgentPanic ''nil LoadBalancerService'')
             | Some lb \<Rightarrow>
                 (case hr_service hub (proxy_namespace proxyConfig) (lb_Name lb) of
                    Inl err \<Rightarrow> Inl (LoadBalancerGet err)
                  | Inr entrySvc \<Rightarrow>
                      if length (so_Ingress entrySvc) = 0 then Inl LoadBalancerNotProvisioned
                      else Inr (Some entrySvc)))
          else Inr None)"

definition serviceEntryPoint ::
  "ManagedProxyConfiguration \<Rightarrow> Entrypoint \<Rightarrow> stored option \<Rightarrow> agent_error + string \<times> string list" where
  "serviceEntryPoint proxyConfig ep loadBalancer =
     (case ep_Type ep of
        EntryPointTypeHostname \<Rightarrow>
          (case ep_Hostname ep of
             None \<Rightarrow> Inl (AgentPanic ''nil Hostname'')
           | Some h \<Rightarrow> Inr (hn_Value h, []))
      | EntryPointTypeLoadBalancerService \<Rightarrow>
          (case loadBalancer of
             None \<Rightarrow> Inl (AgentPanic ''nil Service'')
           | Some svc \<Rightarrow> Inr (hd (so_Ingress svc), []))
      | EntryPointTypePortForward \<Rightarrow> Inr (''127.0.0.1'', [''--enable-port-forward-proxy=true''])
      | EntryPointTypeOther _ \<Rightarrow>
          Inr (px_InClusterServiceName (proxy_server proxyConfig) @ ''.'' @ proxy_namespace proxyConfig, []))"

record serviceToExpose =
  ste_Host :: string
  ste_ExternalName :: string

definition agentIdentifiers ::
  "(string \<Rightarrow> string) \<Rightarrow> bool \<Rightarrow> string \<Rightarrow> string \<Rightarrow> serviceToExpose list \<Rightarrow> string" where
  "agentIdentifiers sha256 enableKubeApiProxy clusterName namespace servicesToExpose =
     join ''&''
       ([''host='' @ GenerateServiceProxyHost sha256 clusterName]
        @ (if enableKubeApiProxy
           then [''host='' @ clusterName, ''host='' @ clusterName @ ''.'' @ namespace] else [])
        @ map (\<lambda>s. ''host='' @ ste_Host s) servicesToExpose)"

definition agent_namespace :: "ManagedClusterAddOn \<Rightarrow> string" where
  "agent_namespace addon =
     (if length (ao_StatusNamespace addon) > 0 then ao_StatusNamespace addon else DefaultAddonInstallNamespace)"

definition GetClusterProxyValueFunc ::
  "(string \<Rightarrow> string) \<Rightarrow> hub_reads \<Rightarrow> string \<Rightarrow> bool \<Rightarrow> ManagedCluster \<Rightarrow> ManagedClusterAddOn \<Rightarrow> string
     \<Rightarrow> (agent_error + chart_values) \<times> string" where
  "GetClusterProxyValueFunc sha256 hub caCertData enableKubeApiProxy cluster addon agentImageName =
     (case hr_config hub ''cluster-proxy'' of
        Inl err \<Rightarrow> (Inl (ConfigGet err), agentImageName)
      | Inr proxyConfig \<Rightarrow>
     (case proxyServerLoadBalancer hub proxyConfig of
        Inl err \<Rightarrow> (Inl err, agentImageName)
      | Inr loadBalancer \<Rightarrow>
     (let ep = the (px_Entrypoint (proxy_server proxyConfig)) in
      case serviceEntryPoint proxyConfig ep loadBalancer of
        Inl err \<Rightarrow> (Inl err, agentImageName)
      | Inr (entryPoint, extraArgs) \<Rightarrow>
          (let serviceEntryPointPort = (if ep_Port ep = 0 then 8091 else ep_Port ep);
               agent = spec_ProxyAgent (mpc_Spec proxyConfig);
               namespace = agent_namespace addon
           in case GetParsedAgentImage (pa_Image agent) agentImageName of
                ((registry, img, tag), agentImageName) \<Rightarrow>
     (Inr [(''agentDeploymentName'', JStr ''cluster-proxy-proxy-agent''),
           (''serviceDomain'', JStr serviceDomain),
           (''includeNamespaceCreation'', JBool True),
           (''spokeAddonNamespace'', JStr namespace),
           (''additionalProxyAgentArgs'', jstrs (pa_AdditionalArgs agent)),
           (''additionalServiceProxyArgs'', jstrs (pa_AdditionalServiceProxyArgs agent)),
           (''clusterName'', JStr (mc_Name cluster)),
           (''registry'', JStr registry),
           (''image'', JStr img),
           (''tag'', JStr tag),
           (''proxyAgentImage'', JStr (pa_Image agent)),
           (''proxyAgentImagePullSecrets'', jstrs (pa_ImagePullSecrets agent)),
           (''replicas'', JNum (pa_Replicas agent)),
           (''base64EncodedCAData'', JStr (base64_encode caCertData)),
           (''serviceEntryPoint'', JStr entryPoint),
           (''serviceEntryPointPort'', JNum serviceEntryPointPort),
           (''agentDeploymentAnnotations'',
              jmap [(AnnotationKeyConfigurationGeneration, itoa (mpc_Generation proxyConfig))]),
           (''addonAgentArgs'', jstrs ([''--hub-kubeconfig=/etc/kubeconfig/kubeconfig'',
              ''--cluster-name='' @ mc_Name cluster,
              ''--proxy-server-namespace='' @ proxy_namespace proxyConfig] @ extraArgs)),
           (''additionalServiceCAConfigMap'', JStr (pa_AdditionalServiceCAConfigMap agent)),
           (''agentIdentifiers'', JStr (agentIdentifiers sha256 enableKubeApiProxy (mc_Name cluster) namespace [])),
           (''serviceProxyHost'', JStr (GenerateServiceProxyHost sha256 (mc_Name cluster))),
           (''servicesToExpose'', JList []),
           (''enableKubeApiProxy'', JBool enableKubeApiProxy)],
      agentImageName)))))"

section \<open>Additional values\<close>

definition annotationNodeSelector :: string where
  "annotationNodeSelector = ''open-cluster-management/nodeSelector''"

definition ServerCertSecretName :: string where
  "ServerCertSecretName = ''cluster-proxy-service-proxy-server-cert''"

definition getNodeSelector ::
  "(string \<Rightarrow> string + (string, string) gmap) \<Rightarrow> ManagedCluster \<Rightarrow> string + (string, string) gmap" where
  "getNodeSelector unmarshal managedCluster =
     (if IsClusterSelfManaged managedCluster then
        (case gget (mc_Annotations managedCluster) annotationNodeSelector of
           None \<Rightarrow> Inr []
         | Some nodeSelectorString \<Rightarrow> unmarshal nodeSelectorString)
      else Inr [])"

definition getServerCertificatesFromSecret :: "hub_reads \<Rightarrow> string \<Rightarrow> agent_error + string \<times> string" where
  "getServerCertificatesFromSecret hub secretNamespace =
     (case hr_secret hub secretNamespace ServerCertSecretName of
        Inl err \<Rightarrow> Inl (ServerCertGet err)
      | Inr data \<Rightarrow>
          (case gget data ''tls.crt'' of
             None \<Rightarrow> Inl NoTlsCrt
           | Some cert \<Rightarrow>
               (case gget data ''tls.key'' of
                  None \<Rightarrow> Inl NoTlsKey
                | Some key \<Rightarrow> Inr (key, cert))))"

record additional_env =
  ad_overrideImage :: "(string, string) gmap \<Rightarrow> string \<Rightarrow> string + string"
  ad_unmarshal :: "string \<Rightarrow> string + (string, string) gmap"

definition GetClusterProxyAdditionalValueFunc ::
  "additional_env \<Rightarrow> hub_reads \<Rightarrow> string \<Rightarrow> bool \<Rightarrow> bool \<Rightarrow> ManagedCluster \<Rightarrow> string \<Rightarrow> agent_error + chart_values" where
  "GetClusterProxyAdditionalValueFunc e hub signerNamespace enableServiceProxy enableNetworkPolicies cluster agentImageName =
     (case hr_config hub ''cluster-proxy'' of
        Inl err \<Rightarrow> Inl (ConfigGet err)
      | Inr proxyConfig \<Rightarrow>
     (case ad_overrideImage e (mc_Annotations cluster) (pa_Image (spec_ProxyAgent (mpc_Spec proxyConfig))) of
        Inl err \<Rightarrow> Inl (ImageOverride err)
      | Inr clusterProxyAddonImage \<Rightarrow>
     (case ad_overrideImage e (mc_Annotations cluster)
             (if length agentImageName = 0 then clusterProxyAddonImage else agentImageName) of
        Inl err \<Rightarrow> Inl (ImageOverride err)
      | Inr clusterProxyImage \<Rightarrow>
     (case ParseImage clusterProxyImage of (registry, img, tag) \<Rightarrow>
     (case getNodeSelector (ad_unmarshal e) cluster of
        Inl err \<Rightarrow> Inl (NodeSelectorError err)
      | Inr nodeSelector \<Rightarrow>
          (let values = [(''registry'', JStr registry), (''image'', JStr img), (''tag'', JStr tag),
                         (''proxyAgentImage'', JStr clusterProxyAddonImage),
                         (''networkPolicies'', JObj [(''enabled'', JBool enableNetworkPolicies)])];
               values = (if length nodeSelector \<noteq> 0 then gput ''nodeSelector'' (jmap nodeSelector) values else values)
           in if enableServiceProxy then
                (case getServerCertificatesFromSecret hub signerNamespace of
                   Inl err \<Rightarrow> Inl err
                 | Inr (key, cert) \<Rightarrow>
                     (let values = gput ''enableServiceProxy'' (JBool True) values;
                          values = gput ''serviceProxySecretCert'' (JStr (base64_encode cert)) values
                      in Inr (gput ''serviceProxySecretKey'' (JStr (base64_encode key)) values)))
              else Inr values))))))"

section \<open>Values of the deployment configuration\<close>

record AddOnDeploymentConfig =
  adc_CustomizedVariables :: "(string \<times> string) list"
  adc_NodePlacement :: "NodePlacement option"
  adc_HTTPProxy :: string
  adc_HTTPSProxy :: string
  adc_NoProxy :: string
  adc_CABundle :: string
  adc_AgentInstallNamespace :: string

definition toAgentAddOnChartValues ::
  "(string \<Rightarrow> string + string list) \<Rightarrow> (string \<Rightarrow> string) \<Rightarrow> string \<Rightarrow> AddOnDeploymentConfig \<Rightarrow> agent_error + chart_values" where
  "toAgentAddOnChartValues parseCertsPEM pemEncode caCertData config =
     (let values = fold (\<lambda>(name, value) m. gput name (JStr value) m) (adc_CustomizedVariables config) [];
          values = (case adc_NodePlacement config of
                      None \<Rightarrow> values
                    | Some np \<Rightarrow> gput ''tolerations'' (jstrs (np_Tolerations np))
                                  (gput ''nodeSelector'' (jmap (np_NodeSelector np)) values));
          values = gput ''proxyConfig'' (jmap [(''HTTP_PROXY'', adc_HTTPProxy config),
                     (''HTTPS_PROXY'', adc_HTTPSProxy config), (''NO_PROXY'', adc_NoProxy config)]) values
      in if has_prefix (adc_HTTPSProxy config) ''https'' \<and> length (adc_CABundle config) \<noteq> 0 then
           (case MergeCertificateData parseCertsPEM pemEncode [adc_CABundle config, caCertData] of
              Inl err \<Rightarrow> Inl (MergeCAError err)
            | Inr caCert \<Rightarrow> Inr (gput ''base64EncodedCAData'' (JStr (base64_encode caCert)) values))
         else Inr values)"

text \<open>The desired configuration of the add-on, if there is one, is read by the framework
  (\<open>desired\<close>), which also turns resource requirements into values (\<open>resources\<close>).\<close>

definition GetAddOnDeploymentConfigValues ::
  "string + AddOnDeploymentConfig option \<Rightarrow> (AddOnDeploymentConfig \<Rightarrow> agent_error + chart_values) list
     \<Rightarrow> agent_error + chart_values" where
  "GetAddOnDeploymentConfigValues desired toValuesFuncs =
     (case desired of
        Inl err \<Rightarrow> Inl (DeploymentConfigError err)
      | Inr None \<Rightarrow> Inr []
      | Inr (Some config) \<Rightarrow>
          foldl (\<lambda>r f. case r of Inl err \<Rightarrow> Inl err
                        | Inr lastValues \<Rightarrow>
                            (case f config of Inl err \<Rightarrow> Inl err
                             | Inr values \<Rightarrow> Inr (MergeValues lastValues values)))
            (Inr []) toValuesFuncs)"

definition agentInstallNamespaceFunc :: "string + string \<Rightarrow> string \<times> string option" where
  "agentInstallNamespaceFunc fromDeploymentConfig =
     (case fromDeploymentConfig of
        Inl err \<Rightarrow> (DefaultAddonInstallNamespace, Some err)
      | Inr ns \<Rightarrow> if length ns = 0 then (DefaultAddonInstallNamespace, None) else (ns, None))"

text \<open>The functions are called in order with the state of package config; a failing one gives
  the values merged so far beside the error.\<close>

fun merge_from ::
  "(chart_values \<Rightarrow> string + chart_values) \<Rightarrow> chart_values
     \<Rightarrow> (string \<Rightarrow> (agent_error + chart_values) \<times> string) list \<Rightarrow> string
     \<Rightarrow> (agent_error option \<times> chart_values) \<times> string" where
  "merge_from jsonStructToValues values [] st = ((None, values), st)"
| "merge_from jsonStructToValues values (getValues # fs) st =
     (case getValues st of
        (Inl err, st) \<Rightarrow> ((Some err, values), st)
      | (Inr newValues, st) \<Rightarrow>
          (case jsonStructToValues newValues of
             Inl err \<Rightarrow> ((Some (NormalizeError err), values), st)
           | Inr normalizedValues \<Rightarrow>
               merge_from jsonStructToValues (MergeValues values normalizedValues) fs st))"

definition mergeAndNormalizeValuesFuncs ::
  "(chart_values \<Rightarrow> string + chart_values) \<Rightarrow> (string \<Rightarrow> (agent_error + chart_values) \<times> string) list \<Rightarrow> string
     \<Rightarrow> (agent_error option \<times> chart_values) \<times> string" where
  "mergeAndNormalizeValuesFuncs jsonStructToValues getValuesFuncs st = merge_from jsonStructToValues [] getValuesFuncs st"

section \<open>Registration and signing\<close>

definition ProxyAgentSignerName :: string where
  "ProxyAgentSignerName = ''open-cluster-management.io/proxy-agent-signer''"

definition SubjectUserClusterProxyAgent :: string where
  "SubjectUserClusterProxyAgent = ''open-cluster-management:cluster-proxy:proxy-agent''"

datatype RegistrationConfig =
    KubeClientRegistration string "string list"
  | CustomSignerRegistration string string "string list" "string list"

definition regConfigs :: "(string \<Rightarrow> string) \<Rightarrow> string \<Rightarrow> RegistrationConfig list" where
  "regConfigs sha256 caData =
     [KubeClientRegistration SubjectUserClusterAddonAgent [SubjectGroupClusterProxy],
      CustomSignerRegistration ProxyAgentSignerName SubjectUserClusterProxyAgent [SubjectGroupClusterProxy]
        [''signer-'' @ hex_encode (base64_encode (sha256 caData))]]"

record CertificateSigningRequest =
  csr_SignerName :: string
  csr_Request :: string

text \<open>\<open>sign\<close> is the framework's signer with the CA and the lifetime in hours; \<open>Inr None\<close> leaves
  the request to another signer.\<close>

definition CustomSignerWithExpiry ::
  "(nat \<Rightarrow> CertificateSigningRequest \<Rightarrow> string + string) \<Rightarrow> string \<Rightarrow> nat \<Rightarrow> CertificateSigningRequest
     \<Rightarrow> string + string option" where
  "CustomSignerWithExpiry sign customSignerName duration csr =
     (if csr_SignerName csr \<noteq> customSignerName then Inr None
      else case sign duration csr of Inl err \<Rightarrow> Inl err | Inr cert \<Rightarrow> Inr (Some cert))"

definition agent_role :: "string \<times> PolicyRule list" where
  "agent_role = (''cluster-proxy-addon-agent'',
     [\<lparr>pr_APIGroups = [''coordination.k8s.io''], pr_Verbs = [''*''], pr_Resources = [''leases'']\<rparr>])"

definition agent_cluster_role :: "string \<times> PolicyRule list" where
  "agent_cluster_role = (''cluster-proxy-addon-agent-tokenreview'',
     [\<lparr>pr_APIGroups = [''authentication.k8s.io''], pr_Verbs = [''create''], pr_Resources = [''tokenreviews'']\<rparr>])"

record AgentAddon =
  aa_Configurations :: "RegistrationConfig list"
  aa_CSRApproveCheck :: "ManagedCluster \<Rightarrow> CertificateSigningRequest \<Rightarrow> bool"
  aa_CSRSign :: "CertificateSigningRequest \<Rightarrow> string + string option"
  aa_Role :: "string \<times> PolicyRule list"
  aa_ClusterRole :: "string \<times> PolicyRule list"
  aa_Values :: "ManagedCluster \<Rightarrow> ManagedClusterAddOn \<Rightarrow> string \<Rightarrow> (agent_error option \<times> chart_values) \<times> string"
  aa_Namespace :: "ManagedClusterAddOn \<Rightarrow> string \<times> string option"

record addon_env =
  ae_sha256 :: "string \<Rightarrow> string"
  ae_hub :: hub_reads
  ae_additional :: additional_env
  ae_parseCertsPEM :: "string \<Rightarrow> string + string list"
  ae_pemEncode :: "string \<Rightarrow> string"
  ae_jsonStructToValues :: "chart_values \<Rightarrow> string + chart_values"
  ae_sign :: "string \<times> string \<Rightarrow> nat \<Rightarrow> CertificateSigningRequest \<Rightarrow> string + string"
  ae_desired :: "ManagedClusterAddOn \<Rightarrow> string + AddOnDeploymentConfig option"
  ae_resources :: "AddOnDeploymentConfig \<Rightarrow> agent_error + chart_values"
  ae_build :: "string option"

text \<open>\<open>pem\<close> is the result of \<open>GetPEMBytes\<close>: certificate and key of the signer's CA. The install
  namespace comes from the desired configuration, if there is one. \<open>ae_build\<close> is the error of the framework's
  \<open>BuildHelmAgentAddon\<close>, which loads the chart.\<close>

definition NewAgentAddon ::
  "addon_env \<Rightarrow> string + string \<times> string \<Rightarrow> string \<Rightarrow> string \<Rightarrow> bool \<Rightarrow> bool \<Rightarrow> bool \<Rightarrow> agent_error + AgentAddon" where
  "NewAgentAddon e pem caData signerNamespace enableKubeApiProxy enableServiceProxy enableNetworkPolicies =
     (case pem of
        Inl err \<Rightarrow> Inl (SignerError err)
      | Inr (caCertData, caKeyData) \<Rightarrow>
     (case ae_build e of
        Some err \<Rightarrow> Inl (BuildError err)
      | None \<Rightarrow>
          Inr \<lparr>aa_Configurations = regConfigs (ae_sha256 e) caData,
               aa_CSRApproveCheck = (\<lambda>cluster csr. mc_HubAcceptsClient cluster),
               aa_CSRSign = CustomSignerWithExpiry (ae_sign e (caKeyData, caCertData)) ProxyAgentSignerName (24 * 180),
               aa_Role = agent_role,
               aa_ClusterRole = agent_cluster_role,
               aa_Values = (\<lambda>cluster addon. mergeAndNormalizeValuesFuncs (ae_jsonStructToValues e)
                 [GetClusterProxyValueFunc (ae_sha256 e) (ae_hub e) caCertData enableKubeApiProxy cluster addon,
                  (\<lambda>st. (GetClusterProxyAdditionalValueFunc (ae_additional e) (ae_hub e) signerNamespace
                           enableServiceProxy enableNetworkPolicies cluster st, st)),
                  (\<lambda>st. (GetAddOnDeploymentConfigValues (ae_desired e addon)
                           [toAgentAddOnChartValues (ae_parseCertsPEM e) (ae_pemEncode e) caCertData, ae_resources e], st))]),
               aa_Namespace = (\<lambda>addon. agentInstallNamespaceFunc
                 (case ae_desired e addon of
                    Inl err \<Rightarrow> Inl err
                  | Inr None \<Rightarrow> Inr []
                  | Inr (Some config) \<Rightarrow> Inr (adc_AgentInstallNamespace config)))\<rparr>))"

section \<open>Exposed services\<close>

fun remove_dup :: "(string, bool) gmap \<Rightarrow> serviceToExpose list \<Rightarrow> serviceToExpose list" where
  "remove_dup encountered [] = []"
| "remove_dup encountered (s # ss) =
     (if gget encountered (ste_Host s) \<noteq> Some True
      then s # remove_dup (gput (ste_Host s) True encountered) ss
      else remove_dup encountered ss)"

text \<open>\<open>sort.Slice\<close> is not stable, but the hosts are distinct by then, so there is only one sorted
  order.\<close>

definition removeDupAndSortServices :: "serviceToExpose list \<Rightarrow> serviceToExpose list" where
  "removeDupAndSortServices services = sort_key ste_Host (remove_dup [] services)"

section \<open>Entry point and certificates\<close>

lemma ensureEntrypoint_cases:
  assumes "ensureEntrypoint api e config cl = (Inr entry, cl')"
  obtains (other) ep where "px_Entrypoint (proxy_server config) = Some ep"
      "ep_Type ep \<noteq> EntryPointTypeLoadBalancerService" "entry = []"
  | (balancer) ep lb svc rest where "px_Entrypoint (proxy_server config) = Some ep"
      "ep_Type ep = EntryPointTypeLoadBalancerService" "ep_LoadBalancerService ep = Some lb"
      "ap_get api cl' (''Service'', proxy_namespace config, lb_Name lb) = Inr svc" "so_Ingress svc = entry # rest"
proof -
  obtain ep where ep: "px_Entrypoint (proxy_server config) = Some ep"
    using assms by (cases "px_Entrypoint (proxy_server config)") (simp_all add: ensureEntrypoint_def)
  show thesis
  proof (cases "ep_Type ep = EntryPointTypeLoadBalancerService")
    case False
    then show thesis using other [OF ep] assms ep by (simp add: ensureEntrypoint_def)
  next
    case True
    obtain lb where lb: "ep_LoadBalancerService ep = Some lb"
      using assms ep True by (cases "ep_LoadBalancerService ep") (simp_all add: ensureEntrypoint_def)
    have key: "key_of (lb_service e config lb) = (''Service'', proxy_namespace config, lb_Name lb)"
      by (simp add: key_of_def lb_service_def)
    obtain err c1 where cr: "ap_create api (lb_service e config lb) None cl = (err, c1)" by fastforce
    obtain svc where svc: "ap_get api c1 (''Service'', proxy_namespace config, lb_Name lb) = Inr svc"
      using assms ep True lb cr key
      by (cases "ap_get api c1 (''Service'', proxy_namespace config, lb_Name lb)")
         (auto simp: ensureEntrypoint_def Let_def split: if_splits)
    obtain ip rest where "so_Ingress svc = ip # rest"
      using assms ep True lb cr key svc
      by (cases "so_Ingress svc") (auto simp: ensureEntrypoint_def Let_def split: if_splits)
    then show thesis
      using balancer [OF ep True lb, of svc rest] assms ep True lb cr key svc
      by (auto simp: ensureEntrypoint_def Let_def split: if_splits)
  qed
qed

lemma server_sans_cover:
  assumes "rotations config entry = Inr ros" and "ro \<in> set (take 3 ros)"
  shows "''127.0.0.1'' \<in> set (ro_SANs ro)" and "entry \<noteq> [] \<Longrightarrow> entry \<in> set (ro_SANs ro)"
    and "px_Entrypoint (proxy_server config) = Some ep \<Longrightarrow> ep_Type ep = EntryPointTypeHostname \<Longrightarrow>
      ep_Hostname ep = Some h \<Longrightarrow> hn_Value h \<in> set (ro_SANs ro)"
    and "px_InClusterServiceName (proxy_server config) @ ''.'' @ proxy_namespace config \<in> set (ro_SANs ro)"
proof -
  obtain sans where sans: "server_sans config entry = Inr sans"
    using assms(1) by (cases "server_sans config entry") (simp_all add: rotations_def)
  have ro: "ro_SANs ro = sans"
    using assms sans by (auto simp: rotations_def eval_nat_numeral)
  show "''127.0.0.1'' \<in> set (ro_SANs ro)" and "entry \<noteq> [] \<Longrightarrow> entry \<in> set (ro_SANs ro)"
    and "px_Entrypoint (proxy_server config) = Some ep \<Longrightarrow> ep_Type ep = EntryPointTypeHostname \<Longrightarrow>
      ep_Hostname ep = Some h \<Longrightarrow> hn_Value h \<in> set (ro_SANs ro)"
    and "px_InClusterServiceName (proxy_server config) @ ''.'' @ proxy_namespace config \<in> set (ro_SANs ro)"
    using sans unfolding ro by (auto simp: server_sans_def Let_def split: option.splits if_splits)
qed

lemma value_entry_point:
  assumes "GetClusterProxyValueFunc sha256 hub ca kube cluster addon st = (Inr values, st')"
    and "hr_config hub ''cluster-proxy'' = Inr config"
  shows "\<exists>ep lb host extra. px_Entrypoint (proxy_server config) = Some ep \<and>
    proxyServerLoadBalancer hub config = Inr lb \<and> serviceEntryPoint config ep lb = Inr (host, extra) \<and>
    gget values ''serviceEntryPoint'' = Some (JStr host) \<and>
    gget values ''agentIdentifiers'' = Some (JStr (agentIdentifiers sha256 kube (mc_Name cluster) (agent_namespace addon) []))"
proof -
  obtain lb where lb: "proxyServerLoadBalancer hub config = Inr lb"
    using assms by (cases "proxyServerLoadBalancer hub config") (simp_all add: GetClusterProxyValueFunc_def)
  obtain ep where ep: "px_Entrypoint (proxy_server config) = Some ep"
    using lb by (cases "px_Entrypoint (proxy_server config)") (simp_all add: proxyServerLoadBalancer_def)
  obtain host extra where h: "serviceEntryPoint config ep lb = Inr (host, extra)"
    using assms lb ep by (cases "serviceEntryPoint config ep lb") (auto simp: GetClusterProxyValueFunc_def)
  have "gget values ''serviceEntryPoint'' = Some (JStr host) \<and>
    gget values ''agentIdentifiers'' = Some (JStr (agentIdentifiers sha256 kube (mc_Name cluster) (agent_namespace addon) []))"
    using assms lb ep h
    by (auto simp: GetClusterProxyValueFunc_def GetParsedAgentImage_def Let_def gget_def split: prod.splits)
  then show ?thesis using lb ep h by blast
qed

text \<open>C26. Agents dial an address that the servers' certificates name: for every way of exposing the proxy
  servers, the entry point in the agent's values is among the subject alternative names of the
  certificates the operator rotates for the same configuration (unless the load balancer was given a
  host name only, when its address is empty).\<close>

theorem agent_endpoint_is_certified:
  assumes "ensureEntrypoint api e config cl = (Inr entry, cl')" and "rotations config entry = Inr ros"
    and "hr_config hub ''cluster-proxy'' = Inr config"
    and "\<forall>name. hr_service hub (proxy_namespace config) name = ap_get api cl' (''Service'', proxy_namespace config, name)"
    and "GetClusterProxyValueFunc sha256 hub ca kube cluster addon st = (Inr values, st')"
  shows "\<exists>host. gget values ''serviceEntryPoint'' = Some (JStr host) \<and>
    (host \<noteq> [] \<longrightarrow> (\<forall>ro \<in> set (take 3 ros). host \<in> set (ro_SANs ro)))"
proof -
  obtain ep lb host extra where v: "px_Entrypoint (proxy_server config) = Some ep"
      "proxyServerLoadBalancer hub config = Inr lb" "serviceEntryPoint config ep lb = Inr (host, extra)"
      "gget values ''serviceEntryPoint'' = Some (JStr host)"
    using value_entry_point [OF assms(5,3)] by blast
  have "\<forall>ro \<in> set (take 3 ros). host \<in> set (ro_SANs ro)" if ne: "host \<noteq> []"
  proof
    fix ro assume ro: "ro \<in> set (take 3 ros)"
    from assms(1) show "host \<in> set (ro_SANs ro)"
    proof (cases rule: ensureEntrypoint_cases)
      case (balancer ep' lb' svc rest)
      then have "host = entry"
        using v assms(4) by (auto simp: proxyServerLoadBalancer_def serviceEntryPoint_def split: if_splits)
      then show ?thesis using server_sans_cover(2) [OF assms(2) ro] ne by simp
    next
      case (other ep')
      then show ?thesis
        using v server_sans_cover(1,3,4) [OF assms(2) ro]
        by (cases "ep_Type ep") (auto simp: serviceEntryPoint_def split: option.splits)
    qed
  qed
  then show ?thesis using v(4) by blast
qed

definition example_hub :: hub_reads where
  "example_hub = \<lparr>hr_config = (\<lambda>_. Inr example_config),
     hr_service = (\<lambda>namespace name. ap_get store_api empty_cluster (''Service'', namespace, name)),
     hr_secret = (\<lambda>_ _. Inr [(''tls.crt'', ''cert''), (''tls.key'', ''key'')])\<rparr>"

definition example_cluster :: ManagedCluster where
  "example_cluster = \<lparr>mc_Name = ''c1'', mc_Labels = [], mc_Annotations = [], mc_HubAcceptsClient = True\<rparr>"

definition example_addon :: ManagedClusterAddOn where
  "example_addon = \<lparr>ao_StatusNamespace = ''ns''\<rparr>"

lemma example_values:
  "\<exists>values. GetClusterProxyValueFunc sha256 example_hub ca kube example_cluster example_addon st =
     (Inr values, if st = [] then ''img'' else st)"
  by (simp add: GetClusterProxyValueFunc_def proxyServerLoadBalancer_def serviceEntryPoint_def GetParsedAgentImage_def
      example_hub_def example_config_def Let_def split: prod.split)

lemma example_entrypoint: "ensureEntrypoint store_api (rc_entry example_env) example_config cl = (Inr [], cl)"
  by (simp add: ensureEntrypoint_def example_config_def)

theorem agent_endpoint_is_certified_witness:
  "\<exists>values st' host ros. GetClusterProxyValueFunc (\<lambda>s. s) example_hub ''ca'' True example_cluster example_addon [] = (Inr values, st') \<and>
     gget values ''serviceEntryPoint'' = Some (JStr host) \<and> rotations example_config [] = Inr ros \<and> length ros = 4 \<and>
     (if host \<noteq> [] then list_all (\<lambda>ro. host \<in> set (ro_SANs ro)) (take 3 ros) else True)"
proof -
  obtain vals st' where v: "GetClusterProxyValueFunc (\<lambda>s. s) example_hub ''ca'' True example_cluster example_addon [] = (Inr vals, st')"
    using example_values by blast
  obtain ros where r: "rotations example_config [] = Inr ros" "length ros = 4"
    by (simp add: rotations_def server_sans_def example_config_def)
  have c: "hr_config example_hub ''cluster-proxy'' = Inr example_config"
    and s: "\<forall>name. hr_service example_hub (proxy_namespace example_config) name
      = ap_get store_api empty_cluster (''Service'', proxy_namespace example_config, name)"
    by (simp_all add: example_hub_def)
  show ?thesis
    using agent_endpoint_is_certified [OF example_entrypoint r(1) c s v] v r by (auto simp: list_all_iff)
qed

section \<open>Identifiers of the tunnel\<close>

lemma plain_no_amp: "plain s \<Longrightarrow> CHR ''&'' \<notin> set s"
  by (induction s) (auto simp: plain_Cons is_alnum_code)

text \<open>The agent of a cluster registers in the tunnel under the very host that the user-server dials
  for that cluster, and, as long as the digests of the two names differ in their first 24 bytes, the
  agent of another cluster does not.\<close>

theorem agent_registers_dialed_host:
  assumes "GetClusterProxyValueFunc sha256 hub ca kube cluster addon st = (Inr values, st')"
    and "hr_config hub ''cluster-proxy'' = Inr config"
    and "plain (mc_Name cluster)" and "plain (agent_namespace addon)"
  shows "\<exists>ids host. gget values ''agentIdentifiers'' = Some (JStr ids) \<and>
    url_parse ipl (serviceProxyURL sha256 c) = Inr (empty_url\<lparr>u_scheme := ''https'', u_host := host @ '':7443''\<rparr>) \<and>
    (''host='' @ host \<in> set (split CHR ''&'' ids) \<longleftrightarrow>
       take 24 (sha256 c) = take 24 (sha256 (mc_Name cluster)) \<or>
       (kube \<and> host \<in> {mc_Name cluster, mc_Name cluster @ ''.'' @ agent_namespace addon}))"
proof -
  let ?id = "agentIdentifiers sha256 kube (mc_Name cluster) (agent_namespace addon) []"
  let ?parts = "[''host='' @ GenerateServiceProxyHost sha256 (mc_Name cluster)]
        @ (if kube then [''host='' @ mc_Name cluster, ''host='' @ mc_Name cluster @ ''.'' @ agent_namespace addon] else [])"
  have "split CHR ''&'' ?id = ?parts"
    unfolding agentIdentifiers_def
    using plain_no_amp [OF plain_proxy_host [of sha256 "mc_Name cluster"]] plain_no_amp [OF assms(3)] plain_no_amp [OF assms(4)]
    by (subst split_join) auto
  then have "''host='' @ GenerateServiceProxyHost sha256 c \<in> set (split CHR ''&'' ?id) \<longleftrightarrow>
      take 24 (sha256 c) = take 24 (sha256 (mc_Name cluster)) \<or>
      (kube \<and> GenerateServiceProxyHost sha256 c \<in> {mc_Name cluster, mc_Name cluster @ ''.'' @ agent_namespace addon})"
    using hex_encode_inj by (auto simp: proxy_host_label)
  moreover have "gget values ''agentIdentifiers'' = Some (JStr ?id)"
    using value_entry_point [OF assms(1,2)] by blast
  ultimately show ?thesis using proxy_url_parse [of ipl sha256 c] by blast
qed

theorem agent_registers_dialed_host_witness:
  "\<exists>values st' ids host. GetClusterProxyValueFunc (\<lambda>s. s) example_hub ''ca'' False example_cluster example_addon [] = (Inr values, st') \<and>
     gget values ''agentIdentifiers'' = Some (JStr ids) \<and>
     url_parse Inr (serviceProxyURL (\<lambda>s. s) ''c1'') = Inr (empty_url\<lparr>u_scheme := ''https'', u_host := host @ '':7443''\<rparr>) \<and>
     ''host='' @ host \<in> set (split CHR ''&'' ids)"
proof -
  obtain vals st' where v: "GetClusterProxyValueFunc (\<lambda>s. s) example_hub ''ca'' False example_cluster example_addon [] = (Inr vals, st')"
    using example_values by blast
  have c: "hr_config example_hub ''cluster-proxy'' = Inr example_config" by (simp add: example_hub_def)
  have p: "plain (mc_Name example_cluster)" "plain (agent_namespace example_addon)" "mc_Name example_cluster = ''c1''"
    by (simp_all add: example_cluster_def example_addon_def agent_namespace_def plain_def is_alnum_def is_letter_def
        is_lower_def is_digit_def)
  show ?thesis
    using agent_registers_dialed_host [OF v c p(1,2), of Inr "''c1''"] v p(3) by auto
qed

section \<open>Precedence of values\<close>

lemma MergeValues_other:
  "k \<notin> set (gkeys b) \<Longrightarrow> gget (MergeValues a b) k = gget a k"
proof (induction b arbitrary: a)
  case (Cons p b)
  obtain bk bv where p: "p = (bk, bv)" by (cases p)
  then show ?case using Cons by (simp add: gkeys_def gm.get_put)
qed simp

lemma MergeValues_key:
  assumes "distinct (gkeys b)" and "gget b k = Some v"
  shows "gget (MergeValues a b) k =
    Some (case v of JObj bm \<Rightarrow> (case gget a k of Some (JObj am) \<Rightarrow> JObj (MergeValues am bm) | _ \<Rightarrow> v) | _ \<Rightarrow> v)"
  using assms
proof (induction b arbitrary: a)
  case (Cons p b)
  obtain bk bv where p: "p = (bk, bv)" by (cases p)
  show ?case
  proof (cases "bk = k")
    case True
    with Cons.prems p have "k \<notin> set (gkeys b)" "bv = v" by (auto simp: gkeys_def gget_def)
    then show ?thesis using p True by (simp add: MergeValues_other gm.get_put)
  next
    case False
    with Cons.prems p have "distinct (gkeys b)" "gget b k = Some v" by (auto simp: gkeys_def gget_def)
    from Cons.IH [OF this] show ?thesis using p False by (cases v) (simp_all add: gm.get_put)
  qed
qed simp

lemma variables_fold:
  assumes "distinct (map fst vars)" and "(name, value) \<in> set vars"
  shows "gget (fold (\<lambda>(name, value) m. gput name (JStr value) m) vars m) name = Some (JStr value)"
proof -
  have other: "name \<notin> fst ` set vs \<Longrightarrow>
      gget (fold (\<lambda>(name, value) m. gput name (JStr value) m) vs m) name = gget m name" for vs m
    by (induction vs arbitrary: m) (auto simp: gm.get_put)
  show ?thesis
    using assms
  proof (induction vars arbitrary: m)
    case (Cons p vars)
    obtain k v where p: "p = (k, v)" by (cases p)
    show ?case
    proof (cases "(name, value) = p")
      case True
      then show ?thesis using Cons.prems(1) p other [of vars "gput k (JStr v) m"] by (simp add: gm.get_put)
    next
      case False
      then have "(name, value) \<in> set vars" using Cons.prems(2) by auto
      then show ?thesis using Cons p by simp
    qed
  qed simp
qed

lemma variables_ok: "gmap_ok m \<Longrightarrow> gmap_ok (fold (\<lambda>(name, value) m. gput name (JStr value) m) vars m)"
  by (induction vars arbitrary: m) (auto intro: gm.ok_put)

lemma deployment_values:
  assumes "toAgentAddOnChartValues parseCertsPEM pemEncode ca config = Inr vals"
    and "distinct (map fst (adc_CustomizedVariables config))" and "(name, value) \<in> set (adc_CustomizedVariables config)"
    and "name \<notin> {''nodeSelector'', ''tolerations'', ''proxyConfig'', ''base64EncodedCAData''}"
  shows "gmap_ok vals" and "gget vals name = Some (JStr value)"
proof -
  let ?v = "fold (\<lambda>(name, value) m. gput name (JStr value) m) (adc_CustomizedVariables config) []"
  have v: "gmap_ok ?v" "gget ?v name = Some (JStr value)"
    using variables_ok [of "[]"] variables_fold [OF assms(2,3), of "[]"] by (simp_all add: gmap_ok_def)
  show "gmap_ok vals" "gget vals name = Some (JStr value)"
    using assms(1,4) v
    by (auto simp: toAgentAddOnChartValues_def Let_def gm.get_put gm.ok_put split: option.splits if_splits sum.splits)
qed

lemma MergeValues_ok: "gmap_ok a \<Longrightarrow> gmap_ok (MergeValues a b)"
proof (induction b arbitrary: a)
  case (Cons p b)
  then show ?case by (cases p) (simp add: gm.ok_put)
qed simp

lemma MergeValues_str:
  assumes "gmap_ok b" and "gget b k = Some (JStr v)"
  shows "gget (MergeValues a b) k = Some (JStr v)"
  using MergeValues_key [of b k "JStr v" a] assms by (simp add: gmap_ok_def gkeys_def)

lemma merge_from_last:
  assumes "merge_from Inr acc (fs @ [\<lambda>st. (last_f, st)]) st = ((None, vals), st')"
  shows "\<exists>acc' new. last_f = Inr new \<and> vals = MergeValues acc' new"
  using assms
proof (induction fs arbitrary: acc st)
  case Nil
  then show ?case by (cases last_f) auto
next
  case (Cons f fs)
  obtain r st1 where f: "f st = (r, st1)" by fastforce
  then show ?case using Cons by (cases r) auto
qed

text \<open>What an administrator sets in the deployment configuration of the add-on overrides what the hub
  computes: a customized variable has its value in the chart, whatever the configuration of the
  proxy, the images or the certificates are.\<close>

theorem customized_variable_wins:
  assumes "NewAgentAddon e pem caData ns kube svc netpol = Inr aa" and "ae_jsonStructToValues e = Inr"
    and "ae_desired e addon = Inr (Some config)" and "ae_resources e config = Inr rs" and "name \<notin> set (gkeys rs)"
    and "aa_Values aa cluster addon st = ((None, vals), st')"
    and "distinct (map fst (adc_CustomizedVariables config))" and "(name, value) \<in> set (adc_CustomizedVariables config)"
    and "name \<notin> {''nodeSelector'', ''tolerations'', ''proxyConfig'', ''base64EncodedCAData''}"
  shows "gget vals name = Some (JStr value)"
proof -
  obtain cert key where pem: "pem = Inr (cert, key)"
    using assms(1) by (cases pem) (auto simp: NewAgentAddon_def split: option.splits)
  let ?f = "toAgentAddOnChartValues (ae_parseCertsPEM e) (ae_pemEncode e) cert"
  let ?last = "GetAddOnDeploymentConfigValues (ae_desired e addon) [?f, ae_resources e]"
  have "merge_from Inr [] ([GetClusterProxyValueFunc (ae_sha256 e) (ae_hub e) cert kube cluster addon,
      \<lambda>st. (GetClusterProxyAdditionalValueFunc (ae_additional e) (ae_hub e) ns svc netpol cluster st, st)]
      @ [\<lambda>st. (?last, st)]) st = ((None, vals), st')"
    using assms(1,2,6) pem by (auto simp: NewAgentAddon_def mergeAndNormalizeValuesFuncs_def split: option.splits)
  then obtain acc new where new: "?last = Inr new" "vals = MergeValues acc new"
    using merge_from_last by blast
  obtain v where v: "?f config = Inr v"
    using new(1) assms(3) by (cases "?f config") (simp_all add: GetAddOnDeploymentConfigValues_def)
  have "new = MergeValues (MergeValues [] v) rs"
    using new(1) assms(3,4) v by (simp add: GetAddOnDeploymentConfigValues_def)
  moreover have "gget (MergeValues [] v) name = Some (JStr value)"
    using deployment_values [OF v assms(7-9)] by (rule MergeValues_str)
  ultimately have "gget new name = Some (JStr value)" "gmap_ok new"
    using assms(5) by (simp_all add: MergeValues_other MergeValues_ok gmap_ok_def [of "[]"])
  then show ?thesis using MergeValues_str new(2) by blast
qed

definition example_addon_env :: addon_env where
  "example_addon_env = \<lparr>ae_sha256 = (\<lambda>s. s), ae_hub = example_hub,
     ae_additional = \<lparr>ad_overrideImage = (\<lambda>_ img. Inr img), ad_unmarshal = (\<lambda>_. Inr [])\<rparr>,
     ae_parseCertsPEM = (\<lambda>s. Inr [s]), ae_pemEncode = (\<lambda>s. s), ae_jsonStructToValues = Inr,
     ae_sign = (\<lambda>_ _ csr. Inr (csr_Request csr)),
     ae_desired = (\<lambda>_. Inr (Some \<lparr>adc_CustomizedVariables = [(''serviceDomain'', ''svc.example'')],
       adc_NodePlacement = None, adc_HTTPProxy = [], adc_HTTPSProxy = [], adc_NoProxy = [], adc_CABundle = [],
       adc_AgentInstallNamespace = []\<rparr>)),
     ae_resources = (\<lambda>_. Inr []), ae_build = None\<rparr>"

lemma example_addon_values:
  assumes "NewAgentAddon example_addon_env (Inr (''ca'', ''key'')) ''ca'' ''ns'' True True False = Inr aa"
  shows "\<exists>vals. aa_Values aa example_cluster example_addon [] = ((None, vals), ''img'')"
proof -
  obtain v1 where v1: "GetClusterProxyValueFunc (\<lambda>s. s) example_hub ''ca'' True example_cluster example_addon [] = (Inr v1, ''img'')"
    using example_values [of "\<lambda>s. s" "''ca''" True "[]"] by auto
  show ?thesis
    using assms v1
    by (auto simp: NewAgentAddon_def example_addon_env_def mergeAndNormalizeValuesFuncs_def
        GetClusterProxyAdditionalValueFunc_def getNodeSelector_def IsClusterSelfManaged_def example_cluster_def
        getServerCertificatesFromSecret_def example_hub_def gget_def GetAddOnDeploymentConfigValues_def
        toAgentAddOnChartValues_def has_prefix_def Let_def split: prod.splits)
qed

theorem customized_variable_wins_witness:
  "\<exists>aa vals. NewAgentAddon example_addon_env (Inr (''ca'', ''key'')) ''ca'' ''ns'' True True False = Inr aa \<and>
     aa_Values aa example_cluster example_addon [] = ((None, vals), ''img'') \<and>
     gget vals ''serviceDomain'' = Some (JStr ''svc.example'')"
proof -
  obtain aa where aa: "NewAgentAddon example_addon_env (Inr (''ca'', ''key'')) ''ca'' ''ns'' True True False = Inr aa"
    by (simp add: NewAgentAddon_def example_addon_env_def)
  obtain vals where v: "aa_Values aa example_cluster example_addon [] = ((None, vals), ''img'')"
    using example_addon_values [OF aa] by blast
  let ?config = "\<lparr>adc_CustomizedVariables = [(''serviceDomain'', ''svc.example'')],
       adc_NodePlacement = None, adc_HTTPProxy = [], adc_HTTPSProxy = [], adc_NoProxy = [], adc_CABundle = [],
       adc_AgentInstallNamespace = []\<rparr>"
  have "gget vals ''serviceDomain'' = Some (JStr ''svc.example'')"
    by (rule customized_variable_wins [OF aa _ _ _ _ v, where config = ?config and rs = "[]"])
       (simp_all add: example_addon_env_def gkeys_def)
  then show ?thesis using aa v by blast
qed

section \<open>Images, bundles and exposed services\<close>

lemma split_append: "split c (a @ c # b) = split c a @ split c b"
proof (induction a)
  case (Cons x a)
  then show ?case by (cases "split c a") auto
qed simp

text \<open>An image reference of a registry (of any depth, with or without a port), a name and a tag is
  taken apart into exactly these; without a tag it is \<open>latest\<close>.\<close>

theorem image_parse_roundtrip:
  assumes "CHR ''/'' \<notin> set name" and "CHR ''/'' \<notin> set tag" and "CHR '':'' \<notin> set name" and "CHR '':'' \<notin> set tag"
  shows "ParseImage (registry @ ''/'' @ name @ '':'' @ tag) = (registry, name, tag) \<and>
    ParseImage (registry @ ''/'' @ name) = (registry, name, ''latest'') \<and>
    ParseImage (name @ '':'' @ tag) = ([], name, tag)"
proof -
  have "split CHR ''/'' (name @ '':'' @ tag) = [name @ '':'' @ tag]" "split CHR ''/'' name = [name]"
    "split CHR '':'' (name @ '':'' @ tag) = [name, tag]" "split CHR '':'' name = [name]"
    using assms by (simp_all add: split_append_sep)
  then show ?thesis
    using split_append [of "CHR ''/''" registry name] split_append [of "CHR ''/''" registry "name @ '':'' @ tag"]
    by (simp add: ParseImage_def butlast_append)
qed

theorem image_parse_roundtrip_witness:
  "ParseImage (''quay.io:443/ocm'' @ ''/'' @ ''cluster-proxy'' @ '':'' @ ''v0.9'') = (''quay.io:443/ocm'', ''cluster-proxy'', ''v0.9'')"
  using image_parse_roundtrip [of "''cluster-proxy''" "''v0.9''" "''quay.io:443/ocm''"] by simp

text \<open>A reference with a tag and a digest loses the tag and the digest's algorithm.\<close>

theorem tag_and_digest_lost:
  assumes "CHR ''/'' \<notin> set (name @ tag @ alg @ digest)" and "CHR '':'' \<notin> set (name @ tag @ alg @ digest)"
  shows "ParseImage (registry @ ''/'' @ name @ '':'' @ tag @ ''@'' @ alg @ '':'' @ digest) = (registry, name, digest)"
proof -
  have "split CHR '':'' (name @ '':'' @ (tag @ ''@'' @ alg) @ '':'' @ digest) = [name, tag @ ''@'' @ alg, digest]"
    using assms(2) split_append_sep [of "CHR '':''" name] split_append_sep [of "CHR '':''" "tag @ ''@'' @ alg" digest]
    by simp
  moreover have "split CHR ''/'' (name @ '':'' @ (tag @ ''@'' @ alg) @ '':'' @ digest)
      = [name @ '':'' @ (tag @ ''@'' @ alg) @ '':'' @ digest]"
    using assms(1) by (intro split_no_sep) auto
  ultimately show ?thesis
    using split_append [of "CHR ''/''" registry "name @ '':'' @ (tag @ ''@'' @ alg) @ '':'' @ digest"]
    by (simp add: ParseImage_def butlast_append)
qed

text \<open>The add-on agent's image is pinned to the first configuration seen: after one rendering of the
  values, a change of the configured image changes \<open>proxyAgentImage\<close> but not the registry, name and tag
  that the chart uses for the add-on agent, for as long as the process runs.\<close>

theorem agent_image_is_pinned:
  assumes "GetClusterProxyValueFunc sha256 hub1 ca kube cluster addon [] = (Inr vals1, st)"
    and "hr_config hub1 ''cluster-proxy'' = Inr config1" and "pa_Image (spec_ProxyAgent (mpc_Spec config1)) \<noteq> []"
    and "GetClusterProxyValueFunc sha256 hub2 ca kube cluster2 addon2 st = (Inr vals2, st')"
    and "hr_config hub2 ''cluster-proxy'' = Inr config2"
  shows "st' = st \<and> (\<exists>registry name tag.
      ParseImage (pa_Image (spec_ProxyAgent (mpc_Spec config1))) = (registry, name, tag) \<and>
      gget vals2 ''registry'' = Some (JStr registry) \<and> gget vals2 ''image'' = Some (JStr name) \<and>
      gget vals2 ''tag'' = Some (JStr tag)) \<and>
    gget vals2 ''proxyAgentImage'' = Some (JStr (pa_Image (spec_ProxyAgent (mpc_Spec config2))))"
proof -
  have st: "st = pa_Image (spec_ProxyAgent (mpc_Spec config1))"
    using assms(1,2) by (auto simp: GetClusterProxyValueFunc_def GetParsedAgentImage_def Let_def
        split: sum.splits prod.splits)
  obtain registry name tag where p: "ParseImage st = (registry, name, tag)" by (cases "ParseImage st")
  have "GetParsedAgentImage img st = ((registry, name, tag), st)" for img
    using assms(3) st p by (simp add: GetParsedAgentImage_def)
  then show ?thesis
    using assms(4,5) p st
    by (auto simp: GetClusterProxyValueFunc_def Let_def gget_def split: sum.splits)
qed

theorem agent_image_is_pinned_witness:
  "\<exists>vals2. GetClusterProxyValueFunc (\<lambda>s. s)
      (example_hub\<lparr>hr_config := (\<lambda>_. Inr (example_config\<lparr>mpc_Spec := (mpc_Spec example_config)
         \<lparr>spec_ProxyAgent := (spec_ProxyAgent (mpc_Spec example_config))\<lparr>pa_Image := ''new:2''\<rparr>\<rparr>\<rparr>))\<rparr>)
      ''ca'' True example_cluster example_addon ''img'' = (Inr vals2, ''img'') \<and>
     gget vals2 ''image'' = Some (JStr ''img'') \<and> gget vals2 ''proxyAgentImage'' = Some (JStr ''new:2'')"
proof -
  let ?config2 = "example_config\<lparr>mpc_Spec := (mpc_Spec example_config)
         \<lparr>spec_ProxyAgent := (spec_ProxyAgent (mpc_Spec example_config))\<lparr>pa_Image := ''new:2''\<rparr>\<rparr>\<rparr>"
  let ?hub2 = "example_hub\<lparr>hr_config := (\<lambda>_. Inr ?config2)\<rparr>"
  obtain vals1 where v1: "GetClusterProxyValueFunc (\<lambda>s. s) example_hub ''ca'' True example_cluster example_addon [] = (Inr vals1, ''img'')"
    using example_values [of "\<lambda>s. s" "''ca''" True "[]"] by auto
  have "\<exists>vals2 st'. GetClusterProxyValueFunc (\<lambda>s. s) ?hub2 ''ca'' True example_cluster example_addon ''img'' = (Inr vals2, st')"
    by (simp add: GetClusterProxyValueFunc_def proxyServerLoadBalancer_def serviceEntryPoint_def GetParsedAgentImage_def
      example_hub_def example_config_def Let_def split: prod.split)
  then obtain vals2 st' where v2: "GetClusterProxyValueFunc (\<lambda>s. s) ?hub2 ''ca'' True example_cluster example_addon ''img'' = (Inr vals2, st')"
    by blast
  have c: "hr_config example_hub ''cluster-proxy'' = Inr example_config" "hr_config ?hub2 ''cluster-proxy'' = Inr ?config2"
    "pa_Image (spec_ProxyAgent (mpc_Spec example_config)) = ''img''"
    by (simp_all add: example_hub_def example_config_def)
  have "ParseImage ''img'' = ([], ''img'', ''latest'')" by (simp add: ParseImage_def)
  then show ?thesis
    using agent_image_is_pinned [OF v1 c(1) _ v2 c(2)] c(3) v2 by simp
qed

lemma merge_certs_spec:
  "distinct merged \<Longrightarrow> distinct (merge_certs merged cs) \<and> set (merge_certs merged cs) = set merged \<union> set cs"
  by (induction cs arbitrary: merged) (auto simp: list_ex_iff)

lemma parse_bundles_spec:
  "parse_bundles parseCertsPEM bs = Inr all \<Longrightarrow>
   set all = (\<Union>b \<in> {b \<in> set bs. b \<noteq> []}. case parseCertsPEM b of Inl _ \<Rightarrow> {} | Inr certs \<Rightarrow> set certs)"
proof (induction bs arbitrary: all)
  case (Cons b bs)
  show ?case
  proof (cases "b = []")
    case True
    then have "{x \<in> set (b # bs). x \<noteq> []} = {x \<in> set bs. x \<noteq> []}" by auto
    then show ?thesis using Cons True by simp
  next
    case False
    then have "{x \<in> set (b # bs). x \<noteq> []} = insert b {x \<in> set bs. x \<noteq> []}" by auto
    moreover obtain certs rest where "parseCertsPEM b = Inr certs" "parse_bundles parseCertsPEM bs = Inr rest"
        "all = certs @ rest"
      using Cons.prems False by (auto split: sum.splits)
    ultimately show ?thesis using Cons.IH by simp
  qed
qed simp

text \<open>Behind an https proxy the agents get a CA bundle that has every certificate of the proxy's bundle
  and of the hub's signer, each of them once.\<close>

theorem merged_bundle_complete:
  assumes "MergeCertificateData parseCertsPEM pemEncode bundles = Inr data"
  shows "\<exists>certs. data = concat (map pemEncode certs) \<and> distinct certs \<and>
    set certs = (\<Union>b \<in> {b \<in> set bundles. b \<noteq> []}. case parseCertsPEM b of Inl _ \<Rightarrow> {} | Inr cs \<Rightarrow> set cs)"
proof -
  obtain all where all: "parse_bundles parseCertsPEM bundles = Inr all"
    and data: "data = concat (map pemEncode (merge_certs [] all))"
    using assms by (auto simp: MergeCertificateData_def split: sum.splits)
  then show ?thesis
    using merge_certs_spec [of "[]" all] parse_bundles_spec [OF all] by auto
qed

theorem merged_bundle_complete_witness:
  "\<exists>certs. distinct certs \<and> set certs = {''A'', ''B''} \<and>
     MergeCertificateData (\<lambda>s. Inr (map (\<lambda>c. [c]) s)) (\<lambda>c. c) [''AB'', [], ''BA''] = Inr (concat (map (\<lambda>c. c) certs))"
proof -
  have m: "MergeCertificateData (\<lambda>s. Inr (map (\<lambda>c. [c]) s)) (\<lambda>c. c) [''AB'', [], ''BA''] = Inr ''AB''"
    by (simp add: MergeCertificateData_def)
  from merged_bundle_complete [OF m] obtain certs where c: "''AB'' = concat (map (\<lambda>c. c) certs)" "distinct certs"
    "set certs = (\<Union>b \<in> {b \<in> set [''AB'', [], ''BA'']. b \<noteq> []}. case (Inr (map (\<lambda>c. [c]) b) :: string + string list) of Inl _ \<Rightarrow> {} | Inr cs \<Rightarrow> set cs)"
    by blast
  have "{b \<in> set [''AB'', [], ''BA'']. b \<noteq> []} = {''AB'', ''BA''}" by auto
  then have "set certs = {''A'', ''B''}" using c(3) by auto
  then show ?thesis using c m by auto
qed

lemma remove_dup_spec:
  "(\<forall>s \<in> set (remove_dup enc ss). s \<in> set ss \<and> gget enc (ste_Host s) \<noteq> Some True) \<and>
   distinct (map ste_Host (remove_dup enc ss)) \<and>
   ste_Host ` set (remove_dup enc ss) = {h \<in> ste_Host ` set ss. gget enc h \<noteq> Some True}"
proof (induction ss arbitrary: enc)
  case (Cons s ss)
  show ?case
  proof (cases "gget enc (ste_Host s) = Some True")
    case True
    then show ?thesis using Cons [of enc] by auto
  next
    case False
    then show ?thesis using Cons [of "gput (ste_Host s) True enc"]
      by (auto simp: gm.get_put split: if_splits)
  qed
qed simp

text \<open>The exposed services are listed by host in strictly increasing order, every host exactly once, and
  each entry is one that was given.\<close>

theorem exposed_services_sorted:
  "sorted_wrt (<) (map ste_Host (removeDupAndSortServices services)) \<and>
   ste_Host ` set (removeDupAndSortServices services) = ste_Host ` set services \<and>
   set (removeDupAndSortServices services) \<subseteq> set services"
proof -
  have "sorted (map ste_Host (removeDupAndSortServices services))"
    by (simp add: removeDupAndSortServices_def)
  moreover have "distinct (map ste_Host (removeDupAndSortServices services))"
    using remove_dup_spec [of "[]" services]
    by (simp add: removeDupAndSortServices_def distinct_map)
  ultimately show ?thesis
    using remove_dup_spec [of "[]" services]
    by (auto simp: strict_sorted_iff removeDupAndSortServices_def)
qed

end
