(* ===== verification/Certificates.thy ===== *)
theory Certificates
  imports Agent_Addon
begin

text \<open>
  The signer of the add-on and its secret
  (pkg/proxyserver/operator/authentication/selfsigned), the client side of the tunnel's TLS
  (pkg/util/secrets.go) and the controller that keeps the certificate of the service-proxy
  (pkg/controllers/certcontroller.go). Key generation, PEM, PKCS #8 and X.509 are parameters, with
  the round trips that are relied on as hypotheses (\<open>crypto_ok\<close>); the API server is the one of
  \<open>Proxy_Reconciler\<close>, with what other processes do between two calls as an argument.
\<close>

section \<open>The signer\<close>

record crypto_env =
  cy_pemEncode :: "string \<Rightarrow> string \<Rightarrow> string"
  cy_pemDecode :: "string \<Rightarrow> string option"
  cy_parseCertificate :: "string \<Rightarrow> string + int"
  cy_marshalPKCS8 :: "string \<Rightarrow> string + string"
  cy_parsePKCS8 :: "string \<Rightarrow> string + bool \<times> string"

text \<open>A certificate is its raw form; parsing it gives the serial number. A parsed key comes with
  whether it is an RSA key.\<close>

datatype signer_error =
    SecretRead api_error
  | OwnerUpdate api_error
  | GenerateFailed string
  | MarshalFailed string
  | DumpFailed api_error
  | ParseCaCert string
  | ParseCaKey string
  | SignerPanic string
  | StillRacing

record selfSigner =
  sg_caCert :: string
  sg_caKey :: string
  sg_nextSerial :: int

definition TLSCACert :: string where
  "TLSCACert = ''ca.crt''"

definition TLSCAKey :: string where
  "TLSCAKey = ''ca.key''"

definition hasOwnerReference :: "OwnerReference list \<Rightarrow> OwnerReference \<Rightarrow> bool" where
  "hasOwnerReference refs target = list_ex (\<lambda>ref. or_UID ref = or_UID target) refs"

definition NewSelfSignerWithCA :: "string \<Rightarrow> string \<Rightarrow> int \<Rightarrow> selfSigner" where
  "NewSelfSignerWithCA caCert caKey nextSerial =
     \<lparr>sg_caCert = caCert, sg_caKey = caKey, sg_nextSerial = nextSerial\<rparr>"

text \<open>\<open>pem.Decode\<close> returns nil for data without a block, and the code reads the block; the key is
  asserted to be an RSA key.\<close>

definition NewSelfSignerWithCAData :: "crypto_env \<Rightarrow> string \<Rightarrow> string \<Rightarrow> signer_error + selfSigner" where
  "NewSelfSignerWithCAData cy caCertData caKeyData =
     (case cy_pemDecode cy caCertData of
        None \<Rightarrow> Inl (SignerPanic ''nil certificate block'')
      | Some certBlock \<Rightarrow>
     (case cy_parseCertificate cy certBlock of
        Inl err \<Rightarrow> Inl (ParseCaCert err)
      | Inr serialNumber \<Rightarrow>
     (case cy_pemDecode cy caKeyData of
        None \<Rightarrow> Inl (SignerPanic ''nil key block'')
      | Some keyBlock \<Rightarrow>
     (case cy_parsePKCS8 cy keyBlock of
        Inl err \<Rightarrow> Inl (ParseCaKey err)
      | Inr (isRSA, caKey) \<Rightarrow>
          if isRSA then Inr (NewSelfSignerWithCA certBlock caKey (serialNumber + 1))
          else Inl (SignerPanic ''not an RSA key'')))))"

text \<open>\<open>generated\<close> is what the key generation and the self-signing give: the raw certificate and
  the key.\<close>

definition NewGeneratedSelfSigner :: "string + string \<times> string \<Rightarrow> string + selfSigner" where
  "NewGeneratedSelfSigner generated =
     (case generated of
        Inl err \<Rightarrow> Inl err
      | Inr (caCert, privateKey) \<Rightarrow> Inr (NewSelfSignerWithCA caCert privateKey 1))"

definition CAData :: "crypto_env \<Rightarrow> selfSigner \<Rightarrow> string" where
  "CAData cy s = cy_pemEncode cy ''CERTIFICATE'' (sg_caCert s)"

definition ca_secret :: "string \<Rightarrow> string \<Rightarrow> string \<Rightarrow> string \<Rightarrow> OwnerReference option \<Rightarrow> k8s_object" where
  "ca_secret namespace name caCertData caKeyData ownerRef =
     \<lparr>ob_Kind = ''Secret'',
      ob_Meta = \<lparr>om_Namespace = namespace, om_Name = name,
        om_OwnerReferences = (case ownerRef of None \<Rightarrow> [] | Some r \<Rightarrow> [r]), om_Labels = [], om_Annotations = []\<rparr>,
      ob_Spec = SecretSpec [(TLSCACert, caCertData), (TLSCAKey, caKeyData)]\<rparr>"

definition DumpCASecret ::
  "'c api \<Rightarrow> string \<Rightarrow> string \<Rightarrow> string \<Rightarrow> string \<Rightarrow> OwnerReference option \<Rightarrow> 'c \<Rightarrow> (api_error + bool) \<times> 'c" where
  "DumpCASecret api namespace name caCertData caKeyData ownerRef cl =
     (case ap_create api (ca_secret namespace name caCertData caKeyData ownerRef) None cl of
        (Some ApiAlreadyExists, cl) \<Rightarrow> (Inr True, cl)
      | (Some err, cl) \<Rightarrow> (Inl err, cl)
      | (None, cl) \<Rightarrow> (Inr False, cl))"

definition secret_data :: "object_spec \<Rightarrow> (string, string) gmap" where
  "secret_data sp = (case sp of SecretSpec d \<Rightarrow> d | _ \<Rightarrow> [])"

text \<open>The secret exists: its owner is set if it is missing, and the signer is made from its data.
  \<open>before_write\<close> is what other processes do between the read and the update.\<close>

definition signer_from_secret ::
  "crypto_env \<Rightarrow> 'c api \<Rightarrow> OwnerReference option \<Rightarrow> ('c \<Rightarrow> 'c) \<Rightarrow> stored \<Rightarrow> 'c \<Rightarrow> (signer_error + selfSigner) \<times> 'c" where
  "signer_from_secret cy api ownerRef before_write caSecret cl =
     (let q = so_Object caSecret;
          data = secret_data (ob_Spec q);
          signer = NewSelfSignerWithCAData cy (annotation data TLSCACert) (annotation data TLSCAKey)
      in case ownerRef of
           None \<Rightarrow> (signer, cl)
         | Some r \<Rightarrow>
             if hasOwnerReference (om_OwnerReferences (ob_Meta q)) r then (signer, cl)
             else (case ap_update api (q\<lparr>ob_Meta := (ob_Meta q)\<lparr>om_OwnerReferences := [r]\<rparr>\<rparr>)
                          (Some (so_Version caSecret)) (before_write cl) of
                     (Some err, cl) \<Rightarrow> (Inl (OwnerUpdate err), cl)
                   | (None, cl) \<Rightarrow> (signer, cl)))"

text \<open>
  One element of \<open>attempts\<close> per call of \<open>NewSelfSignerFromSecretOrGenerate\<close>: what other
  processes do before the read and before the write that follows it (the update of the owner or the
  creation), and what is generated in between. The
  function calls itself when another process created the secret first; \<open>StillRacing\<close> is a run of
  which no more attempts are given.
\<close>

type_synonym 'c signer_attempt = "('c \<Rightarrow> 'c) \<times> ('c \<Rightarrow> 'c) \<times> (string + string \<times> string)"

fun NewSelfSignerFromSecretOrGenerate ::
  "crypto_env \<Rightarrow> 'c api \<Rightarrow> string \<Rightarrow> string \<Rightarrow> OwnerReference option \<Rightarrow> 'c signer_attempt list \<Rightarrow> 'c
     \<Rightarrow> (signer_error + selfSigner) \<times> 'c" where
  "NewSelfSignerFromSecretOrGenerate cy api ns name ownerRef [] cl = (Inl StillRacing, cl)"
| "NewSelfSignerFromSecretOrGenerate cy api ns name ownerRef ((before_get, before_write, generated) # attempts) cl =
     (let cl = before_get cl in
      case ap_get api cl (''Secret'', ns, name) of
        Inr caSecret \<Rightarrow> signer_from_secret cy api ownerRef before_write caSecret cl
      | Inl err \<Rightarrow>
          if err \<noteq> ApiNotFound then (Inl (SecretRead err), cl)
          else
            (case NewGeneratedSelfSigner generated of
               Inl err \<Rightarrow> (Inl (GenerateFailed err), cl)
             | Inr generatedSigner \<Rightarrow>
                 (case cy_marshalPKCS8 cy (sg_caKey generatedSigner) of
                    Inl err \<Rightarrow> (Inl (MarshalFailed err), cl)
                  | Inr rawKeyData \<Rightarrow>
                      (case DumpCASecret api ns name (CAData cy generatedSigner)
                              (cy_pemEncode cy ''PRIVATE KEY'' rawKeyData) ownerRef (before_write cl) of
                         (Inl err, cl) \<Rightarrow> (Inl (DumpFailed err), cl)
                       | (Inr False, cl) \<Rightarrow> (Inr generatedSigner, cl)
                       | (Inr True, cl) \<Rightarrow>
                           NewSelfSignerFromSecretOrGenerate cy api ns name ownerRef attempts cl))))"

section \<open>Signing\<close>

record cert_config =
  cc_CommonName :: string
  cc_Organization :: "string list"
  cc_DNSNames :: "string list"
  cc_IPs :: "string list"
  cc_Usages :: "string list"

record cert_template =
  ct_Config :: cert_config
  ct_SerialNumber :: int
  ct_NotBefore :: int
  ct_NotAfter :: int

text \<open>\<open>newKey\<close> is a generated key and \<open>createCertificate\<close> signs a template; the counter is shared
  by all copies of the signer.\<close>

definition Sign ::
  "string + string \<Rightarrow> (cert_template \<Rightarrow> string \<Rightarrow> string + string) \<Rightarrow> (string \<Rightarrow> string + int) \<Rightarrow> int \<Rightarrow> cert_config \<Rightarrow> int
     \<Rightarrow> selfSigner \<Rightarrow> (string + string \<times> string) \<times> selfSigner" where
  "Sign newKey createCertificate parseCertificate now cfg expiry s =
     (case newKey of
        Inl err \<Rightarrow> (Inl (''unable to create private key: '' @ err), s)
      | Inr key \<Rightarrow>
          (let serial = sg_nextSerial s;
               s = s\<lparr>sg_nextSerial := sg_nextSerial s + 1\<rparr>;
               template = \<lparr>ct_Config = cfg, ct_SerialNumber = serial, ct_NotBefore = now, ct_NotAfter = now + expiry\<rparr>
           in case createCertificate template key of
                Inl err \<Rightarrow> (Inl (''unable to create certificate: '' @ err), s)
              | Inr certRaw \<Rightarrow>
                  (case parseCertificate certRaw of
                     Inl err \<Rightarrow> (Inl (''generated invalid certificate, could not parse: '' @ err), s)
                   | Inr _ \<Rightarrow> (Inr (key, certRaw), s))))"

definition AsBytes :: "crypto_env \<Rightarrow> string \<times> string \<Rightarrow> string + string \<times> string" where
  "AsBytes cy k =
     (case cy_marshalPKCS8 cy (fst k) of
        Inl err \<Rightarrow> Inl (''unable to encode private key: '' @ err)
      | Inr rawKeyData \<Rightarrow> Inr (cy_pemEncode cy ''CERTIFICATE'' (snd k), cy_pemEncode cy ''PRIVATE KEY'' rawKeyData))"

section \<open>The TLS client of the tunnel\<close>

definition inClusterSecretProxyCA :: string where
  "inClusterSecretProxyCA = ''proxy-server-ca''"

definition inClusterSecretClient :: string where
  "inClusterSecretClient = ''proxy-client''"

record tls_client =
  tc_RootCAs :: string
  tc_MinVersion :: nat
  tc_Certificate :: "string \<times> string"
  tc_ServerName :: string
  tc_NextProtos :: "string list"

datatype tls_error = CaSecret api_error | CertSecret api_error | ParsingCA string | KeyPair string

definition buildTLSConfig ::
  "(string \<Rightarrow> string option) \<Rightarrow> (string \<Rightarrow> string \<Rightarrow> string option) \<Rightarrow> string \<Rightarrow> string \<Rightarrow> string \<Rightarrow> string \<Rightarrow> string list
     \<Rightarrow> tls_error + tls_client" where
  "buildTLSConfig newPool x509KeyPair caData certData keyData serverName protos =
     (case newPool caData of
        Some err \<Rightarrow> Inl (ParsingCA err)
      | None \<Rightarrow>
          (case x509KeyPair certData keyData of
             Some err \<Rightarrow> Inl (KeyPair err)
           | None \<Rightarrow> Inr \<lparr>tc_RootCAs = caData, tc_MinVersion = 0x0303, tc_Certificate = (certData, keyData),
               tc_ServerName = serverName, tc_NextProtos = protos\<rparr>))"

definition GetKonnectivityTLSConfig ::
  "(string \<Rightarrow> string option) \<Rightarrow> (string \<Rightarrow> string \<Rightarrow> string option)
     \<Rightarrow> (string \<Rightarrow> string \<Rightarrow> api_error + (string, string) gmap) \<Rightarrow> ManagedProxyConfiguration \<Rightarrow> tls_error + tls_client" where
  "GetKonnectivityTLSConfig newPool x509KeyPair getSecret proxyConfig =
     (case getSecret (proxy_namespace proxyConfig) inClusterSecretProxyCA of
        Inl err \<Rightarrow> Inl (CaSecret err)
      | Inr caSecret \<Rightarrow>
     (case getSecret (proxy_namespace proxyConfig) inClusterSecretClient of
        Inl err \<Rightarrow> Inl (CertSecret err)
      | Inr certSecret \<Rightarrow>
          buildTLSConfig newPool x509KeyPair (annotation caSecret ''ca.crt'') (annotation certSecret ''tls.crt'')
            (annotation certSecret ''tls.key'')
            (px_InClusterServiceName (proxy_server proxyConfig) @ ''.'' @ proxy_namespace proxyConfig) []))"

section \<open>The certificate of the service-proxy\<close>

definition server_cert_HostNames :: "string list" where
  "server_cert_HostNames = [''*'', ''localhost'', ''127.0.0.1'', ''*.open-cluster-management.proxy'']"

definition signer_secret_event :: "string \<Rightarrow> string \<Rightarrow> string \<Rightarrow> string \<Rightarrow> bool" where
  "signer_secret_event signerName signerNamespace name namespace \<longleftrightarrow>
     name = signerName \<and> namespace = signerNamespace"

datatype cert_error = SignerSecretGet api_error | BadCA string | RotateFailed string

definition cert_Reconcile ::
  "(string \<Rightarrow> string \<Rightarrow> api_error + (string, string) gmap) \<Rightarrow> (string \<Rightarrow> string \<Rightarrow> string + string list \<times> string)
     \<Rightarrow> 'c ensure_cert \<Rightarrow> string \<Rightarrow> string \<Rightarrow> string \<Rightarrow> 'c \<Rightarrow> cert_error option \<times> 'c" where
  "cert_Reconcile getSecret getCAFromBytes ensureCert certNamespace signerName signerNamespace cl =
     (case getSecret signerNamespace signerName of
        Inl err \<Rightarrow> (Some (SignerSecretGet err), cl)
      | Inr data \<Rightarrow>
     (case getCAFromBytes (annotation data ''ca.crt'') (annotation data ''ca.key'') of
        Inl err \<Rightarrow> (Some (BadCA err), cl)
      | Inr ca \<Rightarrow>
     (case ensureCert ca (fst ca) \<lparr>ro_Namespace = certNamespace, ro_Name = ServerCertSecretName, ro_SANs = server_cert_HostNames,
             ro_ClientAuth = False, ro_Failure = []\<rparr> cl of
        (Some err, cl) \<Rightarrow> (Some (RotateFailed err), cl)
      | (None, cl) \<Rightarrow> (None, cl))))"

section \<open>Properties of the signer\<close>

text \<open>What is relied on of PEM, PKCS #8 and X.509.\<close>

definition crypto_ok :: "crypto_env \<Rightarrow> bool" where
  "crypto_ok cy \<longleftrightarrow>
     (\<forall>t b. cy_pemDecode cy (cy_pemEncode cy t b) = Some b) \<and> cy_pemDecode cy [] = None \<and>
     (\<forall>k raw. cy_marshalPKCS8 cy k = Inr raw \<longrightarrow> cy_parsePKCS8 cy raw = Inr (True, k))"

text \<open>The CA survives a restart: the signer that is read back from the secret a generated signer was
  dumped to has the same certificate and key.\<close>

theorem signer_roundtrip:
  assumes "crypto_ok cy" and "cy_marshalPKCS8 cy (sg_caKey s) = Inr raw" and "cy_parseCertificate cy (sg_caCert s) = Inr serial"
  shows "NewSelfSignerWithCAData cy (CAData cy s) (cy_pemEncode cy ''PRIVATE KEY'' raw) =
    Inr (s\<lparr>sg_nextSerial := serial + 1\<rparr>)"
  using assms by (simp add: crypto_ok_def NewSelfSignerWithCAData_def CAData_def NewSelfSignerWithCA_def)

definition plain_crypto :: crypto_env where
  "plain_crypto = \<lparr>cy_pemEncode = (\<lambda>t b. ''B'' @ b), cy_pemDecode = (\<lambda>s. case s of [] \<Rightarrow> None | c # b \<Rightarrow> Some b),
     cy_parseCertificate = (\<lambda>_. Inr 7), cy_marshalPKCS8 = Inr, cy_parsePKCS8 = (\<lambda>k. Inr (True, k))\<rparr>"

lemma plain_crypto_ok: "crypto_ok plain_crypto"
  by (simp add: crypto_ok_def plain_crypto_def)

theorem signer_roundtrip_witness:
  "NewSelfSignerWithCAData plain_crypto (CAData plain_crypto (NewSelfSignerWithCA ''cert'' ''key'' 1))
     (cy_pemEncode plain_crypto ''PRIVATE KEY'' ''key'') = Inr (NewSelfSignerWithCA ''cert'' ''key'' 8)"
  using signer_roundtrip [OF plain_crypto_ok, of "NewSelfSignerWithCA ''cert'' ''key'' 1" "''key''" 7]
  by (simp add: plain_crypto_def NewSelfSignerWithCA_def)

text \<open>The CA certificate that the secret holds.\<close>

definition stored_ca :: "crypto_env \<Rightarrow> 'c api \<Rightarrow> string \<Rightarrow> string \<Rightarrow> 'c \<Rightarrow> string option" where
  "stored_ca cy api ns name cl =
     (case ap_get api cl (''Secret'', ns, name) of
        Inl _ \<Rightarrow> None
      | Inr s \<Rightarrow> cy_pemDecode cy (annotation (secret_data (ob_Spec (so_Object s))) TLSCACert))"

text \<open>The CA key that the secret holds.\<close>

definition decodeKey :: "crypto_env \<Rightarrow> string \<Rightarrow> string option" where
  "decodeKey cy keyData =
     (case cy_pemDecode cy keyData of
        None \<Rightarrow> None
      | Some b \<Rightarrow> (case cy_parsePKCS8 cy b of Inr (True, k) \<Rightarrow> Some k | _ \<Rightarrow> None))"

definition stored_key :: "crypto_env \<Rightarrow> 'c api \<Rightarrow> string \<Rightarrow> string \<Rightarrow> 'c \<Rightarrow> string option" where
  "stored_key cy api ns name cl =
     (case ap_get api cl (''Secret'', ns, name) of
        Inl _ \<Rightarrow> None
      | Inr s \<Rightarrow> decodeKey cy (annotation (secret_data (ob_Spec (so_Object s))) TLSCAKey))"

lemma signer_data_cert:
  "NewSelfSignerWithCAData cy cert key = Inr s \<Longrightarrow>
     cy_pemDecode cy cert = Some (sg_caCert s) \<and> decodeKey cy key = Some (sg_caKey s)"
  unfolding decodeKey_def
  by (auto simp: NewSelfSignerWithCAData_def NewSelfSignerWithCA_def split: option.splits sum.splits if_splits)

lemma ca_secret_key: "key_of (ca_secret ns name cert key r) = (''Secret'', ns, name)"
  by (simp add: key_of_def ca_secret_def)

lemma signer_from_secret_stored:
  assumes st: "object_store api" and cy: "crypto_ok cy" and get: "ap_get api cl (''Secret'', ns, name) = Inr q"
    and run: "signer_from_secret cy api ownerRef bw q cl = (Inr s, cl')"
  shows "stored_ca cy api ns name cl' = Some (sg_caCert s) \<and> stored_key cy api ns name cl' = Some (sg_caKey s)"
proof -
  let ?data = "secret_data (ob_Spec (so_Object q))"
  let ?signer = "NewSelfSignerWithCAData cy (annotation ?data TLSCACert) (annotation ?data TLSCAKey)"
  have signer: "?signer = Inr s"
    using run by (auto simp: signer_from_secret_def Let_def split: option.splits if_splits prod.splits)
  then have dec: "cy_pemDecode cy (annotation ?data TLSCACert) = Some (sg_caCert s)"
      "decodeKey cy (annotation ?data TLSCAKey) = Some (sg_caKey s)"
    by (simp_all add: signer_data_cert)
  show ?thesis
  proof (cases "cl' = cl")
    case True
    then show ?thesis using get dec by (simp add: stored_ca_def stored_key_def)
  next
    case False
    then obtain r where r: "ownerRef = Some r"
      and up: "ap_update api ((so_Object q)\<lparr>ob_Meta := (ob_Meta (so_Object q))\<lparr>om_OwnerReferences := [r]\<rparr>\<rparr>)
        (Some (so_Version q)) (bw cl) = (None, cl')"
      using run by (auto simp: signer_from_secret_def Let_def split: option.splits if_splits prod.splits)
    have "ob_Spec (so_Object q) = SecretSpec ?data"
      using dec(1) cy by (cases "ob_Spec (so_Object q)")
        (auto simp: secret_data_def annotation_def crypto_ok_def)
    then obtain s' where "ap_get api cl' (''Secret'', ns, name) = Inr s'" "ob_Spec (so_Object s') = SecretSpec ?data"
      using object_store.update_secret [OF st up, of ?data] object_store.get_key [OF st get] by (auto simp: key_of_def)
    then show ?thesis using dec by (simp add: stored_ca_def stored_key_def secret_data_def)
  qed
qed

lemma dump_stored:
  assumes "object_store api" and "crypto_ok cy"
    and "DumpCASecret api ns name (CAData cy s) key ownerRef cl = (Inr False, cl')"
  shows "stored_ca cy api ns name cl' = Some (sg_caCert s) \<and> stored_key cy api ns name cl' = decodeKey cy key"
proof -
  obtain e c1 where cr: "ap_create api (ca_secret ns name (CAData cy s) key ownerRef) None cl = (e, c1)" by fastforce
  have "e = None \<and> c1 = cl'"
    using assms(3) cr by (cases e; cases "the e") (auto simp: DumpCASecret_def)
  then obtain q where "ap_get api cl' (''Secret'', ns, name) = Inr q"
      "ob_Spec (so_Object q) = SecretSpec [(TLSCACert, CAData cy s), (TLSCAKey, key)]"
    using object_store.create_secret [OF assms(1), of "ca_secret ns name (CAData cy s) key ownerRef" None cl cl'] cr
    by (auto simp: ca_secret_key) (auto simp: ca_secret_def)
  then show ?thesis
    using assms(2) by (simp add: stored_ca_def stored_key_def secret_data_def annotation_def gget_def CAData_def
        crypto_ok_def TLSCACert_def TLSCAKey_def)
qed

lemma signer_stored:
  assumes "object_store api" and "crypto_ok cy"
    and "NewSelfSignerFromSecretOrGenerate cy api ns name ownerRef attempts cl = (Inr s, cl')"
  shows "stored_ca cy api ns name cl' = Some (sg_caCert s) \<and> stored_key cy api ns name cl' = Some (sg_caKey s)"
  using assms(3)
proof (induction attempts arbitrary: cl)
  case (Cons a attempts)
  obtain bg bc gen where a: "a = (bg, bc, gen)" by (cases a)
  show ?case
  proof (cases "ap_get api (bg cl) (''Secret'', ns, name)")
    case (Inr q)
    then show ?thesis
      using signer_from_secret_stored [OF assms(1,2) Inr] Cons.prems a by (simp add: Let_def)
  next
    case (Inl e)
    obtain g where g: "e = ApiNotFound" "NewGeneratedSelfSigner gen = Inr g"
      using Cons.prems a Inl by (auto simp: Let_def split: if_splits sum.splits)
    obtain raw where raw: "cy_marshalPKCS8 cy (sg_caKey g) = Inr raw"
      using Cons.prems a Inl g by (cases "cy_marshalPKCS8 cy (sg_caKey g)") (simp_all add: Let_def)
    obtain r c1 where d: "DumpCASecret api ns name (CAData cy g) (cy_pemEncode cy ''PRIVATE KEY'' raw) ownerRef (bc (bg cl)) = (r, c1)"
      by fastforce
    obtain existed where r: "r = Inr existed"
      using Cons.prems a Inl g raw d by (cases r) (simp_all add: Let_def)
    show ?thesis
    proof (cases existed)
      case True
      then show ?thesis using Cons a Inl g raw d r by (simp add: Let_def)
    next
      case False
      have "decodeKey cy (cy_pemEncode cy ''PRIVATE KEY'' raw) = Some (sg_caKey g)"
        using assms(2) raw by (simp add: decodeKey_def crypto_ok_def)
      then show ?thesis
        using False Cons.prems a Inl g raw d r dump_stored [OF assms(1,2), of ns name g] by (auto simp: Let_def)
    qed
  qed
qed simp

text \<open>C11. All hub processes share one CA: whatever other processes do while the signer is set up, also when
  several of them find no secret and generate a CA at the same time, a signer that is returned has the
  CA that the secret holds.\<close>

theorem signer_uses_stored_ca:
  assumes "object_store api" and "crypto_ok cy"
    and "NewSelfSignerFromSecretOrGenerate cy api ns name ownerRef attempts cl = (Inr s, cl')"
  shows "stored_ca cy api ns name cl' = Some (sg_caCert s)"
  using signer_stored [OF assms] by simp

definition other_hub :: "cluster \<Rightarrow> cluster" where
  "other_hub cl = store (ca_secret ''ocm'' ''signer'' ''Bother'' ''Bkey'' None) cl"

theorem signer_uses_stored_ca_witness:
  "\<exists>s cl'. NewSelfSignerFromSecretOrGenerate plain_crypto store_api ''ocm'' ''signer'' None
      [(\<lambda>c. c, other_hub, Inr (''mine'', ''k'')), (\<lambda>c. c, \<lambda>c. c, Inr (''mine2'', ''k2''))] empty_cluster = (Inr s, cl') \<and>
     stored_ca plain_crypto store_api ''ocm'' ''signer'' cl' = Some (sg_caCert s)"
proof -
  have "\<exists>s cl'. NewSelfSignerFromSecretOrGenerate plain_crypto store_api ''ocm'' ''signer'' None
      [(\<lambda>c. c, other_hub, Inr (''mine'', ''k'')), (\<lambda>c. c, \<lambda>c. c, Inr (''mine2'', ''k2''))] empty_cluster = (Inr s, cl')"
    by (simp add: store_api_def empty_cluster_def other_hub_def store_def gm.get_put DumpCASecret_def
        NewGeneratedSelfSigner_def signer_from_secret_def NewSelfSignerWithCAData_def key_of_def ca_secret_def
        at_key_def secret_data_def annotation_def gget_def TLSCACert_def TLSCAKey_def plain_crypto_def
        NewSelfSignerWithCA_def CAData_def Let_def gput_def)
  then show ?thesis using signer_uses_stored_ca [OF sa.object_store_axioms plain_crypto_ok] by blast
qed

text \<open>A dump that is told to try again has seen the secret of another process.\<close>

lemma dump_conflict:
  assumes "object_store api" and "DumpCASecret api ns name cert key ownerRef c = (Inr True, c')"
  shows "\<exists>q. ap_get api c' (''Secret'', ns, name) = Inr q"
proof -
  obtain e c1 where cr: "ap_create api (ca_secret ns name cert key ownerRef) None c = (e, c1)" by fastforce
  have "e = Some ApiAlreadyExists \<and> c1 = c'"
    using assms(2) cr by (cases e; cases "the e") (auto simp: DumpCASecret_def)
  then show ?thesis
    using object_store.create_exists [OF assms(1)] object_store.create_failed [OF assms(1)] cr
    by (metis ca_secret_key)
qed

text \<open>The race for the secret ends after one lost round: when another process has created the secret in
  between, the second call finds it, unless it has been deleted again.\<close>

theorem signer_race_ends:
  assumes "object_store api" and "\<And>c s. ap_get api c (''Secret'', ns, name) = Inr s \<Longrightarrow>
      \<exists>s'. ap_get api (before_get2 c) (''Secret'', ns, name) = Inr s'"
  shows "fst (NewSelfSignerFromSecretOrGenerate cy api ns name ownerRef
    [(before_get, before_write, generated), (before_get2, before_write2, generated2)] cl) \<noteq> Inl StillRacing"
proof -
  have found: "fst (signer_from_secret cy api ownerRef bw q c) \<noteq> Inl StillRacing" for q c bw
    by (auto simp: signer_from_secret_def NewSelfSignerWithCAData_def Let_def
        split: option.splits if_splits prod.splits sum.splits)
  have second: "fst (NewSelfSignerFromSecretOrGenerate cy api ns name ownerRef [(before_get2, before_write2, generated2)] c)
      \<noteq> Inl StillRacing" if "ap_get api c (''Secret'', ns, name) = Inr q" for c q
    using assms(2) [OF that] found by (auto simp: Let_def)
  show ?thesis
  proof (cases "ap_get api (before_get cl) (''Secret'', ns, name)")
    case (Inr q)
    then show ?thesis using found by (simp add: Let_def)
  next
    case (Inl e)
    consider "e \<noteq> ApiNotFound" | err where "e = ApiNotFound" "NewGeneratedSelfSigner generated = Inl err"
      | g err where "e = ApiNotFound" "NewGeneratedSelfSigner generated = Inr g" "cy_marshalPKCS8 cy (sg_caKey g) = Inl err"
      | g raw where "e = ApiNotFound" "NewGeneratedSelfSigner generated = Inr g" "cy_marshalPKCS8 cy (sg_caKey g) = Inr raw"
      by (metis sum.exhaust)
    then show ?thesis
    proof cases
      case (4 g raw)
      obtain r c1 where d: "DumpCASecret api ns name (CAData cy g) (cy_pemEncode cy ''PRIVATE KEY'' raw) ownerRef
          (before_write (before_get cl)) = (r, c1)"
        by fastforce
      consider err where "r = Inl err" | "r = Inr False" | "r = Inr True" by (metis (full_types) sum.exhaust)
      then show ?thesis
      proof cases
        case 3
        then obtain q where "ap_get api c1 (''Secret'', ns, name) = Inr q"
          using dump_conflict [OF assms(1)] d by blast
        from second [OF this] show ?thesis using Inl 4 d 3 by (simp add: Let_def)
      qed (use Inl 4 d in \<open>simp_all add: Let_def\<close>)
    qed (use Inl in \<open>simp_all add: Let_def\<close>)
  qed
qed

theorem signer_race_ends_witness:
  "fst (NewSelfSignerFromSecretOrGenerate plain_crypto store_api ''ocm'' ''signer'' None
    [(\<lambda>c. c, other_hub, Inr (''mine'', ''k'')), (\<lambda>c. c, \<lambda>c. c, Inr (''mine2'', ''k2''))] empty_cluster) \<noteq> Inl StillRacing"
  by (rule signer_race_ends [OF sa.object_store_axioms]) simp

text \<open>Signing: one signer never gives a serial number twice.\<close>

fun sign_all ::
  "((string + string) \<times> (cert_template \<Rightarrow> string \<Rightarrow> string + string) \<times> int \<times> cert_config \<times> int) list \<Rightarrow> selfSigner \<Rightarrow> int list" where
  "sign_all [] s = []"
| "sign_all ((newKey, createCertificate, now, cfg, expiry) # rs) s =
     (case newKey of Inl _ \<Rightarrow> [] | Inr _ \<Rightarrow> [sg_nextSerial s])
     @ sign_all rs (snd (Sign newKey createCertificate (\<lambda>_. Inr 0) now cfg expiry s))"

lemma Sign_serial: "sg_nextSerial (snd (Sign newKey createCertificate parse now cfg expiry s)) =
    (case newKey of Inl _ \<Rightarrow> sg_nextSerial s | Inr _ \<Rightarrow> sg_nextSerial s + 1)"
  by (simp add: Sign_def Let_def split: sum.splits)

lemma sign_all_bounds: "n \<in> set (sign_all rs s) \<Longrightarrow> sg_nextSerial s \<le> n"
proof (induction rs s rule: sign_all.induct)
  case (2 newKey createCertificate now cfg expiry rs s)
  have "sg_nextSerial s \<le> sg_nextSerial (snd (Sign newKey createCertificate (\<lambda>_. Inr 0) now cfg expiry s))"
    by (simp add: Sign_serial split: sum.split)
  with 2 show ?case by (auto split: sum.splits)
qed simp

text \<open>The serial numbers that one signer puts into its certificates are strictly increasing. The counter
  is not stored, though: a signer that is read back from the secret starts again at the CA's serial
  number plus one, and repeats the numbers given before.\<close>

theorem serials_increase_until_restart:
  "sorted_wrt (<) (sign_all rs s) \<and>
   (case NewSelfSignerWithCAData cy cert key of Inl _ \<Rightarrow> True
    | Inr t \<Rightarrow> sg_nextSerial t = 1 + projr (cy_parseCertificate cy (sg_caCert t)))"
proof
  show "sorted_wrt (<) (sign_all rs s)"
  proof (induction rs s rule: sign_all.induct)
    case (2 newKey createCertificate now cfg expiry rs s)
    then show ?case
      using sign_all_bounds [of _ rs "snd (Sign newKey createCertificate (\<lambda>_. Inr 0) now cfg expiry s)"]
      by (fastforce simp: Sign_serial split: sum.splits)
  qed simp
  show "case NewSelfSignerWithCAData cy cert key of Inl _ \<Rightarrow> True
    | Inr t \<Rightarrow> sg_nextSerial t = 1 + projr (cy_parseCertificate cy (sg_caCert t))"
    by (auto simp: NewSelfSignerWithCAData_def NewSelfSignerWithCA_def split: option.splits sum.splits if_splits)
qed

section \<open>Names in certificates\<close>

text \<open>\<open>matchHostnames\<close> of crypto/x509, for a host without a trailing dot: the first label of the pattern
  may be a wildcard.\<close>

definition matchHostnames :: "string \<Rightarrow> string \<Rightarrow> bool" where
  "matchHostnames pattern host =
     (let patternParts = split CHR ''.'' (map lower_char pattern);
          hostParts = split CHR ''.'' (map lower_char host)
      in pattern \<noteq> [] \<and> host \<noteq> [] \<and> length patternParts = length hostParts \<and>
         (hd patternParts = ''*'' \<or> hd patternParts = hd hostParts) \<and> tl patternParts = tl hostParts)"

lemma lower_hex: "map lower_char (hex_encode s) = hex_encode s"
proof -
  have "lower_char c = c" if "is_digit c \<or> is_lower c" for c
    using that by (auto simp: lower_char_def is_upper_def is_digit_def is_lower_def)
  then show ?thesis
    using hex_encode_class [of s] by (simp add: list_all_iff map_idI)
qed

lemma hex_no_dot: "CHR ''.'' \<notin> set (hex_encode s)"
  using hex_encode_class [of s] by (auto simp: list_all_iff is_digit_def is_lower_def)

text \<open>The TLS handshake between the hub and a managed cluster succeeds on the name: the host that the
  user-server dials for a cluster, whatever its name, matches the wildcard in the certificate that the
  certificate controller issues for the service-proxy.\<close>

theorem dialed_host_matches_server_cert:
  "list_ex (\<lambda>pattern. matchHostnames pattern (GenerateServiceProxyHost sha256 cluster)) server_cert_HostNames"
proof -
  let ?label = "''cluster-'' @ hex_encode (take 24 (sha256 cluster))"
  have host: "map lower_char (GenerateServiceProxyHost sha256 cluster) = ?label @ ''.open-cluster-management.proxy''"
    unfolding proxy_host_label by (simp add: lower_hex) (simp add: lower_char_def is_upper_def)
  have "CHR ''.'' \<notin> set ?label" using hex_no_dot by simp
  then have "split CHR ''.'' (map lower_char (GenerateServiceProxyHost sha256 cluster))
      = [?label, ''open-cluster-management'', ''proxy'']"
    unfolding host using split_append_sep [of "CHR ''.''" ?label "''open-cluster-management.proxy''"] by simp
  moreover have "split CHR ''.'' (map lower_char ''*.open-cluster-management.proxy'')
      = [''*'', ''open-cluster-management'', ''proxy'']"
    by (simp add: lower_char_def is_upper_def)
  moreover have "GenerateServiceProxyHost sha256 cluster \<noteq> []" by (simp add: proxy_host_label)
  ultimately have "matchHostnames ''*.open-cluster-management.proxy'' (GenerateServiceProxyHost sha256 cluster)"
    unfolding matchHostnames_def Let_def by simp
  then show ?thesis by (simp add: server_cert_HostNames_def)
qed

text \<open>The TLS client of the tunnel asks for a name that the proxy server's certificate has, but it takes
  its own certificate from the secret with the default name, wherever the configuration has the client
  certificate stored.\<close>

theorem tunnel_client_name_is_certified:
  assumes "GetKonnectivityTLSConfig newPool x509KeyPair getSecret config = Inr t" and "rotations config entry = Inr ros"
  shows "(\<exists>d. getSecret (proxy_namespace config) ''proxy-client'' = Inr d \<and>
      tc_Certificate t = (annotation d ''tls.crt'', annotation d ''tls.key'')) \<and>
    tc_ServerName t \<in> set (ro_SANs (hd ros)) \<and>
    ro_Name (hd ros) = sec_SigningProxyServerSecretName (signing_secrets config) \<and>
    ro_Name (ros ! 2) = sec_SigningProxyClientSecretName (signing_secrets config)"
proof -
  obtain sans where sans: "server_sans config entry = Inr sans"
    using assms(2) by (cases "server_sans config entry") (simp_all add: rotations_def)
  have "px_InClusterServiceName (proxy_server config) @ ''.'' @ proxy_namespace config \<in> set sans"
    using sans by (auto simp: server_sans_def Let_def split: option.splits if_splits)
  moreover have "ro_SANs (hd ros) = sans" "ro_Name (hd ros) = sec_SigningProxyServerSecretName (signing_secrets config)"
      "ro_Name (ros ! 2) = sec_SigningProxyClientSecretName (signing_secrets config)"
    using assms(2) sans by (auto simp: rotations_def eval_nat_numeral)
  moreover obtain d where "getSecret (proxy_namespace config) ''proxy-client'' = Inr d"
      "tc_Certificate t = (annotation d ''tls.crt'', annotation d ''tls.key'')"
      "tc_ServerName t = px_InClusterServiceName (proxy_server config) @ ''.'' @ proxy_namespace config"
    using assms(1) by (auto simp: GetKonnectivityTLSConfig_def buildTLSConfig_def inClusterSecretClient_def
        split: sum.splits option.splits)
  ultimately show ?thesis by simp
qed

theorem tunnel_client_name_is_certified_witness:
  "\<exists>t ros. GetKonnectivityTLSConfig (\<lambda>_. None) (\<lambda>_ _. None) (\<lambda>_ _. Inr [(''tls.crt'', ''c'')]) example_config = Inr t \<and>
     rotations example_config [] = Inr ros \<and> tc_ServerName t \<in> set (ro_SANs (hd ros))"
proof -
  obtain t where t: "GetKonnectivityTLSConfig (\<lambda>_. None) (\<lambda>_ _. None) (\<lambda>_ _. Inr [(''tls.crt'', ''c'')]) example_config = Inr t"
    by (simp add: GetKonnectivityTLSConfig_def buildTLSConfig_def)
  obtain ros where r: "rotations example_config [] = Inr ros"
    by (simp add: rotations_def server_sans_def example_config_def)
  show ?thesis using t r tunnel_client_name_is_certified [OF t r] by blast
qed

end
