(* ===== verification/Cluster_Profile.thy ===== *)
theory Cluster_Profile
  imports Proxy_Reconciler User_Server
begin

text \<open>
  The controller that publishes how to reach a cluster in its ClusterProfile
  (pkg/proxyserver/controllers/clusterprofile_controller.go). The reads and the status write are
  a parameter. The properties connect the published URL with the names of the user-server's
  certificate and with the way the user-server reads a request URI.
\<close>

section \<open>Data\<close>

record NamedExtension =
  ext_Name :: string
  ext_Raw :: string

record AccessProvider =
  acp_Name :: string
  acp_Server :: string
  acp_CAData :: string
  acp_Extensions :: "NamedExtension list"

record ClusterProfile =
  cp_Namespace :: string
  cp_Name :: string
  cp_Labels :: "(string, string) gmap"
  cp_AccessProviders :: "AccessProvider list option"
  cp_Conditions :: "Condition list option"

definition ClusterProfileManagerName :: string where
  "ClusterProfileManagerName = ''open-cluster-management''"

definition OCMAccessProviderName :: string where
  "OCMAccessProviderName = ''open-cluster-management''"

definition ManagedClusterConfigurationName :: string where
  "ManagedClusterConfigurationName = ''cluster-proxy''"

text \<open>The two label keys are constants of the cluster-inventory and cluster APIs.\<close>

definition cpFilter :: "string \<Rightarrow> string \<Rightarrow> ClusterProfile \<Rightarrow> bool" where
  "cpFilter labelClusterManagerKey clusterNameLabelKey cp =
     (if annotation (cp_Labels cp) labelClusterManagerKey \<noteq> ClusterProfileManagerName then False
      else gget (cp_Labels cp) clusterNameLabelKey \<noteq> None)"

section \<open>The exec extension\<close>

text \<open>\<open>json.Marshal\<close> of a string below U+0080: quotes, backslashes, control characters and the three
  characters that are unsafe in HTML are escaped. Bytes above are kept, as for any valid UTF-8 text
  without U+2028 and U+2029.\<close>

definition json_char :: "char \<Rightarrow> string" where
  "json_char c =
     (if c = CHR 0x22 then [CHR 0x5C, CHR 0x22]
      else if c = CHR 0x5C then [CHR 0x5C, CHR 0x5C]
      else if c = CHR 0x08 then [CHR 0x5C] @ ''b''
      else if c = CHR 0x0C then [CHR 0x5C] @ ''f''
      else if c = CHR 0x0A then [CHR 0x5C] @ ''n''
      else if c = CHR 0x0D then [CHR 0x5C] @ ''r''
      else if c = CHR 0x09 then [CHR 0x5C] @ ''t''
      else if (of_char c :: nat) < 32 \<or> c \<in> set ''<>&'' then [CHR 0x5C] @ ''u00'' @ hex_byte c
      else [c])"

definition json_string :: "string \<Rightarrow> string" where
  "json_string s = [CHR 0x22] @ concat (map json_char s) @ [CHR 0x22]"

definition marshal_execClusterConfig :: "string \<Rightarrow> string" where
  "marshal_execClusterConfig clusterName =
     ''{'' @ json_string ''clusterName'' @ '':'' @ json_string clusterName @ ''}''"

section \<open>Operations\<close>

fun replace_provider :: "AccessProvider \<Rightarrow> AccessProvider list \<Rightarrow> AccessProvider list option" where
  "replace_provider p [] = None"
| "replace_provider p (a # as) =
     (if acp_Name a = OCMAccessProviderName then Some (p # as)
      else case replace_provider p as of None \<Rightarrow> None | Some as \<Rightarrow> Some (a # as))"

definition setAccessProvider :: "ClusterProfile \<Rightarrow> AccessProvider \<Rightarrow> ClusterProfile" where
  "setAccessProvider cp accessProvider =
     (let providers = (case cp_AccessProviders cp of None \<Rightarrow> [] | Some as \<Rightarrow> as) in
      case replace_provider accessProvider providers of
        Some as \<Rightarrow> cp\<lparr>cp_AccessProviders := Some as\<rparr>
      | None \<Rightarrow> cp\<lparr>cp_AccessProviders := Some (providers @ [accessProvider])\<rparr>)"

definition ocmAccessProvider :: "ManagedProxyConfiguration \<Rightarrow> ClusterProfile \<Rightarrow> string \<Rightarrow> AccessProvider" where
  "ocmAccessProvider config cp caData =
     \<lparr>acp_Name = OCMAccessProviderName,
      acp_Server = ''https://'' @ UserServerServiceName @ ''.'' @ proxy_namespace config @ '':9092/'' @ cp_Name cp,
      acp_CAData = caData,
      acp_Extensions = [\<lparr>ext_Name = ''client.authentication.k8s.io/exec'',
                         ext_Raw = marshal_execClusterConfig (cp_Name cp)\<rparr>]\<rparr>"

datatype profile_error = ProfileApi api_error | TlsCrtNotFound

datatype profile_result = ProfileDone | RequeueAfterMinute | ProfileFailed profile_error

record 'c profile_api =
  pf_get_profile :: "'c \<Rightarrow> string \<times> string \<Rightarrow> api_error + ClusterProfile"
  pf_get_config :: "'c \<Rightarrow> string \<Rightarrow> api_error + ManagedProxyConfiguration"
  pf_get_secret :: "'c \<Rightarrow> string \<times> string \<Rightarrow> api_error + (string, string) gmap"
  pf_update_status :: "ClusterProfile \<Rightarrow> 'c \<Rightarrow> api_error option \<times> 'c"

definition profile_Reconcile ::
  "'c profile_api \<Rightarrow> string \<times> string \<Rightarrow> 'c \<Rightarrow> profile_result \<times> 'c" where
  "profile_Reconcile api namespacedName cl =
     (case pf_get_profile api cl namespacedName of
        Inl ApiNotFound \<Rightarrow> (ProfileDone, cl)
      | Inl err \<Rightarrow> (ProfileFailed (ProfileApi err), cl)
      | Inr cp \<Rightarrow>
     (case pf_get_config api cl ManagedClusterConfigurationName of
        Inl ApiNotFound \<Rightarrow> (RequeueAfterMinute, cl)
      | Inl err \<Rightarrow> (ProfileFailed (ProfileApi err), cl)
      | Inr config \<Rightarrow>
     (case pf_get_secret api cl (proxy_namespace config, UserServerSecretName) of
        Inl ApiNotFound \<Rightarrow> (RequeueAfterMinute, cl)
      | Inl err \<Rightarrow> (ProfileFailed (ProfileApi err), cl)
      | Inr data \<Rightarrow>
     (case gget data ''tls.crt'' of
        None \<Rightarrow> (ProfileFailed TlsCrtNotFound, cl)
      | Some caData \<Rightarrow>
          (let cp = setAccessProvider cp (ocmAccessProvider config cp caData);
               cp = (if cp_Conditions cp = None then cp\<lparr>cp_Conditions := Some []\<rparr> else cp)
           in case pf_update_status api cp cl of
                (Some err, cl) \<Rightarrow> (ProfileFailed (ProfileApi err), cl)
              | (None, cl) \<Rightarrow> (ProfileDone, cl))))))"

section \<open>Properties\<close>

text \<open>The providers of a profile other than the one this controller owns.\<close>

definition foreign_providers :: "ClusterProfile \<Rightarrow> AccessProvider list" where
  "foreign_providers cp =
     filter (\<lambda>a. acp_Name a \<noteq> OCMAccessProviderName) (case cp_AccessProviders cp of None \<Rightarrow> [] | Some as \<Rightarrow> as)"

definition own_providers :: "ClusterProfile \<Rightarrow> AccessProvider list" where
  "own_providers cp =
     filter (\<lambda>a. acp_Name a = OCMAccessProviderName) (case cp_AccessProviders cp of None \<Rightarrow> [] | Some as \<Rightarrow> as)"

lemma replace_provider_None:
  "replace_provider p as = None \<longleftrightarrow> (\<forall>a \<in> set as. acp_Name a \<noteq> OCMAccessProviderName)"
  by (induction as) (auto split: option.splits)

lemma replace_provider_filter:
  assumes "replace_provider p as = Some bs" and "acp_Name p = OCMAccessProviderName"
  shows "filter (\<lambda>a. acp_Name a \<noteq> OCMAccessProviderName) bs = filter (\<lambda>a. acp_Name a \<noteq> OCMAccessProviderName) as \<and>
    filter (\<lambda>a. acp_Name a = OCMAccessProviderName) bs =
      p # tl (filter (\<lambda>a. acp_Name a = OCMAccessProviderName) as)"
  using assms by (induction as arbitrary: bs) (auto split: if_splits option.splits)

lemma setAccessProvider_own_entry:
  assumes "acp_Name p = OCMAccessProviderName"
  shows "foreign_providers (setAccessProvider cp p) = foreign_providers cp \<and>
    own_providers (setAccessProvider cp p) = p # tl (own_providers cp)"
proof -
  let ?as = "case cp_AccessProviders cp of None \<Rightarrow> [] | Some as \<Rightarrow> as"
  show ?thesis
  proof (cases "replace_provider p ?as")
    case None
    then have "\<forall>a \<in> set ?as. acp_Name a \<noteq> OCMAccessProviderName" by (simp add: replace_provider_None)
    then have "filter (\<lambda>a. acp_Name a = OCMAccessProviderName) ?as = []"
      by (simp add: filter_empty_conv)
    with None assms show ?thesis
      by (simp add: setAccessProvider_def foreign_providers_def own_providers_def Let_def)
  next
    case (Some bs)
    then show ?thesis
      using replace_provider_filter [OF Some assms]
      by (simp add: setAccessProvider_def foreign_providers_def own_providers_def Let_def)
  qed
qed

text \<open>Publishing the access provider touches only this controller's own entry: the providers of others
  keep their content and order, the first own entry is the new one, and there is exactly one own entry
  unless someone else had duplicated it.\<close>

theorem setAccessProvider_own_entry_only:
  assumes "acp_Name p = OCMAccessProviderName"
  shows "foreign_providers (setAccessProvider cp p) = foreign_providers cp \<and>
    own_providers (setAccessProvider cp p) = p # tl (own_providers cp)"
  by (rule setAccessProvider_own_entry [OF assms])

definition example_profile :: ClusterProfile where
  "example_profile = \<lparr>cp_Namespace = ''ocm'', cp_Name = ''cluster1'', cp_Labels = [],
     cp_AccessProviders = Some [\<lparr>acp_Name = ''other'', acp_Server = ''https://x'', acp_CAData = [], acp_Extensions = []\<rparr>],
     cp_Conditions = None\<rparr>"

theorem setAccessProvider_own_entry_only_witness:
  "own_providers (setAccessProvider example_profile (ocmAccessProvider example_config example_profile ''ca''))
     = [ocmAccessProvider example_config example_profile ''ca''] \<and>
   length (foreign_providers (setAccessProvider example_profile (ocmAccessProvider example_config example_profile ''ca''))) = 1"
  using setAccessProvider_own_entry_only [of "ocmAccessProvider example_config example_profile ''ca''" example_profile]
  by (simp add: ocmAccessProvider_def example_profile_def own_providers_def foreign_providers_def OCMAccessProviderName_def)

lemma cluster_uri_pieces:
  assumes "CHR ''/'' \<notin> set name"
  shows "split CHR ''/'' (''/'' @ name @ ''/'' @ rest) = [] # name # split CHR ''/'' rest"
  using split_kube_uri [OF assms, of rest] by (simp add: kube_uri_def)

lemma parse_target_cluster:
  assumes "CHR ''/'' \<notin> set name" and "request_uri req = ''/'' @ name @ ''/'' @ rest" and "parse_target req = Inr tsc"
  shows "tsc_cluster tsc = name"
  using assms(3) cluster_uri_pieces [OF assms(1), of rest] assms(2)
  by (auto simp: parse_target_def GetTargetServiceConfig_def GetTargetServiceConfigForKubeAPIServer_def Let_def
      split: if_splits option.splits proxy_type.splits)

lemma profile_success_path:
  assumes "profile_Reconcile api nn cl = (ProfileDone, cl')" and "pf_get_profile api cl nn = Inr cp"
    and "pf_get_config api cl ManagedClusterConfigurationName = Inr config"
  shows "\<exists>caData cp'. pf_update_status api cp' cl = (None, cl') \<and>
    cp_AccessProviders cp' = cp_AccessProviders (setAccessProvider cp (ocmAccessProvider config cp caData))"
proof -
  obtain data where data: "pf_get_secret api cl (proxy_namespace config, UserServerSecretName) = Inr data"
    using assms by (cases "pf_get_secret api cl (proxy_namespace config, UserServerSecretName)")
      (auto simp: profile_Reconcile_def split: api_error.splits)
  obtain caData where ca: "gget data ''tls.crt'' = Some caData"
    using assms data by (cases "gget data ''tls.crt''") (auto simp: profile_Reconcile_def)
  let ?cp = "setAccessProvider cp (ocmAccessProvider config cp caData)"
  let ?cp' = "if cp_Conditions ?cp = None then ?cp\<lparr>cp_Conditions := Some []\<rparr> else ?cp"
  obtain x c1 where up: "pf_update_status api ?cp' cl = (x, c1)" by fastforce
  have "x = None \<and> c1 = cl'"
    using assms data ca up unfolding profile_Reconcile_def Let_def by (cases x) auto
  moreover have "cp_AccessProviders ?cp' = cp_AccessProviders ?cp" by simp
  ultimately show ?thesis using up by blast
qed

text \<open>C31. What is published works: when a reconciliation of an existing profile succeeds, the status that
  was written has an own entry whose server is a host that the user-server's certificate names (port
  9092), and every request the user-server accepts below that URL is read as a request for the cluster of
  the profile.\<close>

theorem published_access_reaches_cluster:
  assumes "profile_Reconcile api nn cl = (ProfileDone, cl')" and "pf_get_profile api cl nn = Inr cp"
    and "pf_get_config api cl ManagedClusterConfigurationName = Inr config"
    and "CHR ''/'' \<notin> set (cp_Name cp)"
  shows "\<exists>cp' host. pf_update_status api cp' cl = (None, cl') \<and>
    foreign_providers cp' = foreign_providers cp \<and>
    acp_Server (hd (own_providers cp')) = ''https://'' @ host @ '':9092/'' @ cp_Name cp \<and>
    (\<forall>us. host \<in> set (buildUserServerSANs config us)) \<and>
    (\<forall>req rest tsc. request_uri req = ''/'' @ cp_Name cp @ ''/'' @ rest \<and> parse_target req = Inr tsc \<longrightarrow>
       tsc_cluster tsc = cp_Name cp)"
proof -
  obtain caData cp' where w: "pf_update_status api cp' cl = (None, cl')"
      "cp_AccessProviders cp' = cp_AccessProviders (setAccessProvider cp (ocmAccessProvider config cp caData))"
    using profile_success_path [OF assms(1-3)] by blast
  let ?p = "ocmAccessProvider config cp caData"
  have "acp_Name ?p = OCMAccessProviderName" by (simp add: ocmAccessProvider_def)
  from setAccessProvider_own_entry [OF this, of cp]
  have own: "foreign_providers cp' = foreign_providers cp" "hd (own_providers cp') = ?p"
    by (simp_all add: foreign_providers_def own_providers_def w(2))
  let ?h = "UserServerServiceName @ ''.'' @ proxy_namespace config"
  have "acp_Server ?p = ''https://'' @ ?h @ '':9092/'' @ cp_Name cp" by (simp add: ocmAccessProvider_def)
  moreover have "\<forall>us. ?h \<in> set (buildUserServerSANs config us)" by (simp add: buildUserServerSANs_def Let_def)
  moreover have "\<forall>req rest tsc. request_uri req = ''/'' @ cp_Name cp @ ''/'' @ rest \<and> parse_target req = Inr tsc \<longrightarrow>
       tsc_cluster tsc = cp_Name cp"
    using parse_target_cluster [OF assms(4)] by blast
  ultimately show ?thesis using w(1) own by metis
qed

definition example_profile_api :: "ClusterProfile profile_api" where
  "example_profile_api = \<lparr>pf_get_profile = (\<lambda>c _. Inr c), pf_get_config = (\<lambda>_ _. Inr example_config),
     pf_get_secret = (\<lambda>_ _. Inr [(''tls.crt'', ''ca'')]), pf_update_status = (\<lambda>cp _. (None, cp))\<rparr>"

theorem published_access_reaches_cluster_witness:
  "\<exists>cp' host. acp_Server (hd (own_providers cp')) = ''https://'' @ host @ '':9092/cluster1'' \<and>
     (\<forall>us. host \<in> set (buildUserServerSANs example_config us)) \<and>
     snd (profile_Reconcile example_profile_api (''ocm'', ''cluster1'') example_profile) = cp'"
proof -
  have up: "pf_update_status example_profile_api cp c = (None, cp)" for cp c
    by (simp add: example_profile_api_def)
  have get: "pf_get_profile example_profile_api example_profile nn = Inr example_profile"
      "pf_get_config example_profile_api example_profile n = Inr example_config" for nn n
    by (simp_all add: example_profile_api_def)
  have sec: "pf_get_secret example_profile_api example_profile nn = Inr [(''tls.crt'', ''ca'')]" for nn
    by (simp add: example_profile_api_def)
  obtain c where r: "profile_Reconcile example_profile_api (''ocm'', ''cluster1'') example_profile = (ProfileDone, c)"
    by (simp add: profile_Reconcile_def get sec up gget_def Let_def)
  have n: "cp_Name example_profile = ''cluster1''" by (simp add: example_profile_def)
  show ?thesis
    using published_access_reaches_cluster [OF r get] n by (auto simp: r up)
qed

end
