(* ===== verification/Manager_Command.thy ===== *)
theory Manager_Command
  imports Certificates Cluster_Profile
begin

text \<open>
  How the hub processes are put together: the add-on manager (cmd/addon-manager/main.go), which runs
  the controllers of \<open>Proxy_Reconciler\<close> and \<open>Cluster_Profile\<close> and the add-on of \<open>Agent_Addon\<close> on one
  signer of \<open>Certificates\<close>, and the process of the certificate controller
  (pkg/controllers/manager.go). A start-up is a function with one argument per call that can fail,
  the time after it a step relation. The feature gates are those of component-base, and the requests
  that an event gives are those of controller-runtime, both vendored.
\<close>

section \<open>Feature gates\<close>

definition features_ClusterProfile :: string where
  "features_ClusterProfile = ''ClusterProfile''"

text \<open>The known features with their default and whether they are alpha; the generic ones switch all gates of a stage that are
  not set.\<close>

definition DefaultClusterProxyFeatureGates :: "(string, bool \<times> bool) gmap" where
  "DefaultClusterProxyFeatureGates = [(features_ClusterProfile, False, True)]"

definition set_unset_alpha :: "bool \<Rightarrow> (string, bool) gmap \<Rightarrow> (string, bool) gmap" where
  "set_unset_alpha v enabled =
     fold (\<lambda>(k, _, alpha) enabled. if alpha \<and> gget enabled k = None then gput k v enabled else enabled)
       DefaultClusterProxyFeatureGates enabled"

fun SetFromMap :: "(string, bool) gmap \<Rightarrow> (string, bool) gmap \<Rightarrow> string + (string, bool) gmap" where
  "SetFromMap [] enabled = Inr enabled"
| "SetFromMap ((k, v) # m) enabled =
     (if k = ''AllAlpha'' then SetFromMap m (gput k v (set_unset_alpha v enabled))
      else if k = ''AllBeta'' \<or> gget DefaultClusterProxyFeatureGates k \<noteq> None then SetFromMap m (gput k v enabled)
      else Inl (''unrecognized feature gate: '' @ k))"

definition Enabled :: "(string, bool) gmap \<Rightarrow> string \<Rightarrow> bool" where
  "Enabled enabled k =
     (case gget enabled k of
        Some v \<Rightarrow> v
      | None \<Rightarrow> (case gget DefaultClusterProxyFeatureGates k of Some (dflt, _) \<Rightarrow> dflt | None \<Rightarrow> False))"

section \<open>Events\<close>

definition NewOwnerReferenceFromConfig :: "ManagedProxyConfiguration \<Rightarrow> OwnerReference" where
  "NewOwnerReferenceFromConfig config =
     \<lparr>or_APIVersion = ''proxy.open-cluster-management.io/v1alpha1'', or_Kind = ''ManagedProxyConfiguration'',
      or_Name = mpc_Name config, or_UID = mpc_UID config, or_BlockOwnerDeletion = True\<rparr>"

definition ParseGroupVersion :: "string \<Rightarrow> string option" where
  "ParseGroupVersion gv =
     (if gv = [] \<or> gv = ''/'' then Some []
      else case split (CHR ''/'') gv of
        [v] \<Rightarrow> Some []
      | [g, v] \<Rightarrow> Some g
      | _ \<Rightarrow> None)"

text \<open>The requests that an event on an object gives, by its owner references; \<open>None\<close> is an API version that
  cannot be parsed, at which the loop stops. A ManagedProxyConfiguration has no namespace.\<close>

fun managedProxyConfigurationOwnerHandler :: "OwnerReference list \<Rightarrow> string list" where
  "managedProxyConfigurationOwnerHandler [] = []"
| "managedProxyConfigurationOwnerHandler (ref # refs) =
     (case ParseGroupVersion (or_APIVersion ref) of
        None \<Rightarrow> []
      | Some grp \<Rightarrow>
          if or_Kind ref = ''ManagedProxyConfiguration'' \<and> grp = ''proxy.open-cluster-management.io''
          then List.insert (or_Name ref) (managedProxyConfigurationOwnerHandler refs)
          else managedProxyConfigurationOwnerHandler refs)"

section \<open>The add-on manager\<close>

text \<open>The flags; the namespace that agents are installed into is left at its default.\<close>

record manager_flags =
  mf_metricsAddr :: string
  mf_probeAddr :: string
  mf_enableLeaderElection :: bool
  mf_signerSecretNamespace :: string
  mf_signerSecretName :: string
  mf_agentImageName :: string
  mf_enableKubeAPIProxy :: bool
  mf_enableServiceProxy :: bool
  mf_enableNetworkPolicies :: bool
  mf_imagePullPolicy :: string
  mf_featureGates :: "(string, bool) gmap"

definition default_manager_flags :: manager_flags where
  "default_manager_flags =
     \<lparr>mf_metricsAddr = '':58080'', mf_probeAddr = '':58081'', mf_enableLeaderElection = False,
      mf_signerSecretNamespace = ''default'', mf_signerSecretName = ''cluster-proxy-signer'',
      mf_agentImageName = [], mf_enableKubeAPIProxy = True, mf_enableServiceProxy = True, mf_enableNetworkPolicies = False,
      mf_imagePullPolicy = ''IfNotPresent'', mf_featureGates = []\<rparr>"

text \<open>The fields of \<open>ManagedProxyConfigurationReconciler\<close> that are not clients.\<close>

record proxy_reconciler =
  rp_SelfSigner :: selfSigner
  rp_CAPair :: "string list \<times> string"
  rp_imagePullPolicy :: string
  rp_tlsConfig :: TLSConfig
  rp_rotationOwner :: OwnerReference
  rp_rotationHours :: nat

definition CA :: "selfSigner \<Rightarrow> string list \<times> string" where
  "CA s = ([sg_caCert s], sg_caKey s)"

definition RegisterClusterManagementAddonReconciler ::
  "selfSigner \<Rightarrow> string \<Rightarrow> OwnerReference \<Rightarrow> TLSConfig \<Rightarrow> string option \<Rightarrow> string + proxy_reconciler" where
  "RegisterClusterManagementAddonReconciler selfSigner imagePullPolicy ownerReference tlsConfig setup =
     (case setup of
        Some err \<Rightarrow> Inl err
      | None \<Rightarrow> Inr \<lparr>rp_SelfSigner = selfSigner, rp_CAPair = CA selfSigner, rp_imagePullPolicy = imagePullPolicy,
          rp_tlsConfig = tlsConfig, rp_rotationOwner = ownerReference, rp_rotationHours = 24 * 180\<rparr>)"

text \<open>What the reconciler renders with.\<close>

definition reconciler_render ::
  "crypto_env \<Rightarrow> (string \<Rightarrow> string) \<Rightarrow> (nat list \<Rightarrow> string) \<Rightarrow> (nat \<Rightarrow> string) \<Rightarrow> proxy_reconciler \<Rightarrow> render_env" where
  "reconciler_render cy sha256 cipherString versionString r =
     \<lparr>re_sha256 = sha256, re_cipherString = cipherString, re_versionString = versionString,
      re_caData = CAData cy (rp_SelfSigner r), re_imagePullPolicy = rp_imagePullPolicy r,
      re_tlsConfig = Some (rp_tlsConfig r)\<rparr>"

text \<open>The reconciler's own fields in what it reconciles with.\<close>

definition reconciler_env ::
  "crypto_env \<Rightarrow> (string \<Rightarrow> string) \<Rightarrow> (nat list \<Rightarrow> string) \<Rightarrow> (nat \<Rightarrow> string) \<Rightarrow> 'c reconcile_env \<Rightarrow> proxy_reconciler
     \<Rightarrow> 'c reconcile_env" where
  "reconciler_env cy sha256 cipherString versionString e r =
     e\<lparr>rc_render := reconciler_render cy sha256 cipherString versionString r, rc_CAPair := rp_CAPair r\<rparr>"

text \<open>\<open>GetPEMBytes\<close> of the CA: the certificates one after another, and the key in PKCS #1 form.\<close>

definition GetPEMBytes :: "crypto_env \<Rightarrow> (string \<Rightarrow> string + string) \<Rightarrow> string list \<times> string \<Rightarrow> string + string \<times> string" where
  "GetPEMBytes cy encodeKey ca =
     (case encodeKey (snd ca) of
        Inl err \<Rightarrow> Inl err
      | Inr keyBytes \<Rightarrow> Inr (concat (map (cy_pemEncode cy ''CERTIFICATE'') (fst ca)), keyBytes))"

record 'c manager_env =
  me_newManager :: "string option"
  me_nativeClient :: "string option"
  me_addonClient :: "string option"
  me_proxyClient :: "string option"
  me_config :: "string \<Rightarrow> string + ManagedProxyConfiguration"
  me_crypto :: crypto_env
  me_encodeKey :: "string \<Rightarrow> string + string"
  me_api :: "'c api"
  me_attempts :: "'c signer_attempt list"
  me_podNamespace :: string
  me_tlsWatcher :: "string \<Rightarrow> string + TLSConfig"
  me_setupProxy :: "string option"
  me_setupProfile :: "string option"
  me_healthz :: "string option"
  me_readyz :: "string option"
  me_newAddonManager :: "string option"
  me_addon :: addon_env
  me_addAgent :: "string option"

datatype manager_exit =
    BadFeatureGates string
  | NoManager string
  | NoNativeClient string
  | NoAddonClient string
  | NoProxyClient string
  | NoConfiguration string
  | NoSigner signer_error
  | NoManagerNamespace
  | NoTLSWatcher string
  | NoProxyController string
  | NoProfileController string
  | NoHealthCheck string
  | NoAddonManager string
  | NoAddon agent_error
  | AddonRefused string

record running_manager =
  rm_signer :: selfSigner
  rm_reconciler :: proxy_reconciler
  rm_profileController :: bool
  rm_addon :: AgentAddon
  rm_agentImageName :: string

text \<open>What follows the signer: the controllers, the probes and the add-on.\<close>

definition manager_controllers ::
  "'c manager_env \<Rightarrow> manager_flags \<Rightarrow> (string, bool) gmap \<Rightarrow> OwnerReference \<Rightarrow> selfSigner \<Rightarrow> manager_exit + running_manager" where
  "manager_controllers e fl gates ownerRef signer =
     (if length (me_podNamespace e) = 0 then Inl NoManagerNamespace
      else case me_tlsWatcher e (me_podNamespace e) of
        Inl err \<Rightarrow> Inl (NoTLSWatcher err)
      | Inr tlsConfig \<Rightarrow>
     (case RegisterClusterManagementAddonReconciler signer (mf_imagePullPolicy fl) ownerRef tlsConfig (me_setupProxy e) of
        Inl err \<Rightarrow> Inl (NoProxyController err)
      | Inr reconciler \<Rightarrow>
     (case (if Enabled gates features_ClusterProfile then me_setupProfile e else None) of
        Some err \<Rightarrow> Inl (NoProfileController err)
      | None \<Rightarrow>
     (case (me_healthz e, me_readyz e) of
        (Some err, _) \<Rightarrow> Inl (NoHealthCheck err)
      | (None, Some err) \<Rightarrow> Inl (NoHealthCheck err)
      | (None, None) \<Rightarrow>
     (case me_newAddonManager e of
        Some err \<Rightarrow> Inl (NoAddonManager err)
      | None \<Rightarrow>
     (case NewAgentAddon (me_addon e) (GetPEMBytes (me_crypto e) (me_encodeKey e) (CA signer)) (CAData (me_crypto e) signer)
             (mf_signerSecretNamespace fl) (mf_enableKubeAPIProxy fl) (mf_enableServiceProxy fl) (mf_enableNetworkPolicies fl) of
        Inl err \<Rightarrow> Inl (NoAddon err)
      | Inr addon \<Rightarrow>
     (case me_addAgent e of
        Some err \<Rightarrow> Inl (AddonRefused err)
      | None \<Rightarrow> Inr \<lparr>rm_signer = signer, rm_reconciler = reconciler,
          rm_profileController = Enabled gates features_ClusterProfile, rm_addon = addon,
          rm_agentImageName = mf_agentImageName fl\<rparr>)))))))"

definition manager_main ::
  "'c manager_env \<Rightarrow> manager_flags \<Rightarrow> 'c \<Rightarrow> (manager_exit + running_manager) \<times> 'c" where
  "manager_main e fl cl =
     (case SetFromMap (mf_featureGates fl) [] of
        Inl err \<Rightarrow> (Inl (BadFeatureGates err), cl)
      | Inr gates \<Rightarrow>
     (case me_newManager e of
        Some err \<Rightarrow> (Inl (NoManager err), cl)
      | None \<Rightarrow>
     (case me_nativeClient e of
        Some err \<Rightarrow> (Inl (NoNativeClient err), cl)
      | None \<Rightarrow>
     (case me_addonClient e of
        Some err \<Rightarrow> (Inl (NoAddonClient err), cl)
      | None \<Rightarrow>
     (case me_proxyClient e of
        Some err \<Rightarrow> (Inl (NoProxyClient err), cl)
      | None \<Rightarrow>
     (case me_config e ''cluster-proxy'' of
        Inl err \<Rightarrow> (Inl (NoConfiguration err), cl)
      | Inr proxyConfig \<Rightarrow>
          (let ownerRef = NewOwnerReferenceFromConfig proxyConfig in
           case NewSelfSignerFromSecretOrGenerate (me_crypto e) (me_api e) (mf_signerSecretNamespace fl)
                  (mf_signerSecretName fl) (Some ownerRef) (me_attempts e) cl of
             (Inl err, cl) \<Rightarrow> (Inl (NoSigner err), cl)
           | (Inr signer, cl) \<Rightarrow> (manager_controllers e fl gates ownerRef signer, cl))))))))"

section \<open>While it runs\<close>

text \<open>The manager leads when it is elected; the add-on manager is started by a goroutine that waits for that.
  A signal and a change of the TLS ConfigMap cancel the context of both.\<close>

datatype addon_phase = AddonWaiting | AddonRunning | AddonStopped

record mgr_state =
  ms_elected :: bool
  ms_cancelled :: bool
  ms_addon :: addon_phase
  ms_exit :: "nat option"

definition mgr_init :: "mgr_state \<Rightarrow> bool" where
  "mgr_init s \<longleftrightarrow> s = \<lparr>ms_elected = False, ms_cancelled = False, ms_addon = AddonWaiting, ms_exit = None\<rparr>"

inductive mgr_step :: "mgr_state \<Rightarrow> mgr_state \<Rightarrow> bool" where
  signal: "ms_exit s = None \<Longrightarrow> mgr_step s (s\<lparr>ms_cancelled := True\<rparr>)"
| tls_config_changed: "ms_exit s = None \<Longrightarrow> mgr_step s (s\<lparr>ms_cancelled := True\<rparr>)"
| elected: "ms_exit s = None \<Longrightarrow> \<not> ms_cancelled s \<Longrightarrow> mgr_step s (s\<lparr>ms_elected := True\<rparr>)"
| addon_starts: "ms_exit s = None \<Longrightarrow> ms_elected s \<Longrightarrow> ms_addon s = AddonWaiting \<Longrightarrow>
    mgr_step s (s\<lparr>ms_addon := AddonRunning\<rparr>)"
| addon_stops: "ms_exit s = None \<Longrightarrow> ms_cancelled s \<Longrightarrow> ms_addon s = AddonRunning \<Longrightarrow>
    mgr_step s (s\<lparr>ms_addon := AddonStopped\<rparr>)"
| addon_fails: "ms_exit s = None \<Longrightarrow> ms_addon s = AddonRunning \<Longrightarrow> mgr_step s (s\<lparr>ms_exit := Some 1\<rparr>)"
| manager_stops: "ms_exit s = None \<Longrightarrow> ms_cancelled s \<Longrightarrow> mgr_step s (s\<lparr>ms_exit := Some 0\<rparr>)"
| manager_fails: "ms_exit s = None \<Longrightarrow> mgr_step s (s\<lparr>ms_exit := Some 1\<rparr>)"

inductive_cases mgr_stepE: "mgr_step s t"

section \<open>The process of the certificate controller\<close>

record controllers_flags =
  cf_certificatesNamespace :: string
  cf_signerSecretName :: string
  cf_signerSecretNamespace :: string
  cf_agentImage :: string

definition addFlagsForCertController :: controllers_flags where
  "addFlagsForCertController =
     \<lparr>cf_certificatesNamespace = ''default'', cf_signerSecretName = ''cluster-proxy-signer'',
      cf_signerSecretNamespace = ''default'', cf_agentImage = []\<rparr>"

record reconcileServerCertificates =
  rs_signerSecretName :: string
  rs_signerSecretNamespace :: string
  rs_rotation :: rotation
  rs_validityHours :: nat
  rs_ownerReference :: OwnerReference

definition registerCertController ::
  "string \<Rightarrow> string \<Rightarrow> string \<Rightarrow> OwnerReference \<Rightarrow> string option \<Rightarrow> string + reconcileServerCertificates" where
  "registerCertController certNamespace signerName signerNamespace ownerRef complete =
     (case complete of
        Some err \<Rightarrow> Inl err
      | None \<Rightarrow> Inr \<lparr>rs_signerSecretName = signerName, rs_signerSecretNamespace = signerNamespace,
          rs_rotation = \<lparr>ro_Namespace = certNamespace, ro_Name = ServerCertSecretName, ro_SANs = server_cert_HostNames,
            ro_ClientAuth = False, ro_Failure = []\<rparr>,
          rs_validityHours = 24 * 180, rs_ownerReference = ownerRef\<rparr>)"

record controllers_env =
  ce_kubeConfig :: "string option"
  ce_client :: "string option"
  ce_manager :: "string option"
  ce_proxyClient :: "string option"
  ce_config :: "string \<Rightarrow> string + ManagedProxyConfiguration"
  ce_complete :: "string option"
  ce_start :: "string option"

text \<open>The error that the command returns and the controller that ran, if any.\<close>

definition runControllerManager ::
  "controllers_env \<Rightarrow> controllers_flags \<Rightarrow> string option \<times> reconcileServerCertificates option" where
  "runControllerManager e fl =
     (case ce_kubeConfig e of
        Some err \<Rightarrow> (Some (''get Kubernetes config: '' @ err), None)
      | None \<Rightarrow>
     (case ce_client e of
        Some err \<Rightarrow> (Some (''create Kubernetes client: '' @ err), None)
      | None \<Rightarrow>
     (case ce_manager e of
        Some err \<Rightarrow> (Some (''set up controller manager: '' @ err), None)
      | None \<Rightarrow>
     (case ce_proxyClient e of
        Some err \<Rightarrow> (Some (''set up proxy client: '' @ err), None)
      | None \<Rightarrow>
     (case ce_config e ''cluster-proxy'' of
        Inl err \<Rightarrow> (Some (''get ManagedProxyConfiguration '' @ go_quote ''cluster-proxy'' @ '': '' @ err), None)
      | Inr proxyConfig \<Rightarrow>
     (case registerCertController (cf_certificatesNamespace fl) (cf_signerSecretName fl) (cf_signerSecretNamespace fl)
             (NewOwnerReferenceFromConfig proxyConfig) (ce_complete e) of
        Inl err \<Rightarrow> (Some (''set up cert controller: '' @ err), None)
      | Inr controller \<Rightarrow>
          (case ce_start e of
             Some err \<Rightarrow> (Some (''run controller manager: '' @ err), Some controller)
           | None \<Rightarrow> (None, Some controller))))))))"

section \<open>Properties\<close>

lemma set_unset_alpha_get:
  "gget (set_unset_alpha v enabled) k =
     (if k = features_ClusterProfile \<and> gget enabled k = None then Some v else gget enabled k)"
  by (auto simp: set_unset_alpha_def DefaultClusterProxyFeatureGates_def gm.get_put)

lemma SetFromMap_get:
  assumes "SetFromMap m enabled = Inr gates" and "gmap_ok m"
  shows "gget gates features_ClusterProfile =
    (case gget m features_ClusterProfile of
       Some v \<Rightarrow> Some v
     | None \<Rightarrow> (case gget enabled features_ClusterProfile of Some v \<Rightarrow> Some v | None \<Rightarrow> gget m ''AllAlpha''))"
  using assms
proof (induction m enabled rule: SetFromMap.induct)
  case (2 k v m enabled)
  have differ: "features_ClusterProfile \<noteq> ''AllAlpha''" "features_ClusterProfile \<noteq> ''AllBeta''"
    by (simp_all add: features_ClusterProfile_def)
  have ok: "gmap_ok m" "gget m k = None"
    using 2 by (auto simp: gmap_ok_def gget_def gkeys_def map_of_eq_None_iff)
  consider "k = ''AllAlpha''" | "k = ''AllBeta''" | "k = features_ClusterProfile"
    using 2 differ
    by (auto simp: DefaultClusterProxyFeatureGates_def gget_def split: if_splits)
  then show ?case
    by cases (use 2 ok differ in \<open>auto simp: gget_Cons gm.get_put set_unset_alpha_get
        DefaultClusterProxyFeatureGates_def split: option.split\<close>)
qed (auto split: option.splits simp: gget_def)

lemma manager_main_running:
  assumes "manager_main e fl cl = (Inr rm, cl')"
  shows "\<exists>gates config. SetFromMap (mf_featureGates fl) [] = Inr gates \<and> me_config e ''cluster-proxy'' = Inr config \<and>
    NewSelfSignerFromSecretOrGenerate (me_crypto e) (me_api e) (mf_signerSecretNamespace fl) (mf_signerSecretName fl)
      (Some (NewOwnerReferenceFromConfig config)) (me_attempts e) cl = (Inr (rm_signer rm), cl') \<and>
    manager_controllers e fl gates (NewOwnerReferenceFromConfig config) (rm_signer rm) = Inr rm"
proof -
  obtain gates config signer where
    start: "SetFromMap (mf_featureGates fl) [] = Inr gates" "me_config e ''cluster-proxy'' = Inr config"
      "NewSelfSignerFromSecretOrGenerate (me_crypto e) (me_api e) (mf_signerSecretNamespace fl) (mf_signerSecretName fl)
        (Some (NewOwnerReferenceFromConfig config)) (me_attempts e) cl = (Inr signer, cl')"
      "manager_controllers e fl gates (NewOwnerReferenceFromConfig config) signer = Inr rm"
    using assms by (auto simp: manager_main_def Let_def split: sum.splits option.splits prod.splits)
  moreover have "rm_signer rm = signer"
    using start(4) by (auto simp: manager_controllers_def split: if_splits sum.splits option.splits)
  ultimately show ?thesis by blast
qed

lemma manager_controllers_running:
  assumes "manager_controllers e fl gates ownerRef signer = Inr rm"
  shows "rp_SelfSigner (rm_reconciler rm) = signer \<and> rp_CAPair (rm_reconciler rm) = CA signer \<and>
    rp_rotationOwner (rm_reconciler rm) = ownerRef \<and>
    rm_profileController rm = Enabled gates features_ClusterProfile \<and>
    NewAgentAddon (me_addon e) (GetPEMBytes (me_crypto e) (me_encodeKey e) (CA signer)) (CAData (me_crypto e) signer)
      (mf_signerSecretNamespace fl) (mf_enableKubeAPIProxy fl) (mf_enableServiceProxy fl) (mf_enableNetworkPolicies fl)
      = Inr (rm_addon rm)"
  using assms
  by (auto simp: manager_controllers_def RegisterClusterManagementAddonReconciler_def
      split: if_splits sum.splits option.splits)

lemma new_addon_signing:
  assumes "NewAgentAddon e (Inr (cert, key)) caData namespace kube service policies = Inr addon"
  shows "aa_Configurations addon =
      [KubeClientRegistration ''open-cluster-management:cluster-proxy:addon-agent'' [''open-cluster-management:cluster-proxy''],
       CustomSignerRegistration ''open-cluster-management.io/proxy-agent-signer'' ''open-cluster-management:cluster-proxy:proxy-agent''
         [''open-cluster-management:cluster-proxy''] [''signer-'' @ hex_encode (base64_encode (ae_sha256 e caData))]]"
    and "aa_CSRSign addon csr =
      (if csr_SignerName csr = ''open-cluster-management.io/proxy-agent-signer''
       then map_sum id Some (ae_sign e (key, cert) (180 * 24) csr) else Inr None)"
  using assms
  by (auto simp: NewAgentAddon_def regConfigs_def CustomSignerWithExpiry_def ProxyAgentSignerName_def
      SubjectUserClusterAddonAgent_def SubjectGroupClusterProxy_def SubjectUserClusterProxyAgent_def
      split: option.splits sum.split)

lemma ca_secret_rendered:
  "\<lparr>ob_Kind = ''Secret'', ob_Meta = owned_meta config ''proxy-server-ca'',
    ob_Spec = SecretSpec [(''ca.crt'', re_caData (rc_render env))]\<rparr> \<in> set (proxy_resources (rc_render env) config)"
  by (simp add: proxy_resources_def newProxySecret_def signerSecretName_def)

text \<open>Reading a secret's data from the API server.\<close>

definition secret_reader :: "'c api \<Rightarrow> 'c \<Rightarrow> string \<Rightarrow> string \<Rightarrow> api_error + (string, string) gmap" where
  "secret_reader api cl namespace name =
     (case ap_get api cl (''Secret'', namespace, name) of
        Inl err \<Rightarrow> Inl err
      | Inr s \<Rightarrow> Inr (secret_data (ob_Spec (so_Object s))))"

lemma secret_reader_ca:
  assumes "stored_ca cy api ns name cl = Some ca" and "stored_key cy api ns name cl = Some key"
  shows "\<exists>data. secret_reader api cl ns name = Inr data \<and> cy_pemDecode cy (annotation data ''ca.crt'') = Some ca \<and>
    decodeKey cy (annotation data ''ca.key'') = Some key"
  using assms by (auto simp: stored_ca_def stored_key_def secret_reader_def TLSCACert_def TLSCAKey_def split: sum.splits)

text \<open>
  What is relied on of \<open>GetCAFromBytes\<close> of the vendored library-go: when it returns a CA, the first certificate is
  the one of the first PEM block, and the key is the one in the key block.
\<close>

definition reads_ca :: "crypto_env \<Rightarrow> (string \<Rightarrow> string \<Rightarrow> string + string list \<times> string) \<Rightarrow> bool" where
  "reads_ca cy getCAFromBytes \<longleftrightarrow>
     (\<forall>certData keyData certs key. getCAFromBytes certData keyData = Inr (certs, key) \<longrightarrow>
        (\<forall>ca. cy_pemDecode cy certData = Some ca \<longrightarrow> certs \<noteq> [] \<and> hd certs = ca) \<and>
        (\<forall>k. decodeKey cy keyData = Some k \<longrightarrow> key = k))"

text \<open>A rotation that refuses every other CA than one: a controller that rotates with this CA only does not
  notice the difference.\<close>

definition only_ca :: "string \<Rightarrow> string \<Rightarrow> 'c ensure_cert \<Rightarrow> 'c ensure_cert" where
  "only_ca ca key ensureCert = (\<lambda>(certs, k) bundle ro cl.
     if certs \<noteq> [] \<and> hd certs = ca \<and> k = key \<and> bundle = certs then ensureCert (certs, k) bundle ro cl
     else (Some ''another CA'', cl))"

lemma rotate_all_only: "rotate_all (only_ca ca key f) ([ca], key) ros cl = rotate_all f ([ca], key) ros cl"
  by (induction ros arbitrary: cl) (simp_all add: only_ca_def split: prod.split option.split)

lemma Reconcile_only:
  assumes "rc_CAPair env = ([ca], key)"
  shows "Reconcile api (env\<lparr>rc_rotate := only_ca ca key (rc_rotate env)\<rparr>) others got cl = Reconcile api env others got cl"
proof -
  let ?only = "env\<lparr>rc_rotate := only_ca ca key (rc_rotate env)\<rparr>"
  have rotation: "ensureRotation (rc_rotate ?only) (rc_CAPair ?only) config ep c = ensureRotation (rc_rotate env) (rc_CAPair env) config ep c"
    for config ep c
    using assms by (simp add: ensureRotation_def rotate_all_only split: sum.split)
  have fields: "rc_specHash ?only = rc_specHash env" "rc_render ?only = rc_render env" "rc_entry ?only = rc_entry env"
      "rc_state ?only = rc_state env" "rc_now ?only = rc_now env"
    by simp_all
  show ?thesis unfolding Reconcile_def rotation fields ..
qed

lemma cert_Reconcile_only:
  assumes "secret_reader api cl ns name = Inr data" and "cy_pemDecode cy (annotation data ''ca.crt'') = Some ca"
    and "decodeKey cy (annotation data ''ca.key'') = Some key" and "reads_ca cy getCA"
  shows "cert_Reconcile (secret_reader api cl) getCA (only_ca ca key f) certNs name ns c =
    cert_Reconcile (secret_reader api cl) getCA f certNs name ns c"
proof (cases "getCA (annotation data ''ca.crt'') (annotation data ''ca.key'')")
  case (Inl err)
  then show ?thesis using assms(1) by (simp add: cert_Reconcile_def)
next
  case (Inr pair)
  obtain certs k where pair: "pair = (certs, k)" by fastforce
  have "certs \<noteq> [] \<and> hd certs = ca \<and> k = key"
    using assms(2-4) Inr pair unfolding reads_ca_def by blast
  then have "only_ca ca key f pair (fst pair) = f pair (fst pair)"
    using pair by (intro ext) (simp add: only_ca_def)
  then show ?thesis using assms(1) Inr by (simp add: cert_Reconcile_def)
qed

text \<open>C12. One CA for the whole tunnel. When the add-on manager runs, its signer secret holds a CA certificate and
  key, and nothing else signs or is trusted: the CA Secret that the operator renders for the proxy servers holds that
  certificate; every certificate that the operator rotates is requested from that certificate and key (a rotation that
  refuses every other CA behaves the same); agents register with the hash of that certificate in their subject, so that they
  register again when it changes; a certificate request of an agent is signed with that certificate and key, for 180 days,
  and a request for another signer is not signed at all; and the certificate controller, a process of its own that reads
  the same secret, rotates the service-proxy's certificate with it.\<close>

theorem one_ca_for_the_tunnel:
  assumes "manager_main e fl cl = (Inr rm, cl')" and "object_store (me_api e)" and "crypto_ok (me_crypto e)"
    and "reads_ca (me_crypto e) getCA"
  shows "\<exists>ca key keyBytes.
    stored_ca (me_crypto e) (me_api e) (mf_signerSecretNamespace fl) (mf_signerSecretName fl) cl' = Some ca \<and>
    stored_key (me_crypto e) (me_api e) (mf_signerSecretNamespace fl) (mf_signerSecretName fl) cl' = Some key \<and>
    me_encodeKey e key = Inr keyBytes \<and>
    (let env = reconciler_env (me_crypto e) sha256 cs vs rc (rm_reconciler rm) in
       \<lparr>ob_Kind = ''Secret'', ob_Meta = owned_meta config ''proxy-server-ca'',
        ob_Spec = SecretSpec [(''ca.crt'', cy_pemEncode (me_crypto e) ''CERTIFICATE'' ca)]\<rparr>
         \<in> set (proxy_resources (rc_render env) config) \<and>
       Reconcile api (env\<lparr>rc_rotate := only_ca ca key (rc_rotate env)\<rparr>) others got c = Reconcile api env others got c) \<and>
    aa_Configurations (rm_addon rm) =
      [KubeClientRegistration ''open-cluster-management:cluster-proxy:addon-agent'' [''open-cluster-management:cluster-proxy''],
       CustomSignerRegistration ''open-cluster-management.io/proxy-agent-signer'' ''open-cluster-management:cluster-proxy:proxy-agent''
         [''open-cluster-management:cluster-proxy'']
         [''signer-'' @ hex_encode (base64_encode (ae_sha256 (me_addon e) (cy_pemEncode (me_crypto e) ''CERTIFICATE'' ca)))]] \<and>
    (\<forall>csr. aa_CSRSign (rm_addon rm) csr =
       (if csr_SignerName csr = ''open-cluster-management.io/proxy-agent-signer''
        then map_sum id Some (ae_sign (me_addon e) (keyBytes, cy_pemEncode (me_crypto e) ''CERTIFICATE'' ca) (180 * 24) csr)
        else Inr None)) \<and>
    cert_Reconcile (secret_reader (me_api e) cl') getCA (only_ca ca key ensureCert) certNamespace
        (mf_signerSecretName fl) (mf_signerSecretNamespace fl) c2 =
      cert_Reconcile (secret_reader (me_api e) cl') getCA ensureCert certNamespace
        (mf_signerSecretName fl) (mf_signerSecretNamespace fl) c2"
proof -
  obtain gates own where
    signer: "NewSelfSignerFromSecretOrGenerate (me_crypto e) (me_api e) (mf_signerSecretNamespace fl) (mf_signerSecretName fl)
        (Some (NewOwnerReferenceFromConfig own)) (me_attempts e) cl = (Inr (rm_signer rm), cl')"
    and run: "manager_controllers e fl gates (NewOwnerReferenceFromConfig own) (rm_signer rm) = Inr rm"
    using manager_main_running [OF assms(1)] by blast
  note parts = manager_controllers_running [OF run]
  let ?ca = "sg_caCert (rm_signer rm)" and ?key = "sg_caKey (rm_signer rm)"
  have stored: "stored_ca (me_crypto e) (me_api e) (mf_signerSecretNamespace fl) (mf_signerSecretName fl) cl' = Some ?ca"
      "stored_key (me_crypto e) (me_api e) (mf_signerSecretNamespace fl) (mf_signerSecretName fl) cl' = Some ?key"
    using signer_stored [OF assms(2,3) signer] by simp_all
  obtain keyBytes where key: "me_encodeKey e ?key = Inr keyBytes"
    using parts by (cases "me_encodeKey e ?key") (simp_all add: NewAgentAddon_def GetPEMBytes_def CA_def)
  then have pem: "GetPEMBytes (me_crypto e) (me_encodeKey e) (CA (rm_signer rm)) =
      Inr (cy_pemEncode (me_crypto e) ''CERTIFICATE'' ?ca, keyBytes)"
    by (simp add: GetPEMBytes_def CA_def)
  note addon = new_addon_signing [OF parts [THEN conjunct2, THEN conjunct2, THEN conjunct2, THEN conjunct2, unfolded pem]]
  obtain data where data: "secret_reader (me_api e) cl' (mf_signerSecretNamespace fl) (mf_signerSecretName fl) = Inr data"
    "cy_pemDecode (me_crypto e) (annotation data ''ca.crt'') = Some ?ca" "decodeKey (me_crypto e) (annotation data ''ca.key'') = Some ?key"
    using secret_reader_ca [OF stored] by blast
  let ?env = "reconciler_env (me_crypto e) sha256 cs vs rc (rm_reconciler rm)"
  have env: "rc_CAPair ?env = ([?ca], ?key)" "re_caData (rc_render ?env) = cy_pemEncode (me_crypto e) ''CERTIFICATE'' ?ca"
    using parts by (simp_all add: reconciler_env_def reconciler_render_def CA_def CAData_def)
  show ?thesis
    using stored key addon Reconcile_only [OF env(1)] cert_Reconcile_only [OF data assms(4)] ca_secret_rendered [of config ?env, unfolded env(2)]
    by (intro exI [of _ ?ca] exI [of _ ?key] exI [of _ keyBytes]) (simp add: Let_def CAData_def)
qed

lemma manager_gates_exit:
  assumes "manager_main e fl cl = (Inl (BadFeatureGates msg), cl')"
  shows "cl' = cl"
proof -
  have "manager_controllers e fl gates r s \<noteq> Inl (BadFeatureGates msg)" for gates r s
    by (simp add: manager_controllers_def split: sum.split option.split)
  then show ?thesis
    using assms by (auto simp: manager_main_def Let_def split: sum.splits option.splits prod.splits)
qed

text \<open>The controller for ClusterProfiles runs exactly when its feature gate is on: when the flag names the gate,
  with that value, else when the flag turns on all alpha gates, whatever the order of its entries; by default it
  does not run. A flag with an unknown gate stops the start-up before anything is contacted.\<close>

theorem profile_controller_gate:
  assumes "gmap_ok (mf_featureGates fl)"
  shows "case manager_main e fl cl of
    (Inr rm, _) \<Rightarrow> rm_profileController rm =
      (case gget (mf_featureGates fl) ''ClusterProfile'' of
         Some v \<Rightarrow> v
       | None \<Rightarrow> (case gget (mf_featureGates fl) ''AllAlpha'' of Some v \<Rightarrow> v | None \<Rightarrow> False))
  | (Inl (BadFeatureGates err), cl') \<Rightarrow> cl' = cl
  | _ \<Rightarrow> True"
proof (cases "manager_main e fl cl")
  case (Pair r cl')
  show ?thesis
  proof (cases r)
    case (Inr rm)
    then obtain gates config where g: "SetFromMap (mf_featureGates fl) [] = Inr gates"
      "manager_controllers e fl gates (NewOwnerReferenceFromConfig config) (rm_signer rm) = Inr rm"
      using manager_main_running [of e fl cl rm cl'] Pair by auto
    have name: "features_ClusterProfile = ''ClusterProfile''" by (simp add: features_ClusterProfile_def)
    show ?thesis
      using manager_controllers_running [OF g(2)] SetFromMap_get [OF g(1) assms] Pair Inr
      by (auto simp: Enabled_def DefaultClusterProxyFeatureGates_def gget_Cons name split: option.split)
  next
    case (Inl err)
    have "cl' = cl" if "err = BadFeatureGates msg" for msg
      using manager_gates_exit [of e fl cl msg cl'] Pair Inl that by simp
    then show ?thesis using Pair Inl by (cases err) simp_all
  qed
qed

text \<open>An example: the first start on an empty hub.\<close>

definition example_manager_env :: "cluster manager_env" where
  "example_manager_env =
     \<lparr>me_newManager = None, me_nativeClient = None, me_addonClient = None, me_proxyClient = None,
      me_config = (\<lambda>_. Inr example_config), me_crypto = plain_crypto, me_encodeKey = Inr, me_api = store_api,
      me_attempts = [(\<lambda>c. c, \<lambda>c. c, Inr (''mine'', ''k''))], me_podNamespace = ''ocm'',
      me_tlsWatcher = (\<lambda>_. Inr \<lparr>tls_MinVersion = 0x0303, tls_CipherSuites = []\<rparr>), me_setupProxy = None,
      me_setupProfile = None, me_healthz = None, me_readyz = None, me_newAddonManager = None,
      me_addon = example_addon_env, me_addAgent = None\<rparr>"

definition example_manager_flags :: manager_flags where
  "example_manager_flags = default_manager_flags\<lparr>mf_featureGates := [(''AllAlpha'', True)]\<rparr>"

lemma example_signer:
  "\<exists>s cl'. NewSelfSignerFromSecretOrGenerate plain_crypto store_api ''default'' ''cluster-proxy-signer'' ref
      [(\<lambda>c. c, \<lambda>c. c, Inr (''mine'', ''k''))] empty_cluster = (Inr s, cl')"
  by (simp add: store_api_def empty_cluster_def DumpCASecret_def NewGeneratedSelfSigner_def plain_crypto_def
      NewSelfSignerWithCA_def gget_def Let_def)

lemma example_manager_runs:
  "\<exists>rm cl'. manager_main example_manager_env example_manager_flags empty_cluster = (Inr rm, cl')"
proof -
  obtain s cl' where "NewSelfSignerFromSecretOrGenerate plain_crypto store_api ''default'' ''cluster-proxy-signer''
      (Some (NewOwnerReferenceFromConfig example_config)) [(\<lambda>c. c, \<lambda>c. c, Inr (''mine'', ''k''))] empty_cluster = (Inr s, cl')"
    using example_signer by blast
  then show ?thesis
    by (simp add: manager_main_def example_manager_env_def example_manager_flags_def default_manager_flags_def
        manager_controllers_def RegisterClusterManagementAddonReconciler_def NewAgentAddon_def GetPEMBytes_def
        example_addon_env_def Let_def)
qed

definition plain_getCA :: "string \<Rightarrow> string \<Rightarrow> string + string list \<times> string" where
  "plain_getCA certData keyData =
     (case (cy_pemDecode plain_crypto certData, decodeKey plain_crypto keyData) of
        (Some ca, Some key) \<Rightarrow> Inr ([ca], key)
      | _ \<Rightarrow> Inl ''not a CA'')"

theorem one_ca_for_the_tunnel_witness:
  "\<exists>rm cl' ca key. manager_main example_manager_env example_manager_flags empty_cluster = (Inr rm, cl') \<and>
     stored_ca plain_crypto store_api ''default'' ''cluster-proxy-signer'' cl' = Some ca \<and>
     stored_key plain_crypto store_api ''default'' ''cluster-proxy-signer'' cl' = Some key \<and>
     aa_CSRSign (rm_addon rm) \<lparr>csr_SignerName = ''open-cluster-management.io/proxy-agent-signer'', csr_Request = ''req''\<rparr> =
       Inr (Some ''req'') \<and>
     reads_ca plain_crypto plain_getCA"
proof -
  obtain rm cl' where run: "manager_main example_manager_env example_manager_flags empty_cluster = (Inr rm, cl')"
    using example_manager_runs by blast
  have reads: "reads_ca plain_crypto plain_getCA"
    by (auto simp: reads_ca_def plain_getCA_def split: option.splits)
  have env: "me_crypto example_manager_env = plain_crypto" "me_api example_manager_env = store_api"
    "mf_signerSecretNamespace example_manager_flags = ''default''" "me_addon example_manager_env = example_addon_env"
    "mf_signerSecretName example_manager_flags = ''cluster-proxy-signer''"
    by (simp_all add: example_manager_env_def example_manager_flags_def default_manager_flags_def)
  have laws: "object_store (me_api example_manager_env)" "crypto_ok (me_crypto example_manager_env)"
    "reads_ca (me_crypto example_manager_env) plain_getCA"
    by (simp_all add: env sa.object_store_axioms plain_crypto_ok reads)
  have "ae_sign example_addon_env p n csr = Inr (csr_Request csr)" for p n csr by (simp add: example_addon_env_def)
  moreover obtain ca key keyBytes where
    "stored_ca plain_crypto store_api ''default'' ''cluster-proxy-signer'' cl' = Some ca"
    "stored_key plain_crypto store_api ''default'' ''cluster-proxy-signer'' cl' = Some key"
    "\<forall>csr. aa_CSRSign (rm_addon rm) csr =
       (if csr_SignerName csr = ''open-cluster-management.io/proxy-agent-signer''
        then map_sum id Some (ae_sign example_addon_env (keyBytes, cy_pemEncode plain_crypto ''CERTIFICATE'' ca) (180 * 24) csr)
        else Inr None)"
    using one_ca_for_the_tunnel [OF run laws, where rc = example_env and ensureCert = example_rotate and ?c2.0 = empty_cluster
        and config = example_config and api = store_api and got = None and others = "[]" and c = empty_cluster
        and certNamespace = "''ocm''" and ?sha256.0 = "\<lambda>s. s" and cs = "\<lambda>_. []" and vs = "\<lambda>_. []"]
    unfolding env by auto
  ultimately show ?thesis using run reads by auto
qed

theorem profile_controller_gate_witness:
  "\<exists>rm cl'. manager_main example_manager_env example_manager_flags empty_cluster = (Inr rm, cl') \<and> rm_profileController rm"
proof -
  obtain rm cl' where run: "manager_main example_manager_env example_manager_flags empty_cluster = (Inr rm, cl')"
    using example_manager_runs by blast
  have "gmap_ok (mf_featureGates example_manager_flags)" by (simp add: example_manager_flags_def gmap_ok_def gkeys_def)
  from profile_controller_gate [OF this, where e = example_manager_env and cl = empty_cluster] run show ?thesis
    by (simp add: example_manager_flags_def gget_def)
qed

text \<open>Every object that the operator creates for a configuration, and the signer secret, leads back to it: an
  event on the object gives one request, for that configuration. So a deleted or damaged secret is
  reconciled.\<close>

theorem owned_objects_reconcile_their_owner:
  "list_all (\<lambda>r. managedProxyConfigurationOwnerHandler (om_OwnerReferences (ob_Meta r)) = [mpc_Name config])
     (ca_secret namespace name cert key (Some (NewOwnerReferenceFromConfig config)) # proxy_resources e config)"
proof -
  have "ParseGroupVersion ''proxy.open-cluster-management.io/v1alpha1'' = Some ''proxy.open-cluster-management.io''"
    by code_simp
  then have "managedProxyConfigurationOwnerHandler [newOwnerReference config] = [mpc_Name config]"
    "managedProxyConfigurationOwnerHandler [NewOwnerReferenceFromConfig config] = [mpc_Name config]"
    by (simp_all add: newOwnerReference_def NewOwnerReferenceFromConfig_def)
  then show ?thesis
    by (simp add: proxy_resources_def ca_secret_def newServiceAccount_def newProxyService_def newProxySecret_def
        newProxyServerDeployment_def newProxyServerRole_def newProxyServerRoleBinding_def owned_meta_def Let_def)
qed

text \<open>The run of the manager.\<close>

definition mgr_inv :: "mgr_state \<Rightarrow> bool" where
  "mgr_inv s \<longleftrightarrow> (ms_addon s = AddonWaiting \<or> ms_elected s) \<and> (ms_exit s = Some 0 \<longrightarrow> ms_cancelled s) \<and>
     (ms_addon s = AddonStopped \<longrightarrow> ms_cancelled s)"

interpretation mgr: invariant_rule mgr_init mgr_step mgr_inv
  by unfold_locales (auto simp: mgr_init_def mgr_inv_def elim!: mgr_stepE)

text \<open>The add-on manager, which writes to the managed clusters' namespaces, has started only on an elected
  leader; the process ends with success only after a signal or a change of the TLS configuration, and once
  there was one, nothing takes it back and the process can end at any time.\<close>

theorem addon_manager_only_on_leader:
  assumes "reach mgr_init mgr_step s"
  shows "(if ms_addon s = AddonWaiting then True else ms_elected s) \<and>
    (if ms_exit s = Some 0 then ms_cancelled s else True) \<and>
    (if ms_cancelled s \<and> ms_exit s = None then
       (\<exists>t. mgr_step s t \<and> ms_exit t = Some 0) \<and> {t. mgr_step s t} \<subseteq> {t. ms_cancelled t} else True)"
  using mgr.reach_inv [OF assms]
  by (auto simp: mgr_inv_def intro: manager_stops elim!: mgr_stepE)

theorem addon_manager_only_on_leader_witness:
  "\<exists>s. reach mgr_init mgr_step s \<and> ms_addon s = AddonRunning \<and> ms_elected s"
proof -
  let ?s0 = "\<lparr>ms_elected = False, ms_cancelled = False, ms_addon = AddonWaiting, ms_exit = None\<rparr>"
  have "reach mgr_init mgr_step (?s0\<lparr>ms_elected := True\<rparr>)"
    by (rule reach.step [OF reach.start [of _ ?s0]], simp add: mgr_init_def, rule elected, simp_all)
  then have r: "reach mgr_init mgr_step (?s0\<lparr>ms_elected := True\<rparr>\<lparr>ms_addon := AddonRunning\<rparr>)"
    by (rule reach.step) (rule addon_starts, simp_all)
  show ?thesis using r addon_manager_only_on_leader [OF r] by auto
qed

end
