(* ===== verification/Main_Command.thy ===== *)
theory Main_Command
  imports User_Server Service_Proxy_Command Manager_Command
begin

text \<open>
  The cluster-proxy binary (cmd/cluster-proxy/main.go): one command with the subcommands user-server,
  service-proxy and controllers, run by cobra (vendor/github.com/spf13/cobra/command.go), whose search
  for the command and error handling are translated; the parsing of flags by pflag and cobra's own
  help and completion commands are parameters. The theorems show that the first argument selects the
  one role that runs and that an error is reported exactly once, with the exit code.
  What the root command sets of cobra's fields is part of the model.
\<close>

section \<open>Commands\<close>

datatype command =
    RootCmd
  | UserServerCmd
  | ServiceProxyCmd
  | ControllersCmd
  | HelpCmd
  | CompletionCmd
  | ShellCmd string
  | CompleteCmd

text \<open>The subcommands by name, cobra's own ones included.\<close>

fun commands :: "command \<Rightarrow> (string \<times> command) list" where
  "commands RootCmd =
     [(''user-server'', UserServerCmd), (''service-proxy'', ServiceProxyCmd), (''controllers'', ControllersCmd),
      (''help'', HelpCmd), (''__complete'', CompleteCmd), (''__completeNoDesc'', CompleteCmd),
      (''completion'', CompletionCmd)]"
| "commands CompletionCmd =
     [(''bash'', ShellCmd ''bash''), (''zsh'', ShellCmd ''zsh''), (''fish'', ShellCmd ''fish''),
      (''powershell'', ShellCmd ''powershell'')]"
| "commands c = []"

definition findNext :: "command \<Rightarrow> string \<Rightarrow> command option" where
  "findNext c nm = map_of (commands c) nm"

text \<open>The fields of a command that decide what cobra prints of an error; those of the root are set by
  \<open>newClusterProxyCommand\<close>, and no other command sets them.\<close>

record cobra_fields =
  cm_SilenceErrors :: bool
  cm_SilenceUsage :: bool

definition newClusterProxyCommand :: "command \<Rightarrow> cobra_fields" where
  "newClusterProxyCommand c =
     (if c = RootCmd then \<lparr>cm_SilenceErrors = True, cm_SilenceUsage = False\<rparr>
      else \<lparr>cm_SilenceErrors = False, cm_SilenceUsage = False\<rparr>)"

section \<open>Version\<close>

text \<open>pkg/version: the variables that the linker sets, the version made of them, and the metric with the
  constant value 1 that carries them as labels. The version of the root command is that text, or a
  placeholder; the other commands have none.\<close>

record build_vars =
  bv_commitFromGit :: string
  bv_versionFromGit :: string
  bv_majorFromGit :: string
  bv_minorFromGit :: string
  bv_buildDate :: string

record version_Info =
  vi_Major :: string
  vi_Minor :: string
  vi_GitCommit :: string
  vi_GitVersion :: string
  vi_BuildDate :: string

definition version_Get :: "build_vars \<Rightarrow> version_Info" where
  "version_Get b =
     \<lparr>vi_Major = bv_majorFromGit b, vi_Minor = bv_minorFromGit b, vi_GitCommit = bv_commitFromGit b,
      vi_GitVersion = bv_versionFromGit b, vi_BuildDate = bv_buildDate b\<rparr>"

definition Info_String :: "version_Info \<Rightarrow> string" where
  "Info_String info = vi_GitVersion info"

definition build_info_metric :: "build_vars \<Rightarrow> string \<times> (string, string) gmap \<times> int" where
  "build_info_metric b =
     (''open_cluster_management_cluster_proxy_addon_build_info'',
      [(''major'', bv_majorFromGit b), (''minor'', bv_minorFromGit b),
       (''gitCommit'', bv_commitFromGit b), (''gitVersion'', bv_versionFromGit b)], 1)"

definition command_version :: "build_vars \<Rightarrow> command \<Rightarrow> string" where
  "command_version b c =
     (if c \<noteq> RootCmd then []
      else let v = Info_String (version_Get b) in if length v = 0 then ''<unknown>'' else v)"

section \<open>Errors and the process\<close>

text \<open>Errors: those of the roles, and the texts cobra and pflag make.\<close>

datatype run_error =
    UserServerError user_error
  | ServiceProxyError sp_run_error
  | ControllersError string
  | ServeError string
  | CobraError string

record parsed =
  ps_help :: bool
  ps_version :: bool
  ps_user :: user_flags
  ps_service :: sp_flags
  ps_controllers :: controllers_flags

text \<open>The process: what pflag makes of the arguments of a command, which flags stand without a value,
  what the help output and cobra's own commands return, and the worlds of the three roles. \<open>mv_serve\<close>
  is how the servers of a role that started end.\<close>

record main_env =
  mv_build :: build_vars
  mv_noOpt :: "command \<Rightarrow> string \<Rightarrow> bool"
  mv_shortNoOpt :: "command \<Rightarrow> string \<Rightarrow> bool"
  mv_parse :: "command \<Rightarrow> string list \<Rightarrow> string + parsed"
  mv_help :: "run_error option"
  mv_builtin :: "command \<Rightarrow> string list \<Rightarrow> run_error option"
  mv_suggestions :: "string \<Rightarrow> string"
  mv_yaml :: "string \<Rightarrow> string + ExposedService list"
  mv_user :: user_env
  mv_service :: sp_env
  mv_provider :: provider_env
  mv_controllers :: controllers_env
  mv_serve :: "command \<Rightarrow> string option"

section \<open>Finding the command\<close>

text \<open>A flag that takes the next argument as its value.\<close>

definition takes_value :: "main_env \<Rightarrow> command \<Rightarrow> string \<Rightarrow> bool" where
  "takes_value e c s \<longleftrightarrow>
     has_prefix s ''--'' \<and> \<not> contains s ''='' \<and> \<not> mv_noOpt e c (drop 2 s) \<or>
     has_prefix s ''-'' \<and> \<not> contains s ''='' \<and> length s = 2 \<and> \<not> mv_shortNoOpt e c (drop 1 s)"

fun stripFlags :: "main_env \<Rightarrow> command \<Rightarrow> string list \<Rightarrow> string list" where
  "stripFlags e c [] = []"
| "stripFlags e c (s # args) =
     (if s = ''--'' then []
      else if takes_value e c s then (if length args \<le> 1 then [] else stripFlags e c (drop 1 args))
      else if s \<noteq> [] \<and> \<not> has_prefix s ''-'' then s # stripFlags e c args
      else stripFlags e c args)"

fun argsMinusFirstX :: "main_env \<Rightarrow> command \<Rightarrow> string list \<Rightarrow> string \<Rightarrow> string list" where
  "argsMinusFirstX e c [] x = []"
| "argsMinusFirstX e c (s # args) x =
     (if s = ''--'' then s # args
      else if takes_value e c s then
        (case args of [] \<Rightarrow> [s] | a # rest \<Rightarrow> s # a # argsMinusFirstX e c rest x)
      else if \<not> has_prefix s ''-'' \<and> s = x then args
      else s # argsMinusFirstX e c args x)"

fun depth :: "command \<Rightarrow> nat" where
  "depth RootCmd = 2"
| "depth CompletionCmd = 1"
| "depth c = 0"

lemma findNext_depth: "findNext c nm = Some d \<Longrightarrow> depth d < depth c"
  by (cases c) (auto simp: findNext_def split: if_splits)

function innerfind :: "main_env \<Rightarrow> command \<Rightarrow> string list \<Rightarrow> command \<times> string list" where
  "innerfind e c args =
     (case stripFlags e c args of
        [] \<Rightarrow> (c, args)
      | nm # rest \<Rightarrow>
          (case findNext c nm of
             None \<Rightarrow> (c, args)
           | Some d \<Rightarrow> innerfind e d (argsMinusFirstX e c args nm)))"
  by auto
termination
  by (relation "measure (\<lambda>(e, c, args). depth c)") (auto simp: findNext_depth)

text \<open>Only the root has subcommands and no parent; cobra's completion commands check their arguments
  themselves.\<close>

definition legacyArgs :: "main_env \<Rightarrow> command \<Rightarrow> string list \<Rightarrow> run_error option" where
  "legacyArgs e c args =
     (if c = RootCmd \<and> args \<noteq> [] then
        Some (CobraError (''unknown command '' @ go_quote (hd args) @ '' for '' @ go_quote ''cluster-proxy'' @
          mv_suggestions e (hd args)))
      else None)"

definition Find :: "main_env \<Rightarrow> string list \<Rightarrow> command \<times> string list \<times> run_error option" where
  "Find e args =
     (case innerfind e RootCmd args of
        (c, a) \<Rightarrow> (c, a, legacyArgs e c (stripFlags e c a)))"

section \<open>Running it\<close>

text \<open>The \<open>RunE\<close> of a role: its start-up as the other theories model it, then its servers.\<close>

definition user_server_RunE :: "main_env \<Rightarrow> user_flags \<Rightarrow> run_error option" where
  "user_server_RunE e fl =
     (case user_Run (mv_yaml e) (mv_user e) (user_AddFlags fl newUserServer) of
        Inl (err, k) \<Rightarrow> Some (UserServerError err)
      | Inr k \<Rightarrow> map_option ServeError (mv_serve e UserServerCmd))"

definition service_proxy_RunE :: "main_env \<Rightarrow> sp_flags \<Rightarrow> run_error option" where
  "service_proxy_RunE e fl =
     (case NewServiceProxyCommand (mv_service e) (mv_provider e) fl of
        Inl err \<Rightarrow> Some (ServiceProxyError err)
      | Inr s \<Rightarrow> map_option ServeError (mv_serve e ServiceProxyCmd))"

definition controllers_RunE :: "main_env \<Rightarrow> controllers_flags \<Rightarrow> run_error option" where
  "controllers_RunE e fl = map_option ControllersError (fst (runControllerManager (mv_controllers e) fl))"

fun role_RunE :: "main_env \<Rightarrow> command \<Rightarrow> parsed \<Rightarrow> run_error option" where
  "role_RunE e UserServerCmd p = user_server_RunE e (ps_user p)"
| "role_RunE e ServiceProxyCmd p = service_proxy_RunE e (ps_service p)"
| "role_RunE e ControllersCmd p = controllers_RunE e (ps_controllers p)"
| "role_RunE e c p = None"

definition is_role :: "command \<Rightarrow> bool" where
  "is_role c \<longleftrightarrow> c \<in> {UserServerCmd, ServiceProxyCmd, ControllersCmd}"

text \<open>What is printed: the message of an error by \<open>runMain\<close>, which may have several lines, or by cobra after its prefix,
  cobra's hint, usage, help and version. The outcome of \<open>execute\<close>: the roles that ran, whether the command
  silenced its usage meanwhile, and \<open>ErrHelp\<close> or another error.\<close>

datatype msg =
    ErrorMessage run_error
  | CobraErrorMessage run_error
  | HintOf command
  | UsageOf command
  | HelpOf command
  | VersionOf string

datatype outcome = Done | WantsHelp | Failed run_error

record execution =
  ex_ran :: "command list"
  ex_msgs :: "msg list"
  ex_silenceUsage :: bool
  ex_outcome :: outcome

definition outcome_of :: "run_error option \<Rightarrow> outcome" where
  "outcome_of r = (case r of None \<Rightarrow> Done | Some err \<Rightarrow> Failed err)"

definition root_RunE :: "main_env \<Rightarrow> execution" where
  "root_RunE e =
     (case mv_help e of
        Some err \<Rightarrow> \<lparr>ex_ran = [], ex_msgs = [HelpOf RootCmd], ex_silenceUsage = False, ex_outcome = Failed err\<rparr>
      | None \<Rightarrow>
          \<lparr>ex_ran = [], ex_msgs = [HelpOf RootCmd], ex_silenceUsage = True,
           ex_outcome = Failed (CobraError ''a subcommand is required'')\<rparr>)"

definition cobra_execute :: "main_env \<Rightarrow> command \<Rightarrow> string list \<Rightarrow> execution" where
  "cobra_execute e c args =
     (let plain = (\<lambda>roles r. \<lparr>ex_ran = roles, ex_msgs = [], ex_silenceUsage = False, ex_outcome = r\<rparr>)
      in case mv_parse e c args of
           Inl err \<Rightarrow> plain [] (Failed (CobraError err))
         | Inr p \<Rightarrow>
             if ps_help p then plain [] WantsHelp
             else if command_version (mv_build e) c \<noteq> [] \<and> ps_version p
             then (plain [] Done)\<lparr>ex_msgs := [VersionOf (''cluster-proxy version '' @ command_version (mv_build e) c)]\<rparr>
             else if c = CompletionCmd then plain [] WantsHelp
             else if c = RootCmd then root_RunE e
             else if is_role c then plain [c] (outcome_of (role_RunE e c p))
             else plain [] (outcome_of (mv_builtin e c args)))"

text \<open>\<open>ExecuteC\<close> of the root, with the fields of the commands: an error is printed unless the command or the root
  silences errors, the usage unless one of them silences that.\<close>

definition ExecuteC ::
  "(command \<Rightarrow> cobra_fields) \<Rightarrow> main_env \<Rightarrow> string list \<Rightarrow> command list \<times> msg list \<times> run_error option" where
  "ExecuteC cmds e args =
     (case Find e args of
        (c, flags, Some err) \<Rightarrow>
          ([], (if cm_SilenceErrors (cmds c) then [] else [CobraErrorMessage err, HintOf c]), Some err)
      | (c, flags, None) \<Rightarrow>
          (let x = cobra_execute e c flags
           in case ex_outcome x of
                Done \<Rightarrow> (ex_ran x, ex_msgs x, None)
              | WantsHelp \<Rightarrow> (ex_ran x, ex_msgs x @ [HelpOf c], None)
              | Failed err \<Rightarrow>
                  (ex_ran x,
                   ex_msgs x
                   @ (if cm_SilenceErrors (cmds c) \<or> cm_SilenceErrors (cmds RootCmd) then [] else [CobraErrorMessage err])
                   @ (if ex_silenceUsage x \<or> cm_SilenceUsage (cmds c) \<or> cm_SilenceUsage (cmds RootCmd)
                      then [] else [UsageOf c]),
                   Some err)))"

record process_result =
  pr_exit :: nat
  pr_ran :: "command list"
  pr_msgs :: "msg list"
  pr_flushes :: nat

definition runMain :: "command list \<times> msg list \<times> run_error option \<Rightarrow> process_result" where
  "runMain executed =
     (case executed of
        (roles, msgs, Some err) \<Rightarrow> \<lparr>pr_exit = 1, pr_ran = roles, pr_msgs = msgs @ [ErrorMessage err], pr_flushes = 1\<rparr>
      | (roles, msgs, None) \<Rightarrow> \<lparr>pr_exit = 0, pr_ran = roles, pr_msgs = msgs, pr_flushes = 1\<rparr>)"

definition cluster_proxy_main :: "main_env \<Rightarrow> string list \<Rightarrow> process_result" where
  "cluster_proxy_main e args = runMain (ExecuteC newClusterProxyCommand e args)"

section \<open>Properties\<close>

lemma command_version_root: "command_version b c = [] \<longleftrightarrow> c \<noteq> RootCmd"
  by (simp add: command_version_def Let_def)

declare command_version_root [simp]

definition role_names :: "(string \<times> command) list" where
  "role_names = [(''user-server'', UserServerCmd), (''service-proxy'', ServiceProxyCmd), (''controllers'', ControllersCmd)]"

lemma role_first:
  assumes "(nm, c) \<in> set role_names"
  shows "findNext RootCmd nm = Some c" "commands c = []" "is_role c"
    "stripFlags e RootCmd (nm # rest) = nm # stripFlags e RootCmd rest"
    "argsMinusFirstX e RootCmd (nm # rest) nm = rest"
  using assms
  by (auto simp: role_names_def findNext_def is_role_def takes_value_def has_prefix_def)

lemma innerfind_leaf: "commands c = [] \<Longrightarrow> innerfind e c args = (c, args)"
  by (subst innerfind.simps) (simp add: findNext_def split: list.split)

lemma Find_role:
  assumes "(nm, c) \<in> set role_names"
  shows "Find e (nm # rest) = (c, rest, None)"
proof -
  have "innerfind e RootCmd (nm # rest) = (c, rest)"
    by (subst innerfind.simps)
       (simp add: role_first [OF assms] innerfind_leaf del: innerfind.simps stripFlags.simps argsMinusFirstX.simps)
  moreover have "c \<noteq> RootCmd" using role_first(3) [OF assms] by (auto simp: is_role_def)
  ultimately show ?thesis by (simp add: Find_def legacyArgs_def)
qed

text \<open>The errors that the output tells of, whoever printed them.\<close>

fun reports :: "msg \<Rightarrow> run_error list" where
  "reports (ErrorMessage err) = [err]"
| "reports (CobraErrorMessage err) = [err]"
| "reports m = []"

definition error_reports :: "msg list \<Rightarrow> run_error list" where
  "error_reports ms = concat (map reports ms)"

lemma error_reports_simps [simp]:
  "error_reports [] = []" "error_reports (m # ms) = reports m @ error_reports ms"
  "error_reports (a @ b) = error_reports a @ error_reports b"
  by (simp_all add: error_reports_def)

lemma execute_facts:
  "error_reports (ex_msgs (cobra_execute e c args)) = []"
  "ex_ran (cobra_execute e c args) = [] \<or> ex_ran (cobra_execute e c args) = [c] \<and> is_role c"
  by (auto simp: cobra_execute_def root_RunE_def Let_def split: sum.split option.split)

lemma fields_silence: "cm_SilenceErrors (newClusterProxyCommand RootCmd)"
  by (simp add: newClusterProxyCommand_def)

lemma Find_error_root: "Find e args = (c, flags, Some err) \<Longrightarrow> c = RootCmd"
  by (auto simp: Find_def legacyArgs_def split: prod.splits if_splits)

text \<open>What the process does with the command that was found.\<close>

lemma main_outcome:
  assumes "Find e args = (c, flags, None)"
  shows "pr_ran (cluster_proxy_main e args) = ex_ran (cobra_execute e c flags) \<and>
    (case ex_outcome (cobra_execute e c flags) of
       Failed err \<Rightarrow> pr_exit (cluster_proxy_main e args) = 1 \<and> error_reports (pr_msgs (cluster_proxy_main e args)) = [err]
     | _ \<Rightarrow> pr_exit (cluster_proxy_main e args) = 0 \<and> error_reports (pr_msgs (cluster_proxy_main e args)) = [])"
  using assms fields_silence execute_facts(1) [of e c flags]
  by (auto simp: cluster_proxy_main_def runMain_def ExecuteC_def Let_def split: outcome.split)

lemma main_not_found:
  assumes "Find e args = (c, flags, Some err)"
  shows "pr_ran (cluster_proxy_main e args) = [] \<and> pr_exit (cluster_proxy_main e args) = 1 \<and>
    error_reports (pr_msgs (cluster_proxy_main e args)) = [err]"
  using assms fields_silence Find_error_root [OF assms] by (simp add: cluster_proxy_main_def runMain_def ExecuteC_def)


text \<open>With the name of a role as its first argument and flags that parse and do not ask for help,
  the process runs that role and no other, with the flags that follow the name, and its exit code
  tells whether the role returned an error. Without a subcommand, or with a name that is none, no
  role runs and the process fails.\<close>

theorem first_argument_selects_role:
  assumes "(nm, c) \<in> set role_names" and "mv_parse e c rest = Inr p" and "\<not> ps_help p"
    and "nm' \<noteq> []" and "\<not> has_prefix nm' ''-''" and "findNext RootCmd nm' = None"
    and "mv_parse e RootCmd [] = Inr p'" and "\<not> ps_help p'" and "\<not> ps_version p'"
  shows "pr_ran (cluster_proxy_main e (nm # rest)) = [c] \<and>
    pr_exit (cluster_proxy_main e (nm # rest)) = (if role_RunE e c p = None then 0 else 1) \<and>
    pr_ran (cluster_proxy_main e []) = [] \<and> pr_exit (cluster_proxy_main e []) = 1 \<and>
    pr_ran (cluster_proxy_main e (nm' # rest)) = [] \<and> pr_exit (cluster_proxy_main e (nm' # rest)) = 1"
proof (intro conjI)
  have role: "is_role c" by (rule role_first(3) [OF assms(1)])
  then have x: "cobra_execute e c rest = \<lparr>ex_ran = [c], ex_msgs = [], ex_silenceUsage = False,
      ex_outcome = outcome_of (role_RunE e c p)\<rparr>"
    using assms(2,3) by (auto simp: cobra_execute_def Let_def is_role_def)
  show "pr_ran (cluster_proxy_main e (nm # rest)) = [c]"
    "pr_exit (cluster_proxy_main e (nm # rest)) = (if role_RunE e c p = None then 0 else 1)"
    using main_outcome [OF Find_role [OF assms(1), of e rest]] by (simp_all add: x outcome_of_def split: option.splits)
  have none: "Find e [] = (RootCmd, [], None)"
    by (simp add: Find_def legacyArgs_def)
  have root: "ex_ran (root_RunE e) = []" "\<exists>err. ex_outcome (root_RunE e) = Failed err"
    by (simp_all add: root_RunE_def split: option.split)
  have r: "cobra_execute e RootCmd [] = root_RunE e"
    using assms(7-9) by (simp add: cobra_execute_def Let_def)
  show "pr_ran (cluster_proxy_main e []) = []" "pr_exit (cluster_proxy_main e []) = 1"
    using root main_outcome [OF none] by (auto simp: r)
  have strip: "stripFlags e RootCmd (nm' # rest) = nm' # stripFlags e RootCmd rest"
    using assms(4,5) by (cases nm') (auto simp: takes_value_def has_prefix_def)
  have "innerfind e RootCmd (nm' # rest) = (RootCmd, nm' # rest)"
    by (subst innerfind.simps) (simp add: strip assms(6) del: stripFlags.simps innerfind.simps)
  then have "\<exists>err. Find e (nm' # rest) = (RootCmd, nm' # rest, Some err)"
    by (simp add: Find_def legacyArgs_def strip del: stripFlags.simps)
  then show "pr_ran (cluster_proxy_main e (nm' # rest)) = []" "pr_exit (cluster_proxy_main e (nm' # rest)) = 1"
    using main_not_found by blast+
qed

definition example_parsed :: parsed where
  "example_parsed = \<lparr>ps_help = False, ps_version = False, ps_user = sample_flags, ps_service = example_sp_flags,
     ps_controllers = addFlagsForCertController\<rparr>"

definition example_main_env :: main_env where
  "example_main_env =
     \<lparr>mv_build = \<lparr>bv_commitFromGit = [], bv_versionFromGit = ''v0.9.0'', bv_majorFromGit = ''0'',
        bv_minorFromGit = ''9'', bv_buildDate = []\<rparr>,
      mv_noOpt = (\<lambda>c s. s = ''help''), mv_shortNoOpt = (\<lambda>c s. s = ''h''), mv_parse = (\<lambda>c args. Inr example_parsed),
      mv_help = None, mv_builtin = (\<lambda>c args. None), mv_suggestions = (\<lambda>s. []), mv_yaml = (\<lambda>s. Inl ''no YAML''),
      mv_user = sample_env, mv_service = example_sp_env, mv_provider = example_provider_env,
      mv_controllers = \<lparr>ce_kubeConfig = Some ''no cluster'', ce_client = None, ce_manager = None,
        ce_proxyClient = None, ce_config = (\<lambda>nm. Inl ''not found''), ce_complete = None, ce_start = None\<rparr>,
      mv_serve = (\<lambda>c. None)\<rparr>"

theorem first_argument_selects_role_witness:
  "pr_ran (cluster_proxy_main example_main_env [''user-server'', ''--port=9092'']) = [UserServerCmd] \<and>
   pr_exit (cluster_proxy_main example_main_env [''user-server'', ''--port=9092'']) = 0 \<and>
   pr_exit (cluster_proxy_main example_main_env []) = 1 \<and>
   pr_exit (cluster_proxy_main example_main_env [''agent'', ''--port=9092'']) = 1"
proof -
  have run: "role_RunE example_main_env UserServerCmd example_parsed = None"
    using sample_Run by (auto simp: user_server_RunE_def example_main_env_def example_parsed_def)
  have "(''user-server'', UserServerCmd) \<in> set role_names" by (simp add: role_names_def)
  moreover have "mv_parse example_main_env c args = Inr example_parsed" for c args
    by (simp add: example_main_env_def)
  moreover have "\<not> ps_help example_parsed" "\<not> ps_version example_parsed"
    by (simp_all add: example_parsed_def)
  moreover have "''agent'' \<noteq> []" "\<not> has_prefix ''agent'' ''-''" "findNext RootCmd ''agent'' = None"
    by (simp_all add: has_prefix_def findNext_def)
  ultimately show ?thesis
    using first_argument_selects_role [of "''user-server''" UserServerCmd example_main_env "[''--port=9092'']"
        example_parsed "''agent''" example_parsed] run
    by simp
qed


text \<open>A binary asked for its version prints it whatever the build left out, runs no role and succeeds.\<close>

lemma version_is_printed:
  assumes "mv_parse e RootCmd flags = Inr p" and "\<not> ps_help p" and "ps_version p" and "Find e args = (RootCmd, flags, None)"
  shows "cluster_proxy_main e args =
    \<lparr>pr_exit = 0, pr_ran = [],
     pr_msgs = [VersionOf (''cluster-proxy version '' @
       (if bv_versionFromGit (mv_build e) = [] then ''<unknown>'' else bv_versionFromGit (mv_build e)))],
     pr_flushes = 1\<rparr>"
  using assms
  by (simp add: cluster_proxy_main_def runMain_def ExecuteC_def cobra_execute_def Let_def command_version_def
      version_Get_def Info_String_def)

end
