(* ===== verification/Port_Forward.thy ===== *)
theory Port_Forward
  imports Go_Http
begin

text \<open>
  The local proxy through which an add-on agent reaches the proxy servers by pod port-forwarding
  (pkg/util/portforward.go). The set-up of a connection is a function with one parameter per call
  that can fail; the phase in which four goroutines work on it is a step relation; the accept loop
  is a function of what \<open>Accept\<close> returns. What matters are the request identifiers, the headers of
  the two streams, and which connections are closed on which path.
\<close>

section \<open>The proxy\<close>

record roundRobin =
  rr_proxyServerNamespace :: string
  rr_podSelector :: string
  rr_targetPort :: int
  rr_reqID :: int
  rr_firstConnReceived :: bool

definition NewRoundRobinLocalProxyWithReqId :: "bool \<Rightarrow> string \<Rightarrow> string \<Rightarrow> int \<Rightarrow> int \<Rightarrow> roundRobin" where
  "NewRoundRobinLocalProxyWithReqId readiness podNamespace podSelector targetPort reqId =
     \<lparr>rr_proxyServerNamespace = podNamespace, rr_podSelector = podSelector, rr_targetPort = targetPort,
      rr_reqID = reqId, rr_firstConnReceived = readiness\<rparr>"

definition NewRoundRobinLocalProxy :: "bool \<Rightarrow> string \<Rightarrow> string \<Rightarrow> int \<Rightarrow> roundRobin" where
  "NewRoundRobinLocalProxy readiness podNamespace podSelector targetPort =
     NewRoundRobinLocalProxyWithReqId readiness podNamespace podSelector targetPort 0"

record pod =
  pod_Name :: string
  pod_Phase :: string

text \<open>What the calls of \<open>handle\<close> return: \<open>Some\<close> is an error. The random index is below the number of
  candidates.\<close>

record handle_env =
  he_roundTripper :: "string option"
  he_client :: "string option"
  he_pods :: "string + pod list"
  he_rand :: "nat \<Rightarrow> nat"
  he_dial :: "string \<Rightarrow> string option"
  he_errorStream :: "string option"
  he_dataStream :: "string option"

text \<open>The local connection, the connection to the pod (with its name) and the headers the two streams
  were created with.\<close>

record forwarding =
  fo_localOpen :: bool
  fo_pod :: "string option"
  fo_podOpen :: bool
  fo_errorHeaders :: "header option"
  fo_dataHeaders :: "header option"

definition accepted :: forwarding where
  "accepted = \<lparr>fo_localOpen = True, fo_pod = None, fo_podOpen = False, fo_errorHeaders = None, fo_dataHeaders = None\<rparr>"

definition error_headers :: "int \<Rightarrow> int \<Rightarrow> header" where
  "error_headers targetPort currentID =
     (let headers = [];
          headers = header_set headers ''streamType'' ''error'';
          headers = header_set headers ''port'' (itoa targetPort)
      in header_set headers ''requestID'' (itoa currentID))"

text \<open>\<open>handle\<close> up to the point where it waits. After the dial every return closes the connection to the
  pod; only after both streams exist does a return close the local connection.\<close>

definition handle ::
  "handle_env \<Rightarrow> roundRobin \<Rightarrow> (string option \<times> forwarding) \<times> roundRobin" where
  "handle e r =
     (case he_roundTripper e of
        Some err \<Rightarrow> ((Some err, accepted), r)
      | None \<Rightarrow>
     (case he_client e of
        Some err \<Rightarrow> ((Some err, accepted), r)
      | None \<Rightarrow>
     (case he_pods e of
        Inl err \<Rightarrow> ((Some err, accepted), r)
      | Inr podList \<Rightarrow>
          (let candidates = filter (\<lambda>p. pod_Phase p = ''Running'') podList in
           if length candidates = 0 then ((Some ''no valid proxy server pod instances found'', accepted), r)
           else
             (let currentID = rr_reqID r;
                  r = r\<lparr>rr_reqID := rr_reqID r + 1\<rparr>;
                  pod = candidates ! he_rand e (length candidates)
              in case he_dial e (pod_Name pod) of
                   Some err \<Rightarrow> ((Some err, accepted), r)
                 | None \<Rightarrow>
                     (let f = accepted\<lparr>fo_pod := Some (pod_Name pod)\<rparr>;
                          headers = error_headers (rr_targetPort r) currentID
                      in case he_errorStream e of
                           Some err \<Rightarrow> ((Some err, f), r)
                         | None \<Rightarrow>
                             (let f = f\<lparr>fo_errorHeaders := Some headers\<rparr>;
                                  headers = header_set headers ''streamType'' ''data''
                              in case he_dataStream e of
                                   Some err \<Rightarrow> ((Some err, f), r)
                                 | None \<Rightarrow> ((None, f\<lparr>fo_podOpen := True, fo_dataHeaders := Some headers\<rparr>),
                                            r\<lparr>rr_firstConnReceived := True\<rparr>))))))))"

section \<open>Forwarding\<close>

text \<open>The goroutine that reads the error stream and hands an error over on an unbuffered channel, which
  it closes in the end; the two copying goroutines; and \<open>handle\<close> itself, which waits for the first of
  them.\<close>

datatype error_reader = ErrReading | ErrSending string | ErrClosed

datatype copier = Copying | CopyDone | CopyFailed

datatype waiter = Waiting | ReturnedRemote | ReturnedLocal | ReturnedError

record fwd_state =
  fw_main :: waiter
  fw_error :: error_reader
  fw_remote :: copier
  fw_local :: copier
  fw_localOpen :: bool
  fw_podOpen :: bool

definition fwd_init :: "fwd_state \<Rightarrow> bool" where
  "fwd_init s \<longleftrightarrow> s = \<lparr>fw_main = Waiting, fw_error = ErrReading, fw_remote = Copying, fw_local = Copying,
     fw_localOpen = True, fw_podOpen = True\<rparr>"

text \<open>The deferred calls of a return.\<close>

definition return_with :: "waiter \<Rightarrow> fwd_state \<Rightarrow> fwd_state" where
  "return_with w s = s\<lparr>fw_main := w, fw_localOpen := False, fw_podOpen := False\<rparr>"

inductive fwd_step :: "fwd_state \<Rightarrow> fwd_state \<Rightarrow> bool" where
  error_silent: "fw_error s = ErrReading \<Longrightarrow> fwd_step s (s\<lparr>fw_error := ErrClosed\<rparr>)"
| error_message: "fw_error s = ErrReading \<Longrightarrow> fwd_step s (s\<lparr>fw_error := ErrSending m\<rparr>)"
| remote_ends: "fw_remote s = Copying \<Longrightarrow> fwd_step s (s\<lparr>fw_remote := CopyDone\<rparr>)"
| local_ends: "fw_local s = Copying \<Longrightarrow> fwd_step s (s\<lparr>fw_local := CopyDone\<rparr>)"
| local_fails: "fw_local s = Copying \<Longrightarrow> fwd_step s (s\<lparr>fw_local := CopyFailed\<rparr>)"
| select_remote: "fw_main s = Waiting \<Longrightarrow> fw_remote s = CopyDone \<Longrightarrow> fwd_step s (return_with ReturnedRemote s)"
| select_local: "fw_main s = Waiting \<Longrightarrow> fw_local s = CopyFailed \<Longrightarrow> fwd_step s (return_with ReturnedLocal s)"
| select_error: "fw_main s = Waiting \<Longrightarrow> fw_error s = ErrSending m \<Longrightarrow>
    fwd_step s (return_with ReturnedError (s\<lparr>fw_error := ErrClosed\<rparr>))"
| select_closed: "fw_main s = Waiting \<Longrightarrow> fw_error s = ErrClosed \<Longrightarrow> fwd_step s (return_with ReturnedError s)"

inductive_cases fwd_stepE: "fwd_step s t"

section \<open>The accept loop\<close>

datatype accept_result = AcceptConn | AcceptError string

datatype loop_action = LoopReturn | LoopReport string | LoopHandle | LoopAgain

definition listen_iteration :: "bool \<Rightarrow> accept_result \<Rightarrow> loop_action" where
  "listen_iteration ctxDone accept =
     (if ctxDone then LoopReturn
      else case accept of
        AcceptError err \<Rightarrow>
          if \<not> contains (to_lower err) ''use of closed network connection'' then LoopReport err else LoopAgain
      | AcceptConn \<Rightarrow> LoopHandle)"

text \<open>The loop, over what the context and \<open>Accept\<close> say in each round.\<close>

fun listen_loop :: "(bool \<times> accept_result) list \<Rightarrow> loop_action list" where
  "listen_loop [] = []"
| "listen_loop ((ctxDone, accept) # rest) =
     (case listen_iteration ctxDone accept of
        LoopReturn \<Rightarrow> [LoopReturn]
      | a \<Rightarrow> a # listen_loop rest)"

text \<open>\<open>Listen\<close> itself: the address it listens on, and the error it returns when that fails. Otherwise it
  starts the loop and returns the function that closes the listener.\<close>

definition Listen :: "(string \<Rightarrow> string option) \<Rightarrow> roundRobin \<Rightarrow> string option" where
  "Listen net_listen r =
     (case net_listen (''localhost:'' @ itoa (rr_targetPort r)) of
        Some err \<Rightarrow> Some (''unable to create listener: Error '' @ err)
      | None \<Rightarrow> None)"

section \<open>A stream as a connection\<close>

text \<open>The type \<open>conn\<close> makes a \<open>net.Conn\<close> of the data stream, whose methods are parameters over its state:
  it has no addresses, and no deadline can be set on it.\<close>

record 'd stream =
  sm_Read :: "nat \<Rightarrow> 'd \<Rightarrow> (string \<times> string option) \<times> 'd"
  sm_Write :: "string \<Rightarrow> 'd \<Rightarrow> (nat \<times> string option) \<times> 'd"
  sm_Close :: "'d \<Rightarrow> string option \<times> 'd"

record 'd conn =
  cn_dataStream :: "'d stream"

definition conn_Read :: "'d conn \<Rightarrow> nat \<Rightarrow> 'd \<Rightarrow> (string \<times> string option) \<times> 'd" where
  "conn_Read c = sm_Read (cn_dataStream c)"

definition conn_Write :: "'d conn \<Rightarrow> string \<Rightarrow> 'd \<Rightarrow> (nat \<times> string option) \<times> 'd" where
  "conn_Write c = sm_Write (cn_dataStream c)"

definition conn_Close :: "'d conn \<Rightarrow> 'd \<Rightarrow> string option \<times> 'd" where
  "conn_Close c = sm_Close (cn_dataStream c)"

definition conn_LocalAddr :: "'d conn \<Rightarrow> string option" where
  "conn_LocalAddr c = None"

definition conn_RemoteAddr :: "'d conn \<Rightarrow> string option" where
  "conn_RemoteAddr c = None"

definition conn_SetDeadline :: "'d conn \<Rightarrow> int \<Rightarrow> 'd \<Rightarrow> string option \<times> 'd" where
  "conn_SetDeadline c t d = (Some ''not implemented'', d)"

definition conn_SetReadDeadline :: "'d conn \<Rightarrow> int \<Rightarrow> 'd \<Rightarrow> string option \<times> 'd" where
  "conn_SetReadDeadline c t d = (Some ''not implemented'', d)"

definition conn_SetWriteDeadline :: "'d conn \<Rightarrow> int \<Rightarrow> 'd \<Rightarrow> string option \<times> 'd" where
  "conn_SetWriteDeadline c t d = (Some ''not implemented'', d)"

section \<open>Properties\<close>

definition fwd_inv :: "fwd_state \<Rightarrow> bool" where
  "fwd_inv s \<longleftrightarrow> (fw_localOpen s \<longleftrightarrow> fw_main s = Waiting) \<and> (fw_podOpen s \<longleftrightarrow> fw_main s = Waiting)"

interpretation fwd: invariant_rule fwd_init fwd_step fwd_inv
proof
  show "fwd_init s \<Longrightarrow> fwd_inv s" for s by (simp add: fwd_init_def fwd_inv_def)
  show "fwd_inv s \<Longrightarrow> fwd_step s t \<Longrightarrow> fwd_inv t" for s t
    by (auto elim!: fwd_stepE simp: fwd_inv_def return_with_def)
qed

lemma fwd_can_return:
  assumes "fw_main s = Waiting" and "fw_remote s = CopyDone \<or> fw_local s = CopyFailed \<or> fw_error s \<noteq> ErrReading"
  shows "\<exists>t. fwd_step s t \<and> fw_main t \<noteq> Waiting"
proof -
  consider "fw_remote s = CopyDone" | "fw_local s = CopyFailed" | m where "fw_error s = ErrSending m" | "fw_error s = ErrClosed"
    using assms(2) by (cases "fw_error s") auto
  then show ?thesis
  proof cases
    case 1
    then show ?thesis using select_remote [OF assms(1)] by (auto simp: return_with_def)
  next
    case 2
    then show ?thesis using select_local [OF assms(1)] by (auto simp: return_with_def)
  next
    case 3
    then show ?thesis using select_error [OF assms(1)] by (auto simp: return_with_def)
  next
    case 4
    then show ?thesis using select_closed [OF assms(1)] by (auto simp: return_with_def)
  qed
qed

text \<open>C27. Once the streams exist, every way in which forwarding ends closes both the local connection and the
  connection to the pod, and neither is closed while \<open>handle\<close> still waits; and it does not wait when one
  of the goroutines has ended the connection.\<close>

theorem forwarding_closes_both:
  assumes "reach fwd_init fwd_step s"
  shows "(fw_localOpen s \<longleftrightarrow> fw_main s = Waiting) \<and> (fw_podOpen s \<longleftrightarrow> fw_main s = Waiting) \<and>
    (fw_main s = Waiting \<and> (fw_remote s = CopyDone \<or> fw_local s = CopyFailed \<or> fw_error s \<noteq> ErrReading) \<longrightarrow>
       (\<exists>t. fwd_step s t \<and> \<not> fw_localOpen t \<and> \<not> fw_podOpen t))"
proof -
  have inv: "fwd_inv s" by (rule fwd.reach_inv [OF assms])
  have "\<not> fw_localOpen t \<and> \<not> fw_podOpen t" if "fwd_step s t" "fw_main t \<noteq> Waiting" for t
    using fwd.reach_inv [OF reach.step [OF assms that(1)]] that(2) by (simp add: fwd_inv_def)
  then show ?thesis using inv fwd_can_return [of s] unfolding fwd_inv_def by metis
qed

definition remote_done :: fwd_state where
  "remote_done = \<lparr>fw_main = Waiting, fw_error = ErrSending ''refused'', fw_remote = CopyDone, fw_local = Copying,
     fw_localOpen = True, fw_podOpen = True\<rparr>"

lemma remote_done_reach: "reach fwd_init fwd_step remote_done"
proof -
  let ?s0 = "\<lparr>fw_main = Waiting, fw_error = ErrReading, fw_remote = Copying, fw_local = Copying,
     fw_localOpen = True, fw_podOpen = True\<rparr>"
  have "reach fwd_init fwd_step ?s0" by (rule reach.start) (simp add: fwd_init_def)
  then have "reach fwd_init fwd_step (?s0\<lparr>fw_error := ErrSending ''refused''\<rparr>)"
    by (rule reach.step) (rule error_message, simp)
  then have "reach fwd_init fwd_step (?s0\<lparr>fw_error := ErrSending ''refused''\<rparr>\<lparr>fw_remote := CopyDone\<rparr>)"
    by (rule reach.step) (rule remote_ends, simp)
  then show ?thesis by (simp add: remote_done_def)
qed

theorem forwarding_closes_both_witness:
  "fw_localOpen remote_done \<and> (\<exists>t. fwd_step remote_done t \<and> \<not> fw_localOpen t \<and> \<not> fw_podOpen t)"
  using forwarding_closes_both [OF remote_done_reach] by (simp add: remote_done_def)

text \<open>The goroutine that reads the error stream can be left behind: when the remote side has closed the
  data stream first, \<open>handle\<close> returns, nobody receives from the channel any more, and an error message
  then blocks its sender for ever.\<close>

theorem error_reader_left_behind:
  "\<exists>s m. reach fwd_init fwd_step s \<and> fw_main s \<noteq> Waiting \<and> fw_error s = ErrSending m \<and>
    {t. reach (\<lambda>x. x = s) fwd_step t} \<subseteq> {t. fw_error t = ErrSending m}"
proof -
  let ?s = "return_with ReturnedRemote remote_done"
  have r: "reach fwd_init fwd_step ?s"
    by (rule reach.step [OF remote_done_reach]) (rule select_remote, simp_all add: remote_done_def)
  have "fw_main t \<noteq> Waiting \<and> fw_error t = ErrSending ''refused''" if "reach (\<lambda>x. x = ?s) fwd_step t" for t
    using that
  proof induction
    case (start x)
    then show ?case by (simp add: return_with_def remote_done_def)
  next
    case (step x t)
    then show ?case by (auto elim!: fwd_stepE)
  qed
  then show ?thesis
    using r by (intro exI [of _ ?s] exI [of _ "''refused''"]) (auto simp: return_with_def remote_done_def)
qed

section \<open>Setting up connections\<close>

text \<open>A connection that cannot be set up is left open: whenever \<open>handle\<close> returns an error, the local
  connection has not been closed, so its peer waits on a connection that nobody serves; the connection
  to the pod is closed.\<close>

theorem failed_setup_leaks_connection:
  assumes "fst (fst (handle e r)) = Some err"
  shows "fo_localOpen (snd (fst (handle e r))) \<and> \<not> fo_podOpen (snd (fst (handle e r))) \<and>
    rr_firstConnReceived (snd (handle e r)) = rr_firstConnReceived r"
  using assms by (auto simp: handle_def accepted_def Let_def split: option.splits sum.splits if_splits)

definition example_handle :: "pod list \<Rightarrow> handle_env" where
  "example_handle pods = \<lparr>he_roundTripper = None, he_client = None, he_pods = Inr pods, he_rand = (\<lambda>_. 0),
     he_dial = (\<lambda>_. None), he_errorStream = None, he_dataStream = None\<rparr>"

theorem failed_setup_leaks_connection_witness:
  "fo_localOpen (snd (fst (handle (example_handle [\<lparr>pod_Name = ''p'', pod_Phase = ''Pending''\<rparr>])
     (NewRoundRobinLocalProxy False ''ns'' ''app=proxy'' 8091))))"
  using failed_setup_leaks_connection [of "example_handle [\<lparr>pod_Name = ''p'', pod_Phase = ''Pending''\<rparr>]"
      "NewRoundRobinLocalProxy False ''ns'' ''app=proxy'' 8091" "''no valid proxy server pod instances found''"]
  by (simp add: handle_def example_handle_def accepted_def)

text \<open>The connections handled by one proxy, in the order in which they take the lock.\<close>

fun handle_all :: "handle_env list \<Rightarrow> roundRobin \<Rightarrow> forwarding list" where
  "handle_all [] r = []"
| "handle_all (e # es) r = snd (fst (handle e r)) # handle_all es (snd (handle e r))"

lemma header_keys_differ:
  "canonical_key ''streamType'' = ''Streamtype''" "canonical_key ''port'' = ''Port''"
  "canonical_key ''requestID'' = ''Requestid''"
  by code_simp+

lemma handle_data_headers:
  assumes "fo_dataHeaders (snd (fst (handle e r))) = Some h"
  shows "fst (fst (handle e r)) = None \<and>
    fo_errorHeaders (snd (fst (handle e r))) = Some (error_headers (rr_targetPort r) (rr_reqID r)) \<and>
    h = header_set (error_headers (rr_targetPort r) (rr_reqID r)) ''streamType'' ''data'' \<and>
    rr_reqID (snd (handle e r)) = rr_reqID r + 1"
  using assms by (auto simp: handle_def accepted_def Let_def split: option.splits sum.splits if_splits)

lemma handle_reqID: "rr_reqID r \<le> rr_reqID (snd (handle e r)) \<and> rr_targetPort (snd (handle e r)) = rr_targetPort r"
  by (simp add: handle_def Let_def split: option.split sum.split)

text \<open>A connection is forwarded to a running pod, with an error stream and a data stream that carry the same
  port and the same request identifier and differ in their type only.\<close>

theorem streams_of_a_connection_agree:
  assumes "fst (fst (handle e r)) = None" and "\<And>n. 0 < n \<Longrightarrow> he_rand e n < n"
  shows "\<exists>p pods h g. he_pods e = Inr pods \<and> p \<in> set pods \<and> pod_Phase p = ''Running'' \<and>
    fo_pod (snd (fst (handle e r))) = Some (pod_Name p) \<and>
    fo_errorHeaders (snd (fst (handle e r))) = Some h \<and> fo_dataHeaders (snd (fst (handle e r))) = Some g \<and>
    header_values h ''streamType'' = [''error''] \<and> header_values g ''streamType'' = [''data''] \<and>
    header_values h ''port'' = [itoa (rr_targetPort r)] \<and> header_values g ''port'' = [itoa (rr_targetPort r)] \<and>
    header_values h ''requestID'' = [itoa (rr_reqID r)] \<and> header_values g ''requestID'' = [itoa (rr_reqID r)]"
proof -
  obtain pods where pods: "he_pods e = Inr pods"
    using assms(1) by (cases "he_pods e") (auto simp: handle_def split: option.splits)
  let ?c = "filter (\<lambda>p. pod_Phase p = ''Running'') pods"
  have ne: "?c \<noteq> []"
    using assms(1) pods by (auto simp: handle_def Let_def split: option.splits if_splits)
  let ?p = "?c ! he_rand e (length ?c)"
  have "?p \<in> set ?c" using assms(2) [of "length ?c"] ne by (intro nth_mem) simp
  moreover have "fo_pod (snd (fst (handle e r))) = Some (pod_Name ?p)"
    using assms(1) pods ne by (auto simp: handle_def accepted_def Let_def split: option.splits if_splits)
  moreover obtain g where g: "fo_dataHeaders (snd (fst (handle e r))) = Some g"
    using assms(1) pods ne by (auto simp: handle_def accepted_def Let_def split: option.splits if_splits)
  moreover note handle_data_headers [OF g]
  moreover have "header_values (error_headers (rr_targetPort r) (rr_reqID r)) ''streamType'' = [''error'']"
      "header_values (error_headers (rr_targetPort r) (rr_reqID r)) ''port'' = [itoa (rr_targetPort r)]"
      "header_values (error_headers (rr_targetPort r) (rr_reqID r)) ''requestID'' = [itoa (rr_reqID r)]"
    by (simp_all add: error_headers_def header_values_def header_set_def gm.get_put header_keys_differ Let_def)
  moreover have "header_values (header_set (error_headers (rr_targetPort r) (rr_reqID r)) ''streamType'' ''data'') ''streamType'' = [''data'']"
      "header_values (header_set (error_headers (rr_targetPort r) (rr_reqID r)) ''streamType'' ''data'') ''port'' = [itoa (rr_targetPort r)]"
      "header_values (header_set (error_headers (rr_targetPort r) (rr_reqID r)) ''streamType'' ''data'') ''requestID'' = [itoa (rr_reqID r)]"
    by (simp_all add: error_headers_def header_values_def header_set_def gm.get_put header_keys_differ Let_def)
  ultimately show ?thesis using pods by auto
qed

theorem streams_of_a_connection_agree_witness:
  "\<exists>g. fo_dataHeaders (snd (fst (handle (example_handle [\<lparr>pod_Name = ''p'', pod_Phase = ''Running''\<rparr>])
      (NewRoundRobinLocalProxyWithReqId False ''ns'' ''app=proxy'' 8091 5)))) = Some g \<and>
     header_values g ''requestID'' = [itoa 5]"
proof -
  let ?e = "example_handle [\<lparr>pod_Name = ''p'', pod_Phase = ''Running''\<rparr>]"
  let ?r = "NewRoundRobinLocalProxyWithReqId False ''ns'' ''app=proxy'' 8091 5"
  have "fst (fst (handle ?e ?r)) = None" by (simp add: handle_def example_handle_def Let_def)
  moreover have "he_rand ?e n < n" if "0 < n" for n using that by (simp add: example_handle_def)
  ultimately show ?thesis
    using streams_of_a_connection_agree [of ?e ?r] by (auto simp: NewRoundRobinLocalProxyWithReqId_def)
qed

lemma handle_all_ids:
  assumes "f \<in> set (handle_all es r)" and "fo_dataHeaders f = Some h"
  shows "\<exists>i \<ge> rr_reqID r. header_values h ''requestID'' = [itoa i]"
  using assms
proof (induction es arbitrary: r)
  case (Cons e es)
  show ?case
  proof (cases "f = snd (fst (handle e r))")
    case True
    then have "h = header_set (error_headers (rr_targetPort r) (rr_reqID r)) ''streamType'' ''data''"
      using handle_data_headers [of e r h] Cons.prems(2) by simp
    then have "header_values h ''requestID'' = [itoa (rr_reqID r)]"
      by (simp add: error_headers_def header_values_def header_set_def gm.get_put header_keys_differ Let_def)
    then show ?thesis by blast
  next
    case False
    then obtain i where "rr_reqID (snd (handle e r)) \<le> i" "header_values h ''requestID'' = [itoa i]"
      using Cons by auto
    then show ?thesis using handle_reqID [of r e] by (meson order_trans)
  qed
qed simp

lemma itoa_inj: "itoa i = itoa j \<Longrightarrow> i = j"
proof -
  have digits: "nat_to_dec n \<noteq> CHR ''-'' # w" for n w
    using nat_to_dec_digits [of n] by (auto simp: is_digit_def)
  have inj: "nat_to_dec m = nat_to_dec n \<Longrightarrow> m = n" for m n
    by (metis dec_val_nat_to_dec)
  assume "itoa i = itoa j"
  then show "i = j"
    using digits [of "nat i"] digits [of "nat j"] not_sym [OF digits [of "nat j"]] inj [of "nat i" "nat j"] inj [of "nat (- i)" "nat (- j)"]
    by (auto simp: itoa_def split: if_splits)
qed

text \<open>No two connections of one proxy share a request identifier.\<close>

theorem request_ids_distinct:
  assumes "i < j" and "j < length (handle_all es r)"
    and "fo_dataHeaders (handle_all es r ! i) = Some g" and "fo_dataHeaders (handle_all es r ! j) = Some h"
  shows "header_values g ''requestID'' \<noteq> header_values h ''requestID''"
  using assms
proof (induction es arbitrary: r i j)
  case (Cons e es)
  show ?case
  proof (cases i)
    case 0
    then have g: "fo_dataHeaders (snd (fst (handle e r))) = Some g" using Cons.prems(3) by simp
    have gid: "header_values g ''requestID'' = [itoa (rr_reqID r)]" and nxt: "rr_reqID (snd (handle e r)) = rr_reqID r + 1"
      using handle_data_headers [OF g]
      by (simp_all add: error_headers_def header_values_def header_set_def gm.get_put header_keys_differ Let_def)
    have "handle_all (e # es) r ! j \<in> set (handle_all es (snd (handle e r)))"
      using Cons.prems(1,2) 0 by (cases j) auto
    then obtain k where "rr_reqID r + 1 \<le> k" "header_values h ''requestID'' = [itoa k]"
      using handle_all_ids [of "handle_all (e # es) r ! j" es "snd (handle e r)" h] Cons.prems(4) nxt by auto
    then show ?thesis using gid itoa_inj [of "rr_reqID r" k] by auto
  next
    case (Suc i')
    then obtain j' where "j = Suc j'" "i' < j'" using Cons.prems(1) by (cases j) auto
    then show ?thesis using Cons Suc by simp
  qed
qed simp

theorem request_ids_distinct_witness:
  "\<exists>g h. fo_dataHeaders (handle_all (replicate 2 (example_handle [\<lparr>pod_Name = ''p'', pod_Phase = ''Running''\<rparr>]))
       (NewRoundRobinLocalProxy False ''ns'' ''app=proxy'' 8091) ! 0) = Some g \<and>
     fo_dataHeaders (handle_all (replicate 2 (example_handle [\<lparr>pod_Name = ''p'', pod_Phase = ''Running''\<rparr>]))
       (NewRoundRobinLocalProxy False ''ns'' ''app=proxy'' 8091) ! 1) = Some h \<and>
     header_values g ''requestID'' \<noteq> header_values h ''requestID''"
proof -
  let ?es = "replicate 2 (example_handle [\<lparr>pod_Name = ''p'', pod_Phase = ''Running''\<rparr>])"
  let ?r = "NewRoundRobinLocalProxy False ''ns'' ''app=proxy'' 8091"
  obtain g h where gh: "fo_dataHeaders (handle_all ?es ?r ! 0) = Some g" "fo_dataHeaders (handle_all ?es ?r ! 1) = Some h"
    by (simp add: eval_nat_numeral handle_def example_handle_def accepted_def Let_def)
  have "1 < length (handle_all ?es ?r)" by (simp add: eval_nat_numeral)
  from request_ids_distinct [OF _ this gh] gh show ?thesis by auto
qed

text \<open>A closed listener does not end the accept loop: until the context is cancelled, every error of a
  closed connection starts the next round at once, without a report and without a pause.\<close>

theorem closed_listener_spins:
  "listen_loop (replicate n (False, AcceptError ''accept tcp: use of closed network connection'')) = replicate n LoopAgain"
proof -
  have "contains (to_lower ''accept tcp: use of closed network connection'') ''use of closed network connection''"
    by code_simp
  then show ?thesis by (induction n) (simp_all add: listen_iteration_def)
qed

end
