(* ===== verification/Agent_Command.thy ===== *)
theory Agent_Command
  imports Port_Forward Proxy_Reconciler
begin

text \<open>
  The add-on agent of a managed cluster (cmd/addon-agent/main.go), with what it uses of the add-on
  framework: the lease updater (pkg/lease/lease_controller.go) and the checker of configuration
  files (pkg/utils/config_checker.go), both vendored. The lease lives in an API server as in
  \<open>Proxy_Reconciler\<close>; the answer of the proxy-agent's readiness endpoint, the contents of the
  certificate files, SHA-256 and the time are arguments. Times are in microseconds, the precision of a
  lease.
\<close>

section \<open>The lease\<close>

text \<open>The answer of the proxy-agent: an error of the HTTP client or a status code.\<close>

definition checkProxyAgentReadiness :: "string + nat \<Rightarrow> bool" where
  "checkProxyAgentReadiness resp = (case resp of Inl err \<Rightarrow> False | Inr statusCode \<Rightarrow> statusCode = 200)"

record ('m, 'h) leaseUpdater =
  lu_kubeClient :: "'m api"
  lu_leaseName :: string
  lu_leaseNamespace :: string
  lu_leaseDurationSeconds :: int
  lu_clusterName :: string
  lu_hubKubeClient :: "'h api option"
  lu_healthCheckFuncs :: "(string + nat \<Rightarrow> bool) list"

definition NewLeaseUpdater ::
  "'m api \<Rightarrow> string \<Rightarrow> string \<Rightarrow> (string + nat \<Rightarrow> bool) list \<Rightarrow> ('m, 'h) leaseUpdater" where
  "NewLeaseUpdater kubeClient leaseName leaseNamespace healthCheckFuncs =
     \<lparr>lu_kubeClient = kubeClient, lu_leaseName = leaseName, lu_leaseNamespace = leaseNamespace,
      lu_leaseDurationSeconds = 60, lu_clusterName = [], lu_hubKubeClient = None,
      lu_healthCheckFuncs = healthCheckFuncs\<rparr>"

text \<open>An error of the client construction is logged only.\<close>

definition WithHubLeaseConfig ::
  "string + 'h api \<Rightarrow> string \<Rightarrow> ('m, 'h) leaseUpdater \<Rightarrow> ('m, 'h) leaseUpdater" where
  "WithHubLeaseConfig hubClient clusterName r =
     (case hubClient of Inl err \<Rightarrow> r | Inr c \<Rightarrow> r\<lparr>lu_hubKubeClient := Some c\<rparr>)\<lparr>lu_clusterName := clusterName\<rparr>"

definition new_lease :: "string \<Rightarrow> string \<Rightarrow> int \<Rightarrow> int \<Rightarrow> k8s_object" where
  "new_lease namespace name duration now =
     \<lparr>ob_Kind = ''Lease'',
      ob_Meta = \<lparr>om_Namespace = namespace, om_Name = name, om_OwnerReferences = [], om_Labels = [], om_Annotations = []\<rparr>,
      ob_Spec = LeaseObject (Some duration) (Some now)\<rparr>"

definition renewed :: "int \<Rightarrow> k8s_object \<Rightarrow> k8s_object" where
  "renewed now lease =
     lease\<lparr>ob_Spec := LeaseObject (case ob_Spec lease of LeaseObject d _ \<Rightarrow> d | _ \<Rightarrow> None) (Some now)\<rparr>"

text \<open>\<open>between\<close> is what other clients do after the read.\<close>

definition updateLease ::
  "'c api \<Rightarrow> string \<Rightarrow> int \<Rightarrow> int \<Rightarrow> ('c \<Rightarrow> 'c) \<Rightarrow> string \<Rightarrow> 'c \<Rightarrow> api_error option \<times> 'c" where
  "updateLease client leaseName duration now between namespace c =
     (case ap_get client c (''Lease'', namespace, leaseName) of
        Inl err \<Rightarrow>
          if err = ApiNotFound then ap_create client (new_lease namespace leaseName duration now) None (between c)
          else (Some err, between c)
      | Inr lease \<Rightarrow>
          ap_update client (renewed now (so_Object lease)) (Some (so_Version lease)) (between c))"

text \<open>One round of the updater: the time, the answer of the proxy-agent, and what other clients of the
  two clusters do before it and within it. The code reads the clock anew for each write, but at most one write of a round
  is stored (the hub's lease is written only if the one of the managed cluster was not), and \<open>lr_now\<close> is the time of that write.\<close>

record ('m, 'h) lease_round =
  lr_now :: int
  lr_answer :: "string + nat"
  lr_before :: "('m \<Rightarrow> 'm) \<times> ('h \<Rightarrow> 'h)"
  lr_between :: "('m \<Rightarrow> 'm) \<times> ('h \<Rightarrow> 'h)"

definition lease_reconcile :: "('m, 'h) leaseUpdater \<Rightarrow> ('m, 'h) lease_round \<Rightarrow> 'm \<times> 'h \<Rightarrow> 'm \<times> 'h" where
  "lease_reconcile r rd w =
     (let m = fst (lr_before rd) (fst w); h = snd (lr_before rd) (snd w) in
      if \<not> list_all (\<lambda>f. f (lr_answer rd)) (lu_healthCheckFuncs r) then (m, h)
      else
        (case updateLease (lu_kubeClient r) (lu_leaseName r) (lu_leaseDurationSeconds r) (lr_now rd)
                (fst (lr_between rd)) (lu_leaseNamespace r) m of
           (err, m) \<Rightarrow>
             (case lu_hubKubeClient r of
                None \<Rightarrow> (m, h)
              | Some hubKubeClient \<Rightarrow>
                  if err = Some ApiNotFound then
                    (m, snd (updateLease hubKubeClient (lu_leaseName r) (lu_leaseDurationSeconds r) (lr_now rd)
                          (snd (lr_between rd)) (lu_clusterName r) h))
                  else (m, h))))"

fun lease_run :: "('m, 'h) leaseUpdater \<Rightarrow> ('m, 'h) lease_round list \<Rightarrow> 'm \<times> 'h \<Rightarrow> 'm \<times> 'h" where
  "lease_run r [] w = w"
| "lease_run r (rd # rds) w = lease_run r rds (lease_reconcile r rd w)"

section \<open>The certificate files\<close>

type_synonym files = "string \<Rightarrow> string + string"

fun read_all :: "files \<Rightarrow> string list \<Rightarrow> string + string" where
  "read_all read [] = Inr []"
| "read_all read (c # cs) =
     (case read c of
        Inl err \<Rightarrow> Inl (''read '' @ c @ '' failed, '' @ err)
      | Inr content \<Rightarrow> (case read_all read cs of Inl err \<Rightarrow> Inl err | Inr rest \<Rightarrow> Inr (content @ rest)))"

definition load_checksum :: "(string \<Rightarrow> string) \<Rightarrow> files \<Rightarrow> string list \<Rightarrow> string + string" where
  "load_checksum sha256 read configfiles =
     (case read_all read configfiles of Inl err \<Rightarrow> Inl err | Inr allContent \<Rightarrow> Inr (sha256 allContent))"

record configChecker =
  ck_configfiles :: "string list"
  ck_checksum :: string
  ck_reload :: bool

definition NewConfigChecker :: "(string \<Rightarrow> string) \<Rightarrow> files \<Rightarrow> string list \<Rightarrow> string + configChecker" where
  "NewConfigChecker sha256 read configfiles =
     (case load_checksum sha256 read configfiles of
        Inl err \<Rightarrow> Inl err
      | Inr checksum \<Rightarrow> Inr \<lparr>ck_configfiles = configfiles, ck_checksum = checksum, ck_reload = False\<rparr>)"

definition SetReload :: "bool \<Rightarrow> configChecker \<Rightarrow> configChecker" where
  "SetReload reload c = c\<lparr>ck_reload := reload\<rparr>"

definition Check :: "(string \<Rightarrow> string) \<Rightarrow> files \<Rightarrow> configChecker \<Rightarrow> string option \<times> configChecker" where
  "Check sha256 read c =
     (case load_checksum sha256 read (ck_configfiles c) of
        Inl err \<Rightarrow> (Some err, c)
      | Inr newChecksum \<Rightarrow>
          if newChecksum \<noteq> ck_checksum c
          then (Some ''checksum not equal'', if ck_reload c then c\<lparr>ck_checksum := newChecksum\<rparr> else c)
          else (None, c))"

section \<open>The command\<close>

record agent_flags =
  fl_hubKubeconfig :: string
  fl_clusterName :: string
  fl_proxyServerNamespace :: string
  fl_enablePortForwardProxy :: bool
  fl_enableProxyAgentHealthCheck :: bool

definition default_flags :: agent_flags where
  "default_flags =
     \<lparr>fl_hubKubeconfig = [], fl_clusterName = [], fl_proxyServerNamespace = ''open-cluster-management-addon'',
      fl_enablePortForwardProxy = False, fl_enableProxyAgentHealthCheck = True\<rparr>"

record ('m, 'h) agent_env =
  av_hubConfig :: "string \<Rightarrow> string option"
  av_spokeClient :: "string + 'm api"
  av_hubClient :: "string + 'h api"
  av_podNamespace :: string
  av_listen :: "string \<Rightarrow> string option"
  av_sha256 :: "string \<Rightarrow> string"
  av_files :: files

datatype agent_exit =
    BadHubKubeconfig string
  | NoSpokeClient string
  | NoPodNamespace
  | ListenFailed string
  | NoCertificates string

text \<open>The running agent: its checker and, when port forwarding is on, the local proxy, which holds the
  readiness flag.\<close>

record agent_state =
  ag_checker :: configChecker
  ag_proxy :: "roundRobin option"

definition certificate_files :: "string list" where
  "certificate_files = [''/etc/tls/tls.crt'', ''/etc/tls/tls.key'']"

definition agent_proxy :: "agent_flags \<Rightarrow> roundRobin option" where
  "agent_proxy fl =
     (if fl_enablePortForwardProxy fl
      then Some (NewRoundRobinLocalProxy False (fl_proxyServerNamespace fl)
                   (LabelKeyComponentName @ ''='' @ ComponentNameProxyServer) 8091)
      else None)"

definition agent_main ::
  "('m, 'h) agent_env \<Rightarrow> agent_flags \<Rightarrow> agent_exit + ('m, 'h) leaseUpdater \<times> agent_state" where
  "agent_main e fl =
     (case av_hubConfig e (fl_hubKubeconfig fl) of
        Some err \<Rightarrow> Inl (BadHubKubeconfig err)
      | None \<Rightarrow>
     (case av_spokeClient e of
        Inl err \<Rightarrow> Inl (NoSpokeClient err)
      | Inr spokeClient \<Rightarrow>
          if length (av_podNamespace e) = 0 then Inl NoPodNamespace
          else
            (let healthCheckFuncs = (if fl_enableProxyAgentHealthCheck fl then [checkProxyAgentReadiness] else []);
                 leaseUpdater = WithHubLeaseConfig (av_hubClient e) (fl_clusterName fl)
                   (NewLeaseUpdater spokeClient AddonName (av_podNamespace e) healthCheckFuncs)
             in case (case agent_proxy fl of None \<Rightarrow> None | Some rr \<Rightarrow> Listen (av_listen e) rr) of
                  Some err \<Rightarrow> Inl (ListenFailed err)
                | None \<Rightarrow>
                    (case NewConfigChecker (av_sha256 e) (av_files e) certificate_files of
                       Inl err \<Rightarrow> Inl (NoCertificates err)
                     | Inr cc \<Rightarrow>
                         Inr (leaseUpdater, \<lparr>ag_checker = SetReload True cc, ag_proxy = agent_proxy fl\<rparr>)))))"

definition agent_ready :: "agent_state \<Rightarrow> bool" where
  "agent_ready s = (case ag_proxy s of None \<Rightarrow> True | Some rr \<Rightarrow> rr_firstConnReceived rr)"

text \<open>The handler of \<open>serveHealthProbes\<close> for a clean path: only \<open>/healthz\<close> is registered, and it
  runs every check that the request does not exclude.\<close>

definition serveHealthProbes ::
  "(string \<Rightarrow> string) \<Rightarrow> files \<Rightarrow> string \<Rightarrow> string list \<Rightarrow> agent_state \<Rightarrow> nat \<times> agent_state" where
  "serveHealthProbes sha256 read path excluded s =
     (if path \<noteq> ''/healthz'' then (404, s)
      else
        (let (certificates, cc) =
               (if ''certificates'' \<in> set excluded then (None, ag_checker s) else Check sha256 read (ag_checker s));
             notReady = ''port forward proxy readiness'' \<notin> set excluded \<and> \<not> agent_ready s
         in (if certificates \<noteq> None \<or> notReady then 500 else 200, s\<lparr>ag_checker := cc\<rparr>)))"

text \<open>What happens to the running agent: a probe, with the files as they are then, or a connection to
  the local proxy.\<close>

datatype agent_event = Probe files string "string list" | Connection handle_env

fun agent_step :: "(string \<Rightarrow> string) \<Rightarrow> agent_event \<Rightarrow> agent_state \<Rightarrow> agent_state" where
  "agent_step sha256 (Probe read path excluded) s = snd (serveHealthProbes sha256 read path excluded s)"
| "agent_step sha256 (Connection e) s =
     (case ag_proxy s of None \<Rightarrow> s | Some rr \<Rightarrow> s\<lparr>ag_proxy := Some (snd (handle e rr))\<rparr>)"

definition agent_after :: "(string \<Rightarrow> string) \<Rightarrow> agent_event list \<Rightarrow> agent_state \<Rightarrow> agent_state" where
  "agent_after sha256 events s = fold (agent_step sha256) events s"

text \<open>The goroutine around that handler. An address it cannot listen on is logged, and the agent goes on
  without probes; an error of \<open>Serve\<close> or of the shutdown ends the process.\<close>

datatype serve_end = ServeError string | ServeErrServerClosed

datatype probe_event = ServeReturns serve_end | StopClosed "string option"

datatype probe_server = ProbesUnserved string | ProbesServed | ProbesShutDown | ProbesFatal string

definition probe_listen :: "(string \<Rightarrow> string option) \<Rightarrow> string \<Rightarrow> probe_server" where
  "probe_listen net_listen address =
     (case net_listen address of Some err \<Rightarrow> ProbesUnserved err | None \<Rightarrow> ProbesServed)"

fun probe_server_step :: "probe_event \<Rightarrow> probe_server \<Rightarrow> probe_server" where
  "probe_server_step (ServeReturns (ServeError err)) ProbesServed = ProbesFatal err"
| "probe_server_step (StopClosed None) ProbesServed = ProbesShutDown"
| "probe_server_step (StopClosed (Some err)) ProbesServed = ProbesFatal err"
| "probe_server_step e s = s"

definition probe_server_after :: "probe_event list \<Rightarrow> probe_server \<Rightarrow> probe_server" where
  "probe_server_after events s = fold probe_server_step events s"

text \<open>The channel of \<open>context.Background()\<close> is never closed, so the agent's own probe server is never
  shut down: it serves until an error of \<open>Serve\<close> ends the process.\<close>

definition background_event :: "probe_event \<Rightarrow> bool" where
  "background_event e \<longleftrightarrow> (\<exists>r. e = ServeReturns r)"

lemma probe_server_never_shut_down:
  assumes "list_all background_event events"
  shows "probe_server_after events (probe_listen listen address) \<noteq> ProbesShutDown"
proof -
  have "probe_server_after events s \<noteq> ProbesShutDown" if "s \<noteq> ProbesShutDown" for s
    using assms that unfolding probe_server_after_def
  proof (induction events arbitrary: s)
    case (Cons e events)
    then obtain r where "e = ServeReturns r" by (auto simp: background_event_def)
    then have "probe_server_step e s \<noteq> ProbesShutDown" using Cons.prems(2) by (cases r; cases s) auto
    then show ?case using Cons by simp
  qed simp
  then show ?thesis by (simp add: probe_listen_def split: option.split)
qed

section \<open>Properties of the lease\<close>

definition renew_time :: "'c api \<Rightarrow> string \<Rightarrow> string \<Rightarrow> 'c \<Rightarrow> int option" where
  "renew_time api namespace name c =
     (case ap_get api c (''Lease'', namespace, name) of
        Inl _ \<Rightarrow> None
      | Inr s \<Rightarrow> (case ob_Spec (so_Object s) of LeaseObject _ t \<Rightarrow> t | _ \<Rightarrow> None))"

text \<open>Other clients do not write the lease.\<close>

definition leaves_alone :: "'c api \<Rightarrow> obj_key \<Rightarrow> ('c \<Rightarrow> 'c) \<Rightarrow> bool" where
  "leaves_alone api k f \<longleftrightarrow> (\<forall>c. ap_get api (f c) k = ap_get api c k)"

definition round_leaves_alone ::
  "'m api \<Rightarrow> 'h api \<Rightarrow> string \<Rightarrow> string \<Rightarrow> string \<Rightarrow> ('m, 'h) lease_round \<Rightarrow> bool" where
  "round_leaves_alone spoke hub namespace clusterName name rd \<longleftrightarrow>
     leaves_alone spoke (''Lease'', namespace, name) (fst (lr_before rd)) \<and>
     leaves_alone spoke (''Lease'', namespace, name) (fst (lr_between rd)) \<and>
     leaves_alone hub (''Lease'', clusterName, name) (snd (lr_before rd)) \<and>
     leaves_alone hub (''Lease'', clusterName, name) (snd (lr_between rd))"

lemma renew_time_leaves_alone:
  "leaves_alone api (''Lease'', namespace, name) f \<Longrightarrow> renew_time api namespace name (f c) = renew_time api namespace name c"
  by (simp add: renew_time_def leaves_alone_def)

lemma lease_keys:
  "key_of (new_lease namespace name duration now) = (''Lease'', namespace, name)"
  "key_of (renewed now q) = key_of q"
  "stored_verbatim (ob_Spec (new_lease namespace name duration now))" "stored_verbatim (ob_Spec (renewed now q))"
  by (simp_all add: new_lease_def renewed_def key_of_def stored_verbatim_def)

lemma lease_specs:
  "ob_Spec (new_lease namespace name duration now) = LeaseObject (Some duration) (Some now)"
  "\<exists>d. ob_Spec (renewed now q) = LeaseObject d (Some now)"
  by (simp_all add: new_lease_def renewed_def)

context object_store
begin

lemma lease_write_success:
  assumes "updateLease api name duration now between namespace c = (None, c')"
  shows "renew_time api namespace name c' = Some now"
proof (cases "ap_get api c (''Lease'', namespace, name)")
  case (Inl err)
  then have "ap_create api (new_lease namespace name duration now) None (between c) = (None, c')"
    using assms by (simp add: updateLease_def split: if_splits)
  from create_spec [OF this lease_keys(3)] show ?thesis by (auto simp: lease_keys lease_specs renew_time_def)
next
  case (Inr s)
  then have "ap_update api (renewed now (so_Object s)) (Some (so_Version s)) (between c) = (None, c')"
    using assms by (simp add: updateLease_def)
  from update_spec [OF this] show ?thesis
    using get_key [OF Inr] lease_specs(2) [of now "so_Object s"] by (auto simp: lease_keys renew_time_def)
qed

lemma lease_write_failure:
  assumes "updateLease api name duration now between namespace c = (Some err, c')"
  shows "c' = between c"
  using assms create_failed update_failed by (auto simp: updateLease_def split: sum.splits if_splits)

lemma lease_write_cases:
  assumes "leaves_alone api (''Lease'', namespace, name) between"
  shows "renew_time api namespace name (snd (updateLease api name duration now between namespace c))
     \<in> {renew_time api namespace name c, Some now}"
proof -
  obtain e c' where u: "updateLease api name duration now between namespace c = (e, c')" by fastforce
  show ?thesis
  proof (cases e)
    case None
    then show ?thesis using u lease_write_success by simp
  next
    case (Some err)
    then have "c' = between c" using u lease_write_failure by simp
    then show ?thesis using u renew_time_leaves_alone [OF assms] by simp
  qed
qed

end

text \<open>Both clusters keep their renew time in a round, or take the time of the round, and the latter only
  when all checks pass.\<close>

lemma lease_round_cases:
  assumes "object_store (lu_kubeClient r)" and "lu_hubKubeClient r = Some hub" and "object_store hub"
    and quiet: "round_leaves_alone (lu_kubeClient r) hub (lu_leaseNamespace r) (lu_clusterName r) (lu_leaseName r) rd"
    and "lease_reconcile r rd (m, h) = (m', h')"
  shows "renew_time (lu_kubeClient r) (lu_leaseNamespace r) (lu_leaseName r) m'
      \<in> {renew_time (lu_kubeClient r) (lu_leaseNamespace r) (lu_leaseName r) m}
        \<union> (if list_all (\<lambda>f. f (lr_answer rd)) (lu_healthCheckFuncs r) then {Some (lr_now rd)} else {})" (is ?spoke)
    and "renew_time hub (lu_clusterName r) (lu_leaseName r) h'
      \<in> {renew_time hub (lu_clusterName r) (lu_leaseName r) h}
        \<union> (if list_all (\<lambda>f. f (lr_answer rd)) (lu_healthCheckFuncs r) then {Some (lr_now rd)} else {})" (is ?hub)
proof -
  note spoke = object_store.lease_write_cases [OF assms(1)] and hub = object_store.lease_write_cases [OF assms(3)]
  note quiet' = quiet [unfolded round_leaves_alone_def]
  show ?spoke
    using assms(2,5) quiet' renew_time_leaves_alone
      spoke [of "lu_leaseNamespace r" "lu_leaseName r" "fst (lr_between rd)" "lu_leaseDurationSeconds r" "lr_now rd"
        "fst (lr_before rd) m"]
    by (auto simp: lease_reconcile_def Let_def split: prod.splits if_splits)
  show ?hub
    using assms(2,5) quiet' renew_time_leaves_alone
      hub [of "lu_clusterName r" "lu_leaseName r" "snd (lr_between rd)" "lu_leaseDurationSeconds r" "lr_now rd"
        "snd (lr_before rd) h"]
    by (auto simp: lease_reconcile_def Let_def split: prod.splits if_splits)
qed

definition lease_times :: "('m, 'h) leaseUpdater \<Rightarrow> 'h api \<Rightarrow> 'm \<times> 'h \<Rightarrow> int option set" where
  "lease_times r hub w =
     {renew_time (lu_kubeClient r) (lu_leaseNamespace r) (lu_leaseName r) (fst w),
      renew_time hub (lu_clusterName r) (lu_leaseName r) (snd w)}"

lemma lease_run_times:
  assumes "object_store (lu_kubeClient r)" and "lu_hubKubeClient r = Some hub" and "object_store hub"
    and "list_all (round_leaves_alone (lu_kubeClient r) hub (lu_leaseNamespace r) (lu_clusterName r) (lu_leaseName r)) rds"
    and "t \<in> lease_times r hub (lease_run r rds w)"
  shows "t \<in> lease_times r hub w \<or>
    (\<exists>rd \<in> set rds. t = Some (lr_now rd) \<and> list_all (\<lambda>f. f (lr_answer rd)) (lu_healthCheckFuncs r))"
  using assms(4,5)
proof (induction rds arbitrary: w)
  case (Cons rd rds)
  obtain m h m' h' where w: "w = (m, h)" "lease_reconcile r rd (m, h) = (m', h')" by (metis surj_pair)
  have "t \<in> lease_times r hub (m', h') \<or>
      (\<exists>rd \<in> set rds. t = Some (lr_now rd) \<and> list_all (\<lambda>f. f (lr_answer rd)) (lu_healthCheckFuncs r))"
    using Cons.IH [of "(m', h')"] Cons.prems w by simp
  moreover have "t \<in> lease_times r hub w \<or> (t = Some (lr_now rd) \<and> list_all (\<lambda>f. f (lr_answer rd)) (lu_healthCheckFuncs r))"
    if "t \<in> lease_times r hub (m', h')"
    using that lease_round_cases [OF assms(1-3) _ w(2)] Cons.prems(1) w(1)
    by (auto simp: lease_times_def split: if_splits)
  ultimately show ?case by auto
qed simp

lemma readiness_200: "checkProxyAgentReadiness resp \<longleftrightarrow> resp = Inr 200"
  by (cases resp) (simp_all add: checkProxyAgentReadiness_def)

lemma agent_main_lease:
  assumes "agent_main e fl = Inr (r, st)"
  shows "av_spokeClient e = Inr (lu_kubeClient r) \<and> lu_leaseName r = AddonName \<and> lu_leaseNamespace r = av_podNamespace e \<and>
    lu_clusterName r = fl_clusterName fl \<and>
    lu_hubKubeClient r = (case av_hubClient e of Inl _ \<Rightarrow> None | Inr hub \<Rightarrow> Some hub) \<and>
    lu_healthCheckFuncs r = (if fl_enableProxyAgentHealthCheck fl then [checkProxyAgentReadiness] else [])"
  using assms
  by (auto simp: agent_main_def Let_def WithHubLeaseConfig_def NewLeaseUpdater_def split: option.splits sum.splits if_splits)

text \<open>C13. The lease says that the tunnel works: with the health check on (the default), every renew time
  that the add-on's lease ever shows, on the managed cluster or on the hub, is the time of a round in which
  the proxy-agent reported that it is connected.\<close>

theorem lease_means_connected:
  assumes "agent_main e fl = Inr (r, st)" and "fl_enableProxyAgentHealthCheck fl"
    and "av_spokeClient e = Inr spoke" and "object_store spoke" and "av_hubClient e = Inr hub" and "object_store hub"
    and "list_all (round_leaves_alone spoke hub (av_podNamespace e) (fl_clusterName fl) AddonName) rds"
    and "lease_times r hub w = {None}" and "Some t \<in> lease_times r hub (lease_run r rds w)"
  shows "\<exists>rd \<in> set rds. lr_now rd = t \<and> lr_answer rd = Inr 200"
proof -
  note r = agent_main_lease [OF assms(1)]
  have "\<exists>rd \<in> set rds. Some t = Some (lr_now rd) \<and> list_all (\<lambda>f. f (lr_answer rd)) (lu_healthCheckFuncs r)"
    using lease_run_times [of r hub rds "Some t" w] r assms by auto
  then show ?thesis
    using r assms(2) by (auto simp: readiness_200)
qed

text \<open>A connected agent renews its lease: in a round whose checks pass, the lease on the managed cluster
  takes the time of the round if the API server accepts the write; if it answers that there is no such thing,
  the lease on the hub does, if the hub accepts it. A write that fails changes nothing.\<close>

theorem ready_round_renews:
  assumes "object_store (lu_kubeClient r)" and "lu_hubKubeClient r = Some hub" and "object_store hub"
    and "list_all (\<lambda>f. f (lr_answer rd)) (lu_healthCheckFuncs r)"
    and spoke: "updateLease (lu_kubeClient r) (lu_leaseName r) (lu_leaseDurationSeconds r) (lr_now rd) (fst (lr_between rd))
      (lu_leaseNamespace r) (fst (lr_before rd) (fst w)) = (err, m)"
    and hub: "updateLease hub (lu_leaseName r) (lu_leaseDurationSeconds r) (lr_now rd) (snd (lr_between rd))
      (lu_clusterName r) (snd (lr_before rd) (snd w)) = (hubErr, h)"
  shows "if err = None then
      renew_time (lu_kubeClient r) (lu_leaseNamespace r) (lu_leaseName r) (fst (lease_reconcile r rd w)) = Some (lr_now rd) \<and>
      snd (lease_reconcile r rd w) = snd (lr_before rd) (snd w)
    else fst (lease_reconcile r rd w) = fst (lr_between rd) (fst (lr_before rd) (fst w)) \<and>
      (if err = Some ApiNotFound \<and> hubErr = None
       then renew_time hub (lu_clusterName r) (lu_leaseName r) (snd (lease_reconcile r rd w)) = Some (lr_now rd)
       else snd (lease_reconcile r rd w) \<in> {snd (lr_before rd) (snd w), snd (lr_between rd) (snd (lr_before rd) (snd w))})"
proof -
  have w: "lease_reconcile r rd w = (m, if err = Some ApiNotFound then h else snd (lr_before rd) (snd w))"
    using assms(2,4) spoke hub by (simp add: lease_reconcile_def Let_def)
  have s: "if err = None then renew_time (lu_kubeClient r) (lu_leaseNamespace r) (lu_leaseName r) m = Some (lr_now rd)
      else m = fst (lr_between rd) (fst (lr_before rd) (fst w))"
    using spoke object_store.lease_write_success [OF assms(1)] object_store.lease_write_failure [OF assms(1)]
    by (cases err) auto
  have "if hubErr = None then renew_time hub (lu_clusterName r) (lu_leaseName r) h = Some (lr_now rd)
      else h = snd (lr_between rd) (snd (lr_before rd) (snd w))"
    using hub object_store.lease_write_success [OF assms(3)] object_store.lease_write_failure [OF assms(3)]
    by (cases hubErr) auto
  with w s show ?thesis by (auto split: if_splits)
qed

text \<open>An example: an agent on a managed cluster whose proxy-agent connects between two rounds.\<close>

definition example_agent_env :: "(cluster, cluster) agent_env" where
  "example_agent_env =
     \<lparr>av_hubConfig = (\<lambda>_. None), av_spokeClient = Inr store_api, av_hubClient = Inr store_api, av_podNamespace = ''agent'',
      av_listen = (\<lambda>_. None), av_sha256 = (\<lambda>s. s), av_files = (\<lambda>_. Inr ''pem'')\<rparr>"

definition example_updater :: "(cluster, cluster) leaseUpdater" where
  "example_updater = WithHubLeaseConfig (Inr store_api) ''c1'' (NewLeaseUpdater store_api AddonName ''agent'' [checkProxyAgentReadiness])"

definition example_round :: "int \<Rightarrow> nat \<Rightarrow> (cluster, cluster) lease_round" where
  "example_round now status =
     \<lparr>lr_now = now, lr_answer = Inr status, lr_before = (\<lambda>c. c, \<lambda>c. c), lr_between = (\<lambda>c. c, \<lambda>c. c)\<rparr>"

definition example_checker :: configChecker where
  "example_checker = \<lparr>ck_configfiles = certificate_files, ck_checksum = ''pempem'', ck_reload = True\<rparr>"

lemma example_agent_main:
  "agent_main example_agent_env (default_flags\<lparr>fl_clusterName := ''c1''\<rparr>) =
     Inr (example_updater, \<lparr>ag_checker = example_checker, ag_proxy = None\<rparr>)"
  by (simp add: agent_main_def example_agent_env_def default_flags_def example_updater_def agent_proxy_def Let_def
      NewConfigChecker_def load_checksum_def certificate_files_def SetReload_def example_checker_def)

lemma example_lease:
  "renew_time store_api ''agent'' AddonName empty_cluster = None" "renew_time store_api ''c1'' AddonName empty_cluster = None"
  "updateLease store_api AddonName 60 now (\<lambda>c. c) ''agent'' empty_cluster =
     (None, store (new_lease ''agent'' AddonName 60 now) empty_cluster)"
  by (simp_all add: renew_time_def store_api_def empty_cluster_def gget_def updateLease_def)

lemma example_renewed:
  "renew_time store_api ''agent'' AddonName (store (new_lease ''agent'' AddonName 60 now) empty_cluster) = Some now"
  by (rule sa.lease_write_success [OF example_lease(3)])

lemma example_updater_fields:
  "lu_kubeClient example_updater = store_api" "lu_leaseName example_updater = AddonName"
  "lu_leaseNamespace example_updater = ''agent''" "lu_leaseDurationSeconds example_updater = 60"
  "lu_clusterName example_updater = ''c1''" "lu_hubKubeClient example_updater = Some store_api"
  "lu_healthCheckFuncs example_updater = [checkProxyAgentReadiness]"
  by (simp_all add: example_updater_def WithHubLeaseConfig_def NewLeaseUpdater_def)

lemma example_lease_run:
  "lease_run example_updater [example_round 5 503, example_round 65 200] (empty_cluster, empty_cluster) =
     (store (new_lease ''agent'' AddonName 60 65) empty_cluster, empty_cluster)"
  by (simp add: lease_reconcile_def example_updater_fields example_round_def readiness_200 example_lease Let_def)

theorem lease_means_connected_witness:
  "Some 65 \<in> lease_times example_updater store_api
     (lease_run example_updater [example_round 5 503, example_round 65 200] (empty_cluster, empty_cluster)) \<and>
   list_ex (\<lambda>rd. lr_now rd = 65 \<and> lr_answer rd = Inr 200) [example_round 5 503, example_round 65 200]"
proof -
  have "Some 65 \<in> lease_times example_updater store_api
      (lease_run example_updater [example_round 5 503, example_round 65 200] (empty_cluster, empty_cluster))"
    unfolding example_lease_run by (simp add: lease_times_def example_updater_fields example_renewed)
  moreover from this have "\<exists>rd \<in> set [example_round 5 503, example_round 65 200]. lr_now rd = 65 \<and> lr_answer rd = Inr 200"
    by (rule lease_means_connected [OF example_agent_main _ _ sa.object_store_axioms _ sa.object_store_axioms, rotated -1])
      (simp_all add: default_flags_def example_agent_env_def round_leaves_alone_def leaves_alone_def example_round_def
        lease_times_def example_updater_fields example_lease)
  ultimately show ?thesis by (simp add: list_ex_iff)
qed

theorem ready_round_renews_witness:
  "renew_time store_api ''agent'' AddonName
     (fst (lease_reconcile example_updater (example_round 65 200) (empty_cluster, empty_cluster))) = Some 65"
  using ready_round_renews [of example_updater store_api "example_round 65 200" "(empty_cluster, empty_cluster)" None
      "store (new_lease ''agent'' AddonName 60 65) empty_cluster"
      "fst (updateLease store_api AddonName 60 65 (\<lambda>c. c) ''c1'' empty_cluster)"
      "snd (updateLease store_api AddonName 60 65 (\<lambda>c. c) ''c1'' empty_cluster)"]
  by (simp add: example_updater_fields example_round_def readiness_200 example_lease sa.object_store_axioms)

section \<open>Properties of the health probe\<close>

text \<open>When a connection is forwarded, independently of the state of the proxy.\<close>

definition forwards :: "handle_env \<Rightarrow> bool" where
  "forwards e \<longleftrightarrow> he_roundTripper e = None \<and> he_client e = None \<and> he_errorStream e = None \<and> he_dataStream e = None \<and>
     (case he_pods e of
        Inl _ \<Rightarrow> False
      | Inr pods \<Rightarrow>
          (let candidates = filter (\<lambda>p. pod_Phase p = ''Running'') pods
           in candidates \<noteq> [] \<and> he_dial e (pod_Name (candidates ! he_rand e (length candidates))) = None))"

lemma handle_forwards: "fst (fst (handle e r)) = None \<longleftrightarrow> forwards e"
  by (simp add: handle_def forwards_def Let_def split: option.split sum.split)

lemma handle_first: "rr_firstConnReceived (snd (handle e r)) \<longleftrightarrow> rr_firstConnReceived r \<or> forwards e"
  by (simp add: handle_def forwards_def Let_def split: option.split sum.split)

fun event_forwards :: "agent_event \<Rightarrow> bool" where
  "event_forwards (Probe read path excluded) = False"
| "event_forwards (Connection e) = forwards e"

text \<open>The digest of the certificate files as a check last read them.\<close>

fun event_digest :: "(string \<Rightarrow> string) \<Rightarrow> agent_event \<Rightarrow> string \<Rightarrow> string" where
  "event_digest sha256 (Probe read path excluded) digest =
     (if path = ''/healthz'' \<and> ''certificates'' \<notin> set excluded
      then (case load_checksum sha256 read certificate_files of Inl _ \<Rightarrow> digest | Inr d \<Rightarrow> d)
      else digest)"
| "event_digest sha256 (Connection e) digest = digest"

definition checker_at :: "string \<Rightarrow> configChecker" where
  "checker_at digest = \<lparr>ck_configfiles = certificate_files, ck_checksum = digest, ck_reload = True\<rparr>"

lemma Check_checker_at:
  "Check sha256 read (checker_at d) =
     (case load_checksum sha256 read certificate_files of
        Inl err \<Rightarrow> (Some err, checker_at d)
      | Inr d' \<Rightarrow> (if d' = d then None else Some ''checksum not equal'', checker_at d'))"
  by (simp add: Check_def checker_at_def split: sum.split)

lemma agent_step_checker:
  "ag_checker s = checker_at d \<Longrightarrow> ag_checker (agent_step sha256 ev s) = checker_at (event_digest sha256 ev d)"
  by (cases ev) (simp_all add: serveHealthProbes_def Check_checker_at Let_def split: option.split sum.split)

lemma agent_step_ready: "agent_ready (agent_step sha256 ev s) \<longleftrightarrow> agent_ready s \<or> event_forwards ev"
  by (cases ev) (auto simp: serveHealthProbes_def agent_ready_def handle_first Let_def split: option.split prod.split)

lemma agent_after_state:
  assumes "ag_checker s = checker_at d"
  shows "ag_checker (agent_after sha256 events s) = checker_at (fold (event_digest sha256) events d)"
    and "agent_ready (agent_after sha256 events s) \<longleftrightarrow> agent_ready s \<or> list_ex event_forwards events"
proof -
  show "ag_checker (agent_after sha256 events s) = checker_at (fold (event_digest sha256) events d)"
    using assms by (induction events arbitrary: s d) (simp_all add: agent_after_def agent_step_checker)
  show "agent_ready (agent_after sha256 events s) \<longleftrightarrow> agent_ready s \<or> list_ex event_forwards events"
    by (induction events arbitrary: s) (simp_all add: agent_after_def agent_step_ready)
qed

lemma agent_main_state:
  assumes "agent_main e fl = Inr (r, st)"
  shows "\<exists>d. load_checksum (av_sha256 e) (av_files e) certificate_files = Inr d \<and> ag_checker st = checker_at d"
    and "agent_ready st \<longleftrightarrow> \<not> fl_enablePortForwardProxy fl"
proof -
  have "\<exists>cc. NewConfigChecker (av_sha256 e) (av_files e) certificate_files = Inr cc \<and>
      st = \<lparr>ag_checker = SetReload True cc, ag_proxy = agent_proxy fl\<rparr>"
    using assms by (auto simp: agent_main_def Let_def split: option.splits sum.splits if_splits)
  then obtain cc where cc: "NewConfigChecker (av_sha256 e) (av_files e) certificate_files = Inr cc"
    "st = \<lparr>ag_checker = SetReload True cc, ag_proxy = agent_proxy fl\<rparr>" by blast
  then show "\<exists>d. load_checksum (av_sha256 e) (av_files e) certificate_files = Inr d \<and> ag_checker st = checker_at d"
    by (auto simp: NewConfigChecker_def SetReload_def checker_at_def split: sum.splits)
  show "agent_ready st \<longleftrightarrow> \<not> fl_enablePortForwardProxy fl"
    using cc by (simp add: agent_ready_def agent_proxy_def NewRoundRobinLocalProxy_def NewRoundRobinLocalProxyWithReqId_def)
qed

lemma probe_ok:
  assumes "ag_checker s = checker_at d"
  shows "fst (serveHealthProbes sha256 read ''/healthz'' [] s) = 200 \<longleftrightarrow>
    load_checksum sha256 read certificate_files = Inr d \<and> agent_ready s"
  using assms by (auto simp: serveHealthProbes_def Check_checker_at Let_def split: sum.split)

text \<open>C35. What the liveness probe of the agent says, after any history of probes and connections: it succeeds
  exactly when the certificate files read as they did at the last check that could read them (or at the
  start), and, with port forwarding on, some connection has been forwarded to a proxy server. So a rotated
  certificate fails the next probe, and an agent to which nobody has connected yet fails every probe.\<close>

theorem probe_meaning:
  assumes "agent_main e fl = Inr (r, st)"
    and "load_checksum (av_sha256 e) (av_files e) certificate_files = Inr digest"
  shows "fst (serveHealthProbes (av_sha256 e) read ''/healthz'' [] (agent_after (av_sha256 e) events st)) = 200 \<longleftrightarrow>
    load_checksum (av_sha256 e) read certificate_files = Inr (fold (event_digest (av_sha256 e)) events digest) \<and>
    (if fl_enablePortForwardProxy fl then list_ex event_forwards events else True)"
proof -
  have "ag_checker st = checker_at digest" using agent_main_state(1) [OF assms(1)] assms(2) by auto
  then show ?thesis
    using agent_main_state(2) [OF assms(1)] by (auto simp: probe_ok agent_after_state)
qed

definition example_connection :: handle_env where
  "example_connection =
     \<lparr>he_roundTripper = None, he_client = None, he_pods = Inr [\<lparr>pod_Name = ''p'', pod_Phase = ''Running''\<rparr>],
      he_rand = (\<lambda>_. 0), he_dial = (\<lambda>_. None), he_errorStream = None, he_dataStream = None\<rparr>"

lemma example_forwards: "forwards example_connection"
  by (simp add: forwards_def example_connection_def)

theorem probe_meaning_witness:
  "\<exists>st. agent_main example_agent_env (default_flags\<lparr>fl_enablePortForwardProxy := True\<rparr>) = Inr st \<and>
     fst (serveHealthProbes (\<lambda>s. s) (\<lambda>_. Inr ''pem'') ''/healthz'' [] (agent_after (\<lambda>s. s) [] (snd st))) \<noteq> 200 \<and>
     fst (serveHealthProbes (\<lambda>s. s) (\<lambda>_. Inr ''pem'') ''/healthz'' []
       (agent_after (\<lambda>s. s) [Connection example_connection] (snd st))) = 200"
proof -
  let ?fl = "default_flags\<lparr>fl_enablePortForwardProxy := True\<rparr>"
  obtain r st where m: "agent_main example_agent_env ?fl = Inr (r, st)"
    by (simp add: Listen_def agent_main_def example_agent_env_def default_flags_def agent_proxy_def Let_def
        NewConfigChecker_def load_checksum_def certificate_files_def)
  have l: "load_checksum (av_sha256 example_agent_env) (av_files example_agent_env) certificate_files = Inr ''pempem''"
    by (simp add: example_agent_env_def load_checksum_def certificate_files_def)
  show ?thesis
    using m l probe_meaning [OF m l, of "\<lambda>_. Inr ''pem''" "[]"]
      probe_meaning [OF m l, of "\<lambda>_. Inr ''pem''" "[Connection example_connection]"]
    by (auto simp: example_agent_env_def example_forwards)
qed

text \<open>The local proxy of the agent finds the proxy servers that the operator deploys: its selector is the one
  label of their pods, its port is the agent port of their Service, and the operator's Role allows the agent's
  group to list pods and to forward ports in their namespace.\<close>

theorem local_proxy_finds_proxy_servers:
  assumes "agent_proxy fl = Some rr"
  shows "case (ob_Spec (newProxyServerDeployment sha256 cs vs config pull tls), ob_Spec (newProxyService config),
      ob_Spec (newProxyServerRole config), ob_Spec (newProxyServerRoleBinding config)) of
    (DeploymentObject d, ServiceObject s, RoleObject rules, RoleBindingObject role subjects) \<Rightarrow>
      map (\<lambda>(k, v). k @ ''='' @ v) (de_PodLabels d) = [rr_podSelector rr] \<and>
      gget (svc_Ports s) ''agent-server'' = Some (nat (rr_targetPort rr)) \<and>
      list_ex (\<lambda>r. [] \<in> set (pr_APIGroups r) \<and> ''*'' \<in> set (pr_Verbs r) \<and>
        {''pods'', ''pods/portforward''} \<subseteq> set (pr_Resources r)) rules \<and>
      role = (''Role'', om_Name (ob_Meta (newProxyServerRole config))) \<and>
      (''Group'', SubjectGroupClusterProxy) \<in> set subjects \<and>
      om_Namespace (ob_Meta (newProxyServerRole config)) =
        om_Namespace (ob_Meta (newProxyServerDeployment sha256 cs vs config pull tls)) \<and>
      om_Namespace (ob_Meta (newProxyServerRoleBinding config)) = om_Namespace (ob_Meta (newProxyServerRole config))
  | _ \<Rightarrow> False"
  using assms
  by (auto simp: agent_proxy_def NewRoundRobinLocalProxy_def NewRoundRobinLocalProxyWithReqId_def newProxyServerDeployment_def
      newProxyService_def newProxyServerRole_def newProxyServerRoleBinding_def component_labels_def proxy_ports_def
      owned_meta_def gget_def Let_def split: if_splits)

theorem local_proxy_finds_proxy_servers_witness:
  "\<exists>rr. agent_proxy (default_flags\<lparr>fl_enablePortForwardProxy := True\<rparr>) = Some rr \<and>
     map (\<lambda>(k, v). k @ ''='' @ v) component_labels = [rr_podSelector rr]"
proof -
  obtain rr where rr: "agent_proxy (default_flags\<lparr>fl_enablePortForwardProxy := True\<rparr>) = Some rr"
    by (simp add: agent_proxy_def)
  from local_proxy_finds_proxy_servers [OF rr, where config = example_config] show ?thesis
    using rr by (simp add: newProxyServerDeployment_def newProxyService_def newProxyServerRole_def
        newProxyServerRoleBinding_def Let_def)
qed

end
