(* ===== verification/Deep_Copy.thy ===== *)
theory Deep_Copy
  imports Prelude "HOL-Library.Sublist"
begin

text \<open>
  The deep copies of the configuration types (pkg/apis/proxy/v1alpha1/zz_generated.deepcopy.go). The
  controllers read objects that they share with an informer cache and edit copies of them, so what
  matters is which memory a copy shares with its original. Values live in an explicit heap of cells:
  a pointer, a slice or a map is an address or nil, structs are stored inline. A Go type is described
  by a value of \<open>gty\<close>, from managedproxyconfiguration_types.go and the vendored types it uses; the
  generated functions are translated one by one, and compared with one copy that follows the type.
\<close>

section \<open>The heap\<close>

datatype gval = VScalar string | VStruct "(string \<times> gval) list" | VRef "nat option"

datatype cell = CVal gval | CArr "gval list" | CMap "(string \<times> gval) list"

type_synonym heap = "cell list"

datatype gty = TScalar | TStruct "(string \<times> gty) list" | TPtr gty | TSlice gty | TMap gty

text \<open>The cell behind a reference.\<close>

definition deref :: "heap \<Rightarrow> gval \<Rightarrow> cell option" where
  "deref h v = (case v of VRef (Some a) \<Rightarrow> if a < length h then Some (h ! a) else None | _ \<Rightarrow> None)"

text \<open>A value has a type in a heap.\<close>

fun wt :: "heap \<Rightarrow> gty \<Rightarrow> gval \<Rightarrow> bool" and wts :: "heap \<Rightarrow> (string \<times> gty) list \<Rightarrow> (string \<times> gval) list \<Rightarrow> bool" where
  "wt h TScalar v = (case v of VScalar _ \<Rightarrow> True | _ \<Rightarrow> False)"
| "wt h (TStruct fs) v = (case v of VStruct vs \<Rightarrow> wts h fs vs | _ \<Rightarrow> False)"
| "wt h (TPtr t) v = (v = VRef None \<or> (case deref h v of Some (CVal x) \<Rightarrow> wt h t x | _ \<Rightarrow> False))"
| "wt h (TSlice t) v = (v = VRef None \<or> (case deref h v of Some (CArr xs) \<Rightarrow> list_all (wt h t) xs | _ \<Rightarrow> False))"
| "wt h (TMap t) v = (v = VRef None \<or> (case deref h v of Some (CMap es) \<Rightarrow> list_all (wt h t) (map snd es) | _ \<Rightarrow> False))"
| "wts h [] vs \<longleftrightarrow> vs = []"
| "wts h (f # fs) vs = (case vs of [] \<Rightarrow> False | w # ws \<Rightarrow> fst f = fst w \<and> wt h (snd f) (snd w) \<and> wts h fs ws)"

text \<open>What a value means: the tree that is reached from it.\<close>

datatype tree = Leaf string | Node "(string \<times> tree) list" | NilRef | Pointer tree | Items "tree list"
  | Entries "(string \<times> tree) list" | Bad

fun tree_of :: "heap \<Rightarrow> gty \<Rightarrow> gval \<Rightarrow> tree"
  and trees_of :: "heap \<Rightarrow> (string \<times> gty) list \<Rightarrow> (string \<times> gval) list \<Rightarrow> (string \<times> tree) list" where
  "tree_of h TScalar v = (case v of VScalar s \<Rightarrow> Leaf s | _ \<Rightarrow> Bad)"
| "tree_of h (TStruct fs) v = (case v of VStruct vs \<Rightarrow> Node (trees_of h fs vs) | _ \<Rightarrow> Bad)"
| "tree_of h (TPtr t) v =
     (if v = VRef None then NilRef else case deref h v of Some (CVal x) \<Rightarrow> Pointer (tree_of h t x) | _ \<Rightarrow> Bad)"
| "tree_of h (TSlice t) v =
     (if v = VRef None then NilRef else case deref h v of Some (CArr xs) \<Rightarrow> Items (map (tree_of h t) xs) | _ \<Rightarrow> Bad)"
| "tree_of h (TMap t) v =
     (if v = VRef None then NilRef
      else case deref h v of Some (CMap es) \<Rightarrow> Entries (zip (map fst es) (map (tree_of h t) (map snd es))) | _ \<Rightarrow> Bad)"
| "trees_of h [] vs = []"
| "trees_of h (f # fs) vs = (case vs of [] \<Rightarrow> [] | w # ws \<Rightarrow> (fst w, tree_of h (snd f) (snd w)) # trees_of h fs ws)"

text \<open>The addresses that are reached from it.\<close>

definition address :: "gval \<Rightarrow> nat set" where
  "address v = (case v of VRef (Some a) \<Rightarrow> {a} | _ \<Rightarrow> {})"

fun refs :: "heap \<Rightarrow> gty \<Rightarrow> gval \<Rightarrow> nat set"
  and refss :: "heap \<Rightarrow> (string \<times> gty) list \<Rightarrow> (string \<times> gval) list \<Rightarrow> nat set" where
  "refs h TScalar v = {}"
| "refs h (TStruct fs) v = (case v of VStruct vs \<Rightarrow> refss h fs vs | _ \<Rightarrow> {})"
| "refs h (TPtr t) v = address v \<union> (case deref h v of Some (CVal x) \<Rightarrow> refs h t x | _ \<Rightarrow> {})"
| "refs h (TSlice t) v = address v \<union> (case deref h v of Some (CArr xs) \<Rightarrow> \<Union>(set (map (refs h t) xs)) | _ \<Rightarrow> {})"
| "refs h (TMap t) v = address v \<union> (case deref h v of Some (CMap es) \<Rightarrow> \<Union>(set (map (refs h t) (map snd es))) | _ \<Rightarrow> {})"
| "refss h [] vs = {}"
| "refss h (f # fs) vs = (case vs of [] \<Rightarrow> {} | w # ws \<Rightarrow> refs h (snd f) (snd w) \<union> refss h fs ws)"

section \<open>Copying\<close>

type_synonym copier = "gval \<Rightarrow> heap \<Rightarrow> gval \<times> heap"

text \<open>A Go assignment copies a struct with the references in it.\<close>

definition assign :: copier where
  "assign v h = (v, h)"

definition zero_value :: gval where
  "zero_value = VStruct []"

fun copy_each :: "copier \<Rightarrow> gval list \<Rightarrow> heap \<Rightarrow> gval list \<times> heap" where
  "copy_each c [] h = ([], h)"
| "copy_each c (v # vs) h =
     (case c v h of (v', h) \<Rightarrow> (case copy_each c vs h of (vs', h) \<Rightarrow> (v' # vs', h)))"

text \<open>The blocks of the generated code for a field that is not nil: \<open>new\<close> or \<open>make\<close> allocates a cell, what
  it holds is copied, and the copy is written to the new cell.\<close>

definition copy_ptr :: "copier \<Rightarrow> copier" where
  "copy_ptr c v h =
     (case deref h v of
        Some (CVal x) \<Rightarrow>
          (case c x (h @ [CVal zero_value]) of (x', h') \<Rightarrow> (VRef (Some (length h)), h'[length h := CVal x']))
      | _ \<Rightarrow> (v, h))"

definition copy_slice :: "copier \<Rightarrow> copier" where
  "copy_slice c v h =
     (case deref h v of
        Some (CArr xs) \<Rightarrow>
          (case copy_each c xs (h @ [CArr (replicate (length xs) zero_value)]) of
             (xs', h') \<Rightarrow> (VRef (Some (length h)), h'[length h := CArr xs']))
      | _ \<Rightarrow> (v, h))"

definition copy_map :: "copier \<Rightarrow> copier" where
  "copy_map c v h =
     (case deref h v of
        Some (CMap es) \<Rightarrow>
          (case copy_each c (map snd es) (h @ [CMap []]) of
             (xs', h') \<Rightarrow> (VRef (Some (length h)), h'[length h := CMap (zip (map fst es) xs')]))
      | _ \<Rightarrow> (v, h))"

definition field :: "string \<Rightarrow> gval \<Rightarrow> gval" where
  "field n v = (case v of VStruct fs \<Rightarrow> (case map_of fs n of Some x \<Rightarrow> x | None \<Rightarrow> VRef None) | _ \<Rightarrow> VRef None)"

definition set_field :: "string \<Rightarrow> gval \<Rightarrow> gval \<Rightarrow> gval" where
  "set_field n x v =
     (case v of VStruct fs \<Rightarrow> VStruct (map (\<lambda>(m, y). if m = n then (m, x) else (m, y)) fs) | _ \<Rightarrow> v)"

fun copy_fields :: "(string \<times> copier) list \<Rightarrow> gval \<Rightarrow> copier" where
  "copy_fields [] out v h = (out, h)"
| "copy_fields ((n, c) # cs) out v h =
     (case c (field n v) h of (x', h) \<Rightarrow> copy_fields cs (set_field n x' out) v h)"

text \<open>\<open>*out = *in\<close>, then the fields that need more.\<close>

definition into :: "(string \<times> copier) list \<Rightarrow> copier" where
  "into cs v h = copy_fields cs v v h"

text \<open>The reference: a copy that follows the type.\<close>

fun deep_copy :: "gty \<Rightarrow> copier"
  and deep_copies :: "(string \<times> gty) list \<Rightarrow> (string \<times> gval) list \<Rightarrow> heap \<Rightarrow> (string \<times> gval) list \<times> heap" where
  "deep_copy TScalar v h = (v, h)"
| "deep_copy (TStruct fs) v h =
     (case v of VStruct vs \<Rightarrow> (case deep_copies fs vs h of (vs', h') \<Rightarrow> (VStruct vs', h')) | _ \<Rightarrow> (v, h))"
| "deep_copy (TPtr t) v h = copy_ptr (deep_copy t) v h"
| "deep_copy (TSlice t) v h = copy_slice (deep_copy t) v h"
| "deep_copy (TMap t) v h = copy_map (deep_copy t) v h"
| "deep_copies [] vs h = (vs, h)"
| "deep_copies (f # fs) vs h =
     (case vs of
        [] \<Rightarrow> ([], h)
      | w # ws \<Rightarrow>
          (case deep_copy (snd f) (snd w) h of (v', h) \<Rightarrow>
             (case deep_copies fs ws h of (ws', h) \<Rightarrow> ((fst w, v') # ws', h))))"

section \<open>What a value means depends on the cells it reaches\<close>

lemma deref_nil [simp]: "deref h (VRef None) = None"
  by (simp add: deref_def)

definition agree :: "heap \<Rightarrow> heap \<Rightarrow> nat set \<Rightarrow> bool" where
  "agree h h' A \<longleftrightarrow> (\<forall>a \<in> A. a < length h \<longrightarrow> a < length h' \<and> h' ! a = h ! a)"

lemma agree_sub: "agree h h' B \<Longrightarrow> A \<subseteq> B \<Longrightarrow> agree h h' A"
  by (auto simp: agree_def)

lemma agree_Un [simp]: "agree h h' (A \<union> B) \<longleftrightarrow> agree h h' A \<and> agree h h' B"
  by (auto simp: agree_def)

lemma agree_deref: "agree h h' (address v) \<Longrightarrow> deref h v = Some x \<Longrightarrow> deref h' v = Some x"
  by (auto simp: agree_def address_def deref_def split: gval.splits option.splits if_splits)

lemma same_meaning:
  "wt h t v \<Longrightarrow> agree h h' (refs h t v) \<Longrightarrow> wt h' t v \<and> tree_of h' t v = tree_of h t v \<and> refs h' t v = refs h t v"
  "wts h fs vs \<Longrightarrow> agree h h' (refss h fs vs) \<Longrightarrow>
     wts h' fs vs \<and> trees_of h' fs vs = trees_of h fs vs \<and> refss h' fs vs = refss h fs vs"
proof (induction h t v and h fs vs rule: wt_wts.induct)
  case (3 h t v)
  then show ?case using agree_deref [of h h' v]
    by (cases "deref h v"; cases "the (deref h v)") (auto simp: deref_def)
next
  case (4 h t v)
  show ?case
  proof (cases "v = VRef None")
    case False
    with 4 obtain xs where d: "deref h v = Some (CArr xs)" by (auto split: option.splits cell.splits)
    have "wt h' t x \<and> tree_of h' t x = tree_of h t x \<and> refs h' t x = refs h t x" if "x \<in> set xs" for x
    proof -
      have "wt h t x" using 4(2) d that by (auto simp: list_all_iff deref_def)
      moreover have "agree h h' (refs h t x)" by (rule agree_sub [OF 4(3)]) (use d that in auto)
      ultimately show ?thesis using 4(1) d that False by blast
    qed
    moreover have "deref h' v = Some (CArr xs)" using agree_deref [OF _ d] 4(3) by simp
    ultimately show ?thesis using d False by (auto simp: list_all_iff)
  qed (simp add: deref_def)
next
  case (5 h t v)
  show ?case
  proof (cases "v = VRef None")
    case False
    with 5 obtain es where d: "deref h v = Some (CMap es)" by (auto split: option.splits cell.splits)
    have "wt h' t x \<and> tree_of h' t x = tree_of h t x \<and> refs h' t x = refs h t x" if "x \<in> set (map snd es)" for x
    proof -
      have "wt h t x" using 5(2) d that by (auto simp: list_all_iff deref_def)
      moreover have "agree h h' (refs h t x)" by (rule agree_sub [OF 5(3)]) (use d that in auto)
      ultimately show ?thesis using 5(1) d that False by blast
    qed
    moreover from this have "map (tree_of h' t) (map snd es) = map (tree_of h t) (map snd es)" by simp
    moreover have "deref h' v = Some (CMap es)" using agree_deref [OF _ d] 5(3) by simp
    ultimately show ?thesis using d False by (auto simp: list_all_iff simp del: map_map map_eq_conv)
  qed (simp add: deref_def)
qed (auto split: gval.splits list.splits)

lemma extended_heap:
  assumes "wt h t v" and "prefix h h'"
  shows "wt h' t v" and "tree_of h' t v = tree_of h t v" and "refs h' t v = refs h t v"
proof -
  have "agree h h' (refs h t v)" using assms(2) by (auto simp: agree_def prefix_def nth_append)
  then show "wt h' t v" "tree_of h' t v = tree_of h t v" "refs h' t v = refs h t v"
    using same_meaning(1) [OF assms(1)] by auto
qed

lemma extended_heaps:
  assumes "wts h fs vs" and "prefix h h'"
  shows "wts h' fs vs" and "trees_of h' fs vs = trees_of h fs vs" and "refss h' fs vs = refss h fs vs"
  using extended_heap [of h "TStruct fs" "VStruct vs" h'] assms by auto

lemma written_elsewhere:
  assumes "wt h t v" and "n \<notin> refs h t v"
  shows "wt (h[n := x]) t v" and "tree_of (h[n := x]) t v = tree_of h t v" and "refs (h[n := x]) t v = refs h t v"
proof -
  have "agree h (h[n := x]) (refs h t v)"
    unfolding agree_def using assms(2) by (metis length_list_update nth_list_update_neq)
  then show "wt (h[n := x]) t v" "tree_of (h[n := x]) t v = tree_of h t v" "refs (h[n := x]) t v = refs h t v"
    using same_meaning(1) [OF assms(1)] by auto
qed

lemma address_bound: "deref h v = Some x \<Longrightarrow> address v \<subseteq> {..<length h}"
  by (auto simp: address_def deref_def split: gval.splits option.splits if_splits)

lemma refs_bound:
  "wt h t v \<Longrightarrow> refs h t v \<subseteq> {..<length h}"
  "wts h fs vs \<Longrightarrow> refss h fs vs \<subseteq> {..<length h}"
proof (induction h t v and h fs vs rule: wt_wts.induct)
  case (3 h t v)
  then show ?case using address_bound [of h v]
    by (cases "v = VRef None") (auto simp: address_def deref_def [of h "VRef None"] split: option.splits cell.splits)
next
  case (4 h t v)
  then show ?case using address_bound [of h v]
    by (cases "v = VRef None")
      (fastforce simp: address_def list_all_iff deref_def [of h "VRef None"] split: option.splits cell.splits)+
next
  case (5 h t v)
  then show ?case using address_bound [of h v]
    by (cases "v = VRef None")
      (fastforce simp: address_def list_all_iff deref_def [of h "VRef None"] split: option.splits cell.splits)+
qed (auto split: gval.splits list.splits)

lemma extended_list:
  assumes "list_all (wt h t) xs" and "prefix h h'"
  shows "list_all (wt h' t) xs" and "map (tree_of h' t) xs = map (tree_of h t) xs"
  using assms(1) extended_heap [OF _ assms(2)] by (auto simp: list_all_iff)

lemma written_elsewhere_list:
  assumes "list_all (wt h t) xs" and "n \<notin> \<Union>(set (map (refs h t) xs))"
  shows "list_all (wt (h[n := x]) t) xs" and "map (tree_of (h[n := x]) t) xs = map (tree_of h t) xs"
    and "map (refs (h[n := x]) t) xs = map (refs h t) xs"
  using assms written_elsewhere by (auto simp: list_all_iff)

lemma allocated:
  assumes "prefix (h @ [z]) h'"
  shows "prefix h (h'[length h := x])" and "deref (h'[length h := x]) (VRef (Some (length h))) = Some x"
    and "length h < length h'"
  using assms by (auto simp: prefix_def deref_def list_update_append)

lemma copy_each_length: "copy_each c xs h = (xs', h') \<Longrightarrow> length xs' = length xs"
  by (induction xs arbitrary: h xs' h') (auto split: prod.splits)

text \<open>What a client does with a value: it writes cells that it reaches from it.\<close>

definition write_cells :: "(nat \<times> cell) list \<Rightarrow> heap \<Rightarrow> heap" where
  "write_cells ws h = fold (\<lambda>w h. h[fst w := snd w]) ws h"

lemma write_cells_agree:
  assumes "fst ` set ws \<inter> A = {}"
  shows "agree h (write_cells ws h) A"
  using assms
proof (induction ws arbitrary: h)
  case (Cons w ws)
  then have "agree (h[fst w := snd w]) (write_cells (w # ws) h) A" by (simp add: write_cells_def)
  moreover have "h[fst w := snd w] ! a = h ! a" if "a \<in> A" for a
    using Cons.prems that by (intro nth_list_update_neq) auto
  ultimately show ?case by (simp add: agree_def)
qed (simp add: write_cells_def agree_def)

section \<open>The contract of a deep copy\<close>

text \<open>A copier for a type changes no cell that exists, and its copy has the type, means the same and reaches
  new cells only.\<close>

locale deep_copier =
  fixes c :: copier and t :: gty
  assumes copy_extends: "wt h t v \<Longrightarrow> c v h = (v', h') \<Longrightarrow> prefix h h'"
    and copy_wt: "wt h t v \<Longrightarrow> c v h = (v', h') \<Longrightarrow> wt h' t v'"
    and copy_tree: "wt h t v \<Longrightarrow> c v h = (v', h') \<Longrightarrow> tree_of h' t v' = tree_of h t v"
    and copy_refs: "wt h t v \<Longrightarrow> c v h = (v', h') \<Longrightarrow> refs h' t v' \<subseteq> {length h..<length h'}"
begin

lemma edits_are_local:
  assumes "wt h t v" and "c v h = (v', h')" and "fst ` set ws \<subseteq> refs h' t v'" and "fst ` set us \<subseteq> refs h' t v"
  shows "tree_of (write_cells ws h') t v = tree_of h t v \<and> tree_of (write_cells us h') t v' = tree_of h t v"
proof -
  note o = extended_heap [OF assms(1) copy_extends [OF assms(1,2)]]
  have "a \<notin> refs h' t v'" if "a \<in> refs h' t v" for a
    using that o(3) refs_bound(1) [OF assms(1)] copy_refs [OF assms(1,2)] by fastforce
  then have "fst ` set ws \<inter> refs h' t v = {}" "fst ` set us \<inter> refs h' t v' = {}" using assms(3,4) by auto
  then show ?thesis
    using same_meaning(1) [OF o(1) write_cells_agree, of ws] same_meaning(1) [OF copy_wt [OF assms(1,2)] write_cells_agree, of us]
      o(2) copy_tree [OF assms(1,2)] by simp
qed

lemma copy_each_spec:
  assumes "list_all (wt h t) xs" and "copy_each c xs h = (xs', h')"
  shows "prefix h h' \<and> list_all (wt h' t) xs' \<and> map (tree_of h' t) xs' = map (tree_of h t) xs \<and>
    \<Union>(set (map (refs h' t) xs')) \<subseteq> {length h..<length h'}"
  using assms
proof (induction xs arbitrary: h xs' h')
  case (Cons x xs)
  obtain x1 h1 where 1: "c x h = (x1, h1)" by fastforce
  obtain xs2 h2 where 2: "copy_each c xs h1 = (xs2, h2)" by fastforce
  have x: "wt h t x" using Cons.prems by simp
  note p1 = copy_extends [OF x 1] and w1 = copy_wt [OF x 1]
  have "list_all (wt h1 t) xs" "map (tree_of h1 t) xs = map (tree_of h t) xs"
    using Cons.prems(1) extended_heap [OF _ p1] by (auto simp: list_all_iff)
  with Cons.IH [OF _ 2] have rest: "prefix h1 h2" "list_all (wt h2 t) xs2" "map (tree_of h2 t) xs2 = map (tree_of h t) xs"
    "\<Union>(set (map (refs h2 t) xs2)) \<subseteq> {length h1..<length h2}" by auto
  note first = extended_heap [OF w1 rest(1)]
  have "refs h2 t x1 \<subseteq> {length h..<length h2}"
    using copy_refs [OF x 1] first(3) prefix_length_le [OF rest(1)] by auto
  moreover have "{length h1..<length h2} \<subseteq> {length h..<length h2}"
    using prefix_length_le [OF p1] by simp
  ultimately have "\<Union>(set (map (refs h2 t) (x1 # xs2))) \<subseteq> {length h..<length h2}"
    using rest(4) by (simp only: list.map set_simps Union_insert Un_subset_iff) (blast intro: subset_trans)
  moreover have "xs' = x1 # xs2" "h' = h2" using Cons.prems(2) 1 2 by auto
  ultimately show ?case
    using rest first copy_tree [OF x 1] prefix_order.trans [OF p1 rest(1)] by simp
qed simp

lemma copy_ptr_spec:
  assumes "wt h (TPtr t) v" and "copy_ptr c v h = (v', h')"
  shows "prefix h h' \<and> wt h' (TPtr t) v' \<and> tree_of h' (TPtr t) v' = tree_of h (TPtr t) v \<and>
    refs h' (TPtr t) v' \<subseteq> {length h..<length h'}"
proof (cases "v = VRef None")
  case False
  with assms(1) obtain x where d: "deref h v = Some (CVal x)" and x: "wt h t x"
    by (auto split: option.splits cell.splits)
  let ?h0 = "h @ [CVal zero_value]"
  obtain x1 h1 where 1: "c x ?h0 = (x1, h1)" by fastforce
  note x0 = extended_heap [OF x, of ?h0, simplified]
  note p = copy_extends [OF x0(1) 1]
  have fresh: "length h \<notin> refs h1 t x1" using copy_refs [OF x0(1) 1] by auto
  have res: "v' = VRef (Some (length h))" "h' = h1[length h := CVal x1]" using assms(2) d 1 by (auto simp: copy_ptr_def)
  note w = written_elsewhere [OF copy_wt [OF x0(1) 1] fresh, where x = "CVal x1"]
    and a = allocated(1,2) [OF p, where x = "CVal x1"] allocated(3) [OF p]
  then show ?thesis
    using res False d x0 copy_tree [OF x0(1) 1] copy_refs [OF x0(1) 1] by (auto simp: address_def)
qed (use assms in \<open>auto simp: copy_ptr_def deref_def address_def\<close>)

lemma copy_slice_spec:
  assumes "wt h (TSlice t) v" and "copy_slice c v h = (v', h')"
  shows "prefix h h' \<and> wt h' (TSlice t) v' \<and> tree_of h' (TSlice t) v' = tree_of h (TSlice t) v \<and>
    refs h' (TSlice t) v' \<subseteq> {length h..<length h'}"
proof (cases "v = VRef None")
  case False
  with assms(1) obtain xs where d: "deref h v = Some (CArr xs)" and xs: "list_all (wt h t) xs"
    by (auto split: option.splits cell.splits)
  let ?h0 = "h @ [CArr (replicate (length xs) zero_value)]"
  obtain xs1 h1 where 1: "copy_each c xs ?h0 = (xs1, h1)" by fastforce
  note x0 = extended_list [OF xs, of ?h0, simplified]
  note each = copy_each_spec [OF x0(1) 1]
  have res: "v' = VRef (Some (length h))" "h' = h1[length h := CArr xs1]" using assms(2) d 1 by (auto simp: copy_slice_def)
  have bound: "length h \<le> a \<and> a < length h1 \<and> a \<noteq> length h" if "x \<in> set xs1" "a \<in> refs h1 t x" for x a
    using each that by fastforce
  then have fresh: "length h \<notin> \<Union>(set (map (refs h1 t) xs1))" by auto
  note w = written_elsewhere_list [OF _ fresh, where x = "CArr xs1"]
    and a = allocated(1,2) [where h = h and h' = h1 and x = "CArr xs1"] allocated(3) [where h = h and h' = h1]
  then show ?thesis
    using res False d x0 each by (auto simp: address_def dest: bound)
qed (use assms in \<open>auto simp: copy_slice_def deref_def address_def\<close>)

lemma copy_map_spec:
  assumes "wt h (TMap t) v" and "copy_map c v h = (v', h')"
  shows "prefix h h' \<and> wt h' (TMap t) v' \<and> tree_of h' (TMap t) v' = tree_of h (TMap t) v \<and>
    refs h' (TMap t) v' \<subseteq> {length h..<length h'}"
proof (cases "v = VRef None")
  case False
  with assms(1) obtain es where d: "deref h v = Some (CMap es)" and es: "list_all (wt h t) (map snd es)"
    by (auto split: option.splits cell.splits)
  let ?h0 = "h @ [CMap []]"
  obtain xs1 h1 where 1: "copy_each c (map snd es) ?h0 = (xs1, h1)" by fastforce
  have pre: "prefix h ?h0" by simp
  note x0 = extended_list [OF es pre]
  note each = copy_each_spec [OF x0(1) 1]
  have len: "length xs1 = length es" using copy_each_length [OF 1] by simp
  let ?es = "zip (map fst es) xs1"
  have res: "v' = VRef (Some (length h))" "h' = h1[length h := CMap ?es]" using assms(2) d 1 by (auto simp: copy_map_def)
  have bound: "length h \<le> a \<and> a < length h1 \<and> a \<noteq> length h" if "x \<in> set xs1" "a \<in> refs h1 t x" for x a
    using each that by fastforce
  then have fresh: "length h \<notin> \<Union>(set (map (refs h1 t) xs1))" by auto
  note w = written_elsewhere_list [OF _ fresh, where x = "CMap ?es"]
    and a = allocated(1,2) [where h = h and h' = h1 and x = "CMap ?es"] allocated(3) [where h = h and h' = h1]
  have "map snd ?es = xs1" "map fst ?es = map fst es" using len by simp_all
  then show ?thesis
    using res False d x0 each w a by (auto simp: address_def dest: bound simp del: map_map map_eq_conv)
qed (use assms in \<open>auto simp: copy_map_def deref_def address_def\<close>)

end

lemma deep_copierI:
  assumes "\<And>h v v' h'. wt h t v \<Longrightarrow> c v h = (v', h') \<Longrightarrow>
    prefix h h' \<and> wt h' t v' \<and> tree_of h' t v' = tree_of h t v \<and> refs h' t v' \<subseteq> {length h..<length h'}"
  shows "deep_copier c t"
  using assms by unfold_locales blast+

lemma deep_copies_spec:
  assumes "\<And>f. f \<in> set fs \<Longrightarrow> deep_copier (deep_copy (snd f)) (snd f)"
    and "wts h fs vs" and "deep_copies fs vs h = (vs', h')"
  shows "prefix h h' \<and> wts h' fs vs' \<and> trees_of h' fs vs' = trees_of h fs vs \<and> refss h' fs vs' \<subseteq> {length h..<length h'}"
  using assms
proof (induction fs arbitrary: h vs vs' h')
  case (Cons f fs)
  have f: "deep_copier (deep_copy (snd f)) (snd f)" using Cons.prems(1) by simp
  obtain w ws where vs: "vs = w # ws" "fst f = fst w" "wt h (snd f) (snd w)" "wts h fs ws"
    using Cons.prems(2) by (auto split: list.splits)
  obtain x1 h1 where 1: "deep_copy (snd f) (snd w) h = (x1, h1)" by fastforce
  obtain ws2 h2 where 2: "deep_copies fs ws h1 = (ws2, h2)" by fastforce
  note p1 = deep_copier.copy_extends [OF f vs(3) 1] and w1 = deep_copier.copy_wt [OF f vs(3) 1]
  note ws1 = extended_heaps [OF vs(4) p1]
  have rest: "prefix h1 h2" "wts h2 fs ws2" "trees_of h2 fs ws2 = trees_of h fs ws" "refss h2 fs ws2 \<subseteq> {length h1..<length h2}"
    using Cons.IH [OF _ ws1(1) 2] Cons.prems(1) ws1(2) by auto
  note first = extended_heap [OF w1 rest(1)]
  have len: "length h \<le> length h1" "length h1 \<le> length h2" using p1 rest(1) prefix_length_le by auto
  have "refs h2 (snd f) x1 \<subseteq> {length h..<length h2}"
    by (rule subset_trans [OF deep_copier.copy_refs [OF f vs(3) 1, folded first(3)]]) (use len in simp)
  moreover have "refss h2 fs ws2 \<subseteq> {length h..<length h2}"
    by (rule subset_trans [OF rest(4)]) (use len in simp)
  moreover have "vs' = (fst w, x1) # ws2" "h' = h2" using Cons.prems(3) vs(1) 1 2 by simp_all
  ultimately show ?case
    using vs(1,2) rest first deep_copier.copy_tree [OF f vs(3) 1] prefix_order.trans [OF p1 rest(1)] by simp
qed simp

lemma deep_copy_copier: "deep_copier (deep_copy t) t"
proof (induction t)
  case TScalar
  show ?case by (rule deep_copierI) (auto split: gval.splits)
next
  case (TStruct fs)
  have fields: "deep_copier (deep_copy (snd f)) (snd f)" if "f \<in> set fs" for f
    using TStruct [OF that] by (cases f) auto
  show ?case
  proof (rule deep_copierI)
    fix h v v' h' assume wt: "wt h (TStruct fs) v" and c: "deep_copy (TStruct fs) v h = (v', h')"
    then obtain vs vs' where "v = VStruct vs" "wts h fs vs" "deep_copies fs vs h = (vs', h')" "v' = VStruct vs'"
      by (auto split: gval.splits prod.splits)
    then show "prefix h h' \<and> wt h' (TStruct fs) v' \<and> tree_of h' (TStruct fs) v' = tree_of h (TStruct fs) v \<and>
        refs h' (TStruct fs) v' \<subseteq> {length h..<length h'}"
      using deep_copies_spec [OF fields, of fs h vs vs' h'] by auto
  qed
next
  case (TPtr t)
  then show ?case using deep_copier.copy_ptr_spec [OF TPtr] by (intro deep_copierI) simp
next
  case (TSlice t)
  then show ?case using deep_copier.copy_slice_spec [OF TSlice] by (intro deep_copierI) simp
next
  case (TMap t)
  then show ?case using deep_copier.copy_map_spec [OF TMap] by (intro deep_copierI) simp
qed

interpretation dc: deep_copier "deep_copy t" t for t
  by (rule deep_copy_copier)

section \<open>Copies that agree with the reference\<close>

text \<open>A generated function agrees with the reference on every value of its type.\<close>

definition agrees :: "copier \<Rightarrow> gty \<Rightarrow> bool" where
  "agrees c t \<longleftrightarrow> (\<forall>h v. wt h t v \<longrightarrow> c v h = deep_copy t v h)"

lemma agreesD: "agrees c t \<Longrightarrow> wt h t v \<Longrightarrow> c v h = deep_copy t v h"
  by (simp add: agrees_def)

text \<open>An assignment is enough for a type without references.\<close>

fun flat :: "gty \<Rightarrow> bool" where
  "flat TScalar = True"
| "flat (TStruct fs) = list_all (\<lambda>f. flat (snd f)) fs"
| "flat t = False"

lemma flat_deep_copy:
  "flat t \<Longrightarrow> wt h t v \<Longrightarrow> deep_copy t v h = (v, h)"
  "list_all (\<lambda>f. flat (snd f)) fs \<Longrightarrow> wts h fs vs \<Longrightarrow> deep_copies fs vs h = (vs, h)"
  by (induction t v h and fs vs h rule: deep_copy_deep_copies.induct) (auto split: gval.splits list.splits)

lemma agrees_assign: "flat t \<Longrightarrow> agrees assign t"
  by (simp add: agrees_def assign_def flat_deep_copy)

lemma copy_each_cong:
  assumes "agrees c t" and "list_all (wt h t) xs"
  shows "copy_each c xs h = copy_each (deep_copy t) xs h"
  using assms(2)
proof (induction xs arbitrary: h)
  case (Cons x xs)
  obtain x1 h1 where 1: "deep_copy t x h = (x1, h1)" by fastforce
  have "list_all (wt h1 t) xs"
    using extended_list [OF _ dc.copy_extends [OF _ 1]] Cons.prems by simp
  then show ?case using Cons agreesD [OF assms(1)] 1 by simp
qed simp

lemma agrees_ptr: "agrees c t \<Longrightarrow> agrees (copy_ptr c) (TPtr t)"
  unfolding agrees_def
  by (auto simp: copy_ptr_def extended_heap [where h' = "_ @ _"] split: option.splits cell.splits)

lemma agrees_slice: "agrees c t \<Longrightarrow> agrees (copy_slice c) (TSlice t)"
  by (auto simp: agrees_def [of "copy_slice c"] copy_slice_def copy_each_cong extended_list(1) [where h' = "_ @ _"]
      split: option.splits cell.splits)

lemma agrees_map: "agrees c t \<Longrightarrow> agrees (copy_map c) (TMap t)"
  by (auto simp: agrees_def [of "copy_map c"] copy_map_def copy_each_cong extended_list(1) [where h' = "_ @ _"]
      split: option.splits cell.splits)

text \<open>The listed fields are copied as their types say, in their order, and the others hold no references.\<close>

fun covers :: "(string \<times> copier) list \<Rightarrow> (string \<times> gty) list \<Rightarrow> bool" where
  "covers cs [] \<longleftrightarrow> cs = []"
| "covers cs (f # fs) \<longleftrightarrow>
     (case cs of
        [] \<Rightarrow> flat (snd f) \<and> covers [] fs
      | (n, c) # cs' \<Rightarrow>
          if n = fst f then agrees c (snd f) \<and> covers cs' fs else flat (snd f) \<and> covers cs fs)"

lemma field_middle:
  assumes "n \<notin> fst ` set pre"
  shows "field n (VStruct (pre @ (n, x) # ws)) = x"
  using assms by (auto simp: field_def map_add_def map_of_eq_None_iff split: option.splits dest: map_of_SomeD intro: rev_image_eqI)

lemma set_field_other: "n \<notin> fst ` set ws \<Longrightarrow> map (\<lambda>(m, y). if m = n then (m, x) else (m, y)) ws = ws"
  by (induction ws) auto

lemma set_field_middle:
  assumes "n \<notin> fst ` set pre" and "n \<notin> fst ` set ws"
  shows "set_field n x (VStruct (pre @ (n, y) # ws)) = VStruct (pre @ (n, x) # ws)"
  using assms by (simp add: set_field_def set_field_other)

lemma copy_fields_covers:
  assumes "covers cs fs" and "wts h fs vs" and "distinct (map fst (pre @ vs))" and "map fst pre' = map fst pre"
  shows "copy_fields cs (VStruct (pre' @ vs)) (VStruct (pre @ vs)) h =
    (case deep_copies fs vs h of (vs', h') \<Rightarrow> (VStruct (pre' @ vs'), h'))"
  using assms
proof (induction fs arbitrary: cs h vs pre pre')
  case (Cons f fs)
  obtain x ws where vs: "vs = (fst f, x) # ws" "wt h (snd f) x" "wts h fs ws"
    using Cons.prems(2) by (auto split: list.splits)
  have fresh: "fst f \<notin> fst ` set pre" "fst f \<notin> fst ` set ws" "fst f \<notin> fst ` set pre'"
    using Cons.prems(3,4) vs(1) by (auto simp: image_set simp del: set_map)
  have names: "distinct (map fst ((pre @ [(fst f, y)]) @ ws))" for y using Cons.prems(3) vs(1) by simp
  consider c cs' where "cs = (fst f, c) # cs'" "agrees c (snd f)" "covers cs' fs" | "flat (snd f)" "covers cs fs"
    using Cons.prems(1) by (auto split: list.splits if_splits)
  then show ?case
  proof cases
    case 1
    obtain x1 h1 where x1: "deep_copy (snd f) x h = (x1, h1)" by fastforce
    have "copy_fields cs' (VStruct ((pre' @ [(fst f, x1)]) @ ws)) (VStruct ((pre @ [(fst f, x)]) @ ws)) h1 =
        (case deep_copies fs ws h1 of (vs', h') \<Rightarrow> (VStruct ((pre' @ [(fst f, x1)]) @ vs'), h'))"
      by (rule Cons.IH [OF 1(3) extended_heaps(1) [OF vs(3) dc.copy_extends [OF vs(2) x1]] names])
        (use Cons.prems(4) in simp)
    then show ?thesis
      using 1 vs x1 fresh agreesD [OF 1(2) vs(2)] by (simp add: field_middle set_field_middle split: prod.splits)
  next
    case 2
    have "copy_fields cs (VStruct ((pre' @ [(fst f, x)]) @ ws)) (VStruct ((pre @ [(fst f, x)]) @ ws)) h =
        (case deep_copies fs ws h of (vs', h') \<Rightarrow> (VStruct ((pre' @ [(fst f, x)]) @ vs'), h'))"
      by (rule Cons.IH [OF 2(2) vs(3) names]) (use Cons.prems(4) in simp)
    then show ?thesis using 2 vs by (simp add: flat_deep_copy split: prod.splits)
  qed
qed simp

lemma wts_names: "wts h fs vs \<Longrightarrow> map fst vs = map fst fs"
  by (induction fs arbitrary: vs) (auto split: list.splits)

lemma agrees_into:
  assumes "covers cs fs" and "distinct (map fst fs)"
  shows "agrees (into cs) (TStruct fs)"
  unfolding agrees_def
proof (intro allI impI)
  fix h v assume "wt h (TStruct fs) v"
  then obtain vs where "v = VStruct vs" "wts h fs vs" by (auto split: gval.splits)
  then show "into cs v h = deep_copy (TStruct fs) v h"
    using copy_fields_covers [OF assms(1), of h vs "[]" "[]"] assms(2) by (simp add: into_def wts_names)
qed

end
