(* ===== verification/Config_Copy.thy ===== *)
theory Config_Copy
  imports Deep_Copy
begin

text \<open>
  The types of the configuration and their generated copies: the structs of
  pkg/apis/proxy/v1alpha1/managedproxyconfiguration_types.go as descriptions (\<open>ty_\<close>), and every
  function of zz_generated.deepcopy.go beside it, with the vendored types and functions of
  apimachinery and of the core API they call. Numbers, strings, enumerations and times are scalars
  (a time is copied by assignment). A copy of an object keeps its type and its meaning and shares
  no memory with it; that is what lets \<open>Proxy_Reconciler\<close> treat the objects it edits as values.
\<close>

named_theorems copy_agrees \<open>generated functions that agree with the reference copy\<close>

section \<open>Types\<close>

definition ty_OwnerReference :: gty where
  "ty_OwnerReference = TStruct
     [(''APIVersion'', TScalar), (''Kind'', TScalar), (''Name'', TScalar), (''UID'', TScalar),
      (''Controller'', TPtr TScalar), (''BlockOwnerDeletion'', TPtr TScalar)]"

definition ty_FieldsV1 :: gty where
  "ty_FieldsV1 = TStruct
     [(''Raw'', TSlice TScalar)]"

definition ty_ManagedFieldsEntry :: gty where
  "ty_ManagedFieldsEntry = TStruct
     [(''Manager'', TScalar), (''Operation'', TScalar), (''APIVersion'', TScalar),
      (''Time'', TPtr TScalar), (''FieldsType'', TScalar), (''FieldsV1'', TPtr ty_FieldsV1),
      (''Subresource'', TScalar)]"

definition ty_ObjectMeta :: gty where
  "ty_ObjectMeta = TStruct
     [(''Name'', TScalar), (''GenerateName'', TScalar), (''Namespace'', TScalar), (''SelfLink'', TScalar),
      (''UID'', TScalar), (''ResourceVersion'', TScalar), (''Generation'', TScalar),
      (''CreationTimestamp'', TScalar), (''DeletionTimestamp'', TPtr TScalar),
      (''DeletionGracePeriodSeconds'', TPtr TScalar), (''Labels'', TMap TScalar),
      (''Annotations'', TMap TScalar), (''OwnerReferences'', TSlice ty_OwnerReference),
      (''Finalizers'', TSlice TScalar), (''ManagedFields'', TSlice ty_ManagedFieldsEntry)]"

definition ty_ShardInfo :: gty where
  "ty_ShardInfo = TStruct
     [(''Selector'', TScalar)]"

definition ty_ListMeta :: gty where
  "ty_ListMeta = TStruct
     [(''SelfLink'', TScalar), (''ResourceVersion'', TScalar), (''Continue'', TScalar),
      (''RemainingItemCount'', TPtr TScalar), (''ShardInfo'', TPtr ty_ShardInfo)]"

definition ty_TypeMeta :: gty where
  "ty_TypeMeta = TStruct
     [(''Kind'', TScalar), (''APIVersion'', TScalar)]"

definition ty_Condition :: gty where
  "ty_Condition = TStruct
     [(''Type'', TScalar), (''Status'', TScalar), (''ObservedGeneration'', TScalar),
      (''LastTransitionTime'', TScalar), (''Reason'', TScalar), (''Message'', TScalar)]"

definition ty_Toleration :: gty where
  "ty_Toleration = TStruct
     [(''Key'', TScalar), (''Operator'', TScalar), (''Value'', TScalar), (''Effect'', TScalar),
      (''TolerationSeconds'', TPtr TScalar)]"

definition ty_AnnotationVar :: gty where
  "ty_AnnotationVar = TStruct
     [(''Key'', TScalar), (''Value'', TScalar)]"

definition ty_AuthenticationSelfSigned :: gty where
  "ty_AuthenticationSelfSigned = TStruct
     [(''AdditionalSANs'', TSlice TScalar)]"

definition ty_CertificateSigningSecrets :: gty where
  "ty_CertificateSigningSecrets = TStruct
     [(''SigningProxyServerSecretName'', TScalar), (''SigningProxyClientSecretName'', TScalar),
      (''SigningAgentServerSecretName'', TScalar)]"

definition ty_EntryPointHostname :: gty where
  "ty_EntryPointHostname = TStruct
     [(''Value'', TScalar)]"

definition ty_EntryPointLoadBalancerService :: gty where
  "ty_EntryPointLoadBalancerService = TStruct
     [(''Name'', TScalar), (''Annotations'', TSlice ty_AnnotationVar)]"

definition ty_ManagedProxyConfigurationCertificateDump :: gty where
  "ty_ManagedProxyConfigurationCertificateDump = TStruct
     [(''Secrets'', ty_CertificateSigningSecrets)]"

definition ty_ManagedProxyConfigurationCertificateSigner :: gty where
  "ty_ManagedProxyConfigurationCertificateSigner = TStruct
     [(''Type'', TScalar), (''SelfSigned'', TPtr ty_AuthenticationSelfSigned)]"

definition ty_ManagedProxyConfigurationAuthentication :: gty where
  "ty_ManagedProxyConfigurationAuthentication = TStruct
     [(''Signer'', ty_ManagedProxyConfigurationCertificateSigner),
      (''Dump'', ty_ManagedProxyConfigurationCertificateDump)]"

definition ty_ManagedProxyConfigurationDeployPorts :: gty where
  "ty_ManagedProxyConfigurationDeployPorts = TStruct
     [(''ProxyServer'', TScalar), (''AgentServer'', TScalar), (''HealthServer'', TScalar),
      (''AdminServer'', TScalar)]"

definition ty_ManagedProxyConfigurationDeploy :: gty where
  "ty_ManagedProxyConfigurationDeploy = TStruct
     [(''Ports'', ty_ManagedProxyConfigurationDeployPorts)]"

definition ty_ManagedProxyConfigurationProxyAgent :: gty where
  "ty_ManagedProxyConfigurationProxyAgent = TStruct
     [(''Image'', TScalar), (''Replicas'', TScalar), (''AdditionalArgs'', TSlice TScalar),
      (''AdditionalServiceProxyArgs'', TSlice TScalar), (''ImagePullSecrets'', TSlice TScalar),
      (''AdditionalServiceCAConfigMap'', TScalar)]"

definition ty_NodePlacement :: gty where
  "ty_NodePlacement = TStruct
     [(''NodeSelector'', TMap TScalar), (''Tolerations'', TSlice ty_Toleration)]"

definition ty_ManagedProxyConfigurationProxyServerEntrypoint :: gty where
  "ty_ManagedProxyConfigurationProxyServerEntrypoint = TStruct
     [(''Type'', TScalar), (''LoadBalancerService'', TPtr ty_EntryPointLoadBalancerService),
      (''Hostname'', TPtr ty_EntryPointHostname), (''Port'', TScalar)]"

definition ty_ManagedProxyConfigurationProxyServer :: gty where
  "ty_ManagedProxyConfigurationProxyServer = TStruct
     [(''Image'', TScalar), (''Replicas'', TScalar), (''InClusterServiceName'', TScalar),
      (''Namespace'', TScalar), (''Entrypoint'', TPtr ty_ManagedProxyConfigurationProxyServerEntrypoint),
      (''AdditionalArgs'', TSlice TScalar), (''NodePlacement'', ty_NodePlacement)]"

definition ty_ManagedProxyConfigurationUserServer :: gty where
  "ty_ManagedProxyConfigurationUserServer = TStruct
     [(''AdditionalSANs'', TSlice TScalar)]"

definition ty_ManagedProxyConfigurationSpec :: gty where
  "ty_ManagedProxyConfigurationSpec = TStruct
     [(''Authentication'', ty_ManagedProxyConfigurationAuthentication),
      (''ProxyServer'', ty_ManagedProxyConfigurationProxyServer),
      (''ProxyAgent'', ty_ManagedProxyConfigurationProxyAgent),
      (''Deploy'', TPtr ty_ManagedProxyConfigurationDeploy),
      (''UserServer'', TPtr ty_ManagedProxyConfigurationUserServer)]"

definition ty_ManagedProxyConfigurationStatus :: gty where
  "ty_ManagedProxyConfigurationStatus = TStruct
     [(''LastObservedGeneration'', TScalar), (''Conditions'', TSlice ty_Condition)]"

definition ty_ManagedProxyConfiguration :: gty where
  "ty_ManagedProxyConfiguration = TStruct
     [(''TypeMeta'', ty_TypeMeta), (''ObjectMeta'', ty_ObjectMeta),
      (''Spec'', ty_ManagedProxyConfigurationSpec), (''Status'', ty_ManagedProxyConfigurationStatus)]"

definition ty_ManagedProxyConfigurationList :: gty where
  "ty_ManagedProxyConfigurationList = TStruct
     [(''TypeMeta'', ty_TypeMeta), (''ListMeta'', ty_ListMeta),
      (''Items'', TSlice ty_ManagedProxyConfiguration)]"

lemmas ty_defs =
  ty_OwnerReference_def
  ty_FieldsV1_def
  ty_ManagedFieldsEntry_def
  ty_ObjectMeta_def
  ty_ShardInfo_def
  ty_ListMeta_def
  ty_TypeMeta_def
  ty_Condition_def
  ty_Toleration_def
  ty_AnnotationVar_def
  ty_AuthenticationSelfSigned_def
  ty_CertificateSigningSecrets_def
  ty_EntryPointHostname_def
  ty_EntryPointLoadBalancerService_def
  ty_ManagedProxyConfigurationCertificateDump_def
  ty_ManagedProxyConfigurationCertificateSigner_def
  ty_ManagedProxyConfigurationAuthentication_def
  ty_ManagedProxyConfigurationDeployPorts_def
  ty_ManagedProxyConfigurationDeploy_def
  ty_ManagedProxyConfigurationProxyAgent_def
  ty_NodePlacement_def
  ty_ManagedProxyConfigurationProxyServerEntrypoint_def
  ty_ManagedProxyConfigurationProxyServer_def
  ty_ManagedProxyConfigurationUserServer_def
  ty_ManagedProxyConfigurationSpec_def
  ty_ManagedProxyConfigurationStatus_def
  ty_ManagedProxyConfiguration_def
  ty_ManagedProxyConfigurationList_def

section \<open>Vendored copies\<close>

definition OwnerReference_DeepCopyInto :: copier where
  "OwnerReference_DeepCopyInto = into
     [(''Controller'', copy_ptr assign), (''BlockOwnerDeletion'', copy_ptr assign)]"

definition FieldsV1_DeepCopyInto :: copier where
  "FieldsV1_DeepCopyInto = into [(''Raw'', copy_slice assign)]"

definition ManagedFieldsEntry_DeepCopyInto :: copier where
  "ManagedFieldsEntry_DeepCopyInto = into
     [(''Time'', copy_ptr assign), (''FieldsV1'', copy_ptr FieldsV1_DeepCopyInto)]"

definition ObjectMeta_DeepCopyInto :: copier where
  "ObjectMeta_DeepCopyInto = into
     [(''CreationTimestamp'', assign), (''DeletionTimestamp'', copy_ptr assign),
      (''DeletionGracePeriodSeconds'', copy_ptr assign), (''Labels'', copy_map assign),
      (''Annotations'', copy_map assign), (''OwnerReferences'', copy_slice OwnerReference_DeepCopyInto),
      (''Finalizers'', copy_slice assign), (''ManagedFields'', copy_slice ManagedFieldsEntry_DeepCopyInto)]"

definition ListMeta_DeepCopyInto :: copier where
  "ListMeta_DeepCopyInto = into
     [(''RemainingItemCount'', copy_ptr assign), (''ShardInfo'', copy_ptr assign)]"

definition Condition_DeepCopyInto :: copier where
  "Condition_DeepCopyInto = into [(''LastTransitionTime'', assign)]"

definition Toleration_DeepCopyInto :: copier where
  "Toleration_DeepCopyInto = into [(''TolerationSeconds'', copy_ptr assign)]"

section \<open>Generated copies\<close>

text \<open>\<open>DeepCopy\<close> has a pointer as receiver: nil gives nil, else a new struct is copied into.\<close>

definition AnnotationVar_DeepCopyInto :: copier where
  "AnnotationVar_DeepCopyInto = assign"

definition AnnotationVar_DeepCopy :: copier where
  "AnnotationVar_DeepCopy = copy_ptr AnnotationVar_DeepCopyInto"

definition AuthenticationSelfSigned_DeepCopyInto :: copier where
  "AuthenticationSelfSigned_DeepCopyInto = into [(''AdditionalSANs'', copy_slice assign)]"

definition AuthenticationSelfSigned_DeepCopy :: copier where
  "AuthenticationSelfSigned_DeepCopy = copy_ptr AuthenticationSelfSigned_DeepCopyInto"

definition CertificateSigningSecrets_DeepCopyInto :: copier where
  "CertificateSigningSecrets_DeepCopyInto = assign"

definition CertificateSigningSecrets_DeepCopy :: copier where
  "CertificateSigningSecrets_DeepCopy = copy_ptr CertificateSigningSecrets_DeepCopyInto"

definition EntryPointHostname_DeepCopyInto :: copier where
  "EntryPointHostname_DeepCopyInto = assign"

definition EntryPointHostname_DeepCopy :: copier where
  "EntryPointHostname_DeepCopy = copy_ptr EntryPointHostname_DeepCopyInto"

definition EntryPointLoadBalancerService_DeepCopyInto :: copier where
  "EntryPointLoadBalancerService_DeepCopyInto = into [(''Annotations'', copy_slice assign)]"

definition EntryPointLoadBalancerService_DeepCopy :: copier where
  "EntryPointLoadBalancerService_DeepCopy = copy_ptr EntryPointLoadBalancerService_DeepCopyInto"

definition ManagedProxyConfigurationCertificateDump_DeepCopyInto :: copier where
  "ManagedProxyConfigurationCertificateDump_DeepCopyInto = into [(''Secrets'', assign)]"

definition ManagedProxyConfigurationCertificateDump_DeepCopy :: copier where
  "ManagedProxyConfigurationCertificateDump_DeepCopy = copy_ptr ManagedProxyConfigurationCertificateDump_DeepCopyInto"

definition ManagedProxyConfigurationCertificateSigner_DeepCopyInto :: copier where
  "ManagedProxyConfigurationCertificateSigner_DeepCopyInto = into [(''SelfSigned'', copy_ptr AuthenticationSelfSigned_DeepCopyInto)]"

definition ManagedProxyConfigurationCertificateSigner_DeepCopy :: copier where
  "ManagedProxyConfigurationCertificateSigner_DeepCopy = copy_ptr ManagedProxyConfigurationCertificateSigner_DeepCopyInto"

definition ManagedProxyConfigurationAuthentication_DeepCopyInto :: copier where
  "ManagedProxyConfigurationAuthentication_DeepCopyInto = into
     [(''Signer'', ManagedProxyConfigurationCertificateSigner_DeepCopyInto), (''Dump'', assign)]"

definition ManagedProxyConfigurationAuthentication_DeepCopy :: copier where
  "ManagedProxyConfigurationAuthentication_DeepCopy = copy_ptr ManagedProxyConfigurationAuthentication_DeepCopyInto"

definition ManagedProxyConfigurationDeployPorts_DeepCopyInto :: copier where
  "ManagedProxyConfigurationDeployPorts_DeepCopyInto = assign"

definition ManagedProxyConfigurationDeployPorts_DeepCopy :: copier where
  "ManagedProxyConfigurationDeployPorts_DeepCopy = copy_ptr ManagedProxyConfigurationDeployPorts_DeepCopyInto"

definition ManagedProxyConfigurationDeploy_DeepCopyInto :: copier where
  "ManagedProxyConfigurationDeploy_DeepCopyInto = into [(''Ports'', assign)]"

definition ManagedProxyConfigurationDeploy_DeepCopy :: copier where
  "ManagedProxyConfigurationDeploy_DeepCopy = copy_ptr ManagedProxyConfigurationDeploy_DeepCopyInto"

definition ManagedProxyConfigurationProxyAgent_DeepCopyInto :: copier where
  "ManagedProxyConfigurationProxyAgent_DeepCopyInto = into
     [(''AdditionalArgs'', copy_slice assign), (''AdditionalServiceProxyArgs'', copy_slice assign),
      (''ImagePullSecrets'', copy_slice assign)]"

definition ManagedProxyConfigurationProxyAgent_DeepCopy :: copier where
  "ManagedProxyConfigurationProxyAgent_DeepCopy = copy_ptr ManagedProxyConfigurationProxyAgent_DeepCopyInto"

definition NodePlacement_DeepCopyInto :: copier where
  "NodePlacement_DeepCopyInto = into
     [(''NodeSelector'', copy_map assign), (''Tolerations'', copy_slice Toleration_DeepCopyInto)]"

definition NodePlacement_DeepCopy :: copier where
  "NodePlacement_DeepCopy = copy_ptr NodePlacement_DeepCopyInto"

definition ManagedProxyConfigurationProxyServerEntrypoint_DeepCopyInto :: copier where
  "ManagedProxyConfigurationProxyServerEntrypoint_DeepCopyInto = into
     [(''LoadBalancerService'', copy_ptr EntryPointLoadBalancerService_DeepCopyInto),
      (''Hostname'', copy_ptr assign)]"

definition ManagedProxyConfigurationProxyServerEntrypoint_DeepCopy :: copier where
  "ManagedProxyConfigurationProxyServerEntrypoint_DeepCopy = copy_ptr ManagedProxyConfigurationProxyServerEntrypoint_DeepCopyInto"

definition ManagedProxyConfigurationProxyServer_DeepCopyInto :: copier where
  "ManagedProxyConfigurationProxyServer_DeepCopyInto = into
     [(''Entrypoint'', copy_ptr ManagedProxyConfigurationProxyServerEntrypoint_DeepCopyInto),
      (''AdditionalArgs'', copy_slice assign), (''NodePlacement'', NodePlacement_DeepCopyInto)]"

definition ManagedProxyConfigurationProxyServer_DeepCopy :: copier where
  "ManagedProxyConfigurationProxyServer_DeepCopy = copy_ptr ManagedProxyConfigurationProxyServer_DeepCopyInto"

definition ManagedProxyConfigurationUserServer_DeepCopyInto :: copier where
  "ManagedProxyConfigurationUserServer_DeepCopyInto = into [(''AdditionalSANs'', copy_slice assign)]"

definition ManagedProxyConfigurationUserServer_DeepCopy :: copier where
  "ManagedProxyConfigurationUserServer_DeepCopy = copy_ptr ManagedProxyConfigurationUserServer_DeepCopyInto"

definition ManagedProxyConfigurationSpec_DeepCopyInto :: copier where
  "ManagedProxyConfigurationSpec_DeepCopyInto = into
     [(''Authentication'', ManagedProxyConfigurationAuthentication_DeepCopyInto),
      (''ProxyServer'', ManagedProxyConfigurationProxyServer_DeepCopyInto),
      (''ProxyAgent'', ManagedProxyConfigurationProxyAgent_DeepCopyInto), (''Deploy'', copy_ptr assign),
      (''UserServer'', copy_ptr ManagedProxyConfigurationUserServer_DeepCopyInto)]"

definition ManagedProxyConfigurationSpec_DeepCopy :: copier where
  "ManagedProxyConfigurationSpec_DeepCopy = copy_ptr ManagedProxyConfigurationSpec_DeepCopyInto"

definition ManagedProxyConfigurationStatus_DeepCopyInto :: copier where
  "ManagedProxyConfigurationStatus_DeepCopyInto = into [(''Conditions'', copy_slice Condition_DeepCopyInto)]"

definition ManagedProxyConfigurationStatus_DeepCopy :: copier where
  "ManagedProxyConfigurationStatus_DeepCopy = copy_ptr ManagedProxyConfigurationStatus_DeepCopyInto"

definition ManagedProxyConfiguration_DeepCopyInto :: copier where
  "ManagedProxyConfiguration_DeepCopyInto = into
     [(''TypeMeta'', assign), (''ObjectMeta'', ObjectMeta_DeepCopyInto),
      (''Spec'', ManagedProxyConfigurationSpec_DeepCopyInto),
      (''Status'', ManagedProxyConfigurationStatus_DeepCopyInto)]"

definition ManagedProxyConfiguration_DeepCopy :: copier where
  "ManagedProxyConfiguration_DeepCopy = copy_ptr ManagedProxyConfiguration_DeepCopyInto"

definition ManagedProxyConfigurationList_DeepCopyInto :: copier where
  "ManagedProxyConfigurationList_DeepCopyInto = into
     [(''TypeMeta'', assign), (''ListMeta'', ListMeta_DeepCopyInto),
      (''Items'', copy_slice ManagedProxyConfiguration_DeepCopyInto)]"

definition ManagedProxyConfigurationList_DeepCopy :: copier where
  "ManagedProxyConfigurationList_DeepCopy = copy_ptr ManagedProxyConfigurationList_DeepCopyInto"

definition ManagedProxyConfiguration_DeepCopyObject :: copier where
  "ManagedProxyConfiguration_DeepCopyObject v h =
     (case ManagedProxyConfiguration_DeepCopy v h of (c, h) \<Rightarrow> (if c \<noteq> VRef None then c else VRef None, h))"

definition ManagedProxyConfigurationList_DeepCopyObject :: copier where
  "ManagedProxyConfigurationList_DeepCopyObject v h =
     (case ManagedProxyConfigurationList_DeepCopy v h of (c, h) \<Rightarrow> (if c \<noteq> VRef None then c else VRef None, h))"

section \<open>Each function copies what its type says\<close>

declare agrees_assign [copy_agrees] agrees_ptr [copy_agrees] agrees_slice [copy_agrees] agrees_map [copy_agrees]

lemma flat_types [copy_agrees]:
  "flat ty_TypeMeta" "flat ty_ShardInfo" "flat ty_AnnotationVar" "flat ty_CertificateSigningSecrets" "flat ty_EntryPointHostname"
  "flat ty_ManagedProxyConfigurationDeployPorts" "flat ty_ManagedProxyConfigurationDeploy"
  "flat ty_ManagedProxyConfigurationCertificateDump"
  by (simp_all add: ty_defs)

lemma agrees_OwnerReference [copy_agrees]: "agrees OwnerReference_DeepCopyInto ty_OwnerReference"
  unfolding OwnerReference_DeepCopyInto_def ty_OwnerReference_def
  by (rule agrees_into, simp_all add: copy_agrees)

lemma agrees_FieldsV1 [copy_agrees]: "agrees FieldsV1_DeepCopyInto ty_FieldsV1"
  unfolding FieldsV1_DeepCopyInto_def ty_FieldsV1_def
  by (rule agrees_into, simp_all add: copy_agrees)

lemma agrees_ManagedFieldsEntry [copy_agrees]: "agrees ManagedFieldsEntry_DeepCopyInto ty_ManagedFieldsEntry"
  unfolding ManagedFieldsEntry_DeepCopyInto_def ty_ManagedFieldsEntry_def
  by (rule agrees_into, simp_all add: copy_agrees)

lemma agrees_ObjectMeta [copy_agrees]: "agrees ObjectMeta_DeepCopyInto ty_ObjectMeta"
  unfolding ObjectMeta_DeepCopyInto_def ty_ObjectMeta_def
  by (rule agrees_into, simp_all add: copy_agrees)

lemma agrees_ListMeta [copy_agrees]: "agrees ListMeta_DeepCopyInto ty_ListMeta"
  unfolding ListMeta_DeepCopyInto_def ty_ListMeta_def
  by (rule agrees_into, simp_all add: copy_agrees)

lemma agrees_Condition [copy_agrees]: "agrees Condition_DeepCopyInto ty_Condition"
  unfolding Condition_DeepCopyInto_def ty_Condition_def
  by (rule agrees_into, simp_all add: copy_agrees)

lemma agrees_Toleration [copy_agrees]: "agrees Toleration_DeepCopyInto ty_Toleration"
  unfolding Toleration_DeepCopyInto_def ty_Toleration_def
  by (rule agrees_into, simp_all add: copy_agrees)

lemma agrees_AnnotationVar [copy_agrees]: "agrees AnnotationVar_DeepCopyInto ty_AnnotationVar"
  unfolding AnnotationVar_DeepCopyInto_def ty_AnnotationVar_def
  by (rule agrees_assign, simp)

lemma agrees_AuthenticationSelfSigned [copy_agrees]: "agrees AuthenticationSelfSigned_DeepCopyInto ty_AuthenticationSelfSigned"
  unfolding AuthenticationSelfSigned_DeepCopyInto_def ty_AuthenticationSelfSigned_def
  by (rule agrees_into, simp_all add: copy_agrees)

lemma agrees_CertificateSigningSecrets [copy_agrees]: "agrees CertificateSigningSecrets_DeepCopyInto ty_CertificateSigningSecrets"
  unfolding CertificateSigningSecrets_DeepCopyInto_def ty_CertificateSigningSecrets_def
  by (rule agrees_assign, simp)

lemma agrees_EntryPointHostname [copy_agrees]: "agrees EntryPointHostname_DeepCopyInto ty_EntryPointHostname"
  unfolding EntryPointHostname_DeepCopyInto_def ty_EntryPointHostname_def
  by (rule agrees_assign, simp)

lemma agrees_EntryPointLoadBalancerService [copy_agrees]: "agrees EntryPointLoadBalancerService_DeepCopyInto ty_EntryPointLoadBalancerService"
  unfolding EntryPointLoadBalancerService_DeepCopyInto_def ty_EntryPointLoadBalancerService_def
  by (rule agrees_into, simp_all add: copy_agrees)

lemma agrees_ManagedProxyConfigurationCertificateDump [copy_agrees]: "agrees ManagedProxyConfigurationCertificateDump_DeepCopyInto ty_ManagedProxyConfigurationCertificateDump"
  unfolding ManagedProxyConfigurationCertificateDump_DeepCopyInto_def ty_ManagedProxyConfigurationCertificateDump_def
  by (rule agrees_into, simp_all add: copy_agrees)

lemma agrees_ManagedProxyConfigurationCertificateSigner [copy_agrees]: "agrees ManagedProxyConfigurationCertificateSigner_DeepCopyInto ty_ManagedProxyConfigurationCertificateSigner"
  unfolding ManagedProxyConfigurationCertificateSigner_DeepCopyInto_def ty_ManagedProxyConfigurationCertificateSigner_def
  by (rule agrees_into, simp_all add: copy_agrees)

lemma agrees_ManagedProxyConfigurationAuthentication [copy_agrees]: "agrees ManagedProxyConfigurationAuthentication_DeepCopyInto ty_ManagedProxyConfigurationAuthentication"
  unfolding ManagedProxyConfigurationAuthentication_DeepCopyInto_def ty_ManagedProxyConfigurationAuthentication_def
  by (rule agrees_into, simp_all add: copy_agrees)

lemma agrees_ManagedProxyConfigurationDeployPorts [copy_agrees]: "agrees ManagedProxyConfigurationDeployPorts_DeepCopyInto ty_ManagedProxyConfigurationDeployPorts"
  unfolding ManagedProxyConfigurationDeployPorts_DeepCopyInto_def ty_ManagedProxyConfigurationDeployPorts_def
  by (rule agrees_assign, simp)

lemma agrees_ManagedProxyConfigurationDeploy [copy_agrees]: "agrees ManagedProxyConfigurationDeploy_DeepCopyInto ty_ManagedProxyConfigurationDeploy"
  unfolding ManagedProxyConfigurationDeploy_DeepCopyInto_def ty_ManagedProxyConfigurationDeploy_def
  by (rule agrees_into, simp_all add: copy_agrees)

lemma agrees_ManagedProxyConfigurationProxyAgent [copy_agrees]: "agrees ManagedProxyConfigurationProxyAgent_DeepCopyInto ty_ManagedProxyConfigurationProxyAgent"
  unfolding ManagedProxyConfigurationProxyAgent_DeepCopyInto_def ty_ManagedProxyConfigurationProxyAgent_def
  by (rule agrees_into, simp_all add: copy_agrees)

lemma agrees_NodePlacement [copy_agrees]: "agrees NodePlacement_DeepCopyInto ty_NodePlacement"
  unfolding NodePlacement_DeepCopyInto_def ty_NodePlacement_def
  by (rule agrees_into, simp_all add: copy_agrees)

lemma agrees_ManagedProxyConfigurationProxyServerEntrypoint [copy_agrees]: "agrees ManagedProxyConfigurationProxyServerEntrypoint_DeepCopyInto ty_ManagedProxyConfigurationProxyServerEntrypoint"
  unfolding ManagedProxyConfigurationProxyServerEntrypoint_DeepCopyInto_def ty_ManagedProxyConfigurationProxyServerEntrypoint_def
  by (rule agrees_into, simp_all add: copy_agrees)

lemma agrees_ManagedProxyConfigurationProxyServer [copy_agrees]: "agrees ManagedProxyConfigurationProxyServer_DeepCopyInto ty_ManagedProxyConfigurationProxyServer"
  unfolding ManagedProxyConfigurationProxyServer_DeepCopyInto_def ty_ManagedProxyConfigurationProxyServer_def
  by (rule agrees_into, simp_all add: copy_agrees)

lemma agrees_ManagedProxyConfigurationUserServer [copy_agrees]: "agrees ManagedProxyConfigurationUserServer_DeepCopyInto ty_ManagedProxyConfigurationUserServer"
  unfolding ManagedProxyConfigurationUserServer_DeepCopyInto_def ty_ManagedProxyConfigurationUserServer_def
  by (rule agrees_into, simp_all add: copy_agrees)

lemma agrees_ManagedProxyConfigurationSpec [copy_agrees]: "agrees ManagedProxyConfigurationSpec_DeepCopyInto ty_ManagedProxyConfigurationSpec"
  unfolding ManagedProxyConfigurationSpec_DeepCopyInto_def ty_ManagedProxyConfigurationSpec_def
  by (rule agrees_into, simp_all add: copy_agrees)

lemma agrees_ManagedProxyConfigurationStatus [copy_agrees]: "agrees ManagedProxyConfigurationStatus_DeepCopyInto ty_ManagedProxyConfigurationStatus"
  unfolding ManagedProxyConfigurationStatus_DeepCopyInto_def ty_ManagedProxyConfigurationStatus_def
  by (rule agrees_into, simp_all add: copy_agrees)

lemma agrees_ManagedProxyConfiguration [copy_agrees]: "agrees ManagedProxyConfiguration_DeepCopyInto ty_ManagedProxyConfiguration"
  unfolding ManagedProxyConfiguration_DeepCopyInto_def ty_ManagedProxyConfiguration_def
  by (rule agrees_into, simp_all add: copy_agrees)

lemma agrees_ManagedProxyConfigurationList [copy_agrees]: "agrees ManagedProxyConfigurationList_DeepCopyInto ty_ManagedProxyConfigurationList"
  unfolding ManagedProxyConfigurationList_DeepCopyInto_def ty_ManagedProxyConfigurationList_def
  by (rule agrees_into, simp_all add: copy_agrees)

section \<open>Copies of a configuration\<close>

lemma agrees_copier: "agrees c t \<Longrightarrow> deep_copier c t"
  by (rule deep_copierI) (metis agreesD dc.copy_extends dc.copy_wt dc.copy_tree dc.copy_refs)

interpretation config: deep_copier ManagedProxyConfiguration_DeepCopy "TPtr ty_ManagedProxyConfiguration"
  unfolding ManagedProxyConfiguration_DeepCopy_def by (rule agrees_copier) (simp add: copy_agrees)

interpretation status: deep_copier ManagedProxyConfigurationStatus_DeepCopy "TPtr ty_ManagedProxyConfigurationStatus"
  unfolding ManagedProxyConfigurationStatus_DeepCopy_def by (rule agrees_copier) (simp add: copy_agrees)

interpretation config_list: deep_copier ManagedProxyConfigurationList_DeepCopy "TPtr ty_ManagedProxyConfigurationList"
  unfolding ManagedProxyConfigurationList_DeepCopy_def by (rule agrees_copier) (simp add: copy_agrees)

text \<open>A value of a type, with nothing in it.\<close>

fun zero_of :: "gty \<Rightarrow> gval" where
  "zero_of TScalar = VScalar []"
| "zero_of (TStruct fs) = VStruct (map (\<lambda>f. (fst f, zero_of (snd f))) fs)"
| "zero_of t = VRef None"

text \<open>An example: a configuration with one condition in its status.\<close>

definition example_object :: gval where
  "example_object = set_field ''Status''
     (VStruct [(''LastObservedGeneration'', VScalar ''1''), (''Conditions'', VRef (Some 1))])
     (zero_of ty_ManagedProxyConfiguration)"

definition example_heap :: heap where
  "example_heap = [CVal example_object, CArr [zero_of ty_Condition]]"

definition example_listed :: gval where
  "example_listed = set_field ''Status''
     (VStruct [(''LastObservedGeneration'', VScalar ''1''), (''Conditions'', VRef (Some 0))])
     (zero_of ty_ManagedProxyConfiguration)"

lemma example_object_wt: "wt example_heap (TPtr ty_ManagedProxyConfiguration) (VRef (Some 0))"
  by (simp add: example_heap_def example_object_def set_field_def deref_def ty_defs)

lemma example_copy_refs:
  "3 \<in> refs (snd (ManagedProxyConfiguration_DeepCopy (VRef (Some 0)) example_heap)) (TPtr ty_ManagedProxyConfiguration)
     (fst (ManagedProxyConfiguration_DeepCopy (VRef (Some 0)) example_heap))"
  by code_simp

text \<open>C21. The generated copies are complete: the copy of a list of configurations, and with it that of every type
  inside, does what a copy by the type does. A field with a pointer, a slice or a map that the generated code
  forgot would make them differ.\<close>

theorem generated_copies_follow_types:
  assumes "wt h ty_ManagedProxyConfigurationList v"
  shows "ManagedProxyConfigurationList_DeepCopyInto v h = deep_copy ty_ManagedProxyConfigurationList v h"
  using agreesD [OF agrees_ManagedProxyConfigurationList assms] .

theorem generated_copies_follow_types_witness:
  "ManagedProxyConfigurationList_DeepCopyInto (set_field ''Items'' (VRef (Some 1)) (zero_of ty_ManagedProxyConfigurationList))
      [CArr [zero_of ty_Condition], CArr [example_listed]] =
    deep_copy ty_ManagedProxyConfigurationList (set_field ''Items'' (VRef (Some 1)) (zero_of ty_ManagedProxyConfigurationList))
      [CArr [zero_of ty_Condition], CArr [example_listed]]"
  by (rule generated_copies_follow_types) (simp add: example_listed_def set_field_def deref_def ty_defs)

text \<open>C36. A copy is a value of its type, and so is still the original: copying a configuration gives a pointer to a
  configuration with the same content.\<close>

theorem config_copy_well_typed:
  assumes "wt h (TPtr ty_ManagedProxyConfiguration) v" and "ManagedProxyConfiguration_DeepCopyObject v h = (v', h')"
  shows "wt h' (TPtr ty_ManagedProxyConfiguration) v' \<and> wt h' (TPtr ty_ManagedProxyConfiguration) v \<and>
    tree_of h' (TPtr ty_ManagedProxyConfiguration) v' = tree_of h (TPtr ty_ManagedProxyConfiguration) v \<and>
    (v' = VRef None \<longleftrightarrow> v = VRef None)"
proof -
  have c: "ManagedProxyConfiguration_DeepCopy v h = (v', h')"
    using assms(2) by (auto simp: ManagedProxyConfiguration_DeepCopyObject_def split: prod.splits if_splits)
  note w = config.copy_wt [OF assms(1) c] and tr = config.copy_tree [OF assms(1) c]
    and o = extended_heap [OF assms(1) config.copy_extends [OF assms(1) c]]
  have "v' = VRef None \<longleftrightarrow> v = VRef None" using w o(1) tr by (auto split: if_splits option.splits cell.splits)
  then show ?thesis using w o tr by blast
qed

theorem config_copy_well_typed_witness:
  "\<exists>v' h'. ManagedProxyConfiguration_DeepCopyObject (VRef (Some 0)) example_heap = (v', h') \<and>
     wt h' (TPtr ty_ManagedProxyConfiguration) v' \<and> v' \<noteq> VRef None"
  using config_copy_well_typed [OF example_object_wt]
  by (cases "ManagedProxyConfiguration_DeepCopyObject (VRef (Some 0)) example_heap") auto

text \<open>C14. Edits stay in the copy: whatever is written through a copy of a configuration, the original, which the
  informer cache shares with every reader, keeps its content, and what is written through the original does not change the
  copy. The same holds of the copy of a status that the operator edits and compares with its original.\<close>

theorem edits_stay_in_the_copy:
  assumes "wt h (TPtr ty_ManagedProxyConfiguration) v" and "ManagedProxyConfiguration_DeepCopy v h = (v', h')"
    and "fst ` set ws \<subseteq> refs h' (TPtr ty_ManagedProxyConfiguration) v'"
    and "fst ` set us \<subseteq> refs h' (TPtr ty_ManagedProxyConfiguration) v"
    and "wt g (TPtr ty_ManagedProxyConfigurationStatus) s" and "ManagedProxyConfigurationStatus_DeepCopy s g = (s', g')"
    and "fst ` set xs \<subseteq> refs g' (TPtr ty_ManagedProxyConfigurationStatus) s'"
    and "fst ` set ys \<subseteq> refs g' (TPtr ty_ManagedProxyConfigurationStatus) s"
  shows "tree_of (write_cells ws h') (TPtr ty_ManagedProxyConfiguration) v = tree_of h (TPtr ty_ManagedProxyConfiguration) v \<and>
    tree_of (write_cells us h') (TPtr ty_ManagedProxyConfiguration) v' = tree_of h (TPtr ty_ManagedProxyConfiguration) v \<and>
    tree_of (write_cells xs g') (TPtr ty_ManagedProxyConfigurationStatus) s = tree_of g (TPtr ty_ManagedProxyConfigurationStatus) s \<and>
    tree_of (write_cells ys g') (TPtr ty_ManagedProxyConfigurationStatus) s' = tree_of g (TPtr ty_ManagedProxyConfigurationStatus) s"
  using config.edits_are_local [OF assms(1-4)] status.edits_are_local [OF assms(5-8)] by blast

definition example_status_heap :: heap where
  "example_status_heap =
     [CVal (VStruct [(''LastObservedGeneration'', VScalar ''1''), (''Conditions'', VRef (Some 1))]), CArr [zero_of ty_Condition]]"

lemma example_status_wt: "wt example_status_heap (TPtr ty_ManagedProxyConfigurationStatus) (VRef (Some 0))"
  by (simp add: example_status_heap_def deref_def ty_defs)

lemma example_status_refs:
  "3 \<in> refs (snd (ManagedProxyConfigurationStatus_DeepCopy (VRef (Some 0)) example_status_heap))
     (TPtr ty_ManagedProxyConfigurationStatus) (fst (ManagedProxyConfigurationStatus_DeepCopy (VRef (Some 0)) example_status_heap))"
  by code_simp

theorem edits_stay_in_the_copy_witness:
  "snd (ManagedProxyConfiguration_DeepCopy (VRef (Some 0)) example_heap) ! 3 = CArr [zero_of ty_Condition] \<and>
   tree_of (write_cells [(3, CArr [])] (snd (ManagedProxyConfiguration_DeepCopy (VRef (Some 0)) example_heap)))
     (TPtr ty_ManagedProxyConfiguration) (VRef (Some 0)) =
   tree_of example_heap (TPtr ty_ManagedProxyConfiguration) (VRef (Some 0)) \<and>
   tree_of (write_cells [(3, CArr [])] (snd (ManagedProxyConfigurationStatus_DeepCopy (VRef (Some 0)) example_status_heap)))
     (TPtr ty_ManagedProxyConfigurationStatus) (VRef (Some 0)) =
   tree_of example_status_heap (TPtr ty_ManagedProxyConfigurationStatus) (VRef (Some 0))"
proof -
  obtain v' h' where c: "ManagedProxyConfiguration_DeepCopy (VRef (Some 0)) example_heap = (v', h')" by fastforce
  obtain s' g' where d: "ManagedProxyConfigurationStatus_DeepCopy (VRef (Some 0)) example_status_heap = (s', g')" by fastforce
  have "snd (ManagedProxyConfiguration_DeepCopy (VRef (Some 0)) example_heap) ! 3 = CArr [zero_of ty_Condition]"
    by code_simp
  moreover have "3 \<in> refs h' (TPtr ty_ManagedProxyConfiguration) v'" "3 \<in> refs g' (TPtr ty_ManagedProxyConfigurationStatus) s'"
    using c d example_copy_refs example_status_refs by simp_all
  ultimately show ?thesis
    using edits_stay_in_the_copy [OF example_object_wt c _ _ example_status_wt d, of "[(3, CArr [])]" "[]" "[(3, CArr [])]" "[]"] c d
    by simp
qed

end
