(* ===== verification/Go_Path.thy ===== *)
theory Go_Path
  imports Reverse_Proxy
begin

text \<open>
  What the generated clients use of the packages path, net/url and time: \<open>path.Clean\<close> and
  \<open>path.Join\<close>, the encoding of query parameters and its reading, and the text of a duration. The
  lemmas describe a cleaned path by its segments and show that a query is read back as it was
  written.
\<close>

section \<open>Package path\<close>

text \<open>\<open>path.Clean\<close>: empty and \<open>.\<close> elements go away, \<open>..\<close> takes the element before it along, and
  at the root of an absolute path it goes away too.\<close>

fun clean_segments :: "bool \<Rightarrow> string list \<Rightarrow> string list \<Rightarrow> string list" where
  "clean_segments rooted out [] = rev out"
| "clean_segments rooted out (s # ss) =
     (if s = [] \<or> s = ''.'' then clean_segments rooted out ss
      else if s = ''..'' then
        (case out of
           [] \<Rightarrow> clean_segments rooted (if rooted then [] else [s]) ss
         | t # ts \<Rightarrow> if t = ''..'' then clean_segments rooted (s # out) ss
                   else clean_segments rooted ts ss)
      else clean_segments rooted (s # out) ss)"

definition path_Clean :: "string \<Rightarrow> string" where
  "path_Clean p =
     (let rooted = has_prefix p ''/'';
          segments = clean_segments rooted [] (split CHR ''/'' p)
      in if rooted then CHR ''/'' # join ''/'' segments
         else if segments = [] then ''.'' else join ''/'' segments)"

fun join_elements :: "string \<Rightarrow> string list \<Rightarrow> string" where
  "join_elements buf [] = buf"
| "join_elements buf (e # es) =
     join_elements (if buf = [] then e else buf @ CHR ''/'' # e) es"

definition path_Join :: "string list \<Rightarrow> string" where
  "path_Join elems = (if concat elems = [] then [] else path_Clean (join_elements [] elems))"

section \<open>Query parameters\<close>

text \<open>\<open>url.QueryEscape\<close> of one byte, and the text \<open>url.Values.Encode\<close> writes: the keys in order,
  each with its values in turn.\<close>

definition query_escape_char :: "char \<Rightarrow> string" where
  "query_escape_char c =
     (if is_alnum c \<or> c \<in> set ''-_.~'' then [c]
      else if c = CHR '' '' then ''+''
      else [CHR ''%'', upper_hex ((of_char c :: nat) div 16), upper_hex ((of_char c :: nat) mod 16)])"

definition query_escape :: "string \<Rightarrow> string" where
  "query_escape s = concat (map query_escape_char s)"

type_synonym url_values = "(string, string list) gmap"

definition values_pairs :: "url_values \<Rightarrow> (string \<times> string) list" where
  "values_pairs m =
     concat (map (\<lambda>k. case gget m k of None \<Rightarrow> [] | Some vs \<Rightarrow> map (Pair k) vs) (sort (gkeys m)))"

definition values_Encode :: "url_values \<Rightarrow> string" where
  "values_Encode m = join ''&'' (map (\<lambda>(k, v). query_escape k @ CHR ''='' # query_escape v) (values_pairs m))"

definition values_Add :: "string \<Rightarrow> string \<Rightarrow> url_values \<Rightarrow> url_values" where
  "values_Add k v m = gput k ((case gget m k of None \<Rightarrow> [] | Some vs \<Rightarrow> vs) @ [v]) m"

text \<open>\<open>url.ParseQuery\<close> as \<open>URL.Query\<close> uses it: malformed pieces are left out.\<close>

fun query_unescape :: "string \<Rightarrow> string option" where
  "query_unescape [] = Some []"
| "query_unescape (c # cs) =
     (if c = CHR ''%'' then
        (case cs of
           h # l # rest \<Rightarrow>
             if is_hex h \<and> is_hex l then
               map_option (Cons (char_of (16 * unhex h + unhex l))) (query_unescape rest)
             else None
         | _ \<Rightarrow> None)
      else map_option (Cons (if c = CHR ''+'' then CHR '' '' else c)) (query_unescape cs))"

definition parse_piece :: "string \<Rightarrow> url_values \<Rightarrow> url_values" where
  "parse_piece piece m =
     (if piece = [] \<or> CHR '';'' \<in> set piece then m
      else (case cut CHR ''='' piece of
              (k, v, found) \<Rightarrow>
                (case (query_unescape k, query_unescape v) of
                   (Some k', Some v') \<Rightarrow> values_Add k' v' m
                 | _ \<Rightarrow> m)))"

definition parse_query :: "string \<Rightarrow> url_values" where
  "parse_query q = fold parse_piece (split CHR ''&'' q) []"

section \<open>Durations\<close>

text \<open>\<open>time.Duration.String\<close>: nanoseconds as hours, minutes and seconds, or in a smaller unit below
  one second.\<close>

definition pad_left :: "nat \<Rightarrow> string \<Rightarrow> string" where
  "pad_left n s = replicate (n - length s) CHR ''0'' @ s"

definition fraction_text :: "nat \<Rightarrow> nat \<Rightarrow> string" where
  "fraction_text prec v =
     (let digits = rev (dropWhile (\<lambda>c. c = CHR ''0'') (rev (pad_left prec (nat_to_dec v))))
      in if v = 0 then [] else CHR ''.'' # digits)"

definition unit_text :: "nat \<Rightarrow> nat \<Rightarrow> string \<Rightarrow> string" where
  "unit_text prec u name =
     nat_to_dec (u div 10 ^ prec) @ fraction_text prec (u mod 10 ^ prec) @ name"

definition duration_String :: "int \<Rightarrow> string" where
  "duration_String d =
     (let u = nat \<bar>d\<bar>;
          seconds = u div 10 ^ 9;
          text =
            (if u = 0 then ''0s''
             else if u < 10 ^ 3 then unit_text 0 u ''ns''
             else if u < 10 ^ 6 then unit_text 3 u [CHR 0xC2, CHR 0xB5, CHR ''s'']
             else if u < 10 ^ 9 then unit_text 6 u ''ms''
             else
               (if seconds < 60 then []
                else (if seconds < 3600 then [] else nat_to_dec (seconds div 3600) @ ''h'') @
                     nat_to_dec (seconds div 60 mod 60) @ ''m'') @
               nat_to_dec (seconds mod 60) @ fraction_text 9 (u mod 10 ^ 9) @ ''s'')
      in if d < 0 then CHR ''-'' # text else text)"

section \<open>Segments of a path\<close>

definition segments :: "string \<Rightarrow> string list" where
  "segments p = filter (\<lambda>s. s \<noteq> []) (split CHR ''/'' p)"

definition dotted :: "string \<Rightarrow> bool" where
  "dotted s \<longleftrightarrow> s = ''.'' \<or> s = ''..''"

definition segment_ok :: "string \<Rightarrow> bool" where
  "segment_ok s \<longleftrightarrow> s \<noteq> [] \<and> CHR ''/'' \<notin> set s \<and> \<not> dotted s"

definition absolute :: "string list \<Rightarrow> string" where
  "absolute ss = CHR ''/'' # join ''/'' ss"

lemma split_append_any: "split c (a @ c # b) = split c a @ split c b"
  by (induction a) (auto split: list.splits)

lemma segments_slash [simp]: "segments (a @ CHR ''/'' # b) = segments a @ segments b"
  by (simp add: segments_def split_append_any)

lemma segments_Nil [simp]: "segments [] = []"
  by (simp add: segments_def)

lemma segments_rooted [simp]: "segments (CHR ''/'' # b) = segments b"
  using segments_slash [of "[]" b] by simp

lemma segments_one: "segment_ok s \<Longrightarrow> segments s = [s]"
  by (simp add: segments_def segment_ok_def)

lemma segments_join:
  "list_all segment_ok ss \<Longrightarrow> segments (join ''/'' ss) = ss"
  by (induction ss rule: induct_list012) (auto simp: segments_one)

lemma segments_absolute [simp]: "list_all segment_ok ss \<Longrightarrow> segments (absolute ss) = ss"
  by (simp add: absolute_def segments_join)

lemma segments_join_elements:
  "segments (join_elements buf es) = segments buf @ concat (map segments es)"
  by (induction es arbitrary: buf) auto

lemma join_elements_append: "\<exists>r. join_elements (c # buf) es = c # buf @ r"
  by (induction es arbitrary: buf) (auto, metis append.assoc append_Cons)

text \<open>Without dots, cleaning an absolute path only drops empty elements.\<close>

lemma clean_segments_plain:
  "\<not> list_ex dotted ss \<Longrightarrow>
   clean_segments rooted out ss = rev out @ filter (\<lambda>s. s \<noteq> []) ss"
  by (induction ss arbitrary: out) (auto simp: dotted_def)

lemma list_ex_segments: "list_ex dotted (segments p) = list_ex dotted (split CHR ''/'' p)"
  by (auto simp: segments_def list_ex_iff dotted_def)

lemma path_Clean_absolute:
  assumes "has_prefix p ''/''" and "\<not> list_ex dotted (segments p)"
  shows "path_Clean p = absolute (segments p)"
proof -
  have "clean_segments True [] (split CHR ''/'' p) = segments p"
    using assms(2) by (simp add: list_ex_segments clean_segments_plain) (simp add: segments_def)
  with assms(1) show ?thesis by (simp add: path_Clean_def absolute_def)
qed

lemma path_Join_absolute:
  assumes "has_prefix e ''/''" and "\<not> list_ex dotted (concat (map segments (e # es)))"
  shows "path_Join (e # es) = absolute (concat (map segments (e # es)))"
proof -
  obtain r where e: "e = CHR ''/'' # r"
    using assms(1) by (auto simp: has_prefix_iff)
  obtain t where t: "join_elements [] (e # es) = CHR ''/'' # r @ t"
    using join_elements_append [of "CHR ''/''" r es] by (auto simp: e)
  have segs: "segments (join_elements [] (e # es)) = concat (map segments (e # es))"
    by (simp add: segments_join_elements del: join_elements.simps)
  have "has_prefix (join_elements [] (e # es)) ''/''"
    unfolding t by (simp add: has_prefix_def)
  then have "path_Clean (join_elements [] (e # es)) = absolute (concat (map segments (e # es)))"
    using assms(2) by (simp add: path_Clean_absolute segs del: join_elements.simps)
  then show ?thesis by (simp add: path_Join_def e)
qed

section \<open>Queries are read back\<close>

lemma query_unescape_char:
  assumes "query_unescape s = Some r"
  shows "query_unescape (query_escape_char c @ s) = Some (c # r)"
proof (cases "is_alnum c \<or> c \<in> set ''-_.~''")
  case True
  then have "c \<noteq> CHR ''%''" "c \<noteq> CHR ''+''"
    by (auto simp: is_alnum_def is_letter_def is_upper_def is_lower_def is_digit_def)
  with True assms show ?thesis by (simp add: query_escape_char_def)
next
  case False
  have n: "(of_char c :: nat) div 16 < 16" "(of_char c :: nat) mod 16 < 16"
    by (auto intro: less_mult_imp_div_less)
  have "16 * ((of_char c :: nat) div 16) + of_char c mod 16 = of_char c"
    by simp
  then have "char_of (16 * unhex (upper_hex ((of_char c :: nat) div 16)) +
      unhex (upper_hex ((of_char c :: nat) mod 16))) = c"
    by (simp add: unhex_upper_hex [OF n(1)] unhex_upper_hex [OF n(2)])
  with False assms n show ?thesis
    by (simp add: query_escape_char_def upper_hex_is_hex)
qed

lemma query_unescape_escape: "query_unescape (query_escape s) = Some s"
proof (induction s)
  case (Cons c s)
  have "query_escape (c # s) = query_escape_char c @ query_escape s"
    by (simp add: query_escape_def)
  with query_unescape_char [OF Cons.IH] show ?case by simp
qed (simp add: query_escape_def)

lemma query_escape_char_class:
  assumes "x \<in> set (query_escape_char c)"
  shows "is_alnum x \<or> x \<in> set ''-_.~+%''"
proof -
  have n: "(of_char c :: nat) div 16 < 16" "(of_char c :: nat) mod 16 < 16"
    by (auto intro: less_mult_imp_div_less)
  have "is_alnum (upper_hex d)" if "d < 16" for d
    using that by (auto simp: upper_hex_def is_alnum_def is_letter_def is_upper_def is_digit_def)
  with n assms show ?thesis
    by (auto simp: query_escape_char_def split: if_splits)
qed

lemma query_escape_avoids:
  "\<not> is_alnum x \<Longrightarrow> x \<notin> set ''-_.~+%'' \<Longrightarrow> x \<notin> set (query_escape s)"
  using query_escape_char_class by (fastforce simp: query_escape_def)

lemma query_escape_separators:
  "CHR ''&'' \<notin> set (query_escape s)" "CHR ''='' \<notin> set (query_escape s)"
  "CHR '';'' \<notin> set (query_escape s)" "CHR ''?'' \<notin> set (query_escape s)"
  by (rule query_escape_avoids;
      simp add: is_alnum_def is_letter_def is_upper_def is_lower_def is_digit_def)+

definition pair_text :: "string \<times> string \<Rightarrow> string" where
  "pair_text kv = query_escape (fst kv) @ CHR ''='' # query_escape (snd kv)"

lemma parse_pair: "parse_piece (pair_text (k, v)) m = values_Add k v m"
  by (simp add: parse_piece_def pair_text_def query_escape_separators query_unescape_escape)

lemma fold_parse_pairs:
  "fold parse_piece (map pair_text kvs) m = fold (\<lambda>(k, v). values_Add k v) kvs m"
  by (induction kvs arbitrary: m) (auto simp: parse_pair)

lemma parse_pairs:
  "parse_query (join ''&'' (map pair_text kvs)) = fold (\<lambda>(k, v). values_Add k v) kvs []"
proof (cases "kvs = []")
  case True
  then show ?thesis by (simp add: parse_query_def parse_piece_def)
next
  case False
  have "CHR ''&'' \<notin> set (pair_text kv)" for kv
    by (simp add: pair_text_def query_escape_separators)
  then have "split CHR ''&'' (join ''&'' (map pair_text kvs)) = map pair_text kvs"
    using False by (intro split_join) auto
  then show ?thesis by (simp add: parse_query_def fold_parse_pairs)
qed

definition values_of :: "url_values \<Rightarrow> string \<Rightarrow> string list" where
  "values_of m k = (case gget m k of None \<Rightarrow> [] | Some vs \<Rightarrow> vs)"

lemma values_of_Add: "values_of (values_Add k v m) k' = values_of m k' @ (if k' = k then [v] else [])"
  by (simp add: values_of_def values_Add_def gm.get_put)

lemma values_of_fold:
  "values_of (fold (\<lambda>(k, v). values_Add k v) kvs m) k' =
     values_of m k' @ map snd (filter (\<lambda>(k, v). k = k') kvs)"
  by (induction kvs arbitrary: m) (auto simp: values_of_Add)

lemma pairs_of_keys:
  "distinct ks \<Longrightarrow>
   map snd (filter (\<lambda>(k, v). k = k') (concat (map (\<lambda>k. map (Pair k) (f k)) ks))) =
     (if k' \<in> set ks then f k' else [])"
proof (induction ks)
  case (Cons a ks)
  have "filter (\<lambda>(k, v). k = k') (map (Pair a) vs) = (if a = k' then map (Pair a) vs else [])" for vs
    by (induction vs) auto
  with Cons show ?case by (cases "a = k'") (auto simp: comp_def)
qed simp

lemma values_pairs_alt:
  "values_pairs m = concat (map (\<lambda>k. map (Pair k) (values_of m k)) (sort (gkeys m)))"
  by (simp add: values_pairs_def values_of_def split: option.split)
     (metis (no_types, lifting) list.simps(8) option.case_eq_if)

text \<open>A query that \<open>Encode\<close> wrote is read as the values it was written from.\<close>

lemma parse_Encode:
  assumes "gmap_ok m"
  shows "values_of (parse_query (values_Encode m)) k = values_of m k"
proof -
  have "values_Encode m = join ''&'' (map pair_text (values_pairs m))"
    by (simp add: values_Encode_def pair_text_def [abs_def] case_prod_unfold)
  then have "values_of (parse_query (values_Encode m)) k =
      map snd (filter (\<lambda>(k', v). k' = k) (values_pairs m))"
    by (simp add: parse_pairs values_of_fold) (simp add: values_of_def)
  also have "\<dots> = (if k \<in> set (sort (gkeys m)) then values_of m k else [])"
    unfolding values_pairs_alt using assms by (intro pairs_of_keys) (simp add: gmap_ok_def gkeys_def)
  also have "\<dots> = values_of m k"
    using gkeys_iff [of k m] by (auto simp: values_of_def)
  finally show ?thesis .
qed

text \<open>Joining elements without slashes or dots gives a relative path of the ones that are not empty.\<close>

lemma join_elements_relative:
  "list_all (\<lambda>s. CHR ''/'' \<notin> set s) ss \<Longrightarrow> \<not> has_prefix (join_elements [] ss) ''/''"
proof (induction ss)
  case (Cons s ss)
  show ?case
  proof (cases s)
    case Nil
    with Cons show ?thesis by simp
  next
    case (Cons c r)
    then obtain t where "join_elements [] (s # ss) = c # r @ t"
      using join_elements_append [of c r ss] by auto
    with \<open>list_all (\<lambda>s. CHR ''/'' \<notin> set s) (s # ss)\<close> Cons show ?thesis
      by (auto simp: has_prefix_def)
  qed
qed (simp add: has_prefix_def)

lemma segments_flat: "CHR ''/'' \<notin> set s \<Longrightarrow> segments s = (if s = [] then [] else [s])"
  by (simp add: segments_def)

lemma concat_segments_flat:
  "list_all (\<lambda>s. CHR ''/'' \<notin> set s) ss \<Longrightarrow> concat (map segments ss) = filter (\<lambda>s. s \<noteq> []) ss"
  by (induction ss) (auto simp: segments_flat)

lemma path_Join_relative:
  assumes "list_all (\<lambda>s. CHR ''/'' \<notin> set s \<and> \<not> dotted s) ss"
  shows "path_Join ss = join ''/'' (filter (\<lambda>s. s \<noteq> []) ss)"
proof (cases "concat ss = []")
  case True
  then have "filter (\<lambda>s. s \<noteq> []) ss = []" by (auto simp: filter_empty_conv)
  with True show ?thesis by (simp only: path_Join_def) simp
next
  case False
  let ?p = "join_elements [] ss"
  have flat: "list_all (\<lambda>s. CHR ''/'' \<notin> set s) ss" and dots: "\<not> list_ex dotted ss"
    using assms by (auto simp: list_all_iff list_ex_iff)
  have segs: "segments ?p = filter (\<lambda>s. s \<noteq> []) ss"
    using flat by (simp add: segments_join_elements concat_segments_flat)
  then have "\<not> list_ex dotted (segments ?p)"
    using dots by (auto simp: list_ex_iff)
  then have "clean_segments False [] (split CHR ''/'' ?p) = segments ?p"
    by (simp add: list_ex_segments clean_segments_plain) (simp add: segments_def)
  moreover have "segments ?p \<noteq> []"
    using False by (auto simp: segs filter_empty_conv)
  ultimately show ?thesis
    using False join_elements_relative [OF flat]
    by (simp add: path_Join_def path_Clean_def Let_def segs)
qed

end
