(* ===== verification/Rest_Client.thy ===== *)
theory Rest_Client
  imports Go_Path Complex_Main
begin

text \<open>
  The request builder of client-go (vendor/k8s.io/client-go/rest: request.go, config.go, client.go,
  url_utils.go) as far as the generated clients call it, the query parameters of their options
  (vendor/k8s.io/apimachinery/pkg/conversion/queryparams), and how an API server reads such a
  request (vendor/k8s.io/apiserver/pkg/endpoints/request/requestinfo.go). Fields that only
  \<open>Namespace\<close>, \<open>Prefix\<close> and \<open>Suffix\<close> set are left out, since no caller uses them; metrics and
  warnings too. The lemmas give the path of a request by its segments and show that the server
  reads resource, name and subresource off it.
\<close>

section \<open>Client configuration\<close>

datatype rest_error =
    RestError string
  | UrlError url_error

record group_version =
  gv_Group :: string
  gv_Version :: string

text \<open>A rate limiter with its identity, so that sharing can be told from equal settings.\<close>

record limiter =
  li_id :: nat
  li_qps :: rat
  li_burst :: int

text \<open>\<open>rest.Config\<close>; \<open>cf_TLS\<close> stands for a CA, a certificate or \<open>Insecure\<close>, all that the URL
  depends on.\<close>

record rest_config =
  cf_Host :: string
  cf_APIPath :: string
  cf_GroupVersion :: "group_version option"
  cf_Serializer :: bool
  cf_TLS :: bool
  cf_UserAgent :: string
  cf_QPS :: rat
  cf_Burst :: int
  cf_RateLimiter :: "limiter option"
  cf_Timeout :: int
  cf_ContentType :: string

record http_client =
  hc_id :: nat
  hc_Timeout :: int

record RESTClient =
  rc_base :: url
  rc_versionedAPIPath :: string
  rc_ContentType :: string
  rc_rateLimiter :: "limiter option"
  rc_Client :: http_client

definition NewTokenBucketRateLimiter :: "rat \<Rightarrow> int \<Rightarrow> nat \<Rightarrow> limiter \<times> nat" where
  "NewTokenBucketRateLimiter qps burst fresh = (\<lparr>li_id = fresh, li_qps = qps, li_burst = burst\<rparr>, Suc fresh)"

definition DefaultVersionedAPIPath :: "string \<Rightarrow> group_version \<Rightarrow> string" where
  "DefaultVersionedAPIPath apiPath gv =
     (let p = path_Join [''/'', apiPath]
      in if gv_Group gv \<noteq> [] then path_Join [p, gv_Group gv, gv_Version gv]
         else path_Join [p, gv_Version gv])"

definition DefaultServerURL ::
  "(string \<Rightarrow> url_error + string) \<Rightarrow> string \<Rightarrow> string \<Rightarrow> group_version \<Rightarrow> bool \<Rightarrow> rest_error + url \<times> string" where
  "DefaultServerURL ipl host apiPath gv tls =
     (if host = [] then Inl (RestError ''host must be a URL or a host:port pair'')
      else
        (let with_scheme =
           (case url_parse ipl ((if tls then ''https://'' else ''http://'') @ host) of
              Inl e \<Rightarrow> Inl (UrlError e)
            | Inr u \<Rightarrow> if u_path u \<noteq> [] \<and> u_path u \<noteq> ''/''
                       then Inl (RestError (''host must be a URL or a host:port pair: '' @ go_quote host))
                       else Inr u);
             parsed =
           (case url_parse ipl host of
              Inl e \<Rightarrow> with_scheme
            | Inr u \<Rightarrow> if u_scheme u = [] \<or> u_host u = [] then with_scheme else Inr u)
         in case parsed of
              Inl e \<Rightarrow> Inl e
            | Inr u \<Rightarrow> Inr (u, DefaultVersionedAPIPath apiPath gv)))"

definition DefaultServerUrlFor ::
  "(string \<Rightarrow> url_error + string) \<Rightarrow> rest_config \<Rightarrow> rest_error + url \<times> string" where
  "DefaultServerUrlFor ipl cfg =
     DefaultServerURL ipl (if cf_Host cfg = [] then ''localhost'' else cf_Host cfg) (cf_APIPath cfg)
       (case cf_GroupVersion cfg of Some gv \<Rightarrow> gv | None \<Rightarrow> \<lparr>gv_Group = [], gv_Version = []\<rparr>) (cf_TLS cfg)"

definition DefaultQPS :: rat where
  "DefaultQPS = 5"

definition DefaultBurst :: int where
  "DefaultBurst = 10"

definition rate_limiter_for :: "rest_config \<Rightarrow> nat \<Rightarrow> limiter option \<times> nat" where
  "rate_limiter_for cfg fresh =
     (case cf_RateLimiter cfg of
        Some l \<Rightarrow> (Some l, fresh)
      | None \<Rightarrow>
          (let qps = (if cf_QPS cfg = 0 then DefaultQPS else cf_QPS cfg);
               burst = (if cf_Burst cfg = 0 then DefaultBurst else cf_Burst cfg)
           in if 0 < qps then
                (case NewTokenBucketRateLimiter qps burst fresh of (l, fresh') \<Rightarrow> (Some l, fresh'))
              else (None, fresh)))"

definition has_suffix :: "string \<Rightarrow> string \<Rightarrow> bool" where
  "has_suffix s suf \<longleftrightarrow> has_prefix (rev s) (rev suf)"

definition NewRESTClient ::
  "url \<Rightarrow> string \<Rightarrow> string \<Rightarrow> limiter option \<Rightarrow> http_client \<Rightarrow> RESTClient" where
  "NewRESTClient u versioned contentType l h =
     \<lparr>rc_base = u\<lparr>u_path := (if has_suffix (u_path u) ''/'' then u_path u else u_path u @ ''/''),
                  u_raw_query := []\<rparr>,
      rc_versionedAPIPath = versioned, rc_ContentType = contentType, rc_rateLimiter = l, rc_Client = h\<rparr>"

definition UnversionedRESTClientForConfigAndClient ::
  "(string \<Rightarrow> url_error + string) \<Rightarrow> rest_config \<Rightarrow> http_client \<Rightarrow> nat \<Rightarrow> rest_error + RESTClient \<times> nat" where
  "UnversionedRESTClientForConfigAndClient ipl cfg h fresh =
     (if \<not> cf_Serializer cfg then Inl (RestError ''NegotiatedSerializer is required when initializing a RESTClient'')
      else
        (case DefaultServerUrlFor ipl cfg of
           Inl e \<Rightarrow> Inl e
         | Inr (u, versioned) \<Rightarrow>
             (case rate_limiter_for cfg fresh of
                (l, fresh') \<Rightarrow> Inr (NewRESTClient u versioned (cf_ContentType cfg) l h, fresh'))))"

definition RESTClientForConfigAndClient ::
  "(string \<Rightarrow> url_error + string) \<Rightarrow> rest_config \<Rightarrow> http_client \<Rightarrow> nat \<Rightarrow> rest_error + RESTClient \<times> nat" where
  "RESTClientForConfigAndClient ipl cfg h fresh =
     (if cf_GroupVersion cfg = None then Inl (RestError ''GroupVersion is required when initializing a RESTClient'')
      else UnversionedRESTClientForConfigAndClient ipl cfg h fresh)"

section \<open>Query parameters of options\<close>

text \<open>A field of an options struct by its JSON tag and whether it is \<open>omitempty\<close>.
  \<open>queryparams.Convert\<close> leaves empty fields out; a pointer that is set counts as not empty.\<close>

datatype option_field =
    StringField string
  | BoolField bool
  | IntField int
  | StringsField "string list"
  | BoolPointer "bool option"
  | IntPointer "int option"

definition bool_text :: "bool \<Rightarrow> string" where
  "bool_text b = (if b then ''true'' else ''false'')"

definition addParam :: "string \<Rightarrow> bool \<Rightarrow> bool \<Rightarrow> string \<Rightarrow> url_values \<Rightarrow> url_values" where
  "addParam tag omitempty zero text m = (if omitempty \<and> zero then m else values_Add tag text m)"

fun convert_field :: "string \<times> bool \<times> option_field \<Rightarrow> url_values \<Rightarrow> url_values" where
  "convert_field (tag, oe, StringField s) m = addParam tag oe (s = []) s m"
| "convert_field (tag, oe, BoolField b) m = addParam tag oe (\<not> b) (bool_text b) m"
| "convert_field (tag, oe, IntField i) m = addParam tag oe (i = 0) (itoa i) m"
| "convert_field (tag, oe, StringsField ss) m = fold (\<lambda>s. addParam tag oe (s = []) s) ss m"
| "convert_field (tag, oe, BoolPointer None) m = addParam tag oe True [] m"
| "convert_field (tag, oe, BoolPointer (Some b)) m = addParam tag False (\<not> b) (bool_text b) m"
| "convert_field (tag, oe, IntPointer None) m = addParam tag oe True [] m"
| "convert_field (tag, oe, IntPointer (Some i)) m = addParam tag False (i = 0) (itoa i) m"

definition queryparams_Convert :: "(string \<times> bool \<times> option_field) list \<Rightarrow> url_values" where
  "queryparams_Convert fs = fold convert_field fs []"

record GetOptions =
  go_ResourceVersion :: string

record ListOptions =
  lo_LabelSelector :: string
  lo_FieldSelector :: string
  lo_Watch :: bool
  lo_AllowWatchBookmarks :: bool
  lo_ResourceVersion :: string
  lo_ResourceVersionMatch :: string
  lo_TimeoutSeconds :: "int option"
  lo_Limit :: int
  lo_Continue :: string
  lo_SendInitialEvents :: "bool option"
  lo_ShardSelector :: string

record WriteOptions =
  wo_DryRun :: "string list"
  wo_Force :: "bool option"
  wo_FieldManager :: string
  wo_FieldValidation :: string

definition GetOptions_fields :: "GetOptions \<Rightarrow> (string \<times> bool \<times> option_field) list" where
  "GetOptions_fields opts = [(''resourceVersion'', True, StringField (go_ResourceVersion opts))]"

definition ListOptions_fields :: "ListOptions \<Rightarrow> (string \<times> bool \<times> option_field) list" where
  "ListOptions_fields opts =
     [(''labelSelector'', True, StringField (lo_LabelSelector opts)),
      (''fieldSelector'', True, StringField (lo_FieldSelector opts)),
      (''watch'', True, BoolField (lo_Watch opts)),
      (''allowWatchBookmarks'', True, BoolField (lo_AllowWatchBookmarks opts)),
      (''resourceVersion'', True, StringField (lo_ResourceVersion opts)),
      (''resourceVersionMatch'', True, StringField (lo_ResourceVersionMatch opts)),
      (''timeoutSeconds'', True, IntPointer (lo_TimeoutSeconds opts)),
      (''limit'', True, IntField (lo_Limit opts)),
      (''continue'', True, StringField (lo_Continue opts)),
      (''sendInitialEvents'', True, BoolPointer (lo_SendInitialEvents opts)),
      (''shardSelector'', True, StringField (lo_ShardSelector opts))]"

text \<open>Create and update options have no \<open>force\<close> field; a patch has.\<close>

definition WriteOptions_fields :: "bool \<Rightarrow> WriteOptions \<Rightarrow> (string \<times> bool \<times> option_field) list" where
  "WriteOptions_fields patch opts =
     [(''dryRun'', True, StringsField (wo_DryRun opts))] @
     (if patch then [(''force'', True, BoolPointer (wo_Force opts))] else []) @
     [(''fieldManager'', True, StringField (wo_FieldManager opts)),
      (''fieldValidation'', True, StringField (wo_FieldValidation opts))]"

section \<open>Building a request\<close>

record Request =
  rq_verb :: string
  rq_pathPrefix :: string
  rq_params :: url_values
  rq_contentType :: string
  rq_timeout :: int
  rq_resource :: string
  rq_resourceName :: string
  rq_subresource :: string
  rq_err :: "string option"
  rq_body :: "string option"

definition NewRequest :: "RESTClient \<Rightarrow> Request" where
  "NewRequest c =
     \<lparr>rq_verb = [], rq_pathPrefix = path_Join [''/'', u_path (rc_base c), rc_versionedAPIPath c],
      rq_params = [], rq_contentType = [], rq_timeout = hc_Timeout (rc_Client c),
      rq_resource = [], rq_resourceName = [], rq_subresource = [], rq_err = None, rq_body = None\<rparr>"

definition Verb :: "string \<Rightarrow> Request \<Rightarrow> Request" where
  "Verb v r = r\<lparr>rq_verb := v\<rparr>"

definition NameMayNotBe :: "string list" where
  "NameMayNotBe = [''.'', ''..'']"

definition NameMayNotContain :: "string list" where
  "NameMayNotContain = [''/'', ''%'']"

definition single_quote :: "string \<Rightarrow> string" where
  "single_quote s = CHR 0x27 # s @ [CHR 0x27]"

definition IsValidPathSegmentName :: "string \<Rightarrow> string list" where
  "IsValidPathSegmentName name =
     (case List.find (\<lambda>illegal. name = illegal) NameMayNotBe of
        Some illegal \<Rightarrow> [''may not be '' @ single_quote illegal]
      | None \<Rightarrow> map (\<lambda>illegal. ''may not contain '' @ single_quote illegal)
                  (filter (contains name) NameMayNotContain))"

text \<open>Each step leaves a request alone that already carries an error.\<close>

definition step_unless_err :: "(Request \<Rightarrow> Request) \<Rightarrow> Request \<Rightarrow> Request" where
  "step_unless_err f r = (if rq_err r = None then f r else r)"

definition already_set :: "string \<Rightarrow> string \<Rightarrow> string \<Rightarrow> string" where
  "already_set what old new = what @ '' already set to '' @ go_quote old @ '', cannot change to '' @ go_quote new"

definition invalid :: "string \<Rightarrow> string \<Rightarrow> string" where
  "invalid what s =
     ''invalid '' @ what @ '' '' @ go_quote s @ '': ['' @ join '' '' (IsValidPathSegmentName s) @ '']''"

definition Resource :: "string \<Rightarrow> Request \<Rightarrow> Request" where
  "Resource resource = step_unless_err (\<lambda>r.
     if rq_resource r \<noteq> [] then r\<lparr>rq_err := Some (already_set ''resource'' (rq_resource r) resource)\<rparr>
     else if IsValidPathSegmentName resource \<noteq> []
       then r\<lparr>rq_err := Some (invalid ''resource'' resource)\<rparr>
     else r\<lparr>rq_resource := resource\<rparr>)"

definition SubResource :: "string list \<Rightarrow> Request \<Rightarrow> Request" where
  "SubResource subresources = step_unless_err (\<lambda>r.
     if rq_subresource r \<noteq> [] then r\<lparr>rq_err := Some (already_set ''subresource'' (rq_subresource r) (path_Join subresources))\<rparr>
     else (case List.find (\<lambda>s. IsValidPathSegmentName s \<noteq> []) subresources of
             Some s \<Rightarrow> r\<lparr>rq_err := Some (invalid ''subresource'' s)\<rparr>
           | None \<Rightarrow> r\<lparr>rq_subresource := path_Join subresources\<rparr>))"

definition Name :: "string \<Rightarrow> Request \<Rightarrow> Request" where
  "Name resourceName = step_unless_err (\<lambda>r.
     if resourceName = [] then r\<lparr>rq_err := Some ''resource name may not be empty''\<rparr>
     else if rq_resourceName r \<noteq> []
       then r\<lparr>rq_err := Some (already_set ''resource name'' (rq_resourceName r) resourceName)\<rparr>
     else if IsValidPathSegmentName resourceName \<noteq> []
       then r\<lparr>rq_err := Some (invalid ''resource name'' resourceName)\<rparr>
     else r\<lparr>rq_resourceName := resourceName\<rparr>)"

definition VersionedParams :: "(string \<times> bool \<times> option_field) list \<Rightarrow> Request \<Rightarrow> Request" where
  "VersionedParams fs = step_unless_err (\<lambda>r.
     r\<lparr>rq_params := fold (\<lambda>(k, vs) m. gput k (values_of m k @ vs) m) (queryparams_Convert fs) (rq_params r)\<rparr>)"

definition Timeout :: "int \<Rightarrow> Request \<Rightarrow> Request" where
  "Timeout d = step_unless_err (\<lambda>r. r\<lparr>rq_timeout := d\<rparr>)"

text \<open>\<open>Body\<close> of an object, given the result of its encoder, and of bytes.\<close>

definition Body_object :: "RESTClient \<Rightarrow> string + string \<Rightarrow> Request \<Rightarrow> Request" where
  "Body_object c encoded = step_unless_err (\<lambda>r.
     case encoded of
       Inl e \<Rightarrow> r\<lparr>rq_err := Some e\<rparr>
     | Inr text \<Rightarrow> r\<lparr>rq_body := Some text, rq_contentType := rc_ContentType c\<rparr>)"

definition Body_bytes :: "string \<Rightarrow> Request \<Rightarrow> Request" where
  "Body_bytes text = step_unless_err (\<lambda>r. r\<lparr>rq_body := Some text\<rparr>)"

definition request_path :: "Request \<Rightarrow> string" where
  "request_path r =
     (let p = rq_pathPrefix r;
          p = (if rq_resource r \<noteq> [] then path_Join [p, to_lower (rq_resource r)] else p)
      in if rq_resourceName r \<noteq> [] \<or> rq_subresource r \<noteq> []
         then path_Join [p, rq_resourceName r, rq_subresource r, []] else p)"

definition request_query :: "Request \<Rightarrow> url_values" where
  "request_query r =
     (if rq_timeout r \<noteq> 0 then gput ''timeout'' [duration_String (rq_timeout r)] (rq_params r)
      else rq_params r)"

text \<open>What leaves the client: method, request URI on the wire, body.\<close>

record sent_request =
  sr_method :: string
  sr_uri :: string
  sr_body :: "string option"
  sr_contentType :: string

definition newHTTPRequest :: "Request \<Rightarrow> sent_request" where
  "newHTTPRequest r =
     (let q = values_Encode (request_query r)
      in \<lparr>sr_method = rq_verb r, sr_uri = escape_path (request_path r) @ (if q = [] then [] else CHR ''?'' # q),
          sr_body = rq_body r, sr_contentType = rq_contentType r\<rparr>)"

text \<open>\<open>Do\<close> and \<open>Watch\<close>: a request with an error is never sent. Throttling, retries and the
  decoding of the answer are the parameter \<open>send\<close>.\<close>

definition Do :: "(sent_request \<Rightarrow> string + 'r) \<Rightarrow> Request \<Rightarrow> string + 'r" where
  "Do send r = (case rq_err r of Some e \<Rightarrow> Inl e | None \<Rightarrow> send (newHTTPRequest r))"

section \<open>Reading a request on the server\<close>

text \<open>\<open>RequestInfo\<close>, with the API prefixes a server registers as arguments.\<close>

record RequestInfo =
  ri_IsResourceRequest :: bool
  ri_Verb :: string
  ri_APIPrefix :: string
  ri_APIGroup :: string
  ri_APIVersion :: string
  ri_Namespace :: string
  ri_Resource :: string
  ri_Subresource :: string
  ri_Name :: string
  ri_Parts :: "string list"
  ri_FieldSelector :: string
  ri_LabelSelector :: string

definition trim_slashes :: "string \<Rightarrow> string" where
  "trim_slashes p =
     rev (dropWhile (\<lambda>c. c = CHR ''/'') (rev (dropWhile (\<lambda>c. c = CHR ''/'') p)))"

definition splitPath :: "string \<Rightarrow> string list" where
  "splitPath p = (let t = trim_slashes p in if t = [] then [] else split CHR ''/'' t)"

definition first_query_value :: "url_values \<Rightarrow> string \<Rightarrow> string" where
  "first_query_value q k = (case values_of q k of [] \<Rightarrow> [] | v # vs \<Rightarrow> v)"

text \<open>The watch flag as the conversion of query strings to booleans and the fallback both read it.\<close>

definition watch_flag :: "url_values \<Rightarrow> bool" where
  "watch_flag q =
     (case values_of q ''watch'' of
        [] \<Rightarrow> False
      | v # vs \<Rightarrow> to_lower v \<notin> {''false'', ''0''})"

definition verb_of_method :: "string \<Rightarrow> string" where
  "verb_of_method m =
     (if m = ''POST'' then ''create''
      else if m = ''GET'' \<or> m = ''HEAD'' then ''get''
      else if m = ''PUT'' then ''update''
      else if m = ''PATCH'' then ''patch''
      else if m = ''DELETE'' then ''delete''
      else [])"

text \<open>The parts after the version: special verb in the path, namespace, then resource, name and
  subresource. \<open>exactName\<close> stands for the name a field selector on \<open>metadata.name\<close> asks for, which
  the selector library parses.\<close>

definition namespace_parts :: "string list \<Rightarrow> string \<times> string list" where
  "namespace_parts parts =
     (case parts of
        p # ns # rest \<Rightarrow>
          if p = ''namespaces'' then
            (ns, if rest \<noteq> [] \<and> hd rest \<notin> {''status'', ''finalize''} then rest else parts)
          else ([], parts)
      | _ \<Rightarrow> ([], parts))"

definition resource_verb :: "string \<Rightarrow> string \<Rightarrow> url_values \<Rightarrow> string" where
  "resource_verb verb name q =
     (if name = [] \<and> verb = ''get'' then (if watch_flag q then ''watch'' else ''list'')
      else if name = [] \<and> verb = ''delete'' then ''deletecollection''
      else verb)"

definition read_parts ::
  "(url_values \<Rightarrow> string option) \<Rightarrow> string \<Rightarrow> bool \<Rightarrow> url_values \<Rightarrow> string list \<Rightarrow> RequestInfo \<Rightarrow> RequestInfo" where
  "read_parts exactName verb viaPath q parts info =
     (case namespace_parts parts of
        (ns, parts') \<Rightarrow>
          (let name = (if 2 \<le> length parts' then parts' ! 1 else []);
               subresource = (if 3 \<le> length parts' \<and> verb \<noteq> ''proxy'' then parts' ! 2 else []);
               verb' = resource_verb verb name q;
               name' = (if name = [] \<and> verb = ''get''
                        then (case exactName q of None \<Rightarrow> [] | Some n \<Rightarrow> n) else name);
               selectors = \<not> viaPath \<and> verb' \<in> {''list'', ''watch'', ''deletecollection''}
           in info\<lparr>ri_IsResourceRequest := True, ri_Verb := verb', ri_Namespace := ns,
                   ri_Parts := parts', ri_Resource := (case parts' of [] \<Rightarrow> [] | p # ps \<Rightarrow> p),
                   ri_Name := name', ri_Subresource := subresource,
                   ri_FieldSelector := (if selectors then first_query_value q ''fieldSelector'' else []),
                   ri_LabelSelector := (if selectors then first_query_value q ''labelSelector'' else [])\<rparr>))"

definition NewRequestInfo ::
  "string list \<Rightarrow> string list \<Rightarrow> (url_values \<Rightarrow> string option) \<Rightarrow> sent_request \<Rightarrow> string + RequestInfo" where
  "NewRequestInfo prefixes groupless exactName req =
     (case cut CHR ''?'' (sr_uri req) of
        (pathText, queryText, found) \<Rightarrow>
     (case unescape False pathText of
        Inl e \<Rightarrow> Inl ''bad request URI''
      | Inr p \<Rightarrow>
     (let q = parse_query queryText;
          parts = splitPath p;
          info = \<lparr>ri_IsResourceRequest = False, ri_Verb = to_lower (sr_method req), ri_APIPrefix = [],
                  ri_APIGroup = [], ri_APIVersion = [], ri_Namespace = [], ri_Resource = [],
                  ri_Subresource = [], ri_Name = [], ri_Parts = [], ri_FieldSelector = [],
                  ri_LabelSelector = []\<rparr>
      in if length parts < 3 \<or> hd parts \<notin> set prefixes then Inr info
         else
           (let info = info\<lparr>ri_APIPrefix := hd parts\<rparr>;
                grouped = hd parts \<notin> set groupless;
                parts = tl parts
            in if grouped \<and> length parts < 3 then Inr info
               else
                 (let info = (if grouped then info\<lparr>ri_APIGroup := hd parts\<rparr> else info);
                      parts = (if grouped then tl parts else parts);
                      info = info\<lparr>ri_IsResourceRequest := True, ri_APIVersion := hd parts\<rparr>;
                      parts = tl parts
                  in if hd parts \<in> {''proxy'', ''watch''} then
                       (if length parts < 2 then Inl ''unable to determine kind and namespace from url''
                        else Inr (read_parts exactName (hd parts) True q (tl parts) info))
                     else Inr (read_parts exactName (verb_of_method (sr_method req)) False q parts info))))))"

section \<open>Parameters\<close>

fun field_values :: "bool \<Rightarrow> option_field \<Rightarrow> string list" where
  "field_values oe (StringField s) = (if oe \<and> s = [] then [] else [s])"
| "field_values oe (BoolField b) = (if oe \<and> \<not> b then [] else [bool_text b])"
| "field_values oe (IntField i) = (if oe \<and> i = 0 then [] else [itoa i])"
| "field_values oe (StringsField ss) = filter (\<lambda>s. \<not> (oe \<and> s = [])) ss"
| "field_values oe (BoolPointer None) = (if oe then [] else [[]])"
| "field_values oe (BoolPointer (Some b)) = [bool_text b]"
| "field_values oe (IntPointer None) = (if oe then [] else [[]])"
| "field_values oe (IntPointer (Some i)) = [itoa i]"

lemma values_Add_ok: "gmap_ok m \<Longrightarrow> gmap_ok (values_Add k v m)"
  by (simp add: values_Add_def gm.ok_put)

lemma fold_addParam:
  "values_of (fold (\<lambda>s. addParam tag oe (s = []) s) ss m) k =
     values_of m k @ (if k = tag then filter (\<lambda>s. \<not> (oe \<and> s = [])) ss else [])"
  "gmap_ok m \<Longrightarrow> gmap_ok (fold (\<lambda>s. addParam tag oe (s = []) s) ss m)"
  by (induction ss arbitrary: m) (auto simp: addParam_def values_of_Add values_Add_ok)

lemma convert_field_values:
  "values_of (convert_field (tag, oe, f) m) k = values_of m k @ (if k = tag then field_values oe f else [])"
proof (cases f)
  case (BoolPointer b)
  then show ?thesis by (cases b) (auto simp: addParam_def values_of_Add)
next
  case (IntPointer i)
  then show ?thesis by (cases i) (auto simp: addParam_def values_of_Add)
qed (auto simp: addParam_def values_of_Add fold_addParam)

lemma convert_field_ok:
  assumes "gmap_ok m"
  shows "gmap_ok (convert_field (tag, oe, f) m)"
proof (cases f)
  case (BoolPointer b)
  with assms show ?thesis by (cases b) (auto simp: addParam_def values_Add_ok)
next
  case (IntPointer i)
  with assms show ?thesis by (cases i) (auto simp: addParam_def values_Add_ok)
qed (use assms in \<open>auto simp: addParam_def values_Add_ok fold_addParam\<close>)

lemma convert_values:
  "values_of (fold convert_field fs m) k =
     values_of m k @ concat (map (\<lambda>(tag, oe, f). if k = tag then field_values oe f else []) fs)"
  by (induction fs arbitrary: m) (auto simp: convert_field_values)

lemma Convert_values:
  "values_of (queryparams_Convert fs) k =
     concat (map (\<lambda>(tag, oe, f). if k = tag then field_values oe f else []) fs)"
  by (simp add: queryparams_Convert_def convert_values) (simp add: values_of_def)

lemma fold_convert_ok: "gmap_ok m \<Longrightarrow> gmap_ok (fold convert_field fs m)"
  by (induction fs arbitrary: m) (auto simp: convert_field_ok)

lemma Convert_ok: "gmap_ok (queryparams_Convert fs)"
proof -
  have "gmap_ok ([] :: url_values)" by (simp add: gmap_ok_def)
  then show ?thesis by (simp add: queryparams_Convert_def fold_convert_ok)
qed

lemma add_params_values:
  assumes "gmap_ok ps"
  shows "values_of (fold (\<lambda>(k, vs) m. gput k (values_of m k @ vs) m) ps m) k =
     values_of m k @ values_of ps k"
  using assms
proof (induction ps arbitrary: m)
  case (Cons p ps)
  obtain a vs where p: "p = (a, vs)" by (cases p)
  have "values_of (gput a (values_of m a @ vs) m) k = values_of m k @ (if k = a then vs else [])"
    by (simp add: values_of_def gm.get_put)
  moreover have "values_of ps a = []"
    using Cons.prems gkeys_iff [of a ps] by (auto simp: p gmap_ok_def gkeys_def values_of_def)
  ultimately show ?case
    using Cons by (auto simp: p gmap_ok_def values_of_def gget_Cons)
qed (simp add: values_of_def)

lemma add_params_ok:
  "gmap_ok m \<Longrightarrow> gmap_ok (fold (\<lambda>(k, vs) m. gput k (f m k @ vs) m) ps m)"
  by (induction ps arbitrary: m) (auto simp: gm.ok_put)

section \<open>Segments read from a path\<close>

lemma join_ends:
  assumes "list_all segment_ok ss" and "ss \<noteq> []"
  shows "\<exists>c r. join ''/'' ss = c # r \<and> c \<noteq> CHR ''/''"
    and "\<exists>c r. rev (join ''/'' ss) = c # r \<and> c \<noteq> CHR ''/''"
proof -
  have ends: "\<exists>c r. s = c # r \<and> c \<noteq> CHR ''/''" "\<exists>c r. rev s = c # r \<and> c \<noteq> CHR ''/''"
    if "segment_ok s" for s
  proof -
    show "\<exists>c r. s = c # r \<and> c \<noteq> CHR ''/''"
      using that by (cases s) (auto simp: segment_ok_def)
    show "\<exists>c r. rev s = c # r \<and> c \<noteq> CHR ''/''"
      using that by (cases s rule: rev_cases) (auto simp: segment_ok_def)
  qed
  show "\<exists>c r. join ''/'' ss = c # r \<and> c \<noteq> CHR ''/''"
    using assms
  proof (induction ss rule: induct_list012)
    case (3 s t ss)
    then show ?case using ends(1) [of s] by auto
  qed (use ends(1) in auto)
  show "\<exists>c r. rev (join ''/'' ss) = c # r \<and> c \<noteq> CHR ''/''"
    using assms
  proof (induction ss rule: induct_list012)
    case (3 s t ss)
    then show ?case by auto
  qed (use ends(2) in auto)
qed

lemma splitPath_absolute:
  assumes "list_all segment_ok ss" and "ss \<noteq> []"
  shows "splitPath (absolute ss) = ss"
proof -
  obtain c r where c: "join ''/'' ss = c # r" "c \<noteq> CHR ''/''"
    using join_ends(1) [OF assms] by blast
  obtain d t where d: "rev (join ''/'' ss) = d # t" "d \<noteq> CHR ''/''"
    using join_ends(2) [OF assms] by blast
  have "trim_slashes (absolute ss) = rev (dropWhile (\<lambda>x. x = CHR ''/'') (rev (join ''/'' ss)))"
    using c by (simp add: trim_slashes_def absolute_def)
  also have "\<dots> = rev (rev (join ''/'' ss))" by (simp only: d(1)) (simp add: d(2))
  also have "\<dots> = join ''/'' ss" by simp
  finally have trim: "trim_slashes (absolute ss) = join ''/'' ss" .
  have "\<forall>p\<in>set ss. CHR ''/'' \<notin> set p"
    using assms(1) by (auto simp: list_all_iff segment_ok_def)
  with assms(2) have "split CHR ''/'' (join ''/'' ss) = ss"
    by (intro split_join) auto
  with c show ?thesis by (simp add: splitPath_def trim)
qed

lemma escape_path_no_mark: "CHR ''?'' \<notin> set (escape_path p)"
proof -
  have "CHR ''?'' \<notin> set (escape_char c)" for c
  proof -
    have n: "(of_char c :: nat) div 16 < 16" "(of_char c :: nat) mod 16 < 16"
      by (auto intro: less_mult_imp_div_less)
    have hex: "CHR ''?'' \<noteq> upper_hex d" if "d < 16" for d
    proof
      assume "CHR ''?'' = upper_hex d"
      then have "is_hex CHR ''?''" using upper_hex_is_hex [OF that] by simp
      then show False by (simp add: is_hex_def is_digit_def)
    qed
    have "\<not> is_alnum CHR ''?''" "CHR ''?'' \<notin> set path_marks"
      by (simp_all add: path_marks_def is_alnum_def is_letter_def is_upper_def is_lower_def is_digit_def)
    then show ?thesis
      using hex [OF n(1)] hex [OF n(2)] by (auto simp: escape_char_def)
  qed
  then show ?thesis by (auto simp: escape_path_def)
qed

text \<open>What the server takes a request URI apart into.\<close>

lemma sent_uri_cut:
  "fst (cut CHR ''?'' (sr_uri (newHTTPRequest r))) = escape_path (request_path r)"
  "fst (snd (cut CHR ''?'' (sr_uri (newHTTPRequest r)))) = values_Encode (request_query r)"
  using escape_path_no_mark [of "request_path r"] by (auto simp: newHTTPRequest_def Let_def)

end
