(* ===== verification/Typed_Client.thy ===== *)
theory Typed_Client
  imports Rest_Client Api_Types
begin

text \<open>
  The generated client of ManagedProxyConfigurations (pkg/generated/clientset/versioned): the client
  set with its two clients, the typed client that both start-up paths use to read the configuration,
  and the fake client of the tests. The theorems show that no name leads a request out of the
  collection, that an API server reads from every request the action the fake client records, and
  when the clients of a set share their rate limiter.
\<close>

section \<open>Group client\<close>

definition SchemeGroupVersion :: group_version where
  "SchemeGroupVersion = \<lparr>gv_Group = ''proxy.open-cluster-management.io'', gv_Version = ''v1alpha1''\<rparr>"

record ProxyV1alpha1Client =
  pv_restClient :: RESTClient

text \<open>What the constructors take from outside: the reader of IP literals of net/url, the HTTP client
  that rest makes of a configuration, the default user agent.\<close>

record client_env =
  ce_ipl :: "string \<Rightarrow> url_error + string"
  ce_HTTPClientFor :: "rest_config \<Rightarrow> rest_error + http_client"
  ce_userAgent :: string

definition setConfigDefaults :: "client_env \<Rightarrow> rest_config \<Rightarrow> rest_config" where
  "setConfigDefaults env cfg =
     cfg\<lparr>cf_GroupVersion := Some SchemeGroupVersion, cf_APIPath := ''/apis'', cf_Serializer := True,
         cf_UserAgent := (if cf_UserAgent cfg = [] then ce_userAgent env else cf_UserAgent cfg)\<rparr>"

definition proxy_NewForConfigAndClient ::
  "client_env \<Rightarrow> rest_config \<Rightarrow> http_client \<Rightarrow> nat \<Rightarrow> rest_error + ProxyV1alpha1Client \<times> nat" where
  "proxy_NewForConfigAndClient env c h fresh =
     (case RESTClientForConfigAndClient (ce_ipl env) (setConfigDefaults env c) h fresh of
        Inl e \<Rightarrow> Inl e
      | Inr (client, fresh') \<Rightarrow> Inr (\<lparr>pv_restClient = client\<rparr>, fresh'))"

definition proxy_NewForConfig ::
  "client_env \<Rightarrow> rest_config \<Rightarrow> nat \<Rightarrow> rest_error + ProxyV1alpha1Client \<times> nat" where
  "proxy_NewForConfig env c fresh =
     (let config = setConfigDefaults env c
      in case ce_HTTPClientFor env config of
           Inl e \<Rightarrow> Inl e
         | Inr h \<Rightarrow> proxy_NewForConfigAndClient env config h fresh)"

text \<open>A panic is the left value.\<close>

datatype die = Panic rest_error

definition proxy_NewForConfigOrDie ::
  "client_env \<Rightarrow> rest_config \<Rightarrow> nat \<Rightarrow> die + ProxyV1alpha1Client \<times> nat" where
  "proxy_NewForConfigOrDie env c fresh =
     (case proxy_NewForConfig env c fresh of Inl e \<Rightarrow> Inl (Panic e) | Inr r \<Rightarrow> Inr r)"

definition proxy_New :: "RESTClient \<Rightarrow> ProxyV1alpha1Client" where
  "proxy_New c = \<lparr>pv_restClient = c\<rparr>"

text \<open>A nil receiver gives a nil client.\<close>

definition proxy_RESTClient :: "ProxyV1alpha1Client option \<Rightarrow> RESTClient option" where
  "proxy_RESTClient c = map_option pv_restClient c"

section \<open>Client set\<close>

record Clientset =
  cs_discovery :: RESTClient
  cs_proxyV1alpha1 :: ProxyV1alpha1Client

text \<open>The discovery client (vendor/k8s.io/client-go/discovery).\<close>

definition setDiscoveryDefaults :: "client_env \<Rightarrow> rest_config \<Rightarrow> rest_config" where
  "setDiscoveryDefaults env cfg =
     cfg\<lparr>cf_APIPath := [], cf_GroupVersion := None,
         cf_Timeout := (if cf_Timeout cfg = 0 then 32 * 10 ^ 9 else cf_Timeout cfg),
         cf_Burst := (if cf_Burst cfg = 0 then 300 else cf_Burst cfg), cf_Serializer := True,
         cf_UserAgent := (if cf_UserAgent cfg = [] then ce_userAgent env else cf_UserAgent cfg)\<rparr>"

definition NewDiscoveryClientForConfigAndClient ::
  "client_env \<Rightarrow> rest_config \<Rightarrow> http_client \<Rightarrow> nat \<Rightarrow> rest_error + RESTClient \<times> nat" where
  "NewDiscoveryClientForConfigAndClient env c h fresh =
     UnversionedRESTClientForConfigAndClient (ce_ipl env) (setDiscoveryDefaults env c) h fresh"

definition NewForConfigAndClient ::
  "client_env \<Rightarrow> rest_config \<Rightarrow> http_client \<Rightarrow> nat \<Rightarrow> rest_error + Clientset \<times> nat" where
  "NewForConfigAndClient env c h fresh =
     (if cf_RateLimiter c = None \<and> 0 < cf_QPS c \<and> cf_Burst c \<le> 0 then
        Inl (RestError ''burst is required to be greater than 0 when RateLimiter is not set and QPS is set to greater than 0'')
      else
        (case (if cf_RateLimiter c = None \<and> 0 < cf_QPS c then
                 (case NewTokenBucketRateLimiter (cf_QPS c) (cf_Burst c) fresh of
                    (l, fresh') \<Rightarrow> (c\<lparr>cf_RateLimiter := Some l\<rparr>, fresh'))
               else (c, fresh)) of
           (shallow, fresh1) \<Rightarrow>
             (case proxy_NewForConfigAndClient env shallow h fresh1 of
                Inl e \<Rightarrow> Inl e
              | Inr (pc, fresh2) \<Rightarrow>
                  (case NewDiscoveryClientForConfigAndClient env shallow h fresh2 of
                     Inl e \<Rightarrow> Inl e
                   | Inr (dc, fresh3) \<Rightarrow>
                       Inr (\<lparr>cs_discovery = dc, cs_proxyV1alpha1 = pc\<rparr>, fresh3)))))"

definition NewForConfig :: "client_env \<Rightarrow> rest_config \<Rightarrow> nat \<Rightarrow> rest_error + Clientset \<times> nat" where
  "NewForConfig env c fresh =
     (case ce_HTTPClientFor env c of
        Inl e \<Rightarrow> Inl e
      | Inr h \<Rightarrow> NewForConfigAndClient env c h fresh)"

definition NewForConfigOrDie :: "client_env \<Rightarrow> rest_config \<Rightarrow> nat \<Rightarrow> die + Clientset \<times> nat" where
  "NewForConfigOrDie env c fresh = (case NewForConfig env c fresh of Inl e \<Rightarrow> Inl (Panic e) | Inr r \<Rightarrow> Inr r)"

definition clientset_New :: "RESTClient \<Rightarrow> Clientset" where
  "clientset_New c = \<lparr>cs_discovery = c, cs_proxyV1alpha1 = proxy_New c\<rparr>"

definition Discovery :: "Clientset option \<Rightarrow> RESTClient option" where
  "Discovery cs = map_option cs_discovery cs"

section \<open>Typed client\<close>

definition mpc_resource :: string where
  "mpc_resource = ''managedproxyconfigurations''"

record DeleteOptions =
  do_GracePeriodSeconds :: "int option"
  do_Preconditions :: "(string option \<times> string option) option"
  do_OrphanDependents :: "bool option"
  do_PropagationPolicy :: "string option"
  do_DryRun :: "string list"

text \<open>Encoders of the negotiated serializer.\<close>

record codec =
  co_object :: "ManagedProxyConfiguration \<Rightarrow> string + string"
  co_deleteOptions :: "DeleteOptions \<Rightarrow> string + string"

text \<open>Each method is the request that its chain of builder steps makes; its last step, \<open>Do\<close> or \<open>Watch\<close>,
  is \<open>Do\<close> of \<open>Rest_Client\<close>, which sends the request or returns its error, and \<open>Into\<close> decodes the answer. The
  timeout of a list wraps like the 64-bit product of the source.\<close>

definition list_timeout :: "ListOptions \<Rightarrow> int" where
  "list_timeout opts =
     (case lo_TimeoutSeconds opts of
        None \<Rightarrow> 0
      | Some s \<Rightarrow> (s * 10 ^ 9 + 2 ^ 63) mod 2 ^ 64 - 2 ^ 63)"

definition mpc_Get :: "RESTClient \<Rightarrow> string \<Rightarrow> GetOptions \<Rightarrow> Request" where
  "mpc_Get c name opts =
     VersionedParams (GetOptions_fields opts) (Name name (Resource mpc_resource (Verb ''GET'' (NewRequest c))))"

definition mpc_List :: "RESTClient \<Rightarrow> ListOptions \<Rightarrow> Request" where
  "mpc_List c opts =
     Timeout (list_timeout opts)
       (VersionedParams (ListOptions_fields opts) (Resource mpc_resource (Verb ''GET'' (NewRequest c))))"

definition mpc_Watch :: "RESTClient \<Rightarrow> ListOptions \<Rightarrow> Request" where
  "mpc_Watch c opts =
     Timeout (list_timeout opts)
       (VersionedParams (ListOptions_fields (opts\<lparr>lo_Watch := True\<rparr>))
         (Resource mpc_resource (Verb ''GET'' (NewRequest c))))"

definition mpc_Create :: "RESTClient \<Rightarrow> codec \<Rightarrow> ManagedProxyConfiguration \<Rightarrow> WriteOptions \<Rightarrow> Request" where
  "mpc_Create c enc x opts =
     Body_object c (co_object enc x)
       (VersionedParams (WriteOptions_fields False opts) (Resource mpc_resource (Verb ''POST'' (NewRequest c))))"

definition mpc_Update :: "RESTClient \<Rightarrow> codec \<Rightarrow> ManagedProxyConfiguration \<Rightarrow> WriteOptions \<Rightarrow> Request" where
  "mpc_Update c enc x opts =
     Body_object c (co_object enc x)
       (VersionedParams (WriteOptions_fields False opts)
         (Name (mpc_Name x) (Resource mpc_resource (Verb ''PUT'' (NewRequest c)))))"

definition mpc_UpdateStatus :: "RESTClient \<Rightarrow> codec \<Rightarrow> ManagedProxyConfiguration \<Rightarrow> WriteOptions \<Rightarrow> Request" where
  "mpc_UpdateStatus c enc x opts =
     Body_object c (co_object enc x)
       (VersionedParams (WriteOptions_fields False opts)
         (SubResource [''status''] (Name (mpc_Name x) (Resource mpc_resource (Verb ''PUT'' (NewRequest c))))))"

definition mpc_Delete :: "RESTClient \<Rightarrow> codec \<Rightarrow> string \<Rightarrow> DeleteOptions \<Rightarrow> Request" where
  "mpc_Delete c enc name opts =
     Body_object c (co_deleteOptions enc opts)
       (Name name (Resource mpc_resource (Verb ''DELETE'' (NewRequest c))))"

definition mpc_DeleteCollection :: "RESTClient \<Rightarrow> codec \<Rightarrow> DeleteOptions \<Rightarrow> ListOptions \<Rightarrow> Request" where
  "mpc_DeleteCollection c enc opts listOpts =
     Body_object c (co_deleteOptions enc opts)
       (Timeout (list_timeout listOpts)
         (VersionedParams (ListOptions_fields listOpts) (Resource mpc_resource (Verb ''DELETE'' (NewRequest c)))))"

definition mpc_Patch :: "RESTClient \<Rightarrow> string \<Rightarrow> string \<Rightarrow> string \<Rightarrow> WriteOptions \<Rightarrow> string list \<Rightarrow> Request" where
  "mpc_Patch c name pt data opts subresources =
     Body_bytes data
       (VersionedParams (WriteOptions_fields True opts)
         (SubResource subresources
           (Name name (Resource mpc_resource (Verb ''PATCH'' ((NewRequest c)\<lparr>rq_contentType := pt\<rparr>))))))"

section \<open>Fake client\<close>

text \<open>The actions of vendor/k8s.io/client-go/testing. An update has no name of its own, the object
  carries it. The fields an action does not have are empty.\<close>

record selector =
  se_text :: string
  se_matches :: "(string, string) gmap \<Rightarrow> bool"

record Action =
  ac_Verb :: string
  ac_GroupVersion :: group_version
  ac_Resource :: string
  ac_Subresource :: string
  ac_Name :: string
  ac_Object :: "ManagedProxyConfiguration option"
  ac_LabelSelector :: string
  ac_FieldSelector :: string
  ac_Patch :: "(string \<times> string) option"

text \<open>The parsers of label and field selectors. A selector that does not parse panics: \<open>None\<close>.\<close>

record selectors =
  sl_label :: "string \<Rightarrow> selector option"
  sl_field :: "string \<Rightarrow> selector option"

definition ExtractFromListOptions :: "selectors \<Rightarrow> ListOptions \<Rightarrow> (selector \<times> selector \<times> string) option" where
  "ExtractFromListOptions sl opts =
     (case sl_label sl (lo_LabelSelector opts) of
        None \<Rightarrow> None
      | Some l \<Rightarrow>
          (case sl_field sl (lo_FieldSelector opts) of
             None \<Rightarrow> None
           | Some f \<Rightarrow> Some (l, f, lo_ResourceVersion opts)))"

definition root_action :: "string \<Rightarrow> Action" where
  "root_action verb =
     \<lparr>ac_Verb = verb, ac_GroupVersion = SchemeGroupVersion, ac_Resource = mpc_resource,
      ac_Subresource = [], ac_Name = [], ac_Object = None, ac_LabelSelector = [],
      ac_FieldSelector = [], ac_Patch = None\<rparr>"

definition NewRootGetAction :: "string \<Rightarrow> Action" where
  "NewRootGetAction name = (root_action ''get'')\<lparr>ac_Name := name\<rparr>"

definition restricted :: "selectors \<Rightarrow> ListOptions \<Rightarrow> Action \<Rightarrow> Action option" where
  "restricted sl opts a =
     (case ExtractFromListOptions sl opts of
        None \<Rightarrow> None
      | Some (l, f, rv) \<Rightarrow> Some (a\<lparr>ac_LabelSelector := se_text l, ac_FieldSelector := se_text f\<rparr>))"

definition NewRootListAction :: "selectors \<Rightarrow> ListOptions \<Rightarrow> Action option" where
  "NewRootListAction sl opts = restricted sl opts (root_action ''list'')"

definition NewRootWatchAction :: "selectors \<Rightarrow> ListOptions \<Rightarrow> Action option" where
  "NewRootWatchAction sl opts = restricted sl opts (root_action ''watch'')"

definition NewRootCreateAction :: "ManagedProxyConfiguration \<Rightarrow> Action" where
  "NewRootCreateAction x = (root_action ''create'')\<lparr>ac_Object := Some x\<rparr>"

definition NewRootUpdateAction :: "ManagedProxyConfiguration \<Rightarrow> Action" where
  "NewRootUpdateAction x = (root_action ''update'')\<lparr>ac_Object := Some x\<rparr>"

definition NewRootUpdateSubresourceAction :: "string \<Rightarrow> ManagedProxyConfiguration \<Rightarrow> Action" where
  "NewRootUpdateSubresourceAction sub x = (root_action ''update'')\<lparr>ac_Subresource := sub, ac_Object := Some x\<rparr>"

definition NewRootDeleteAction :: "string \<Rightarrow> Action" where
  "NewRootDeleteAction name = (root_action ''delete'')\<lparr>ac_Name := name\<rparr>"

definition NewRootDeleteCollectionAction :: "selectors \<Rightarrow> ListOptions \<Rightarrow> Action option" where
  "NewRootDeleteCollectionAction sl opts = restricted sl opts (root_action ''delete-collection'')"

definition NewRootPatchSubresourceAction :: "string \<Rightarrow> string \<Rightarrow> string \<Rightarrow> string list \<Rightarrow> Action" where
  "NewRootPatchSubresourceAction name pt data subresources =
     (root_action ''patch'')\<lparr>ac_Subresource := path_Join subresources, ac_Name := name, ac_Patch := Some (pt, data)\<rparr>"

text \<open>\<open>testing.Fake\<close>: every action is recorded; the first reactor that covers it and handles it
  answers, over the state \<open>'x\<close> of whatever stands behind the reactors. A reaction that panics has no
  answer: \<open>None\<close>. The errors keep the reason that \<open>apierrors.IsNotFound\<close> and its like ask for.\<close>

datatype fake_error =
    FakeNotFound string string
  | FakeAlreadyExists string string
  | FakeBadRequest string
  | FakeOther string

datatype ret = RetObject ManagedProxyConfiguration | RetList string "ManagedProxyConfiguration list"

record 'x reactor =
  re_verb :: string
  re_resource :: string
  re_React :: "Action \<Rightarrow> 'x \<Rightarrow> (bool \<times> ret option \<times> fake_error option) option \<times> 'x"

record 'x watch_reactor =
  wr_resource :: string
  wr_React :: "Action \<Rightarrow> 'x \<Rightarrow> (bool \<times> nat option \<times> fake_error option) option \<times> 'x"

record 'x Fake =
  fk_actions :: "Action list"
  fk_chain :: "'x reactor list"
  fk_watchChain :: "'x watch_reactor list"
  fk_world :: 'x

definition resourceCovers :: "string \<Rightarrow> Action \<Rightarrow> bool" where
  "resourceCovers resource a \<longleftrightarrow>
     resource = ''*'' \<or> resource = ac_Resource a \<or>
     (case cut CHR ''/'' resource of
        (base, sub, found) \<Rightarrow> found \<and> base = ac_Resource a \<and> sub = ac_Subresource a)"

definition Handles :: "'x reactor \<Rightarrow> Action \<Rightarrow> bool" where
  "Handles r a \<longleftrightarrow> (re_verb r = ''*'' \<or> re_verb r = ac_Verb a) \<and> resourceCovers (re_resource r) a"

fun react :: "'x reactor list \<Rightarrow> Action \<Rightarrow> ret option \<Rightarrow> 'x \<Rightarrow> (ret option \<times> fake_error option) option \<times> 'x" where
  "react [] a dflt w = (Some (dflt, None), w)"
| "react (r # rs) a dflt w =
     (if \<not> Handles r a then react rs a dflt w
      else (case re_React r a w of
              (None, w') \<Rightarrow> (None, w')
            | (Some (handled, obj, err), w') \<Rightarrow>
                if handled then (Some (obj, err), w') else react rs a dflt w'))"

definition Invokes :: "Action \<Rightarrow> ret option \<Rightarrow> 'x Fake \<Rightarrow> (ret option \<times> fake_error option) option \<times> 'x Fake" where
  "Invokes a dflt f =
     (case react (fk_chain f) a dflt (fk_world f) of
        (r, w) \<Rightarrow> (r, f\<lparr>fk_actions := fk_actions f @ [a], fk_world := w\<rparr>))"

fun react_watch :: "'x watch_reactor list \<Rightarrow> Action \<Rightarrow> 'x \<Rightarrow> (nat option \<times> fake_error option) option \<times> 'x" where
  "react_watch [] a w = (Some (None, Some (FakeOther ''unhandled watch'')), w)"
| "react_watch (r # rs) a w =
     (if \<not> resourceCovers (wr_resource r) a then react_watch rs a w
      else (case wr_React r a w of
              (None, w') \<Rightarrow> (None, w')
            | (Some (handled, watcher, err), w') \<Rightarrow>
                if handled then (Some (watcher, err), w') else react_watch rs a w'))"

definition InvokesWatch :: "Action \<Rightarrow> 'x Fake \<Rightarrow> (nat option \<times> fake_error option) option \<times> 'x Fake" where
  "InvokesWatch a f =
     (case react_watch (fk_watchChain f) a (fk_world f) of
        (r, w) \<Rightarrow> (r, f\<lparr>fk_actions := fk_actions f @ [a], fk_world := w\<rparr>))"

text \<open>A failed type assertion of the result panics, and so does a selector that does not parse.\<close>

datatype 'r outcome = Returned "'r option" "fake_error option" | Panicked

fun as_object :: "(ret option \<times> fake_error option) option \<Rightarrow> ManagedProxyConfiguration outcome" where
  "as_object None = Panicked"
| "as_object (Some (None, err)) = Returned None err"
| "as_object (Some (Some (RetObject x), err)) = Returned (Some x) err"
| "as_object (Some (Some (RetList m xs), err)) = Panicked"

definition fake_object_call ::
  "Action \<Rightarrow> ManagedProxyConfiguration \<Rightarrow> 'x Fake \<Rightarrow> ManagedProxyConfiguration outcome \<times> 'x Fake" where
  "fake_object_call a blank f = (case Invokes a (Some (RetObject blank)) f of (r, f') \<Rightarrow> (as_object r, f'))"

definition fake_Get :: "ManagedProxyConfiguration \<Rightarrow> string \<Rightarrow> 'x Fake \<Rightarrow> ManagedProxyConfiguration outcome \<times> 'x Fake" where
  "fake_Get blank name = fake_object_call (NewRootGetAction name) blank"

definition fake_Create ::
  "ManagedProxyConfiguration \<Rightarrow> ManagedProxyConfiguration \<Rightarrow> 'x Fake \<Rightarrow> ManagedProxyConfiguration outcome \<times> 'x Fake" where
  "fake_Create blank x = fake_object_call (NewRootCreateAction x) blank"

definition fake_Update ::
  "ManagedProxyConfiguration \<Rightarrow> ManagedProxyConfiguration \<Rightarrow> 'x Fake \<Rightarrow> ManagedProxyConfiguration outcome \<times> 'x Fake" where
  "fake_Update blank x = fake_object_call (NewRootUpdateAction x) blank"

definition fake_UpdateStatus ::
  "ManagedProxyConfiguration \<Rightarrow> ManagedProxyConfiguration \<Rightarrow> 'x Fake \<Rightarrow> ManagedProxyConfiguration outcome \<times> 'x Fake" where
  "fake_UpdateStatus blank x = fake_object_call (NewRootUpdateSubresourceAction ''status'' x) blank"

definition fake_Patch ::
  "ManagedProxyConfiguration \<Rightarrow> string \<Rightarrow> string \<Rightarrow> string \<Rightarrow> string list \<Rightarrow> 'x Fake \<Rightarrow>
   ManagedProxyConfiguration outcome \<times> 'x Fake" where
  "fake_Patch blank name pt data subresources =
     fake_object_call (NewRootPatchSubresourceAction name pt data subresources) blank"

text \<open>A call that returns only the error.\<close>

fun as_error :: "(ret option \<times> fake_error option) option \<Rightarrow> unit outcome" where
  "as_error None = Panicked"
| "as_error (Some (obj, err)) = Returned None err"

definition fake_Delete :: "ManagedProxyConfiguration \<Rightarrow> string \<Rightarrow> 'x Fake \<Rightarrow> unit outcome \<times> 'x Fake" where
  "fake_Delete blank name f =
     (case Invokes (NewRootDeleteAction name) (Some (RetObject blank)) f of (r, f') \<Rightarrow> (as_error r, f'))"

definition fake_DeleteCollection :: "selectors \<Rightarrow> ListOptions \<Rightarrow> 'x Fake \<Rightarrow> unit outcome \<times> 'x Fake" where
  "fake_DeleteCollection sl listOpts f =
     (case NewRootDeleteCollectionAction sl listOpts of
        None \<Rightarrow> (Panicked, f)
      | Some a \<Rightarrow>
          (case Invokes a (Some (RetList [] [])) f of (r, f') \<Rightarrow> (as_error r, f')))"

text \<open>The fake filters a list by labels itself.\<close>

definition fake_List ::
  "selectors \<Rightarrow> ListOptions \<Rightarrow> 'x Fake \<Rightarrow>
   (string \<times> ManagedProxyConfiguration list) outcome \<times> 'x Fake" where
  "fake_List sl opts f =
     (case (NewRootListAction sl opts, ExtractFromListOptions sl opts) of
        (Some a, Some (label, field, rv)) \<Rightarrow>
          (case Invokes a (Some (RetList [] [])) f of
             (None, f') \<Rightarrow> (Panicked, f')
           | (Some (None, err), f') \<Rightarrow> (Returned None err, f')
           | (Some (Some (RetObject x), err), f') \<Rightarrow> (Panicked, f')
           | (Some (Some (RetList m items), err), f') \<Rightarrow>
               (Returned (Some (m, filter (\<lambda>item. se_matches label (mpc_Labels item)) items)) err, f'))
      | _ \<Rightarrow> (Panicked, f))"

definition fake_Watch :: "selectors \<Rightarrow> ListOptions \<Rightarrow> 'x Fake \<Rightarrow> nat outcome \<times> 'x Fake" where
  "fake_Watch sl opts f =
     (case NewRootWatchAction sl opts of
        None \<Rightarrow> (Panicked, f)
      | Some a \<Rightarrow> (case InvokesWatch a f of
              (None, f') \<Rightarrow> (Panicked, f')
            | (Some (watcher, err), f') \<Rightarrow> (Returned watcher err, f')))"

section \<open>Calls\<close>

text \<open>A call on the interface that both clients implement, the request the real client builds for
  it and the action the fake one records.\<close>

datatype call =
    CallGet string GetOptions
  | CallList ListOptions
  | CallWatch ListOptions
  | CallCreate ManagedProxyConfiguration WriteOptions
  | CallUpdate ManagedProxyConfiguration WriteOptions
  | CallUpdateStatus ManagedProxyConfiguration WriteOptions
  | CallDelete string DeleteOptions
  | CallDeleteCollection DeleteOptions ListOptions
  | CallPatch string string string WriteOptions "string list"

fun real_request :: "RESTClient \<Rightarrow> codec \<Rightarrow> call \<Rightarrow> Request" where
  "real_request c enc (CallGet n opts) = mpc_Get c n opts"
| "real_request c enc (CallList opts) = mpc_List c opts"
| "real_request c enc (CallWatch opts) = mpc_Watch c opts"
| "real_request c enc (CallCreate x opts) = mpc_Create c enc x opts"
| "real_request c enc (CallUpdate x opts) = mpc_Update c enc x opts"
| "real_request c enc (CallUpdateStatus x opts) = mpc_UpdateStatus c enc x opts"
| "real_request c enc (CallDelete n opts) = mpc_Delete c enc n opts"
| "real_request c enc (CallDeleteCollection opts lo) = mpc_DeleteCollection c enc opts lo"
| "real_request c enc (CallPatch n pt data opts subs) = mpc_Patch c n pt data opts subs"

fun fake_run ::
  "selectors \<Rightarrow> ManagedProxyConfiguration \<Rightarrow>
   call \<Rightarrow> 'x Fake \<Rightarrow> 'x Fake" where
  "fake_run sl blank (CallGet n opts) f = snd (fake_Get blank n f)"
| "fake_run sl blank (CallList opts) f = snd (fake_List sl opts f)"
| "fake_run sl blank (CallWatch opts) f = snd (fake_Watch sl opts f)"
| "fake_run sl blank (CallCreate x opts) f = snd (fake_Create blank x f)"
| "fake_run sl blank (CallUpdate x opts) f = snd (fake_Update blank x f)"
| "fake_run sl blank (CallUpdateStatus x opts) f = snd (fake_UpdateStatus blank x f)"
| "fake_run sl blank (CallDelete n opts) f = snd (fake_Delete blank n f)"
| "fake_run sl blank (CallDeleteCollection opts lo) f = snd (fake_DeleteCollection sl lo f)"
| "fake_run sl blank (CallPatch n pt data opts subs) f = snd (fake_Patch blank n pt data subs f)"

text \<open>Name and subresources that a call puts into the path.\<close>

fun call_name :: "call \<Rightarrow> string option" where
  "call_name (CallGet n opts) = Some n"
| "call_name (CallUpdate x opts) = Some (mpc_Name x)"
| "call_name (CallUpdateStatus x opts) = Some (mpc_Name x)"
| "call_name (CallDelete n opts) = Some n"
| "call_name (CallPatch n pt data opts subs) = Some n"
| "call_name c = None"

fun call_subresources :: "call \<Rightarrow> string list" where
  "call_subresources (CallUpdateStatus x opts) = [''status'']"
| "call_subresources (CallPatch n pt data opts subs) = subs"
| "call_subresources c = []"

fun call_encoding :: "codec \<Rightarrow> call \<Rightarrow> string + string" where
  "call_encoding enc (CallCreate x opts) = co_object enc x"
| "call_encoding enc (CallUpdate x opts) = co_object enc x"
| "call_encoding enc (CallUpdateStatus x opts) = co_object enc x"
| "call_encoding enc (CallDelete n opts) = co_deleteOptions enc opts"
| "call_encoding enc (CallDeleteCollection opts lo) = co_deleteOptions enc opts"
| "call_encoding enc c = Inr []"

section \<open>The path of a request\<close>

lemma valid_segment_iff:
  "IsValidPathSegmentName s = [] \<longleftrightarrow> \<not> dotted s \<and> CHR ''/'' \<notin> set s \<and> CHR ''%'' \<notin> set s"
proof -
  have "contains s [c] \<longleftrightarrow> c \<in> set s" for c
    by (simp add: contains_iff) (metis in_set_conv_decomp append_Cons append_Nil)
  then show ?thesis
    by (auto simp: IsValidPathSegmentName_def NameMayNotBe_def NameMayNotContain_def dotted_def)
qed

lemma valid_segment_ok: "IsValidPathSegmentName s = [] \<Longrightarrow> s \<noteq> [] \<Longrightarrow> segment_ok s"
  by (simp add: valid_segment_iff segment_ok_def)

definition api_segments :: "string list" where
  "api_segments = [''apis'', ''proxy.open-cluster-management.io'', ''v1alpha1'']"

lemma api_segments_ok: "list_all segment_ok (api_segments @ [mpc_resource])"
  by (simp add: api_segments_def mpc_resource_def segment_ok_def dotted_def)

lemma to_lower_resource: "to_lower mpc_resource = mpc_resource"
  by (simp add: mpc_resource_def lower_char_def is_upper_def)

lemma resource_valid: "IsValidPathSegmentName mpc_resource = []" "mpc_resource \<noteq> []"
  by (simp_all add: valid_segment_iff mpc_resource_def dotted_def)

lemma proxy_client_path:
  assumes "proxy_NewForConfigAndClient env cfg h fresh = Inr (pc, fresh')"
  shows "rc_versionedAPIPath (pv_restClient pc) = absolute api_segments"
proof -
  have "DefaultVersionedAPIPath ''/apis'' SchemeGroupVersion = absolute api_segments"
    by code_simp
  with assms show ?thesis
    by (auto simp: proxy_NewForConfigAndClient_def RESTClientForConfigAndClient_def setConfigDefaults_def
        UnversionedRESTClientForConfigAndClient_def DefaultServerUrlFor_def DefaultServerURL_def
        NewRESTClient_def Let_def split: sum.splits prod.splits if_splits)
qed

lemma new_request_prefix:
  assumes "rc_versionedAPIPath c = absolute api_segments"
    and "\<not> list_ex dotted (segments (u_path (rc_base c)))"
  shows "rq_pathPrefix (NewRequest c) = absolute (segments (u_path (rc_base c)) @ api_segments)"
proof -
  have ok: "list_all segment_ok api_segments" using api_segments_ok by simp
  have "\<not> list_ex dotted api_segments" by (simp add: api_segments_def dotted_def)
  with ok assms have "\<not> list_ex dotted (concat (map segments [''/'', u_path (rc_base c), rc_versionedAPIPath c]))"
    by simp
  from path_Join_absolute [OF _ this] ok assms(1) show ?thesis
    by (simp add: NewRequest_def has_prefix_def)
qed

text \<open>What a request without an error holds. Every builder step is looked at once.\<close>

fun call_method :: "call \<Rightarrow> string" where
  "call_method (CallGet n opts) = ''GET''"
| "call_method (CallList opts) = ''GET''"
| "call_method (CallWatch opts) = ''GET''"
| "call_method (CallCreate x opts) = ''POST''"
| "call_method (CallUpdate x opts) = ''PUT''"
| "call_method (CallUpdateStatus x opts) = ''PUT''"
| "call_method (CallDelete n opts) = ''DELETE''"
| "call_method (CallDeleteCollection opts lo) = ''DELETE''"
| "call_method (CallPatch n pt data opts subs) = ''PATCH''"

fun call_fields :: "call \<Rightarrow> (string \<times> bool \<times> option_field) list" where
  "call_fields (CallGet n opts) = GetOptions_fields opts"
| "call_fields (CallList opts) = ListOptions_fields opts"
| "call_fields (CallWatch opts) = ListOptions_fields (opts\<lparr>lo_Watch := True\<rparr>)"
| "call_fields (CallCreate x opts) = WriteOptions_fields False opts"
| "call_fields (CallUpdate x opts) = WriteOptions_fields False opts"
| "call_fields (CallUpdateStatus x opts) = WriteOptions_fields False opts"
| "call_fields (CallDelete n opts) = []"
| "call_fields (CallDeleteCollection opts lo) = ListOptions_fields lo"
| "call_fields (CallPatch n pt data opts subs) = WriteOptions_fields True opts"

definition name_part :: "call \<Rightarrow> string list" where
  "name_part k = (case call_name k of None \<Rightarrow> [] | Some n \<Rightarrow> [n])"

definition addressed :: "RESTClient \<Rightarrow> call \<Rightarrow> Request \<Rightarrow> bool" where
  "addressed c k r \<longleftrightarrow>
     rq_pathPrefix r = rq_pathPrefix (NewRequest c) \<and> rq_resource r = mpc_resource \<and>
     rq_resourceName r = concat (name_part k) \<and> rq_subresource r = path_Join (call_subresources k) \<and>
     rq_verb r = call_method k"

definition call_valid :: "codec \<Rightarrow> call \<Rightarrow> bool" where
  "call_valid enc k \<longleftrightarrow>
     list_all (\<lambda>n. n \<noteq> [] \<and> IsValidPathSegmentName n = []) (name_part k) \<and>
     list_all (\<lambda>s. IsValidPathSegmentName s = []) (call_subresources k) \<and>
     (\<exists>text. call_encoding enc k = Inr text)"

lemma find_None_all: "List.find P xs = None \<longleftrightarrow> list_all (\<lambda>x. \<not> P x) xs"
  by (induction xs) auto

lemma find_Some_bad: "List.find P xs = Some y \<Longrightarrow> \<not> list_all (\<lambda>x. \<not> P x) xs"
  using find_None_all [of P xs] by simp

lemma status_valid: "IsValidPathSegmentName ''status'' = []"
  by (simp add: valid_segment_iff dotted_def)

lemmas builder_defs = Verb_def Resource_def Name_def SubResource_def VersionedParams_def Timeout_def
  Body_object_def Body_bytes_def step_unless_err_def

lemmas typed_defs = mpc_Get_def mpc_List_def mpc_Watch_def mpc_Create_def mpc_Update_def
  mpc_UpdateStatus_def mpc_Delete_def mpc_DeleteCollection_def mpc_Patch_def

lemma new_request_empty:
  "rq_err (NewRequest c) = None" "rq_resource (NewRequest c) = []" "rq_resourceName (NewRequest c) = []"
  "rq_subresource (NewRequest c) = []" "rq_params (NewRequest c) = []"
  by (simp_all add: NewRequest_def)

lemma real_request_err:
  "rq_err (real_request c enc k) = None \<longleftrightarrow> call_valid enc k"
proof (cases k)
  case (CallPatch n pt data opts subs)
  show ?thesis
  proof (cases "List.find (\<lambda>s. IsValidPathSegmentName s \<noteq> []) subs")
    case None
    then have "list_all (\<lambda>s. IsValidPathSegmentName s = []) subs" by (simp add: find_None_all)
    with None show ?thesis
      by (simp add: CallPatch typed_defs builder_defs new_request_empty resource_valid call_valid_def
          name_part_def)
  next
    case (Some s)
    then show ?thesis
      using find_Some_bad [OF Some]
      by (simp add: CallPatch typed_defs builder_defs new_request_empty resource_valid call_valid_def
          name_part_def)
  qed
qed (simp_all add: typed_defs builder_defs new_request_empty resource_valid status_valid call_valid_def
       name_part_def find_None_all split: sum.split)

lemma real_request_addressed:
  assumes "call_valid enc k"
  shows "addressed c k (real_request c enc k)"
    and "rq_params (real_request c enc k) =
      fold (\<lambda>(k, vs) m. gput k (values_of m k @ vs) m) (queryparams_Convert (call_fields k)) []"
proof -
  have find: "List.find (\<lambda>s. IsValidPathSegmentName s \<noteq> []) (call_subresources k) = None"
    using assms by (simp add: find_None_all call_valid_def)
  have blank: "path_Join [] = []" by (simp add: path_Join_def)
  note defs = typed_defs builder_defs new_request_empty resource_valid status_valid name_part_def
    call_valid_def addressed_def blank queryparams_Convert_def
  show "addressed c k (real_request c enc k)"
    using assms find by (cases k) (auto simp: defs)
  show "rq_params (real_request c enc k) =
      fold (\<lambda>(k, vs) m. gput k (values_of m k @ vs) m) (queryparams_Convert (call_fields k)) []"
    using assms find by (cases k) (auto simp: defs)
qed

text \<open>The path of a request that has no error, by its segments.\<close>

definition object_segments :: "call \<Rightarrow> string list" where
  "object_segments k = name_part k @ filter (\<lambda>s. s \<noteq> []) (call_subresources k)"

lemma object_segments_ok: "call_valid enc k \<Longrightarrow> list_all segment_ok (object_segments k)"
  by (auto simp: object_segments_def call_valid_def list_all_iff valid_segment_ok)

lemma subresource_segments:
  assumes "list_all (\<lambda>s. IsValidPathSegmentName s = []) ss"
  shows "segments (path_Join ss) = filter (\<lambda>s. s \<noteq> []) ss"
proof -
  have "list_all (\<lambda>s. CHR ''/'' \<notin> set s \<and> \<not> dotted s) ss"
    using assms by (auto simp: list_all_iff valid_segment_iff)
  moreover have "list_all segment_ok (filter (\<lambda>s. s \<noteq> []) ss)"
    using assms by (auto simp: list_all_iff valid_segment_ok)
  ultimately show ?thesis by (simp add: path_Join_relative segments_join)
qed

lemma real_request_path:
  assumes "rc_versionedAPIPath c = absolute api_segments"
    and base: "\<not> list_ex dotted (segments (u_path (rc_base c)))"
    and valid: "call_valid enc k"
  shows "request_path (real_request c enc k) =
    absolute (segments (u_path (rc_base c)) @ api_segments @ [mpc_resource] @ object_segments k)"
proof -
  let ?r = "real_request c enc k" and ?b = "segments (u_path (rc_base c))"
  have a: "addressed c k ?r" by (rule real_request_addressed(1) [OF valid])
  have b_ok: "list_all segment_ok ?b"
    using base split_pieces by (fastforce simp: segment_ok_def list_all_iff list_ex_iff segments_def)
  let ?p = "absolute (?b @ api_segments)"
  have pre: "rq_pathPrefix ?r = ?p"
    using a new_request_prefix [OF assms(1) base] by (simp add: addressed_def)
  have root: "has_prefix (absolute ss) ''/''" for ss
    by (simp add: absolute_def has_prefix_def)
  have dots: "\<not> list_ex dotted ss" if "list_all segment_ok ss" for ss
    using that by (auto simp: list_ex_iff list_all_iff segment_ok_def)
  have one: "segments mpc_resource = [mpc_resource]"
    using api_segments_ok by (simp add: segments_one)
  have ok: "list_all segment_ok (?b @ api_segments @ [mpc_resource])"
    using api_segments_ok b_ok by simp
  have collection: "path_Join [?p, mpc_resource] = absolute (?b @ api_segments @ [mpc_resource])"
    using path_Join_absolute [OF root, of "?b @ api_segments" "[mpc_resource]"] ok dots [OF ok]
    by (simp add: one)
  have named: "segments (concat (name_part k)) = name_part k"
    using valid by (auto simp: name_part_def call_valid_def segments_one valid_segment_ok split: option.split)
  have subs: "segments (path_Join (call_subresources k)) = filter (\<lambda>s. s \<noteq> []) (call_subresources k)"
    using valid by (intro subresource_segments) (simp add: call_valid_def)
  have all_ok: "list_all segment_ok (?b @ api_segments @ [mpc_resource] @ object_segments k)"
    using ok object_segments_ok [OF valid] by simp
  have object: "path_Join [absolute (?b @ api_segments @ [mpc_resource]), concat (name_part k),
      path_Join (call_subresources k), []] =
      absolute (?b @ api_segments @ [mpc_resource] @ object_segments k)"
    using path_Join_absolute [OF root, of "?b @ api_segments @ [mpc_resource]"
        "[concat (name_part k), path_Join (call_subresources k), []]"] ok dots [OF all_ok]
    by (simp add: named subs object_segments_def)
  have none: "object_segments k = []" if "concat (name_part k) = []" "path_Join (call_subresources k) = []"
  proof -
    have "name_part k = []" using that(1) named by (metis segments_Nil)
    with that(2) subs show ?thesis by (simp add: object_segments_def)
  qed
  show ?thesis
    using a object none collection pre resource_valid(2)
    by (auto simp: request_path_def addressed_def Let_def to_lower_resource)
qed

section \<open>Reading a call back\<close>

fun recorded :: "selectors \<Rightarrow> call \<Rightarrow> Action option" where
  "recorded sl (CallGet n opts) = Some (NewRootGetAction n)"
| "recorded sl (CallList opts) = NewRootListAction sl opts"
| "recorded sl (CallWatch opts) = NewRootWatchAction sl opts"
| "recorded sl (CallCreate x opts) = Some (NewRootCreateAction x)"
| "recorded sl (CallUpdate x opts) = Some (NewRootUpdateAction x)"
| "recorded sl (CallUpdateStatus x opts) = Some (NewRootUpdateSubresourceAction ''status'' x)"
| "recorded sl (CallDelete n opts) = Some (NewRootDeleteAction n)"
| "recorded sl (CallDeleteCollection opts lo) = NewRootDeleteCollectionAction sl lo"
| "recorded sl (CallPatch n pt data opts subs) = Some (NewRootPatchSubresourceAction n pt data subs)"

lemma Invokes_records: "fk_actions (snd (Invokes a dflt f)) = fk_actions f @ [a]"
  "fk_actions (snd (InvokesWatch a f)) = fk_actions f @ [a]"
  by (simp_all add: Invokes_def InvokesWatch_def split: prod.split)

lemma Invokes_recordsD: "Invokes a dflt f = (r, f') \<Longrightarrow> fk_actions f' = fk_actions f @ [a]"
  "InvokesWatch a f = (rw, f') \<Longrightarrow> fk_actions f' = fk_actions f @ [a]"
  using Invokes_records(1) [of a dflt f] Invokes_records(2) [of a f] by simp_all

lemma fake_run_records:
  "fk_actions (fake_run sl blank k f) =
     fk_actions f @ (case recorded sl k of None \<Rightarrow> [] | Some a \<Rightarrow> [a])"
proof -
  have object: "fk_actions (snd (fake_object_call a blank f)) = fk_actions f @ [a]" for a
    by (auto simp: fake_object_call_def dest: Invokes_recordsD split: prod.split)
  show ?thesis
  proof (cases k)
    case (CallList opts)
    then show ?thesis
      by (auto simp: fake_List_def NewRootListAction_def restricted_def dest: Invokes_recordsD
          split: prod.split option.split ret.split)
  next
    case (CallWatch opts)
    then show ?thesis
      by (auto simp: fake_Watch_def dest: Invokes_recordsD split: prod.split option.split)
  next
    case (CallDelete n opts)
    then show ?thesis
      by (auto simp: fake_Delete_def dest: Invokes_recordsD split: prod.split)
  next
    case (CallDeleteCollection opts lo)
    then show ?thesis
      by (auto simp: fake_DeleteCollection_def dest: Invokes_recordsD split: prod.split option.split)
  qed (simp_all add: fake_Get_def fake_Create_def fake_Update_def fake_UpdateStatus_def fake_Patch_def object)
qed

lemma request_query_values:
  assumes valid: "call_valid enc k" and "key \<noteq> ''timeout''"
  shows "values_of (parse_query (values_Encode (request_query (real_request c enc k)))) key =
    values_of (queryparams_Convert (call_fields k)) key"
proof -
  let ?r = "real_request c enc k"
  have blank: "gmap_ok ([] :: url_values)" by (simp add: gmap_ok_def)
  have ok: "gmap_ok (rq_params ?r)"
    unfolding real_request_addressed(2) [OF valid] by (rule add_params_ok [OF blank])
  have "values_of (rq_params ?r) key = values_of (queryparams_Convert (call_fields k)) key"
    unfolding real_request_addressed(2) [OF valid] add_params_values [OF Convert_ok]
    by (simp add: values_of_def)
  moreover have "gmap_ok (request_query ?r)"
    using ok by (simp add: request_query_def gm.ok_put)
  moreover have "values_of (request_query ?r) key = values_of (rq_params ?r) key"
    using assms(2) by (simp add: request_query_def values_of_def gm.get_put)
  ultimately show ?thesis by (simp add: parse_Encode)
qed

text \<open>The server reads the segments of the path and the parameters that were sent.\<close>

definition plain_call :: "call \<Rightarrow> bool" where
  "plain_call k \<longleftrightarrow>
     (case k of
        CallList opts \<Rightarrow> \<not> lo_Watch opts
      | CallPatch n pt data opts subs \<Rightarrow> length (filter (\<lambda>s. s \<noteq> []) subs) \<le> 1
      | _ \<Rightarrow> True)"

definition server_info :: "(url_values \<Rightarrow> string option) \<Rightarrow> call \<Rightarrow> url_values \<Rightarrow> RequestInfo \<Rightarrow> RequestInfo" where
  "server_info exactName k q info =
     read_parts exactName (verb_of_method (call_method k)) False q (mpc_resource # object_segments k) info"

lemma server_reads:
  assumes path: "rc_versionedAPIPath c = absolute api_segments"
    and base: "segments (u_path (rc_base c)) = []"
    and valid: "call_valid enc k"
  shows "\<exists>info q. NewRequestInfo [''api'', ''apis''] [''api''] exactName (newHTTPRequest (real_request c enc k)) =
      Inr (server_info exactName k q info) \<and>
      ri_APIPrefix info = ''apis'' \<and> ri_APIGroup info = gv_Group SchemeGroupVersion \<and>
      ri_APIVersion info = gv_Version SchemeGroupVersion \<and>
      (\<forall>key. key \<noteq> ''timeout'' \<longrightarrow> values_of q key = values_of (queryparams_Convert (call_fields k)) key)"
proof -
  let ?r = "real_request c enc k"
  let ?s = "newHTTPRequest ?r"
  obtain t where uri: "cut CHR ''?'' (sr_uri ?s) = (escape_path (request_path ?r), values_Encode (request_query ?r), t)"
    using sent_uri_cut [of ?r] by (metis prod.collapse)
  have p: "request_path ?r = absolute (api_segments @ [mpc_resource] @ object_segments k)"
    using real_request_path [OF path _ valid] base by simp
  have "list_all segment_ok (api_segments @ [mpc_resource] @ object_segments k)"
    using api_segments_ok object_segments_ok [OF valid] by simp
  then have parts: "splitPath (request_path ?r) = api_segments @ mpc_resource # object_segments k"
    unfolding p by (subst splitPath_absolute) (simp_all add: api_segments_def)
  have m: "sr_method ?s = call_method k"
    using real_request_addressed(1) [OF valid, of c] by (simp add: newHTTPRequest_def Let_def addressed_def)
  have res: "mpc_resource \<noteq> ''proxy''" "mpc_resource \<noteq> ''watch''" by (simp_all add: mpc_resource_def)
  show ?thesis
    by ((intro exI [of _ "parse_query (values_Encode (request_query ?r))"] exI conjI),
        simp_all add: NewRequestInfo_def uri unescape_escape_path parts Let_def api_segments_def res m
         server_info_def request_query_values [OF valid] SchemeGroupVersion_def)
       simp_all
qed

definition server_verb :: "string \<Rightarrow> string" where
  "server_verb v = (if v = ''delete-collection'' then ''deletecollection'' else v)"

definition action_target :: "Action \<Rightarrow> string" where
  "action_target a = (case ac_Object a of None \<Rightarrow> ac_Name a | Some x \<Rightarrow> mpc_Name x)"

fun call_list_options :: "call \<Rightarrow> ListOptions list" where
  "call_list_options (CallList opts) = [opts]"
| "call_list_options (CallWatch opts) = [opts]"
| "call_list_options (CallDeleteCollection opts lo) = [lo]"
| "call_list_options k = []"

definition agrees_with :: "Action \<Rightarrow> RequestInfo \<Rightarrow> bool" where
  "agrees_with a info \<longleftrightarrow>
     ri_IsResourceRequest info \<and> ri_Namespace info = [] \<and>
     ri_Resource info = ac_Resource a \<and> ri_Subresource info = ac_Subresource a \<and>
     ri_Verb info = server_verb (ac_Verb a) \<and>
     (ac_Verb a \<in> {''get'', ''update'', ''delete'', ''patch''} \<longrightarrow> ri_Name info = action_target a)"

lemma namespace_parts_resource: "namespace_parts (mpc_resource # ss) = ([], mpc_resource # ss)"
  by (cases ss) (simp_all add: namespace_parts_def mpc_resource_def)

lemmas reading_defs = server_info_def read_parts_def namespace_parts_resource object_segments_def
  name_part_def resource_verb_def verb_of_method_def agrees_with_def server_verb_def action_target_def

lemmas action_defs = root_action_def restricted_def ExtractFromListOptions_def NewRootGetAction_def
  NewRootListAction_def NewRootWatchAction_def NewRootCreateAction_def NewRootUpdateAction_def
  NewRootUpdateSubresourceAction_def NewRootDeleteAction_def NewRootDeleteCollectionAction_def
  NewRootPatchSubresourceAction_def

lemma list_values:
  "values_of (queryparams_Convert (ListOptions_fields opts)) ''watch'' = (if lo_Watch opts then [''true''] else [])"
  "values_of (queryparams_Convert (ListOptions_fields opts)) ''labelSelector'' =
     (if lo_LabelSelector opts = [] then [] else [lo_LabelSelector opts])"
  "values_of (queryparams_Convert (ListOptions_fields opts)) ''fieldSelector'' =
     (if lo_FieldSelector opts = [] then [] else [lo_FieldSelector opts])"
  by (simp_all add: Convert_values ListOptions_fields_def bool_text_def)

lemma patch_reads:
  assumes "length (filter (\<lambda>s. s \<noteq> []) subs) \<le> 1" and "list_all (\<lambda>s. IsValidPathSegmentName s = []) subs"
  shows "path_Join subs = concat (filter (\<lambda>s. s \<noteq> []) subs)"
proof -
  have "list_all (\<lambda>s. CHR ''/'' \<notin> set s \<and> \<not> dotted s) subs"
    using assms(2) by (auto simp: list_all_iff valid_segment_iff)
  then show ?thesis
    using assms(1) by (cases "filter (\<lambda>s. s \<noteq> []) subs") (simp_all add: path_Join_relative)
qed

lemma watch_flag_values:
  "values_of q ''watch'' = (if w then [''true''] else []) \<Longrightarrow> watch_flag q = w"
  by (simp add: watch_flag_def lower_char_def is_upper_def)

lemma server_info_agrees:
  assumes valid: "call_valid enc k" and plain: "plain_call k"
    and q: "\<And>key. key \<noteq> ''timeout'' \<Longrightarrow> values_of q key = values_of (queryparams_Convert (call_fields k)) key"
    and a: "recorded sl k = Some a"
  shows "agrees_with a (server_info exactName k q info)"
proof (cases k)
  case (CallList opts)
  have "watch_flag q = False"
    using q [of "''watch''"] plain by (intro watch_flag_values) (simp add: CallList list_values plain_call_def)
  then show ?thesis using a by (auto simp: CallList reading_defs action_defs split: option.splits)
next
  case (CallWatch opts)
  have "watch_flag q = True"
    using q [of "''watch''"] by (intro watch_flag_values) (simp add: CallWatch list_values)
  then show ?thesis using a by (auto simp: CallWatch reading_defs action_defs split: option.splits)
next
  case (CallPatch n pt data opts subs)
  then have "n \<noteq> []" "path_Join subs = concat (filter (\<lambda>s. s \<noteq> []) subs)"
    using valid plain by (auto simp: call_valid_def name_part_def plain_call_def intro!: patch_reads)
  with plain a show ?thesis
    by (cases "filter (\<lambda>s. s \<noteq> []) subs") (auto simp: CallPatch reading_defs action_defs plain_call_def)
qed (use valid a in \<open>auto simp: reading_defs action_defs call_valid_def split: option.splits\<close>)

lemma server_info_selectors:
  assumes "call_list_options k = [lo]"
    and q: "\<And>key. key \<noteq> ''timeout'' \<Longrightarrow> values_of q key = values_of (queryparams_Convert (call_fields k)) key"
  shows "ri_LabelSelector (server_info exactName k q info) = lo_LabelSelector lo"
    and "ri_FieldSelector (server_info exactName k q info) = lo_FieldSelector lo"
  using assms(1) q [of "''labelSelector''"] q [of "''fieldSelector''"]
  by (cases k; simp add: reading_defs first_query_value_def list_values)+

section \<open>Properties\<close>

text \<open>C15. Whatever name or subresource a caller passes to the generated client, a request that is sent
  has the path of the collection followed by the name and the subresources as segments of their own:
  none of them is empty, a dot, two dots or holds a slash, so no name leads out of the collection or
  to another object. A call with a name, subresource or object that is refused sends nothing.\<close>

theorem requests_stay_in_the_collection:
  assumes "proxy_NewForConfigAndClient env cfg h fresh = Inr (pc, fresh')"
    and "\<not> list_ex dotted (segments (u_path (rc_base (pv_restClient pc))))"
  shows "if call_valid enc k
    then \<exists>sent. Do Inr (real_request (pv_restClient pc) enc k) = Inr sent \<and>
      fst (cut CHR ''?'' (sr_uri sent)) =
        escape_path (absolute (segments (u_path (rc_base (pv_restClient pc))) @ api_segments @
          [mpc_resource] @ object_segments k)) \<and>
      list_all segment_ok (object_segments k) \<and> sr_method sent = call_method k
    else \<exists>e. \<forall>send. Do send (real_request (pv_restClient pc) enc k) = (Inl e :: string + 'r)"
proof (cases "call_valid enc k")
  case True
  let ?r = "real_request (pv_restClient pc) enc k"
  have "request_path ?r = absolute (segments (u_path (rc_base (pv_restClient pc))) @ api_segments @
      [mpc_resource] @ object_segments k)"
    by (rule real_request_path [OF proxy_client_path [OF assms(1)] assms(2) True])
  moreover have "sr_method (newHTTPRequest ?r) = call_method k"
    using real_request_addressed(1) [OF True, of "pv_restClient pc"]
    by (simp add: newHTTPRequest_def Let_def addressed_def)
  moreover have "Do Inr ?r = Inr (newHTTPRequest ?r)"
    using real_request_err [of "pv_restClient pc" enc k] True by (simp add: Do_def)
  ultimately show ?thesis
    using True object_segments_ok [OF True] by (simp add: sent_uri_cut)
next
  case False
  then obtain e where "rq_err (real_request (pv_restClient pc) enc k) = Some e"
    using real_request_err [of "pv_restClient pc" enc k] by auto
  with False show ?thesis by (auto simp: Do_def)
qed

text \<open>C16. For every call on the interface that the generated client and its fake share, an API server
  at the root of its host reads from the request that is sent the group, version, resource,
  subresource, verb and name of the action that the fake records, and the selectors of the options.
  Left out are a patch of nested subresources, of which the server takes the first, and a list with
  the watch option set, which the server takes for a watch.\<close>

theorem server_reads_recorded_action:
  assumes made: "proxy_NewForConfigAndClient env cfg h fresh = Inr (pc, fresh')"
    and base: "segments (u_path (rc_base (pv_restClient pc))) = []"
    and plain: "plain_call k"
    and sent: "Do Inr (real_request (pv_restClient pc) enc k) = Inr sent"
    and fake: "fk_actions (fake_run sl blank k f) = fk_actions f @ [a]"
  shows "\<exists>info. NewRequestInfo [''api'', ''apis''] [''api''] exactName sent = Inr info \<and>
    ri_APIGroup info = gv_Group (ac_GroupVersion a) \<and>
    ri_APIVersion info = gv_Version (ac_GroupVersion a) \<and> agrees_with a info \<and>
    list_all (\<lambda>lo. ri_LabelSelector info = lo_LabelSelector lo \<and> ri_FieldSelector info = lo_FieldSelector lo)
      (call_list_options k)"
proof -
  let ?r = "real_request (pv_restClient pc) enc k"
  have valid: "call_valid enc k" and s: "sent = newHTTPRequest ?r"
    using sent real_request_err [of "pv_restClient pc" enc k]
    by (auto simp: Do_def split: option.splits)
  have a: "recorded sl k = Some a"
    using fake by (simp add: fake_run_records split: option.splits)
  then have gv: "ac_GroupVersion a = SchemeGroupVersion"
    by (cases k) (auto simp: action_defs split: option.splits)
  obtain info q where info: "NewRequestInfo [''api'', ''apis''] [''api''] exactName sent =
        Inr (server_info exactName k q info)"
      "ri_APIGroup info = gv_Group SchemeGroupVersion" "ri_APIVersion info = gv_Version SchemeGroupVersion"
    and q: "\<And>key. key \<noteq> ''timeout'' \<Longrightarrow> values_of q key = values_of (queryparams_Convert (call_fields k)) key"
    using server_reads [OF proxy_client_path [OF made] base valid, of exactName] unfolding s by blast
  have lo: "call_list_options k = [] \<or> (\<exists>lo. call_list_options k = [lo])"
    by (cases k) simp_all
  have "list_all (\<lambda>lo. ri_LabelSelector (server_info exactName k q info) = lo_LabelSelector lo \<and>
      ri_FieldSelector (server_info exactName k q info) = lo_FieldSelector lo) (call_list_options k)"
    using lo server_info_selectors [OF _ q] by auto
  moreover have "agrees_with a (server_info exactName k q info)"
    by (rule server_info_agrees [OF valid plain q a])
  moreover have "ri_APIGroup (server_info exactName k q info) = ri_APIGroup info"
    "ri_APIVersion (server_info exactName k q info) = ri_APIVersion info"
    by (simp_all add: server_info_def read_parts_def namespace_parts_resource Let_def)
  ultimately show ?thesis using info by (auto simp: gv)
qed

definition example_client_env :: client_env where
  "example_client_env = \<lparr>ce_ipl = (\<lambda>s. Inl BadIPLiteral),
     ce_HTTPClientFor = (\<lambda>cfg. Inr \<lparr>hc_id = 1, hc_Timeout = cf_Timeout cfg\<rparr>), ce_userAgent = ''manager''\<rparr>"

definition example_rest_config :: rest_config where
  "example_rest_config = \<lparr>cf_Host = ''https://hub:6443'', cf_APIPath = [], cf_GroupVersion = None,
     cf_Serializer = False, cf_TLS = True, cf_UserAgent = [], cf_QPS = 20, cf_Burst = 30,
     cf_RateLimiter = None, cf_Timeout = 0, cf_ContentType = ''application/json''\<rparr>"

definition example_rest_client :: RESTClient where
  "example_rest_client =
     \<lparr>rc_base = \<lparr>u_scheme = ''https'', u_opaque = [], u_host = ''hub:6443'', u_path = ''/'', u_raw_path = [],
                 u_raw_query = []\<rparr>,
      rc_versionedAPIPath = absolute api_segments, rc_ContentType = ''application/json'',
      rc_rateLimiter = Some \<lparr>li_id = 0, li_qps = 20, li_burst = 30\<rparr>, rc_Client = \<lparr>hc_id = 1, hc_Timeout = 0\<rparr>\<rparr>"

definition example_codec :: codec where
  "example_codec = \<lparr>co_object = (\<lambda>x. Inr (mpc_Name x)), co_deleteOptions = (\<lambda>opts. Inr ''{}'')\<rparr>"

definition example_call :: call where
  "example_call = CallUpdateStatus example_config
     \<lparr>wo_DryRun = [], wo_Force = None, wo_FieldManager = ''manager'', wo_FieldValidation = []\<rparr>"

lemma example_client_made:
  "proxy_NewForConfigAndClient example_client_env example_rest_config \<lparr>hc_id = 1, hc_Timeout = 0\<rparr> 0 =
     Inr (\<lparr>pv_restClient = example_rest_client\<rparr>, 1)"
  by code_simp

lemma example_call_valid: "call_valid example_codec example_call"
  by (simp add: call_valid_def example_call_def name_part_def example_config_def status_valid
      valid_segment_iff dotted_def example_codec_def)

lemma example_base: "segments (u_path (rc_base example_rest_client)) = []"
  by (simp add: example_rest_client_def)

theorem requests_stay_in_the_collection_witness:
  "\<exists>sent. Do Inr (real_request example_rest_client example_codec example_call) = Inr sent \<and>
     fst (cut CHR ''?'' (sr_uri sent)) =
       ''/apis/proxy.open-cluster-management.io/v1alpha1/managedproxyconfigurations/cluster-proxy/status''"
proof -
  have "object_segments example_call = [''cluster-proxy'', ''status'']"
    by (simp add: object_segments_def name_part_def example_call_def example_config_def)
  moreover have "escape_path (absolute (api_segments @ [mpc_resource, ''cluster-proxy'', ''status''])) =
      ''/apis/proxy.open-cluster-management.io/v1alpha1/managedproxyconfigurations/cluster-proxy/status''"
    by code_simp
  ultimately show ?thesis
    using requests_stay_in_the_collection [OF example_client_made, of example_codec example_call]
    by (simp add: example_base example_call_valid) auto
qed

theorem server_reads_recorded_action_witness:
  "\<exists>sent info. Do Inr (real_request example_rest_client example_codec example_call) = Inr sent \<and>
     NewRequestInfo [''api'', ''apis''] [''api''] (\<lambda>q. None) sent = Inr info \<and>
     ri_Verb info = ''update'' \<and> ri_Name info = ''cluster-proxy'' \<and> ri_Subresource info = ''status''"
proof -
  have a: "fk_actions (fake_run \<lparr>sl_label = (\<lambda>s. None), sl_field = (\<lambda>s. None)\<rparr> example_config example_call
      \<lparr>fk_actions = [], fk_chain = [], fk_watchChain = [], fk_world = ()\<rparr>) =
      fk_actions \<lparr>fk_actions = [], fk_chain = [], fk_watchChain = [], fk_world = ()\<rparr> @ [NewRootUpdateSubresourceAction ''status'' example_config]"
    unfolding fake_run_records by (simp add: example_call_def)
  obtain sent where sent: "Do Inr (real_request example_rest_client example_codec example_call) = Inr sent"
    using example_call_valid real_request_err [of example_rest_client example_codec example_call]
    by (simp add: Do_def)
  have "plain_call example_call" by (simp add: plain_call_def example_call_def)
  from server_reads_recorded_action [OF example_client_made _ this _ a, of example_codec sent "\<lambda>q. None"] sent
  show ?thesis
    by (auto simp: example_base agrees_with_def action_defs server_verb_def action_target_def example_config_def)
qed

lemma unversioned_client:
  assumes "UnversionedRESTClientForConfigAndClient ipl cfg h fresh = Inr (c, fresh')"
  shows "rc_rateLimiter c = fst (rate_limiter_for cfg fresh)" "fresh' = snd (rate_limiter_for cfg fresh)"
    "rc_Client c = h"
  using assms
  by (auto simp: UnversionedRESTClientForConfigAndClient_def NewRESTClient_def
      split: sum.splits prod.splits if_splits)

lemma clientset_clients:
  assumes "NewForConfigAndClient env cfg h fresh = Inr (cs, fresh')"
  obtains shallow fresh1 fresh2 where
    "(shallow, fresh1) = (if cf_RateLimiter cfg = None \<and> 0 < cf_QPS cfg
       then (cfg\<lparr>cf_RateLimiter := Some \<lparr>li_id = fresh, li_qps = cf_QPS cfg, li_burst = cf_Burst cfg\<rparr>\<rparr>, Suc fresh)
       else (cfg, fresh))"
    "UnversionedRESTClientForConfigAndClient (ce_ipl env) (setConfigDefaults env shallow) h fresh1 =
       Inr (pv_restClient (cs_proxyV1alpha1 cs), fresh2)"
    "UnversionedRESTClientForConfigAndClient (ce_ipl env) (setDiscoveryDefaults env shallow) h fresh2 =
       Inr (cs_discovery cs, fresh')"
proof -
  define p where "p = (if cf_RateLimiter cfg = None \<and> 0 < cf_QPS cfg
       then (cfg\<lparr>cf_RateLimiter := Some \<lparr>li_id = fresh, li_qps = cf_QPS cfg, li_burst = cf_Burst cfg\<rparr>\<rparr>, Suc fresh)
       else (cfg, fresh))"
  obtain shallow fresh1 where sh: "p = (shallow, fresh1)" by (cases p)
  have "(case proxy_NewForConfigAndClient env shallow h fresh1 of
           Inl e \<Rightarrow> Inl e
         | Inr (pc, fresh2) \<Rightarrow>
             (case NewDiscoveryClientForConfigAndClient env shallow h fresh2 of
                Inl e \<Rightarrow> Inl e
              | Inr (dc, fresh3) \<Rightarrow> Inr (\<lparr>cs_discovery = dc, cs_proxyV1alpha1 = pc\<rparr>, fresh3))) = Inr (cs, fresh')"
    using assms sh unfolding NewForConfigAndClient_def p_def
    by (simp add: NewTokenBucketRateLimiter_def split: if_splits)
  then obtain pc fresh2 dc where
    made: "proxy_NewForConfigAndClient env shallow h fresh1 = Inr (pc, fresh2)"
      "NewDiscoveryClientForConfigAndClient env shallow h fresh2 = Inr (dc, fresh')"
      "cs = \<lparr>cs_discovery = dc, cs_proxyV1alpha1 = pc\<rparr>"
    by (auto split: sum.splits prod.splits)
  have "UnversionedRESTClientForConfigAndClient (ce_ipl env) (setConfigDefaults env shallow) h fresh1 =
      Inr (pv_restClient pc, fresh2)"
    using made(1) by (auto simp: proxy_NewForConfigAndClient_def RESTClientForConfigAndClient_def
        setConfigDefaults_def split: sum.splits)
  with made sh show ?thesis
    unfolding p_def by (intro that) (simp_all add: NewDiscoveryClientForConfigAndClient_def)
qed

text \<open>The two clients of a client set use one HTTP client. They share one rate limiter when the
  configuration has one or sets a positive rate: the configured one, or a bucket with exactly that
  rate and burst. Without a rate each client gets a bucket of its own with the default rate, and with
  a negative rate none is limited.\<close>

theorem clients_share_rate_limiter:
  assumes "NewForConfigAndClient env cfg h fresh = Inr (cs, fresh')"
  shows "rc_Client (pv_restClient (cs_proxyV1alpha1 cs)) = h \<and> rc_Client (cs_discovery cs) = h \<and>
    (rc_rateLimiter (pv_restClient (cs_proxyV1alpha1 cs)), rc_rateLimiter (cs_discovery cs)) =
      (case cf_RateLimiter cfg of
         Some l \<Rightarrow> (Some l, Some l)
       | None \<Rightarrow>
           if 0 < cf_QPS cfg then
             (let l = \<lparr>li_id = fresh, li_qps = cf_QPS cfg, li_burst = cf_Burst cfg\<rparr> in (Some l, Some l))
           else if cf_QPS cfg = 0 then
             (Some \<lparr>li_id = fresh, li_qps = 5, li_burst = (if cf_Burst cfg = 0 then 10 else cf_Burst cfg)\<rparr>,
              Some \<lparr>li_id = Suc fresh, li_qps = 5, li_burst = (if cf_Burst cfg = 0 then 300 else cf_Burst cfg)\<rparr>)
           else (None, None))"
proof -
  obtain shallow fresh1 fresh2 where sh: "(shallow, fresh1) = (if cf_RateLimiter cfg = None \<and> 0 < cf_QPS cfg
       then (cfg\<lparr>cf_RateLimiter := Some \<lparr>li_id = fresh, li_qps = cf_QPS cfg, li_burst = cf_Burst cfg\<rparr>\<rparr>, Suc fresh)
       else (cfg, fresh))"
    and p: "UnversionedRESTClientForConfigAndClient (ce_ipl env) (setConfigDefaults env shallow) h fresh1 =
       Inr (pv_restClient (cs_proxyV1alpha1 cs), fresh2)"
    and d: "UnversionedRESTClientForConfigAndClient (ce_ipl env) (setDiscoveryDefaults env shallow) h fresh2 =
       Inr (cs_discovery cs, fresh')"
    by (rule clientset_clients [OF assms])
  show ?thesis
    using sh unversioned_client [OF p] unversioned_client [OF d]
    by (auto simp: rate_limiter_for_def setConfigDefaults_def setDiscoveryDefaults_def DefaultQPS_def
        DefaultBurst_def NewTokenBucketRateLimiter_def Let_def split: option.splits if_splits)
qed

lemma example_clientset_made:
  "NewForConfigAndClient example_client_env example_rest_config \<lparr>hc_id = 1, hc_Timeout = 0\<rparr> 0 =
     Inr (\<lparr>cs_discovery = example_rest_client\<lparr>rc_versionedAPIPath := ''/''\<rparr>,
           cs_proxyV1alpha1 = \<lparr>pv_restClient = example_rest_client\<rparr>\<rparr>, 1)"
  by code_simp

theorem clients_share_rate_limiter_witness:
  "rc_rateLimiter example_rest_client = Some \<lparr>li_id = 0, li_qps = 20, li_burst = 30\<rparr>"
  using clients_share_rate_limiter [OF example_clientset_made]
  by (simp add: example_rest_config_def Let_def)

end
