(* ===== verification/Informers.thy ===== *)
theory Informers
  imports Typed_Client
begin

text \<open>
  The generated shared informer factory and lister (pkg/generated/informers, pkg/generated/listers).
  Every operation of the factory holds its lock, so the operations of several goroutines are a
  sequence of steps. The theorems show that an informer is made once per type, is never run twice
  and runs after the next start, and that the requests of an informer stay in the collection.
\<close>

section \<open>Informers\<close>

text \<open>\<open>cache.NewSharedIndexInformer\<close> makes a new object: the number \<open>in_id\<close>. Its list and watch
  functions are the requests they send.\<close>

record informer =
  in_id :: nat
  in_type :: string
  in_resync :: int
  in_indexers :: "string list"
  in_ListFunc :: "ListOptions \<Rightarrow> Request"
  in_WatchFunc :: "ListOptions \<Rightarrow> Request"

type_synonym tweak = "(ListOptions \<Rightarrow> ListOptions) option"

definition tweaked :: "tweak \<Rightarrow> ListOptions \<Rightarrow> ListOptions" where
  "tweaked t opts = (case t of None \<Rightarrow> opts | Some f \<Rightarrow> f opts)"

definition mpc_type :: string where
  "mpc_type = ''*v1alpha1.ManagedProxyConfiguration''"

definition NewFilteredManagedProxyConfigurationInformer ::
  "RESTClient \<Rightarrow> int \<Rightarrow> string list \<Rightarrow> tweak \<Rightarrow> nat \<Rightarrow> informer" where
  "NewFilteredManagedProxyConfigurationInformer client resync indexers t fresh =
     \<lparr>in_id = fresh, in_type = mpc_type, in_resync = resync, in_indexers = indexers,
      in_ListFunc = (\<lambda>opts. mpc_List client (tweaked t opts)),
      in_WatchFunc = (\<lambda>opts. mpc_Watch client (tweaked t opts))\<rparr>"

definition NewManagedProxyConfigurationInformer :: "RESTClient \<Rightarrow> int \<Rightarrow> string list \<Rightarrow> nat \<Rightarrow> informer" where
  "NewManagedProxyConfigurationInformer client resync indexers =
     NewFilteredManagedProxyConfigurationInformer client resync indexers None"

definition NamespaceIndex :: string where
  "NamespaceIndex = ''namespace''"

definition defaultInformer :: "tweak \<Rightarrow> RESTClient \<Rightarrow> int \<Rightarrow> nat \<Rightarrow> informer" where
  "defaultInformer t client resync =
     NewFilteredManagedProxyConfigurationInformer client resync [NamespaceIndex] t"

section \<open>The factory\<close>

text \<open>\<open>sf_runs\<close> records the informers for which a goroutine was launched with \<open>Run\<close> (an informer
  whose stop channel is closed later stays recorded, as it stays started for the factory), \<open>sf_next\<close> the objects made
  so far.\<close>

record sharedInformerFactory =
  sf_client :: RESTClient
  sf_namespace :: string
  sf_tweakListOptions :: tweak
  sf_defaultResync :: int
  sf_customResync :: "(string, int) gmap"
  sf_informers :: "(string, informer) gmap"
  sf_startedInformers :: "(string, bool) gmap"
  sf_runs :: "nat list"
  sf_next :: nat

type_synonym factory_option = "sharedInformerFactory \<Rightarrow> sharedInformerFactory"

definition WithCustomResyncConfig :: "(string \<times> int) list \<Rightarrow> factory_option" where
  "WithCustomResyncConfig resyncConfig f =
     f\<lparr>sf_customResync := fold (\<lambda>(k, v). gput k v) resyncConfig (sf_customResync f)\<rparr>"

definition WithTweakListOptions :: "tweak \<Rightarrow> factory_option" where
  "WithTweakListOptions t f = f\<lparr>sf_tweakListOptions := t\<rparr>"

definition WithNamespace :: "string \<Rightarrow> factory_option" where
  "WithNamespace ns f = f\<lparr>sf_namespace := ns\<rparr>"

definition NewSharedInformerFactoryWithOptions ::
  "RESTClient \<Rightarrow> int \<Rightarrow> factory_option list \<Rightarrow> sharedInformerFactory" where
  "NewSharedInformerFactoryWithOptions client resync options =
     fold (\<lambda>opt. opt) options
       \<lparr>sf_client = client, sf_namespace = [], sf_tweakListOptions = None, sf_defaultResync = resync,
        sf_customResync = [], sf_informers = [], sf_startedInformers = [], sf_runs = [], sf_next = 0\<rparr>"

definition NewSharedInformerFactory :: "RESTClient \<Rightarrow> int \<Rightarrow> sharedInformerFactory" where
  "NewSharedInformerFactory client resync = NewSharedInformerFactoryWithOptions client resync []"

definition NewFilteredSharedInformerFactory ::
  "RESTClient \<Rightarrow> int \<Rightarrow> string \<Rightarrow> tweak \<Rightarrow> sharedInformerFactory" where
  "NewFilteredSharedInformerFactory client resync ns t =
     NewSharedInformerFactoryWithOptions client resync [WithNamespace ns, WithTweakListOptions t]"

definition started :: "sharedInformerFactory \<Rightarrow> string \<Rightarrow> bool" where
  "started f t = (case gget (sf_startedInformers f) t of None \<Rightarrow> False | Some b \<Rightarrow> b)"

definition start_one :: "string \<times> informer \<Rightarrow> sharedInformerFactory \<Rightarrow> sharedInformerFactory" where
  "start_one p f =
     (case p of
        (t, i) \<Rightarrow>
          if started f t then f
          else f\<lparr>sf_runs := sf_runs f @ [in_id i], sf_startedInformers := gput t True (sf_startedInformers f)\<rparr>)"

definition factory_Start :: "sharedInformerFactory \<Rightarrow> sharedInformerFactory" where
  "factory_Start f = fold start_one (sf_informers f) f"

text \<open>\<open>synced\<close> is what \<open>cache.WaitForCacheSync\<close> answers for an informer.\<close>

definition factory_WaitForCacheSync :: "(nat \<Rightarrow> bool) \<Rightarrow> sharedInformerFactory \<Rightarrow> (string, bool) gmap" where
  "factory_WaitForCacheSync synced f =
     map (\<lambda>(t, i). (t, synced (in_id i))) (filter (\<lambda>(t, i). started f t) (sf_informers f))"

definition InformerFor ::
  "string \<Rightarrow> (RESTClient \<Rightarrow> int \<Rightarrow> nat \<Rightarrow> informer) \<Rightarrow> sharedInformerFactory \<Rightarrow> informer \<times> sharedInformerFactory" where
  "InformerFor t newFunc f =
     (case gget (sf_informers f) t of
        Some i \<Rightarrow> (i, f)
      | None \<Rightarrow>
          (let resyncPeriod = (case gget (sf_customResync f) t of None \<Rightarrow> sf_defaultResync f | Some d \<Rightarrow> d);
               i = newFunc (sf_client f) resyncPeriod (sf_next f)
           in (i, f\<lparr>sf_informers := gput t i (sf_informers f), sf_next := Suc (sf_next f)\<rparr>)))"

text \<open>The way \<open>Proxy().V1alpha1().ManagedProxyConfigurations()\<close> to an informer: a group, a version and an
  access object, each with the factory, which is the state here. The tweak of the factory is carried
  along; the namespace is dropped in the end, as the resource has none.\<close>

record informer_group =
  gr_namespace :: string
  gr_tweakListOptions :: tweak

record informer_version =
  ve_namespace :: string
  ve_tweakListOptions :: tweak

record managedProxyConfigurationInformer =
  mi_tweakListOptions :: tweak

definition factory_Proxy :: "sharedInformerFactory \<Rightarrow> informer_group" where
  "factory_Proxy f = \<lparr>gr_namespace = sf_namespace f, gr_tweakListOptions = sf_tweakListOptions f\<rparr>"

definition group_V1alpha1 :: "informer_group \<Rightarrow> informer_version" where
  "group_V1alpha1 g = \<lparr>ve_namespace = gr_namespace g, ve_tweakListOptions = gr_tweakListOptions g\<rparr>"

definition version_ManagedProxyConfigurations :: "informer_version \<Rightarrow> managedProxyConfigurationInformer" where
  "version_ManagedProxyConfigurations v = \<lparr>mi_tweakListOptions = ve_tweakListOptions v\<rparr>"

definition mpc_Informer :: "sharedInformerFactory \<Rightarrow> informer \<times> sharedInformerFactory" where
  "mpc_Informer f =
     InformerFor mpc_type
       (defaultInformer (mi_tweakListOptions (version_ManagedProxyConfigurations (group_V1alpha1 (factory_Proxy f))))) f"

lemma mpc_Informer_eq: "mpc_Informer f = InformerFor mpc_type (defaultInformer (sf_tweakListOptions f)) f"
  by (simp add: mpc_Informer_def version_ManagedProxyConfigurations_def group_V1alpha1_def factory_Proxy_def)

record genericInformer =
  gi_informer :: informer
  gi_resource :: "string \<times> string"

definition generic_Informer :: "genericInformer \<Rightarrow> informer" where
  "generic_Informer g = gi_informer g"

definition ForResource ::
  "group_version \<Rightarrow> string \<Rightarrow> sharedInformerFactory \<Rightarrow> (string + genericInformer) \<times> sharedInformerFactory" where
  "ForResource gv resource f =
     (if gv = SchemeGroupVersion \<and> resource = mpc_resource then
        (case mpc_Informer f of (i, f') \<Rightarrow> (Inr \<lparr>gi_informer = i, gi_resource = (gv_Group gv, resource)\<rparr>, f'))
      else (Inl (''no informer found for '' @ gv_Group gv @ ''/'' @ gv_Version gv @ '', Resource='' @ resource), f))"

section \<open>Listers\<close>

text \<open>A lister reads the store of an informer: objects by key, which for a resource without namespaces
  is the name. \<open>sel_empty\<close> and \<open>sel_nothing\<close> are the shortcuts a selector answers.\<close>

record list_selector = selector +
  sel_empty :: bool
  sel_nothing :: bool

definition ListAll ::
  "list_selector \<Rightarrow> (string, ManagedProxyConfiguration) gmap \<Rightarrow>
   ManagedProxyConfiguration list" where
  "ListAll sel store =
     (if sel_nothing sel then []
      else if sel_empty sel then map snd store
      else filter (\<lambda>m. se_matches sel (mpc_Labels m)) (map snd store))"

definition lister_List ::
  "list_selector \<Rightarrow> (string, ManagedProxyConfiguration) gmap \<Rightarrow>
   ManagedProxyConfiguration list" where
  "lister_List sel store = ListAll sel store"

definition mpc_Lister ::
  "(nat \<Rightarrow> (string, ManagedProxyConfiguration) gmap) \<Rightarrow> sharedInformerFactory \<Rightarrow>
   (string, ManagedProxyConfiguration) gmap \<times> sharedInformerFactory" where
  "mpc_Lister indexerOf f = (case mpc_Informer f of (i, f') \<Rightarrow> (indexerOf (in_id i), f'))"

datatype lister_error = IndexerError string | NotFound string string

definition lister_Get ::
  "(string \<Rightarrow> string + ManagedProxyConfiguration option) \<Rightarrow> string \<Rightarrow> lister_error + ManagedProxyConfiguration" where
  "lister_Get getByKey name =
     (case getByKey name of
        Inl e \<Rightarrow> Inl (IndexerError e)
      | Inr None \<Rightarrow> Inl (NotFound ''managedproxyconfiguration'' name)
      | Inr (Some x) \<Rightarrow> Inr x)"

text \<open>The lister of a generic informer, over the store of its informer (vendor/k8s.io/client-go/tools/cache/listers.go).\<close>

definition generic_List ::
  "(nat \<Rightarrow> (string, ManagedProxyConfiguration) gmap) \<Rightarrow> genericInformer \<Rightarrow> list_selector \<Rightarrow> ManagedProxyConfiguration list" where
  "generic_List indexerOf g sel = ListAll sel (indexerOf (in_id (generic_Informer g)))"

definition generic_Get ::
  "(string \<Rightarrow> string + ManagedProxyConfiguration option) \<Rightarrow> genericInformer \<Rightarrow> string \<Rightarrow> lister_error + ManagedProxyConfiguration" where
  "generic_Get getByKey g name =
     (case getByKey name of
        Inl e \<Rightarrow> Inl (IndexerError e)
      | Inr None \<Rightarrow> Inl (NotFound (snd (gi_resource g)) name)
      | Inr (Some x) \<Rightarrow> Inr x)"

section \<open>Steps of the factory\<close>

definition generated_option :: "factory_option \<Rightarrow> bool" where
  "generated_option opt \<longleftrightarrow>
     (\<exists>c. opt = WithCustomResyncConfig c) \<or> (\<exists>t. opt = WithTweakListOptions t) \<or> (\<exists>ns. opt = WithNamespace ns)"

definition factory_init :: "sharedInformerFactory \<Rightarrow> bool" where
  "factory_init f \<longleftrightarrow>
     (\<exists>client resync options. (\<forall>opt\<in>set options. generated_option opt) \<and>
        f = NewSharedInformerFactoryWithOptions client resync options)"

text \<open>An informer constructor makes a new informer.\<close>

definition makes_new :: "(RESTClient \<Rightarrow> int \<Rightarrow> nat \<Rightarrow> informer) \<Rightarrow> bool" where
  "makes_new newFunc \<longleftrightarrow> (\<forall>c d n. in_id (newFunc c d n) = n)"

inductive factory_step :: "sharedInformerFactory \<Rightarrow> sharedInformerFactory \<Rightarrow> bool" where
  informer_for: "makes_new newFunc \<Longrightarrow> factory_step f (snd (InformerFor t newFunc f))"
| for_resource: "factory_step f (snd (ForResource gv resource f))"
| start: "factory_step f (factory_Start f)"

inductive_cases factory_stepE: "factory_step f g"

definition factory_inv :: "sharedInformerFactory \<Rightarrow> bool" where
  "factory_inv f \<longleftrightarrow>
     gmap_ok (sf_informers f) \<and> distinct (sf_runs f) \<and>
     set (sf_runs f) = {in_id i | t i. gget (sf_informers f) t = Some i \<and> started f t} \<and>
     (\<forall>t i. gget (sf_informers f) t = Some i \<longrightarrow> in_id i < sf_next f) \<and>
     (\<forall>t t' i i'. gget (sf_informers f) t = Some i \<longrightarrow> gget (sf_informers f) t' = Some i' \<longrightarrow>
        in_id i = in_id i' \<longrightarrow> t = t') \<and>
     (\<forall>t. started f t \<longrightarrow> gget (sf_informers f) t \<noteq> None)"

lemma mem_gmap: "gmap_ok m \<Longrightarrow> (k, v) \<in> set m \<longleftrightarrow> gget m k = Some v"
  by (simp add: gmap_ok_def gget_def map_of_eq_Some_iff)

lemma start_one_started: "started (start_one (t, i) f) t' \<longleftrightarrow> t' = t \<or> started f t'"
  by (auto simp: start_one_def started_def gm.get_put split: option.splits)

lemma fold_start_started:
  "started (fold start_one ps f) t \<longleftrightarrow> t \<in> fst ` set ps \<or> started f t"
proof (induction ps arbitrary: f)
  case (Cons p ps)
  then show ?case by (cases p) (auto simp: start_one_started)
qed simp

lemma fold_start_frame:
  "sf_informers (fold start_one ps f) = sf_informers f" "sf_next (fold start_one ps f) = sf_next f"
proof (induction ps arbitrary: f)
  case (Cons p ps)
  case 1 show ?case by (cases p) (simp add: Cons.IH, simp add: start_one_def)
  case 2 show ?case by (cases p) (simp add: Cons.IH, simp add: start_one_def)
qed simp_all

lemma fold_start_runs:
  "distinct (map fst ps) \<Longrightarrow>
   sf_runs (fold start_one ps f) = sf_runs f @ map (in_id \<circ> snd) (filter (\<lambda>(t, i). \<not> started f t) ps)"
proof (induction ps arbitrary: f)
  case (Cons p ps)
  obtain t i where p: "p = (t, i)" by (cases p)
  have "filter (\<lambda>(t', j). \<not> started (start_one (t, i) f) t') ps = filter (\<lambda>(t', j). \<not> started f t') ps"
    using Cons.prems by (intro filter_cong) (auto simp: p start_one_started image_iff)
  moreover have "sf_runs (start_one (t, i) f) = sf_runs f @ (if started f t then [] else [in_id i])"
    by (simp add: start_one_def)
  ultimately show ?case
    using Cons.IH [of "start_one (t, i) f"] Cons.prems by (simp add: p)
qed simp

text \<open>After a start exactly the requested informers are started, each one is running, and those that
  ran before are not run again.\<close>

lemma factory_Start_facts:
  assumes "gmap_ok (sf_informers f)"
  shows "started (factory_Start f) t \<longleftrightarrow> gget (sf_informers f) t \<noteq> None \<or> started f t"
    and "sf_informers (factory_Start f) = sf_informers f" "sf_next (factory_Start f) = sf_next f"
    and "sf_runs (factory_Start f) =
      sf_runs f @ map (in_id \<circ> snd) (filter (\<lambda>(t, i). \<not> started f t) (sf_informers f))"
  using assms gkeys_iff [of t "sf_informers f"]
  by (auto simp: factory_Start_def fold_start_started fold_start_frame fold_start_runs gmap_ok_def gkeys_def)

lemma factory_inv_start:
  assumes inv: "factory_inv f"
  shows "factory_inv (factory_Start f)"
proof -
  have ok: "gmap_ok (sf_informers f)" using inv by (simp add: factory_inv_def)
  note facts = factory_Start_facts [OF ok]
  let ?new = "filter (\<lambda>(t, i). \<not> started f t) (sf_informers f)"
  have mem: "(t, i) \<in> set (sf_informers f) \<longleftrightarrow> gget (sf_informers f) t = Some i" for t i
    by (rule mem_gmap [OF ok])
  have ids: "t = t' \<and> i = i'" if "(t, i) \<in> set (sf_informers f)" "(t', i') \<in> set (sf_informers f)"
      "in_id i = in_id i'" for t t' i i'
  proof -
    have "t = t'" using inv that unfolding mem factory_inv_def by blast
    with that show ?thesis by (simp add: mem)
  qed
  have "distinct (sf_informers f)"
    using ok by (simp add: gmap_ok_def distinct_map)
  moreover have "inj_on (in_id \<circ> snd) (set ?new)"
    using ids by (fastforce simp: inj_on_def)
  ultimately have new: "distinct (map (in_id \<circ> snd) ?new)"
    by (simp add: distinct_map)
  have new_ids: "in_id ` snd ` set ?new = {in_id i | t i. gget (sf_informers f) t = Some i \<and> \<not> started f t}"
    by (force simp: mem image_iff)
  have "set (sf_runs f) \<inter> in_id ` snd ` set ?new = {}"
    using inv ids unfolding new_ids factory_inv_def mem by blast
  with new have "distinct (sf_runs (factory_Start f))"
    using inv by (simp add: facts factory_inv_def image_comp)
  moreover have "set (sf_runs (factory_Start f)) =
      {in_id i | t i. gget (sf_informers f) t = Some i \<and> started (factory_Start f) t}"
  proof -
    have "set (sf_runs (factory_Start f)) = set (sf_runs f) \<union> in_id ` snd ` set ?new"
      by (simp add: facts image_comp)
    also have "\<dots> = {in_id i | t i. gget (sf_informers f) t = Some i \<and> started f t} \<union>
        {in_id i | t i. gget (sf_informers f) t = Some i \<and> \<not> started f t}"
      using inv unfolding new_ids by (simp add: factory_inv_def)
    also have "\<dots> = {in_id i | t i. gget (sf_informers f) t = Some i \<and> started (factory_Start f) t}"
      by (auto simp: facts)
    finally show ?thesis .
  qed
  ultimately show ?thesis
    using inv by (auto simp: facts factory_inv_def)
qed

lemma factory_inv_new:
  assumes inv: "factory_inv f" and new: "makes_new newFunc"
  shows "factory_inv (snd (InformerFor t newFunc f))"
proof (cases "gget (sf_informers f) t")
  case None
  define d where "d = (case gget (sf_customResync f) t of None \<Rightarrow> sf_defaultResync f | Some d \<Rightarrow> d)"
  define i where "i = newFunc (sf_client f) d (sf_next f)"
  let ?g = "f\<lparr>sf_informers := gput t i (sf_informers f), sf_next := Suc (sf_next f)\<rparr>"
  have g: "snd (InformerFor t newFunc f) = ?g"
    by (simp add: InformerFor_def None Let_def d_def i_def)
  have id: "in_id i = sf_next f" using new by (simp add: i_def makes_new_def)
  have st: "started ?g t' = started f t'" for t' by (simp add: started_def)
  have fresh: "\<not> started f t" using inv None by (auto simp: factory_inv_def)
  have "set (sf_runs ?g) = {in_id j | t' j. gget (gput t i (sf_informers f)) t' = Some j \<and> started ?g t'}"
  proof -
    have "{in_id j | t' j. gget (sf_informers f) t' = Some j \<and> started f t'} =
        {in_id j | t' j. gget (gput t i (sf_informers f)) t' = Some j \<and> started f t'}"
      using fresh by (auto simp: gm.get_put)
    with inv show ?thesis unfolding st by (simp add: factory_inv_def)
  qed
  moreover have "\<forall>t' j. gget (gput t i (sf_informers f)) t' = Some j \<longrightarrow> in_id j < Suc (sf_next f)"
    using inv id by (auto simp: gm.get_put factory_inv_def less_Suc_eq)
  moreover have "t1 = t2" if "gget (gput t i (sf_informers f)) t1 = Some j1"
      "gget (gput t i (sf_informers f)) t2 = Some j2" "in_id j1 = in_id j2" for t1 t2 j1 j2
  proof -
    have below: "in_id j < sf_next f" if "gget (sf_informers f) t' = Some j" for t' j
      using inv that by (auto simp: factory_inv_def)
    show ?thesis
      using that id inv unfolding factory_inv_def
      by (auto simp: gm.get_put dest: below split: if_splits)
  qed
  moreover have "\<forall>t'. started f t' \<longrightarrow> gget (gput t i (sf_informers f)) t' \<noteq> None"
    using inv by (auto simp: factory_inv_def gm.get_put)
  ultimately show ?thesis
    using inv unfolding g by (auto simp: factory_inv_def st gm.ok_put)
qed (use inv in \<open>simp add: InformerFor_def\<close>)

lemma default_makes_new: "makes_new (defaultInformer t)"
  by (simp add: makes_new_def defaultInformer_def NewFilteredManagedProxyConfigurationInformer_def)

lemma fold_options_frame:
  assumes "\<forall>opt\<in>set options. generated_option opt"
  shows "sf_informers (fold (\<lambda>opt. opt) options f) = sf_informers f \<and>
    sf_startedInformers (fold (\<lambda>opt. opt) options f) = sf_startedInformers f \<and>
    sf_runs (fold (\<lambda>opt. opt) options f) = sf_runs f"
  using assms
proof (induction options arbitrary: f)
  case (Cons opt options)
  then have "generated_option opt" by simp
  then have "sf_informers (opt f) = sf_informers f \<and> sf_startedInformers (opt f) = sf_startedInformers f \<and>
      sf_runs (opt f) = sf_runs f"
    by (auto simp: generated_option_def WithCustomResyncConfig_def WithTweakListOptions_def WithNamespace_def)
  with Cons show ?case by simp
qed simp

lemma factory_inv_init: "factory_init f \<Longrightarrow> factory_inv f"
  using fold_options_frame
  by (fastforce simp: factory_init_def factory_inv_def NewSharedInformerFactoryWithOptions_def started_def
      gmap_ok_def)

lemma factory_inv_step:
  assumes "factory_inv f" and "factory_step f g"
  shows "factory_inv g"
  using assms(2)
proof (cases rule: factory_step.cases)
  case (informer_for newFunc t)
  then show ?thesis by (simp add: factory_inv_new [OF assms(1)])
next
  case (for_resource gv resource)
  have "factory_inv (snd (mpc_Informer f))"
    unfolding mpc_Informer_eq by (rule factory_inv_new [OF assms(1) default_makes_new])
  with for_resource assms(1) show ?thesis
    by (auto simp: ForResource_def split: prod.split)
next
  case start
  then show ?thesis by (simp add: factory_inv_start [OF assms(1)])
qed

interpretation factory: invariant_rule factory_init factory_step factory_inv
  by unfold_locales (rule factory_inv_init, assumption, rule factory_inv_step)

section \<open>Properties\<close>

text \<open>Operations never replace or drop an informer.\<close>

lemma step_keeps_informer:
  assumes "factory_inv f" and "factory_step f g" and "gget (sf_informers f) t = Some i"
  shows "gget (sf_informers g) t = Some i"
proof -
  have keep: "gget (sf_informers (snd (InformerFor t' newFunc f))) t = Some i" for t' newFunc
    using assms(3) by (auto simp: InformerFor_def Let_def gm.get_put split: option.split)
  have "gmap_ok (sf_informers f)" using assms(1) by (simp add: factory_inv_def)
  note start = factory_Start_facts(2) [OF this]
  show ?thesis
    using assms(2)
  proof (cases rule: factory_step.cases)
    case (for_resource gv resource)
    then show ?thesis
      using keep [of mpc_type "defaultInformer (sf_tweakListOptions f)"] assms(3)
      by (auto simp: ForResource_def mpc_Informer_eq split: prod.split)
  qed (use keep start assms(3) in auto)
qed

lemma steps_keep_informer:
  assumes "factory_step\<^sup>*\<^sup>* f g" and "factory_inv f" and "gget (sf_informers f) t = Some i"
  shows "factory_inv g \<and> gget (sf_informers g) t = Some i"
  using assms
proof (induction rule: rtranclp_induct)
  case (step g g')
  then show ?case using factory_inv_step step_keeps_informer by blast
qed simp

text \<open>C19. However the goroutines of a process ask a shared factory for informers and start it, no
  informer's \<open>Run\<close> is launched twice. After a start that of every informer asked for so far has been launched, and a second start
  changes nothing. Once an informer of a type has been handed out, every later request for the type
  gets that same informer. Waiting for the caches asks exactly the started ones.\<close>

theorem informers_run_once:
  assumes reach: "reach factory_init factory_step f"
  shows "distinct (sf_runs f) \<and>
    (\<forall>t i. gget (sf_informers f) t = Some i \<longrightarrow> in_id i \<in> set (sf_runs (factory_Start f))) \<and>
    factory_Start (factory_Start f) = factory_Start f \<and>
    set (gkeys (factory_WaitForCacheSync synced f)) = {t. started f t} \<and>
    (\<forall>t newFunc newFunc' i f1 g. InformerFor t newFunc f = (i, f1) \<longrightarrow> makes_new newFunc \<longrightarrow>
       factory_step\<^sup>*\<^sup>* f1 g \<longrightarrow> InformerFor t newFunc' g = (i, g))"
proof (intro conjI allI impI)
  have inv: "factory_inv f" by (rule factory.reach_inv [OF reach])
  then have ok: "gmap_ok (sf_informers f)" by (simp add: factory_inv_def)
  have inv': "factory_inv (factory_Start f)" by (rule factory_inv_start [OF inv])
  note facts = factory_Start_facts [OF ok]
  show "distinct (sf_runs f)" using inv by (simp add: factory_inv_def)
  show "in_id i \<in> set (sf_runs (factory_Start f))" if "gget (sf_informers f) t = Some i" for t i
    using inv' that unfolding factory_inv_def facts by auto
  have again: "fold start_one ps g = g" if "\<forall>p\<in>set ps. started g (fst p)" for ps g
    using that by (induction ps) (auto simp: start_one_def split: prod.split)
  show "factory_Start (factory_Start f) = factory_Start f"
    unfolding factory_Start_def [of "factory_Start f"]
    using gkeys_iff [of _ "sf_informers f"] by (intro again) (auto simp: facts gkeys_def)
  have "t \<in> set (gkeys (sf_informers f))" if "started f t" for t
    using inv that gkeys_iff [of t "sf_informers f"] by (simp add: factory_inv_def)
  then show "set (gkeys (factory_WaitForCacheSync synced f)) = {t. started f t}"
    by (force simp: factory_WaitForCacheSync_def gkeys_def)
  fix t newFunc newFunc' i f1 g
  assume f1: "InformerFor t newFunc f = (i, f1)" and new: "makes_new newFunc" and steps: "factory_step\<^sup>*\<^sup>* f1 g"
  have "gget (sf_informers f1) t = Some i"
    using f1 by (auto simp: InformerFor_def Let_def split: option.splits)
  moreover have "factory_inv f1"
    using factory_inv_new [OF inv new, of t] f1 by simp
  ultimately have "gget (sf_informers g) t = Some i"
    using steps_keep_informer [OF steps] by blast
  then show "InformerFor t newFunc' g = (i, g)" by (simp add: InformerFor_def)
qed

definition example_factory :: sharedInformerFactory where
  "example_factory = NewSharedInformerFactoryWithOptions example_rest_client 30 []"

lemma example_factory_reach:
  "reach factory_init factory_step (factory_Start (snd (mpc_Informer example_factory)))"
proof -
  have "factory_init example_factory"
    unfolding factory_init_def example_factory_def
    by (intro exI [of _ example_rest_client] exI [of _ 30] exI [of _ "[]"]) simp
  then have "reach factory_init factory_step example_factory" by (rule reach.intros)
  then have "reach factory_init factory_step (snd (mpc_Informer example_factory))"
    unfolding mpc_Informer_eq
    by (rule reach.intros) (rule factory_step.informer_for [OF default_makes_new])
  then show ?thesis by (rule reach.intros) (rule factory_step.start)
qed

theorem informers_run_once_witness:
  "sf_runs (factory_Start (snd (mpc_Informer example_factory))) = [0] \<and>
   factory_Start (factory_Start (factory_Start (snd (mpc_Informer example_factory)))) =
     factory_Start (factory_Start (snd (mpc_Informer example_factory)))"
proof -
  have "sf_runs (factory_Start (snd (mpc_Informer example_factory))) = [0]"
    by code_simp
  with informers_run_once [OF example_factory_reach] show ?thesis by blast
qed

text \<open>What an informer lists and watches is the collection, under the options as the tweak of its
  factory leaves them; it never asks for a name.\<close>

lemma informer_requests:
  assumes "fst (mpc_Informer f) = i" and "gget (sf_informers f) mpc_type = None"
  shows "in_ListFunc i opts = mpc_List (sf_client f) (tweaked (sf_tweakListOptions f) opts)"
    and "in_WatchFunc i opts = mpc_Watch (sf_client f) (tweaked (sf_tweakListOptions f) opts)"
    and "in_resync i = (case gget (sf_customResync f) mpc_type of None \<Rightarrow> sf_defaultResync f | Some d \<Rightarrow> d)"
  using assms
  by (auto simp: mpc_Informer_eq InformerFor_def Let_def defaultInformer_def
      NewFilteredManagedProxyConfigurationInformer_def)

text \<open>The shortcuts of a lister do not change its answer, for a selector that keeps its word about
  being empty or matching nothing.\<close>

lemma lister_matches:
  assumes "sel_empty sel \<Longrightarrow> (\<And>ls. se_matches sel ls)" and "sel_nothing sel \<Longrightarrow> (\<And>ls. \<not> se_matches sel ls)"
  shows "lister_List sel store = filter (\<lambda>m. se_matches sel (mpc_Labels m)) (map snd store)"
  using assms by (auto simp: lister_List_def ListAll_def filter_empty_conv intro!: filter_True [symmetric])

text \<open>The generic way to an informer and the typed one share it: the same informer, and listers with the
  same objects; only the resource that a missing object is reported with differs.\<close>

lemma generic_access_agrees:
  assumes "ForResource SchemeGroupVersion mpc_resource f = (Inr g, f')"
  shows "mpc_Informer f = (generic_Informer g, f')"
    and "generic_List indexerOf g sel = lister_List sel (fst (mpc_Lister indexerOf f))"
    and "generic_Get getByKey g name = Inr x \<longleftrightarrow> lister_Get getByKey name = Inr x"
proof -
  show i: "mpc_Informer f = (generic_Informer g, f')"
    using assms by (auto simp: ForResource_def generic_Informer_def split: prod.splits)
  show "generic_List indexerOf g sel = lister_List sel (fst (mpc_Lister indexerOf f))"
    by (simp add: i generic_List_def lister_List_def mpc_Lister_def)
  show "generic_Get getByKey g name = Inr x \<longleftrightarrow> lister_Get getByKey name = Inr x"
    by (auto simp: generic_Get_def lister_Get_def split: sum.split option.split)
qed

end
