(* ===== verification/Object_Tracker.thy ===== *)
theory Object_Tracker
  imports Typed_Client "HOL-Library.Multiset" "HOL-Library.Product_Lexorder"
begin

text \<open>
  The fake client set that the tests of the repository run against:
  pkg/generated/clientset/versioned/fake/clientset_generated.go (\<open>NewSimpleClientset\<close>) and what it is
  made of, the object tracker and the reactions of vendor/k8s.io/client-go/testing/fixture.go and the
  watchers of vendor/k8s.io/apimachinery/pkg/watch/watch.go. The calls of the fake typed client are
  those of \<open>Typed_Client\<close>. Objects are values here, so the deep copies on the way in and out are
  the identity; patches are applied by a parameter. The theorems show that the client set refines a
  map from names to configurations, call by call, that a watcher's events replay the changes of that
  map, and how many events a watcher holds before a write panics.
\<close>

section \<open>Kinds and resources\<close>

text \<open>\<open>addKnownTypes\<close> registers the two types of the group under the names of their Go types; of the
  meta types that \<open>AddToGroupVersion\<close> adds none is stored here.\<close>

type_synonym gvk = "group_version \<times> string"
type_synonym gvr = "group_version \<times> string"

definition addKnownTypes :: "gvk list" where
  "addKnownTypes =
     [(SchemeGroupVersion, ''ManagedProxyConfiguration''), (SchemeGroupVersion, ''ManagedProxyConfigurationList'')]"

fun go_type :: "ret \<Rightarrow> string" where
  "go_type (RetObject x) = ''ManagedProxyConfiguration''"
| "go_type (RetList rv xs) = ''ManagedProxyConfigurationList''"

definition ObjectKinds :: "ret \<Rightarrow> gvk list" where
  "ObjectKinds r = filter (\<lambda>(gv, kind). kind = go_type r) addKnownTypes"

text \<open>The plural resource guessed from a kind.\<close>

definition UnsafeGuessKindToResource :: "gvk \<Rightarrow> gvr" where
  "UnsafeGuessKindToResource = (\<lambda>(gv, kind).
     if kind = [] then (\<lparr>gv_Group = [], gv_Version = []\<rparr>, [])
     else let singular = to_lower kind in
       if has_suffix singular ''endpoints'' then (gv, singular)
       else if last singular = CHR ''s'' then (gv, singular @ ''es'')
       else if last singular = CHR ''y'' then (gv, butlast singular @ ''ies'')
       else (gv, singular @ ''s''))"

definition APIVersionInternal :: string where
  "APIVersionInternal = ''__internal''"

definition GroupResource :: "gvr \<Rightarrow> string" where
  "GroupResource = (\<lambda>(gv, resource).
     if gv_Group gv = [] then resource else resource @ ''.'' @ gv_Group gv)"

section \<open>Watchers\<close>

text \<open>A \<open>RaceFreeFakeWatcher\<close>: a channel of \<open>DefaultChanSize\<close> events, and a send that panics when it
  is full (\<open>None\<close>). A stopped watcher takes no more events.\<close>

datatype watch_event =
    WatchAdded ManagedProxyConfiguration
  | WatchModified ManagedProxyConfiguration
  | WatchDeleted ManagedProxyConfiguration

record fake_watcher =
  fw_result :: "watch_event list"
  fw_Stopped :: bool

definition DefaultChanSize :: nat where
  "DefaultChanSize = 100"

definition NewRaceFreeFake :: fake_watcher where
  "NewRaceFreeFake = \<lparr>fw_result = [], fw_Stopped = False\<rparr>"

definition watcher_Stop :: "fake_watcher \<Rightarrow> fake_watcher" where
  "watcher_Stop w = (if fw_Stopped w then w else w\<lparr>fw_Stopped := True\<rparr>)"

definition watcher_send :: "watch_event \<Rightarrow> fake_watcher \<Rightarrow> fake_watcher option" where
  "watcher_send e w =
     (if fw_Stopped w then Some w
      else if length (fw_result w) < DefaultChanSize then Some (w\<lparr>fw_result := fw_result w @ [e]\<rparr>)
      else None)"

text \<open>The reader takes the first event; \<open>None\<close> when there is none.\<close>

definition watcher_receive :: "fake_watcher \<Rightarrow> (watch_event \<times> fake_watcher) option" where
  "watcher_receive w =
     (case fw_result w of [] \<Rightarrow> None | e # es \<Rightarrow> Some (e, w\<lparr>fw_result := es\<rparr>))"

section \<open>The object tracker\<close>

record versionedObject =
  vo_resourceVersion :: int
  vo_Object :: ManagedProxyConfiguration

text \<open>A watcher is a pointer: its index in \<open>tk_channels\<close>.\<close>

record tracker =
  tk_objects :: "(gvr, (string \<times> string, versionedObject) gmap) gmap"
  tk_watchers :: "(gvr, (string, nat list) gmap) gmap"
  tk_resourceVersions :: "(gvr, int) gmap"
  tk_channels :: "fake_watcher list"

definition NewObjectTracker :: tracker where
  "NewObjectTracker = \<lparr>tk_objects = [], tk_watchers = [], tk_resourceVersions = [], tk_channels = []\<rparr>"

text \<open>An operation of the tracker that panics has no answer (the outer \<open>None\<close>).\<close>

type_synonym tracker_result = "fake_error option option"

text \<open>The sends of one change, in the order of the watchers.\<close>

fun broadcast :: "watch_event \<Rightarrow> nat list \<Rightarrow> fake_watcher list \<Rightarrow> bool \<times> fake_watcher list" where
  "broadcast e [] cs = (True, cs)"
| "broadcast e (w # ws) cs =
     (case watcher_send e (cs ! w) of
        None \<Rightarrow> (False, cs)
      | Some c \<Rightarrow> broadcast e ws (cs[w := c]))"

definition getWatches :: "tracker \<Rightarrow> gvr \<Rightarrow> string \<Rightarrow> nat list" where
  "getWatches t gvr ns =
     (case gget (tk_watchers t) gvr of
        None \<Rightarrow> []
      | Some byNs \<Rightarrow>
          (case gget byNs ns of None \<Rightarrow> [] | Some ws \<Rightarrow> ws) @
          (if ns \<noteq> [] then (case gget byNs [] of None \<Rightarrow> [] | Some ws \<Rightarrow> ws) else []))"

definition notify :: "gvr \<Rightarrow> string \<Rightarrow> watch_event \<Rightarrow> tracker \<Rightarrow> tracker_result \<times> tracker" where
  "notify gvr ns e t =
     (case broadcast e (getWatches t gvr ns) (tk_channels t) of
        (ok, cs) \<Rightarrow> (if ok then Some None else None, t\<lparr>tk_channels := cs\<rparr>))"

definition tracker_add :: "gvr \<Rightarrow> ManagedProxyConfiguration \<Rightarrow> string \<Rightarrow> bool \<Rightarrow> tracker \<Rightarrow> tracker_result \<times> tracker" where
  "tracker_add gvr obj0 ns replaceExisting t0 =
     (let obj = (if mpc_Namespace obj0 = [] then obj0\<lparr>mpc_Namespace := ns\<rparr> else obj0) in
      if ns \<noteq> mpc_Namespace obj
      then (Some (Some (FakeBadRequest
              (''request namespace does not match object namespace, request: '' @ go_quote ns @
               '' object: '' @ go_quote (mpc_Namespace obj)))), t0)
      else
        let t = (case gget (tk_objects t0) gvr of
                   None \<Rightarrow> t0\<lparr>tk_objects := gput gvr [] (tk_objects t0)\<rparr>
                 | Some objs \<Rightarrow> t0);
            objs = (case gget (tk_objects t) gvr of None \<Rightarrow> [] | Some objs \<Rightarrow> objs);
            resourceVersion = (case gget (tk_resourceVersions t) gvr of None \<Rightarrow> 1 | Some v \<Rightarrow> v) + 1;
            namespacedName = (mpc_Namespace obj, mpc_Name obj);
            stored = t\<lparr>tk_resourceVersions := gput gvr resourceVersion (tk_resourceVersions t),
                       tk_objects := gput gvr (gput namespacedName
                         \<lparr>vo_resourceVersion = resourceVersion, vo_Object = obj\<rparr> objs) (tk_objects t)\<rparr> in
        case gget objs namespacedName of
          Some old \<Rightarrow>
            if replaceExisting then notify gvr ns (WatchModified obj) stored
            else (Some (Some (FakeAlreadyExists (GroupResource gvr) (mpc_Name obj))), t)
        | None \<Rightarrow>
            if replaceExisting then (Some (Some (FakeNotFound (GroupResource gvr) (mpc_Name obj))), t)
            else notify gvr ns (WatchAdded obj) stored)"

definition tracker_Create :: "gvr \<Rightarrow> ManagedProxyConfiguration \<Rightarrow> string \<Rightarrow> tracker \<Rightarrow> tracker_result \<times> tracker" where
  "tracker_Create gvr obj ns = tracker_add gvr obj ns False"

definition tracker_Update :: "gvr \<Rightarrow> ManagedProxyConfiguration \<Rightarrow> string \<Rightarrow> tracker \<Rightarrow> tracker_result \<times> tracker" where
  "tracker_Update gvr obj ns = tracker_add gvr obj ns True"

definition tracker_Patch :: "gvr \<Rightarrow> ManagedProxyConfiguration \<Rightarrow> string \<Rightarrow> tracker \<Rightarrow> tracker_result \<times> tracker" where
  "tracker_Patch gvr patchedObject ns = tracker_add gvr patchedObject ns True"

definition tracker_Get :: "tracker \<Rightarrow> gvr \<Rightarrow> string \<Rightarrow> string \<Rightarrow> fake_error + ManagedProxyConfiguration" where
  "tracker_Get t gvr ns name =
     (case gget (tk_objects t) gvr of
        None \<Rightarrow> Inl (FakeNotFound (GroupResource gvr) name)
      | Some objs \<Rightarrow>
          (case gget objs (ns, name) of
             None \<Rightarrow> Inl (FakeNotFound (GroupResource gvr) name)
           | Some obj \<Rightarrow> Inr (vo_Object obj)))"

definition tracker_Delete :: "gvr \<Rightarrow> string \<Rightarrow> string \<Rightarrow> tracker \<Rightarrow> tracker_result \<times> tracker" where
  "tracker_Delete gvr ns name t =
     (case gget (tk_objects t) gvr of
        None \<Rightarrow> (Some (Some (FakeNotFound (GroupResource gvr) name)), t)
      | Some objs \<Rightarrow>
          (case gget objs (ns, name) of
             None \<Rightarrow> (Some (Some (FakeNotFound (GroupResource gvr) name)), t)
           | Some obj \<Rightarrow>
               notify gvr ns (WatchDeleted (vo_Object obj))
                 (t\<lparr>tk_objects := gput gvr (gdel (ns, name) objs) (tk_objects t)\<rparr>)))"

definition object_key :: "versionedObject \<Rightarrow> string \<times> string" where
  "object_key o1 = (mpc_Namespace (vo_Object o1), mpc_Name (vo_Object o1))"

definition filterByNamespace :: "(string \<times> string, versionedObject) gmap \<Rightarrow> string \<Rightarrow> versionedObject list" where
  "filterByNamespace objs ns =
     sort_key object_key
       (filter (\<lambda>o1. \<not> (ns \<noteq> [] \<and> mpc_Namespace (vo_Object o1) \<noteq> ns)) (map snd objs))"

text \<open>A kind that ends in \<open>List\<close> and is registered is the list type of the group, so the check that
  the new object is a list does not fail.\<close>

definition tracker_List :: "tracker \<Rightarrow> gvr \<Rightarrow> gvk \<Rightarrow> string \<Rightarrow> fake_error + ret" where
  "tracker_List t gvr kind ns =
     (let gv = (if gv_Version (fst kind) = [] then (fst kind)\<lparr>gv_Version := APIVersionInternal\<rparr> else fst kind) in
      if (gv, snd kind @ ''List'') \<notin> set addKnownTypes
      then Inl (FakeOther (''no kind '' @ go_quote (snd kind @ ''List'') @ '' is registered''))
      else
        let resourceVersion = (case gget (tk_resourceVersions t) gvr of None \<Rightarrow> 1 | Some v \<Rightarrow> v) in
        case gget (tk_objects t) gvr of
          None \<Rightarrow> Inr (RetList (itoa resourceVersion) [])
        | Some objs \<Rightarrow> Inr (RetList (itoa resourceVersion) (map vo_Object (filterByNamespace objs ns))))"

text \<open>\<open>Watch\<close> without list options, the way the client set calls it: no object that exists already
  is delivered.\<close>

definition tracker_Watch :: "gvr \<Rightarrow> string \<Rightarrow> tracker \<Rightarrow> nat \<times> tracker" where
  "tracker_Watch gvr ns t =
     (let fakewatcher = length (tk_channels t);
          byNs = (case gget (tk_watchers t) gvr of None \<Rightarrow> [] | Some byNs \<Rightarrow> byNs);
          old = (case gget byNs ns of None \<Rightarrow> [] | Some ws \<Rightarrow> ws) in
      (fakewatcher,
       t\<lparr>tk_channels := tk_channels t @ [NewRaceFreeFake],
         tk_watchers := gput gvr (gput ns (old @ [fakewatcher]) byNs) (tk_watchers t)\<rparr>))"

text \<open>\<open>Add\<close> stores an object under every kind it is registered with, at its own namespace, and a list
  item by item (\<open>addList\<close>); it stops at the first error. A typed list needs no decoding.\<close>

fun add_kinds :: "gvk list \<Rightarrow> ManagedProxyConfiguration \<Rightarrow> tracker \<Rightarrow> tracker_result \<times> tracker" where
  "add_kinds [] obj t = (Some None, t)"
| "add_kinds (gvk # gvks) obj t =
     (let (gv, resource) = UnsafeGuessKindToResource gvk;
          gvr = (if gv_Version gv = APIVersionInternal then gv\<lparr>gv_Version := []\<rparr> else gv, resource) in
      case tracker_add gvr obj (mpc_Namespace obj) False t of
        (Some None, t') \<Rightarrow> add_kinds gvks obj t'
      | (failed, t') \<Rightarrow> (failed, t'))"

definition add_object :: "ManagedProxyConfiguration \<Rightarrow> tracker \<Rightarrow> tracker_result \<times> tracker" where
  "add_object obj t =
     (if ObjectKinds (RetObject obj) = [] then (Some (Some (FakeOther ''no registered kinds'')), t)
      else add_kinds (ObjectKinds (RetObject obj)) obj t)"

fun addList :: "ManagedProxyConfiguration list \<Rightarrow> tracker \<Rightarrow> tracker_result \<times> tracker" where
  "addList [] t = (Some None, t)"
| "addList (obj # objs) t =
     (case add_object obj t of
        (Some None, t') \<Rightarrow> addList objs t'
      | (failed, t') \<Rightarrow> (failed, t'))"

fun tracker_Add :: "ret \<Rightarrow> tracker \<Rightarrow> tracker_result \<times> tracker" where
  "tracker_Add (RetObject obj) t = add_object obj t"
| "tracker_Add (RetList rv objs) t = addList objs t"

section \<open>Reactions\<close>

text \<open>What applies a patch to the JSON form of an object and reads the result back: JSON patch, merge
  patch and strategic merge patch. For an apply patch, the YAML document is decoded and given the
  name of the request first.\<close>

record patcher =
  pt_json :: "string \<Rightarrow> ManagedProxyConfiguration \<Rightarrow> string + ManagedProxyConfiguration"
  pt_merge :: "string \<Rightarrow> ManagedProxyConfiguration \<Rightarrow> string + ManagedProxyConfiguration"
  pt_strategic :: "string \<Rightarrow> ManagedProxyConfiguration \<Rightarrow> string + ManagedProxyConfiguration"
  pt_yaml :: "string \<Rightarrow> string + string"
  pt_SetName :: "string \<Rightarrow> string \<Rightarrow> string"

definition JSONPatchType :: string where "JSONPatchType = ''application/json-patch+json''"
definition MergePatchType :: string where "MergePatchType = ''application/merge-patch+json''"
definition StrategicMergePatchType :: string where "StrategicMergePatchType = ''application/strategic-merge-patch+json''"
definition ApplyPatchType :: string where "ApplyPatchType = ''application/apply-patch+yaml''"

type_synonym reaction = "(ret option \<times> fake_error option) option \<times> tracker"

fun answer :: "fake_error + ret \<Rightarrow> ret option \<times> fake_error option" where
  "answer (Inl e) = (None, Some e)"
| "answer (Inr r) = (Some r, None)"

definition action_gvr :: "Action \<Rightarrow> gvr" where
  "action_gvr a = (ac_GroupVersion a, ac_Resource a)"

definition read_object :: "tracker \<Rightarrow> gvr \<Rightarrow> string \<Rightarrow> string \<Rightarrow> fake_error + ret" where
  "read_object t gvr ns name = map_sum id RetObject (tracker_Get t gvr ns name)"

text \<open>The namespace of a root action is empty. After a write that succeeds the object is read back.\<close>

definition write_then_read :: "gvr \<Rightarrow> string \<Rightarrow> tracker_result \<times> tracker \<Rightarrow> reaction" where
  "write_then_read gvr name = (\<lambda>(r, t).
     case r of
       None \<Rightarrow> (None, t)
     | Some (Some e) \<Rightarrow> (Some (None, Some e), t)
     | Some None \<Rightarrow> (Some (answer (read_object t gvr [] name)), t))"

definition react_Create :: "Action \<Rightarrow> ManagedProxyConfiguration \<Rightarrow> tracker \<Rightarrow> reaction" where
  "react_Create a obj t =
     (if ac_Subresource a = []
      then write_then_read (action_gvr a) (mpc_Name obj) (tracker_Create (action_gvr a) obj [] t)
      else
        (case tracker_Get t (action_gvr a) [] (mpc_Name obj) of
           Inl e \<Rightarrow> (Some (None, Some e), t)
         | Inr old \<Rightarrow> write_then_read (action_gvr a) (mpc_Name obj) (tracker_Update (action_gvr a) obj [] t)))"

definition react_Update :: "Action \<Rightarrow> ManagedProxyConfiguration \<Rightarrow> tracker \<Rightarrow> reaction" where
  "react_Update a obj t =
     write_then_read (action_gvr a) (mpc_Name obj) (tracker_Update (action_gvr a) obj [] t)"

definition react_Delete :: "Action \<Rightarrow> tracker \<Rightarrow> reaction" where
  "react_Delete a t =
     (case tracker_Delete (action_gvr a) [] (ac_Name a) t of
        (r, t') \<Rightarrow> (map_option (\<lambda>err. (None, err)) r, t'))"

definition tracker_Apply :: "patcher \<Rightarrow> gvr \<Rightarrow> string \<Rightarrow> string \<Rightarrow> string \<Rightarrow> tracker \<Rightarrow> tracker_result \<times> tracker" where
  "tracker_Apply p gvr name doc ns t =
     (case tracker_Get t gvr ns name of
        Inl e \<Rightarrow> (Some (Some e), t)
      | Inr obj \<Rightarrow>
          (case pt_strategic p doc obj of
             Inl e \<Rightarrow> (Some (Some (FakeOther e)), t)
           | Inr obj' \<Rightarrow> tracker_add gvr obj' ns True t))"

definition react_Apply :: "patcher \<Rightarrow> Action \<Rightarrow> string \<Rightarrow> tracker \<Rightarrow> reaction" where
  "react_Apply p a data t =
     (case pt_yaml p data of
        Inl e \<Rightarrow> (Some (None, Some (FakeOther e)), t)
      | Inr doc \<Rightarrow>
          write_then_read (action_gvr a) (ac_Name a)
            (tracker_Apply p (action_gvr a) (ac_Name a) (pt_SetName p (ac_Name a) doc) [] t))"

definition patched :: "patcher \<Rightarrow> string \<Rightarrow> string \<Rightarrow> ManagedProxyConfiguration \<Rightarrow> fake_error + ManagedProxyConfiguration" where
  "patched p pt data obj =
     (if pt = JSONPatchType then map_sum FakeOther id (pt_json p data obj)
      else if pt = MergePatchType then map_sum FakeOther id (pt_merge p data obj)
      else if pt = StrategicMergePatchType then map_sum FakeOther id (pt_strategic p data obj)
      else Inl (FakeOther (''PatchType '' @ pt @ '' is not supported'')))"

definition react_Patch :: "patcher \<Rightarrow> Action \<Rightarrow> string \<Rightarrow> string \<Rightarrow> tracker \<Rightarrow> reaction" where
  "react_Patch p a pt data t =
     (case tracker_Get t (action_gvr a) [] (ac_Name a) of
        Inl e \<Rightarrow> (Some (None, Some e), t)
      | Inr obj \<Rightarrow>
          (case patched p pt data obj of
             Inl e \<Rightarrow> (Some (None, Some e), t)
           | Inr obj' \<Rightarrow>
               (case tracker_Patch (action_gvr a) obj' [] t of
                  (None, t') \<Rightarrow> (None, t')
                | (Some (Some e), t') \<Rightarrow> (Some (None, Some e), t')
                | (Some None, t') \<Rightarrow> (Some (Some (RetObject obj'), None), t'))))"

text \<open>The switch on the type of the action, which its verb names. A delete of a collection has no case.
  The kind of a list action is the one of the client.\<close>

definition handled :: "reaction \<Rightarrow> (bool \<times> ret option \<times> fake_error option) option \<times> tracker" where
  "handled = (\<lambda>(r, t). (map_option (\<lambda>(obj, err). (True, obj, err)) r, t))"

definition ObjectReaction :: "patcher \<Rightarrow> Action \<Rightarrow> tracker \<Rightarrow> (bool \<times> ret option \<times> fake_error option) option \<times> tracker" where
  "ObjectReaction p a t =
     (case (ac_Verb a, ac_Object a, ac_Patch a) of
        (verb, obj, patch) \<Rightarrow>
          if verb = ''list'' then
            handled (Some (answer (tracker_List t (action_gvr a)
              (ac_GroupVersion a, ''ManagedProxyConfiguration'') [])), t)
          else if verb = ''get'' then handled (Some (answer (read_object t (action_gvr a) [] (ac_Name a))), t)
          else if verb = ''create'' \<and> obj \<noteq> None then handled (react_Create a (the obj) t)
          else if verb = ''update'' \<and> obj \<noteq> None then handled (react_Update a (the obj) t)
          else if verb = ''delete'' then handled (react_Delete a t)
          else if verb = ''patch'' \<and> patch \<noteq> None then
            (case the patch of (pt, data) \<Rightarrow>
               if pt = ApplyPatchType then handled (react_Apply p a data t)
               else handled (react_Patch p a pt data t))
          else (Some (False, None, Some (FakeOther (''no reaction implemented for '' @ verb))), t))"

section \<open>The client set\<close>

text \<open>The client set embeds the \<open>Fake\<close>, and its reactors close over the tracker, which is the state
  behind them; its discovery client and its typed client share that \<open>Fake\<close>.\<close>

type_synonym fake_clientset = "tracker Fake"

definition AddReactor :: "string \<Rightarrow> string \<Rightarrow> (Action \<Rightarrow> 'x \<Rightarrow> (bool \<times> ret option \<times> fake_error option) option \<times> 'x) \<Rightarrow> 'x Fake \<Rightarrow> 'x Fake" where
  "AddReactor verb resource reaction f =
     f\<lparr>fk_chain := fk_chain f @ [\<lparr>re_verb = verb, re_resource = resource, re_React = reaction\<rparr>]\<rparr>"

definition AddWatchReactor :: "string \<Rightarrow> (Action \<Rightarrow> 'x \<Rightarrow> (bool \<times> nat option \<times> fake_error option) option \<times> 'x) \<Rightarrow> 'x Fake \<Rightarrow> 'x Fake" where
  "AddWatchReactor resource reaction f =
     f\<lparr>fk_watchChain := fk_watchChain f @ [\<lparr>wr_resource = resource, wr_React = reaction\<rparr>]\<rparr>"

definition tracker_watch_reaction :: "Action \<Rightarrow> tracker \<Rightarrow> (bool \<times> nat option \<times> fake_error option) option \<times> tracker" where
  "tracker_watch_reaction a t =
     (case tracker_Watch (action_gvr a) [] t of (w, t') \<Rightarrow> (Some (True, Some w, None), t'))"

fun add_all :: "ret list \<Rightarrow> tracker \<Rightarrow> tracker option" where
  "add_all [] t = Some t"
| "add_all (obj # objs) t = (case tracker_Add obj t of (Some None, t') \<Rightarrow> add_all objs t' | _ \<Rightarrow> None)"

text \<open>\<open>None\<close> when an object cannot be added: a panic.\<close>

definition NewSimpleClientset :: "patcher \<Rightarrow> ret list \<Rightarrow> fake_clientset option" where
  "NewSimpleClientset p objects =
     (case add_all objects NewObjectTracker of
        None \<Rightarrow> None
      | Some t \<Rightarrow>
          Some (AddWatchReactor ''*'' tracker_watch_reaction
            (AddReactor ''*'' ''*'' (ObjectReaction p)
              \<lparr>fk_actions = [], fk_chain = [], fk_watchChain = [], fk_world = t\<rparr>)))"

definition fake_Tracker :: "fake_clientset \<Rightarrow> tracker" where
  "fake_Tracker cs = fk_world cs"

definition fake_Discovery :: "fake_clientset \<Rightarrow> tracker Fake" where
  "fake_Discovery cs = cs"

definition fake_ProxyV1alpha1 :: "fake_clientset \<Rightarrow> tracker Fake" where
  "fake_ProxyV1alpha1 cs = cs"

text \<open>The fake of the group: its resources share the \<open>Fake\<close>, and its REST client is a nil pointer.\<close>

definition fake_ManagedProxyConfigurations :: "tracker Fake \<Rightarrow> tracker Fake" where
  "fake_ManagedProxyConfigurations c = c"

definition fake_RESTClient :: "tracker Fake \<Rightarrow> RESTClient option" where
  "fake_RESTClient c = None"

text \<open>A call on the interface with its result.\<close>

datatype call_result =
    ResObject "ManagedProxyConfiguration outcome"
  | ResList "(string \<times> ManagedProxyConfiguration list) outcome"
  | ResWatch "nat outcome"
  | ResError "unit outcome"

fun fake_call :: "selectors \<Rightarrow> ManagedProxyConfiguration \<Rightarrow> call \<Rightarrow> 'x Fake \<Rightarrow> call_result \<times> 'x Fake" where
  "fake_call sl blank (CallGet n opts) f = apfst ResObject (fake_Get blank n f)"
| "fake_call sl blank (CallList opts) f = apfst ResList (fake_List sl opts f)"
| "fake_call sl blank (CallWatch opts) f = apfst ResWatch (fake_Watch sl opts f)"
| "fake_call sl blank (CallCreate x opts) f = apfst ResObject (fake_Create blank x f)"
| "fake_call sl blank (CallUpdate x opts) f = apfst ResObject (fake_Update blank x f)"
| "fake_call sl blank (CallUpdateStatus x opts) f = apfst ResObject (fake_UpdateStatus blank x f)"
| "fake_call sl blank (CallDelete n opts) f = apfst ResError (fake_Delete blank n f)"
| "fake_call sl blank (CallDeleteCollection opts lo) f = apfst ResError (fake_DeleteCollection sl lo f)"
| "fake_call sl blank (CallPatch n pt data opts subs) f = apfst ResObject (fake_Patch blank n pt data subs f)"

section \<open>Specification: a map from names to configurations\<close>

text \<open>What the client set promises, without tracker, actions and reactors: the objects by namespace and
  name, the version of the collection, and how many watchers were opened.\<close>

record store_view =
  sv_objects :: "string \<times> string \<rightharpoonup> ManagedProxyConfiguration"
  sv_version :: int
  sv_watchers :: nat

definition mpc_gvr :: gvr where
  "mpc_gvr = (SchemeGroupVersion, mpc_resource)"

definition place :: "string \<Rightarrow> ManagedProxyConfiguration \<Rightarrow> ManagedProxyConfiguration" where
  "place ns obj = (if mpc_Namespace obj = [] then obj\<lparr>mpc_Namespace := ns\<rparr> else obj)"

definition config_key :: "ManagedProxyConfiguration \<Rightarrow> string \<times> string" where
  "config_key x = (mpc_Namespace x, mpc_Name x)"

definition not_found :: "string \<Rightarrow> fake_error" where
  "not_found name = FakeNotFound (GroupResource mpc_gvr) name"

definition spec_add :: "bool \<Rightarrow> string \<Rightarrow> ManagedProxyConfiguration \<Rightarrow> store_view \<Rightarrow> fake_error option \<times> store_view" where
  "spec_add replace ns obj s =
     (let x = place ns obj in
      if mpc_Namespace x \<noteq> ns
      then (Some (FakeBadRequest
              (''request namespace does not match object namespace, request: '' @ go_quote ns @
               '' object: '' @ go_quote (mpc_Namespace x))), s)
      else if (sv_objects s (config_key x) \<noteq> None) = replace
      then (None, s\<lparr>sv_objects := (sv_objects s)(config_key x \<mapsto> x), sv_version := sv_version s + 1\<rparr>)
      else (Some (if replace then not_found (mpc_Name x)
                  else FakeAlreadyExists (GroupResource mpc_gvr) (mpc_Name x)), s))"

definition spec_read :: "string \<Rightarrow> store_view \<Rightarrow> ManagedProxyConfiguration outcome" where
  "spec_read name s =
     (case sv_objects s ([], name) of
        None \<Rightarrow> Returned None (Some (not_found name))
      | Some x \<Rightarrow> Returned (Some x) None)"

definition spec_write :: "bool \<Rightarrow> string \<Rightarrow> ManagedProxyConfiguration \<Rightarrow> store_view \<Rightarrow> ManagedProxyConfiguration outcome \<times> store_view" where
  "spec_write replace name obj s =
     (case spec_add replace [] obj s of
        (Some e, s') \<Rightarrow> (Returned None (Some e), s')
      | (None, s') \<Rightarrow> (spec_read name s', s'))"

definition spec_delete :: "string \<Rightarrow> store_view \<Rightarrow> unit outcome \<times> store_view" where
  "spec_delete name s =
     (if sv_objects s ([], name) = None then (Returned None (Some (not_found name)), s)
      else (Returned None None, s\<lparr>sv_objects := (sv_objects s)(([], name) := None)\<rparr>))"

definition spec_items :: "store_view \<Rightarrow> ManagedProxyConfiguration list" where
  "spec_items s = map (\<lambda>k. the (sv_objects s k)) (sorted_list_of_set (dom (sv_objects s)))"

text \<open>A patch computes a new object from the one that is stored and stores it under the name that
  the new object has.\<close>

definition spec_patch ::
  "patcher \<Rightarrow> string \<Rightarrow> string \<Rightarrow> string \<Rightarrow> store_view \<Rightarrow> ManagedProxyConfiguration outcome \<times> store_view" where
  "spec_patch p name pt data s =
     (case sv_objects s ([], name) of
        None \<Rightarrow> (Returned None (Some (not_found name)), s)
      | Some x \<Rightarrow>
          (case patched p pt data x of
             Inl e \<Rightarrow> (Returned None (Some e), s)
           | Inr y \<Rightarrow>
               (case spec_add True [] y s of
                  (Some e, s') \<Rightarrow> (Returned None (Some e), s')
                | (None, s') \<Rightarrow> (Returned (Some y) None, s'))))"

definition spec_apply ::
  "patcher \<Rightarrow> string \<Rightarrow> string \<Rightarrow> store_view \<Rightarrow> ManagedProxyConfiguration outcome \<times> store_view" where
  "spec_apply p name data s =
     (case pt_yaml p data of
        Inl e \<Rightarrow> (Returned None (Some (FakeOther e)), s)
      | Inr doc \<Rightarrow>
          (case sv_objects s ([], name) of
             None \<Rightarrow> (Returned None (Some (not_found name)), s)
           | Some x \<Rightarrow>
               (case pt_strategic p (pt_SetName p name doc) x of
                  Inl e \<Rightarrow> (Returned None (Some (FakeOther e)), s)
                | Inr y \<Rightarrow> spec_write True name y s)))"

fun spec_call :: "selectors \<Rightarrow> patcher \<Rightarrow> call \<Rightarrow> store_view \<Rightarrow> call_result \<times> store_view" where
  "spec_call sl p (CallGet n opts) s = (ResObject (spec_read n s), s)"
| "spec_call sl p (CallList opts) s =
     (ResList (case ExtractFromListOptions sl opts of
        None \<Rightarrow> Panicked
      | Some (l, field, rv) \<Rightarrow>
          Returned (Some (itoa (sv_version s), filter (\<lambda>x. se_matches l (mpc_Labels x)) (spec_items s))) None), s)"
| "spec_call sl p (CallWatch opts) s =
     (case ExtractFromListOptions sl opts of
        None \<Rightarrow> (ResWatch Panicked, s)
      | Some e \<Rightarrow> (ResWatch (Returned (Some (sv_watchers s)) None), s\<lparr>sv_watchers := sv_watchers s + 1\<rparr>))"
| "spec_call sl p (CallCreate x opts) s = apfst ResObject (spec_write False (mpc_Name x) x s)"
| "spec_call sl p (CallUpdate x opts) s = apfst ResObject (spec_write True (mpc_Name x) x s)"
| "spec_call sl p (CallUpdateStatus x opts) s = apfst ResObject (spec_write True (mpc_Name x) x s)"
| "spec_call sl p (CallDelete n opts) s = apfst ResError (spec_delete n s)"
| "spec_call sl p (CallDeleteCollection opts lo) s =
     (ResError (case ExtractFromListOptions sl lo of None \<Rightarrow> Panicked | Some e \<Rightarrow> Returned None None), s)"
| "spec_call sl p (CallPatch n pt data opts subs) s =
     apfst ResObject (if pt = ApplyPatchType then spec_apply p n data s else spec_patch p n pt data s)"

section \<open>The view of a tracker\<close>

definition configs :: "tracker \<Rightarrow> string \<times> string \<rightharpoonup> ManagedProxyConfiguration" where
  "configs t = (\<lambda>k. case gget (tk_objects t) mpc_gvr of
     None \<Rightarrow> None | Some objs \<Rightarrow> map_option vo_Object (gget objs k))"

definition current_version :: "tracker \<Rightarrow> int" where
  "current_version t = (case gget (tk_resourceVersions t) mpc_gvr of None \<Rightarrow> 1 | Some v \<Rightarrow> v)"

definition store_of :: "tracker \<Rightarrow> store_view" where
  "store_of t = \<lparr>sv_objects = configs t, sv_version = current_version t, sv_watchers = length (tk_channels t)\<rparr>"

text \<open>What a well-formed tracker keeps: maps without double keys, objects under their own key, versions
  of stored objects above the initial one and at most the current one, and every watcher of the
  client in the list of the collection.\<close>

definition objects_ok :: "int \<Rightarrow> (string \<times> string, versionedObject) gmap \<Rightarrow> bool" where
  "objects_ok v objs \<longleftrightarrow> gmap_ok objs \<and>
     (\<forall>(k, vo) \<in> set objs. object_key vo = k \<and> 1 < vo_resourceVersion vo \<and> vo_resourceVersion vo \<le> v)"

definition tracker_ok :: "tracker \<Rightarrow> bool" where
  "tracker_ok t \<longleftrightarrow>
     (case gget (tk_objects t) mpc_gvr of None \<Rightarrow> True | Some objs \<Rightarrow> objects_ok (current_version t) objs) \<and>
     1 \<le> current_version t \<and>
     getWatches t mpc_gvr [] = [0..<length (tk_channels t)]"

definition has_room :: "tracker \<Rightarrow> bool" where
  "has_room t \<longleftrightarrow> list_all (\<lambda>c. fw_Stopped c \<or> length (fw_result c) < DefaultChanSize) (tk_channels t)"

section \<open>Maps of objects\<close>

lemma set_gput: "set (gput k v m) \<subseteq> insert (k, v) (set m)"
proof (induction m)
  case (Cons e m)
  then show ?case by (cases e) (auto simp: gput_def)
qed (simp add: gput_def)

lemma set_gdel: "set (gdel k m) \<subseteq> set m"
  by (auto simp: gdel_def AList.delete_eq)

lemma gget_in_set: "gget m k = Some v \<Longrightarrow> (k, v) \<in> set m"
  by (simp add: gget_def map_of_SomeD)

lemma gget_set: "gmap_ok m \<Longrightarrow> (k, v) \<in> set m \<Longrightarrow> gget m k = Some v"
  by (simp add: gget_def gmap_ok_def)

lemma objects_ok_empty [simp]: "objects_ok v []"
  by (simp add: objects_ok_def gmap_ok_def)

lemma objects_ok_gput:
  assumes "objects_ok v objs" and "1 \<le> v"
  shows "objects_ok (v + 1)
    (gput (config_key x) \<lparr>vo_resourceVersion = v + 1, vo_Object = x\<rparr> objs)"
  using assms set_gput [of "config_key x" "\<lparr>vo_resourceVersion = v + 1, vo_Object = x\<rparr>" objs]
  by (fastforce simp: objects_ok_def object_key_def config_key_def gm.ok_put)

lemma objects_ok_gdel: "objects_ok v objs \<Longrightarrow> objects_ok v (gdel k objs)"
  using set_gdel [of k objs] by (auto simp: objects_ok_def gm.ok_del)

lemma map_sort_key: "map f (sort_key f xs) = sort (map f xs)"
  by (rule properties_for_sort [symmetric]) simp_all

text \<open>A list is the objects in the order of their keys, whatever order the map is read in.\<close>

lemma list_in_key_order:
  assumes ok: "objects_ok v objs"
  shows "map vo_Object (filterByNamespace objs []) =
    map (\<lambda>k. the (map_option vo_Object (gget objs k))) (sorted_list_of_set (dom (gget objs)))"
proof -
  let ?L = "sort_key object_key (map snd objs)"
  have key: "gget objs (object_key o1) = Some o1" if "o1 \<in> set ?L" for o1
    using that ok by (fastforce simp: objects_ok_def intro: gget_set)
  have "map object_key (map snd objs) = map fst objs"
    using ok by (auto simp: objects_ok_def)
  then have "map object_key ?L = sort (map fst objs)"
    by (simp only: map_sort_key)
  also have "\<dots> = sorted_list_of_set (set (map fst objs))"
    using ok sorted_list_of_set_sort_remdups [of "map fst objs"]
    by (simp add: objects_ok_def gmap_ok_def distinct_remdups_id del: set_map)
  also have "set (map fst objs) = dom (gget objs)"
    by (simp add: gget_def [abs_def] dom_map_of_conv_image_fst)
  finally have keys: "sorted_list_of_set (dom (gget objs)) = map object_key ?L" by simp
  have "map (\<lambda>k. the (map_option vo_Object (gget objs k))) (sorted_list_of_set (dom (gget objs))) =
      map (\<lambda>o1. the (map_option vo_Object (gget objs (object_key o1)))) ?L"
    unfolding keys by simp
  also have "\<dots> = map vo_Object ?L"
    by (rule map_cong) (auto simp: key)
  finally show ?thesis
    by (simp add: filterByNamespace_def)
qed

section \<open>Sends to the watchers\<close>

lemma watcher_send_room:
  "watcher_send e c \<noteq> None \<longleftrightarrow> fw_Stopped c \<or> length (fw_result c) < DefaultChanSize"
  by (simp add: watcher_send_def)

lemma broadcast_length: "length (snd (broadcast e ws cs)) = length cs"
  by (induction e ws cs rule: broadcast.induct) (auto split: option.split)

lemma broadcast_room:
  assumes "\<And>w. w \<in> set ws \<Longrightarrow> watcher_send e (cs ! w) \<noteq> None" and "distinct ws"
    and "\<And>w. w \<in> set ws \<Longrightarrow> w < length cs"
  shows "fst (broadcast e ws cs)"
  using assms
proof (induction e ws cs rule: broadcast.induct)
  case (2 e w ws cs)
  then obtain c where c: "watcher_send e (cs ! w) = Some c" by fastforce
  have "fst (broadcast e ws (cs[w := c]))"
  proof (rule "2.IH" [OF c])
    show "watcher_send e (cs[w := c] ! v) \<noteq> None" if "v \<in> set ws" for v
    proof -
      have "v \<noteq> w" using that 2(3) by auto
      then show ?thesis using 2(2) [of v] that by simp
    qed
  qed (use 2(3,4) in auto)
  then show ?case by (simp add: c)
qed simp

lemma broadcast_sent:
  assumes "broadcast e ws cs = (True, cs')" and "distinct ws" and "i < length cs"
    and "\<And>w. w \<in> set ws \<Longrightarrow> w < length cs"
  shows "if i \<in> set ws then watcher_send e (cs ! i) = Some (cs' ! i) else cs' ! i = cs ! i"
  using assms
proof (induction e ws cs rule: broadcast.induct)
  case (2 e w ws cs)
  then obtain c where c: "watcher_send e (cs ! w) = Some c"
    by (cases "watcher_send e (cs ! w)") auto
  have rest: "if i \<in> set ws then watcher_send e (cs[w := c] ! i) = Some (cs' ! i) else cs' ! i = cs[w := c] ! i"
    using "2.IH" [OF c] 2(2,3,4,5) c by simp
  show ?case
  proof (cases "i = w")
    case True
    then show ?thesis using rest c 2(3,4) by simp
  next
    case False
    then show ?thesis using rest by (simp split: if_splits)
  qed
qed simp

text \<open>A change of the collection reaches every watcher of the client.\<close>

lemma notify_all:
  assumes n: "notify mpc_gvr ns e t = (r, t')" and ws: "getWatches t mpc_gvr ns = [0..<length (tk_channels t)]"
  shows "tk_objects t' = tk_objects t" "tk_resourceVersions t' = tk_resourceVersions t"
    "tk_watchers t' = tk_watchers t" "length (tk_channels t') = length (tk_channels t)"
    "r = Some None \<or> r = None"
    "has_room t \<Longrightarrow> r = Some None"
    "r = Some None \<Longrightarrow> i < length (tk_channels t) \<Longrightarrow> watcher_send e (tk_channels t ! i) = Some (tk_channels t' ! i)"
proof -
  obtain ok cs where b: "broadcast e [0..<length (tk_channels t)] (tk_channels t) = (ok, cs)" by fastforce
  then have t': "t' = t\<lparr>tk_channels := cs\<rparr>" and r: "r = (if ok then Some None else None)"
    using n by (simp_all add: notify_def ws)
  show "tk_objects t' = tk_objects t" "tk_resourceVersions t' = tk_resourceVersions t"
    "tk_watchers t' = tk_watchers t" "r = Some None \<or> r = None"
    by (simp_all add: t' r)
  show "length (tk_channels t') = length (tk_channels t)"
    using broadcast_length [of e "[0..<length (tk_channels t)]" "tk_channels t"] by (simp add: t' b)
  show "r = Some None" if "has_room t"
    using broadcast_room [of "[0..<length (tk_channels t)]" e "tk_channels t"] that
    by (simp add: r b has_room_def watcher_send_room list_all_length flip: not_None_eq)
  show "watcher_send e (tk_channels t ! i) = Some (tk_channels t' ! i)"
    if "r = Some None" "i < length (tk_channels t)"
  proof -
    have "ok" using that(1) by (simp add: r split: if_splits)
    then show ?thesis
      using broadcast_sent [of e "[0..<length (tk_channels t)]" "tk_channels t" cs i] b that(2) by (simp add: t')
  qed
qed

section \<open>Writes to the tracker\<close>

fun apply_event :: "(string \<times> string \<rightharpoonup> ManagedProxyConfiguration) \<Rightarrow> watch_event \<Rightarrow> (string \<times> string \<rightharpoonup> ManagedProxyConfiguration)" where
  "apply_event m (WatchAdded x) = m(config_key x \<mapsto> x)"
| "apply_event m (WatchModified x) = m(config_key x \<mapsto> x)"
| "apply_event m (WatchDeleted x) = m(config_key x := None)"

definition objects_of :: "tracker \<Rightarrow> (string \<times> string, versionedObject) gmap" where
  "objects_of t = (case gget (tk_objects t) mpc_gvr of None \<Rightarrow> [] | Some objs \<Rightarrow> objs)"

definition touch :: "tracker \<Rightarrow> tracker" where
  "touch t = (case gget (tk_objects t) mpc_gvr of
     None \<Rightarrow> t\<lparr>tk_objects := gput mpc_gvr [] (tk_objects t)\<rparr> | Some objs \<Rightarrow> t)"

definition put_object :: "ManagedProxyConfiguration \<Rightarrow> tracker \<Rightarrow> tracker" where
  "put_object x t =
     (touch t)\<lparr>tk_resourceVersions := gput mpc_gvr (current_version t + 1) (tk_resourceVersions t),
       tk_objects := gput mpc_gvr (gput (config_key x)
         \<lparr>vo_resourceVersion = current_version t + 1, vo_Object = x\<rparr> (objects_of t)) (tk_objects (touch t))\<rparr>"

lemma configs_objects: "configs t k = map_option vo_Object (gget (objects_of t) k)"
  by (simp add: configs_def objects_of_def split: option.split)

lemma touch_simps [simp]:
  "tk_resourceVersions (touch t) = tk_resourceVersions t" "tk_watchers (touch t) = tk_watchers t"
  "tk_channels (touch t) = tk_channels t" "objects_of (touch t) = objects_of t"
  "gget (tk_objects (touch t)) mpc_gvr = Some (objects_of t)"
  by (simp_all add: touch_def objects_of_def split: option.split)

lemma tracker_add_eq:
  assumes "x = place ns obj"
  shows "tracker_add mpc_gvr obj ns rep t =
    (if mpc_Namespace x \<noteq> ns then (Some (fst (spec_add rep ns obj (store_of t))), t)
     else if (configs t (config_key x) \<noteq> None) = rep
     then notify mpc_gvr ns (if rep then WatchModified x else WatchAdded x) (put_object x t)
     else (Some (fst (spec_add rep ns obj (store_of t))), touch t))"
proof -
  have [simp]: "(if mpc_Namespace obj = [] then obj\<lparr>mpc_Namespace := ns\<rparr> else obj) = x"
    using assms by (simp add: place_def)
  have [simp]: "place ns obj = x" using assms by simp
  have v: "(case gget (tk_resourceVersions t) mpc_gvr of None \<Rightarrow> 1 | Some v \<Rightarrow> v) = current_version t"
    by (simp add: current_version_def)
  note unfolded = tracker_add_def Let_def touch_def [symmetric] v store_of_def
  show ?thesis
  proof (cases "mpc_Namespace x = ns")
    case False
    then show ?thesis by (auto simp: unfolded spec_add_def)
  next
    case True
    then have k: "(mpc_Namespace x, mpc_Name x) = config_key x" "(ns, mpc_Name x) = config_key x"
      by (simp_all add: config_key_def)
    show ?thesis
      using True
      by (cases "gget (objects_of t) (config_key x)"; cases rep)
        (simp_all add: unfolded k spec_add_def configs_objects put_object_def not_found_def)
  qed
qed

lemma configs_touch [simp]: "configs (touch t) = configs t" "current_version (touch t) = current_version t"
  by (auto simp: configs_objects current_version_def)

lemma put_object_simps:
  "configs (put_object x t) = (configs t)(config_key x \<mapsto> x)"
  "current_version (put_object x t) = current_version t + 1"
  "tk_channels (put_object x t) = tk_channels t" "tk_watchers (put_object x t) = tk_watchers t"
  "objects_of (put_object x t) =
     gput (config_key x) \<lparr>vo_resourceVersion = current_version t + 1, vo_Object = x\<rparr> (objects_of t)"
  by (auto simp: configs_def current_version_def put_object_def objects_of_def gm.get_put split: option.split)

lemma tracker_ok_iff:
  "tracker_ok t \<longleftrightarrow> objects_ok (current_version t) (objects_of t) \<and> 1 \<le> current_version t \<and>
     getWatches t mpc_gvr [] = [0..<length (tk_channels t)]"
  by (auto simp: tracker_ok_def objects_of_def split: option.split)

lemma getWatches_cong: "tk_watchers t' = tk_watchers t \<Longrightarrow> getWatches t' = getWatches t"
  by (simp add: getWatches_def fun_eq_iff)

text \<open>The tracker after a send: only the channels differ.\<close>

lemma sent_store:
  assumes "tk_objects t' = tk_objects t" "tk_resourceVersions t' = tk_resourceVersions t"
  shows "configs t' = configs t" "current_version t' = current_version t" "objects_of t' = objects_of t"
  using assms by (simp_all add: configs_def current_version_def objects_of_def fun_eq_iff)

lemma touch_ok: "tracker_ok t \<Longrightarrow> tracker_ok (touch t)"
  by (simp add: tracker_ok_iff getWatches_cong [of "touch t" t])

lemma put_object_ok: "tracker_ok t \<Longrightarrow> tracker_ok (put_object x t)"
  by (simp add: tracker_ok_iff put_object_simps objects_ok_gput
      getWatches_cong [of "put_object x t" t])

text \<open>How an operation of the tracker may change it: not at all, with an error, or by one event that
  every watcher is sent.\<close>

definition changed_by :: "watch_event \<Rightarrow> tracker \<Rightarrow> tracker \<Rightarrow> bool" where
  "changed_by e t t' \<longleftrightarrow>
     configs t' = apply_event (configs t) e \<and> length (tk_channels t') = length (tk_channels t) \<and>
     (\<forall>i < length (tk_channels t). watcher_send e (tk_channels t ! i) = Some (tk_channels t' ! i))"

definition kept :: "tracker \<Rightarrow> tracker \<Rightarrow> bool" where
  "kept t t' \<longleftrightarrow> configs t' = configs t \<and> tk_channels t' = tk_channels t"

definition one_change :: "tracker_result \<Rightarrow> tracker \<Rightarrow> tracker \<Rightarrow> bool" where
  "one_change r t t' \<longleftrightarrow>
     tracker_ok t' \<and> length (tk_channels t') = length (tk_channels t) \<and>
     (case r of
        None \<Rightarrow> \<not> has_room t
      | Some None \<Rightarrow> \<exists>e. changed_by e t t'
      | Some (Some err) \<Rightarrow> kept t t')"

lemma notify_change:
  assumes n: "notify mpc_gvr ns e u = (r, t')" and ws: "getWatches u mpc_gvr ns = [0..<length (tk_channels u)]"
    and ok: "tracker_ok u" and ch: "tk_channels u = tk_channels t"
    and m: "configs u = apply_event (configs t) e"
  shows "one_change r t t'" and "store_of t' = store_of u" and "r = Some None \<or> r = None"
proof -
  note all = notify_all [OF n ws]
  have room: "has_room u = has_room t" by (simp add: has_room_def ch)
  have "tracker_ok t'"
    using ok all(4) by (simp add: tracker_ok_iff sent_store [OF all(1,2)] getWatches_cong [OF all(3)])
  moreover have "changed_by e t t'" if "r = Some None"
    using all(4) all(7) [OF that] m by (simp add: changed_by_def ch sent_store [OF all(1,2)])
  ultimately show "one_change r t t'"
    using all(4-6) room by (auto simp: one_change_def ch)
  show "store_of t' = store_of u" by (simp add: store_of_def sent_store [OF all(1,2)] all(4))
  show "r = Some None \<or> r = None" by (rule all(5))
qed

lemma tracker_add_change:
  assumes add: "tracker_add mpc_gvr obj ns rep t = (r, t')" and ok: "tracker_ok t"
    and ws: "getWatches t mpc_gvr ns = [0..<length (tk_channels t)]"
  shows "one_change r t t'" and "r = Some err \<Longrightarrow> spec_add rep ns obj (store_of t) = (err, store_of t')"
proof -
  define x where "x = place ns obj"
  let ?fits = "(configs t (config_key x) \<noteq> None) = rep"
  have spec: "spec_add rep ns obj (store_of t) = (None, store_of (put_object x t))"
    if "mpc_Namespace x = ns" "?fits"
    using that by (simp add: spec_add_def x_def [symmetric] store_of_def put_object_simps)
  have keep: "snd (spec_add rep ns obj (store_of t)) = store_of t"
    if "mpc_Namespace x \<noteq> ns \<or> \<not> ?fits"
    using that by (auto simp: spec_add_def x_def [symmetric] Let_def store_of_def)
  have touched: "store_of (touch t) = store_of t" by (simp add: store_of_def)
  have err: "\<exists>e. fst (spec_add rep ns obj (store_of t)) = Some e"
    if "mpc_Namespace x \<noteq> ns \<or> \<not> ?fits"
    using that by (auto simp: spec_add_def x_def [symmetric] Let_def store_of_def)
  consider (fits) "mpc_Namespace x = ns" "?fits"
    | (failed) "mpc_Namespace x \<noteq> ns \<or> \<not> ?fits"
      "r = Some (fst (spec_add rep ns obj (store_of t)))" "t' = t \<or> t' = touch t"
    using add unfolding tracker_add_eq [OF x_def] by (auto split: if_splits)
  then have "one_change r t t' \<and> (r = Some err \<longrightarrow> spec_add rep ns obj (store_of t) = (err, store_of t'))"
  proof cases
    case fits
    let ?e = "if rep then WatchModified x else WatchAdded x"
    have n: "notify mpc_gvr ns ?e (put_object x t) = (r, t')"
      using add fits unfolding tracker_add_eq [OF x_def] by simp
    have "getWatches (put_object x t) mpc_gvr ns = [0..<length (tk_channels (put_object x t))]"
      using ws by (simp add: put_object_simps getWatches_cong [of "put_object x t" t])
    from notify_change [OF n this put_object_ok [OF ok], of t] show ?thesis
      by (auto simp: put_object_simps spec [OF fits])
  next
    case failed
    obtain e where "fst (spec_add rep ns obj (store_of t)) = Some e" using err [OF failed(1)] by blast
    then show ?thesis
      using failed(2,3) ok keep [OF failed(1)] touched
      by (auto simp: one_change_def kept_def touch_ok prod_eq_iff)
  qed
  then show "one_change r t t'" and "r = Some err \<Longrightarrow> spec_add rep ns obj (store_of t) = (err, store_of t')"
    by auto
qed

lemma tracker_Get_eq:
  "tracker_Get t mpc_gvr ns name =
     (case configs t (ns, name) of None \<Rightarrow> Inl (not_found name) | Some x \<Rightarrow> Inr x)"
  by (simp add: tracker_Get_def configs_def not_found_def split: option.split)

lemma config_key_configs: "tracker_ok t \<Longrightarrow> configs t k = Some x \<Longrightarrow> config_key x = k"
  by (auto simp: tracker_ok_iff objects_ok_def configs_objects object_key_def config_key_def dest!: gget_in_set)

lemma tracker_Delete_change:
  assumes del: "tracker_Delete mpc_gvr [] name t = (r, t')" and ok: "tracker_ok t"
  shows "one_change r t t'"
    and "r = Some err \<Longrightarrow> spec_delete name (store_of t) = (Returned None err, store_of t')"
proof -
  let ?u = "t\<lparr>tk_objects := gput mpc_gvr (gdel ([], name) (objects_of t)) (tk_objects t)\<rparr>"
  have obj: "objects_of ?u = gdel ([], name) (objects_of t)" "current_version ?u = current_version t"
    by (simp_all add: objects_of_def current_version_def)
  have "one_change r t t' \<and> (r = Some err \<longrightarrow> spec_delete name (store_of t) = (Returned None err, store_of t'))"
  proof (cases "configs t ([], name)")
    case None
    then have "r = Some (Some (not_found name)) \<and> t' = t"
      using del by (auto simp: tracker_Delete_def configs_def not_found_def split: option.splits)
    then show ?thesis using ok None by (auto simp: one_change_def kept_def spec_delete_def store_of_def)
  next
    case (Some x)
    then have n: "notify mpc_gvr [] (WatchDeleted x) ?u = (r, t')"
      using del by (auto simp: tracker_Delete_def configs_def objects_of_def split: option.splits)
    have m: "configs ?u = apply_event (configs t) (WatchDeleted x)"
      using config_key_configs [OF ok Some] by (auto simp: configs_objects obj gm.get_del fun_eq_iff)
    have u: "tracker_ok ?u"
      using ok objects_ok_gdel [of _ "objects_of t" "([], name)"]
      by (simp add: tracker_ok_iff obj getWatches_cong [of ?u t])
    then have "getWatches ?u mpc_gvr [] = [0..<length (tk_channels ?u)]" by (simp add: tracker_ok_iff)
    from notify_change [OF n this u _ m] Some config_key_configs [OF ok Some] show ?thesis
      by (auto simp: spec_delete_def store_of_def m obj)
  qed
  then show "one_change r t t'"
    and "r = Some err \<Longrightarrow> spec_delete name (store_of t) = (Returned None err, store_of t')" by auto
qed

lemma tracker_Watch_opens:
  assumes "tracker_Watch mpc_gvr [] t = (w, t')" and "tracker_ok t"
  shows "w = length (tk_channels t)" "tk_channels t' = tk_channels t @ [NewRaceFreeFake]"
    "configs t' = configs t" "current_version t' = current_version t" "tracker_ok t'"
proof -
  show w: "w = length (tk_channels t)" and ch: "tk_channels t' = tk_channels t @ [NewRaceFreeFake]"
    using assms(1) by (auto simp: tracker_Watch_def Let_def)
  have st: "tk_objects t' = tk_objects t" "tk_resourceVersions t' = tk_resourceVersions t"
    using assms(1) by (auto simp: tracker_Watch_def Let_def)
  note same = sent_store [OF st]
  show "configs t' = configs t" "current_version t' = current_version t" by (fact same)+
  have "getWatches t' mpc_gvr [] = getWatches t mpc_gvr [] @ [w]"
    using assms(1) by (auto simp: tracker_Watch_def Let_def getWatches_def split: option.split)
  then show "tracker_ok t'"
    using assms(2) by (simp add: tracker_ok_iff same ch w)
qed

lemma tracker_List_eq:
  assumes "tracker_ok t"
  shows "tracker_List t mpc_gvr (SchemeGroupVersion, ''ManagedProxyConfiguration'') [] =
    Inr (RetList (itoa (current_version t)) (spec_items (store_of t)))"
proof -
  have "map vo_Object (filterByNamespace (objects_of t) []) = spec_items (store_of t)"
    using list_in_key_order [of "current_version t" "objects_of t"] assms
    by (simp add: spec_items_def store_of_def tracker_ok_iff configs_objects dom_def)
  then show ?thesis
    by (auto simp: tracker_List_def addKnownTypes_def SchemeGroupVersion_def current_version_def objects_of_def
        filterByNamespace_def split: option.splits)
qed

section \<open>Reactions and calls\<close>

definition small_step :: "bool \<Rightarrow> tracker \<Rightarrow> tracker \<Rightarrow> bool" where
  "small_step panic t t' \<longleftrightarrow>
     tracker_ok t' \<and> length (tk_channels t') = length (tk_channels t) \<and>
     (if panic then \<not> has_room t else kept t t' \<or> (\<exists>e. changed_by e t t'))"

lemma one_change_small: "one_change r t t' \<Longrightarrow> small_step (r = None) t t'"
  by (auto simp: one_change_def small_step_def split: option.splits)

lemma small_step_refl: "tracker_ok t \<Longrightarrow> small_step False t t"
  by (simp add: small_step_def kept_def)

text \<open>What a reaction on objects has to show: one small step, and the answer of the specification.\<close>

definition answers :: "(store_view \<Rightarrow> ManagedProxyConfiguration outcome \<times> store_view) \<Rightarrow> tracker \<Rightarrow> reaction \<Rightarrow> bool" where
  "answers spec t = (\<lambda>(r, t').
     small_step (r = None) t t' \<and> (r \<noteq> None \<longrightarrow> spec (store_of t) = (as_object r, store_of t')))"

lemma as_object_answer:
  "as_object (Some (answer (read_object t mpc_gvr [] name))) = spec_read name (store_of t)"
  by (simp add: read_object_def tracker_Get_eq spec_read_def store_of_def split: option.split)

lemma answers_write:
  assumes "tracker_ok t"
  shows "answers (spec_write rep name obj) t (write_then_read mpc_gvr name (tracker_add mpc_gvr obj [] rep t))"
proof -
  obtain r t' where add: "tracker_add mpc_gvr obj [] rep t = (r, t')" by fastforce
  have ws: "getWatches t mpc_gvr [] = [0..<length (tk_channels t)]" using assms by (simp add: tracker_ok_iff)
  note change = tracker_add_change [OF add assms ws]
  show ?thesis
    using one_change_small [OF change(1)] change(2)
    by (auto simp: answers_def write_then_read_def add spec_write_def as_object_answer
        simp del: as_object.simps(2-) split: option.split) simp
qed

lemma answers_error:
  assumes "tracker_ok t" and "spec (store_of t) = (Returned None (Some e), store_of t)"
  shows "answers spec t (Some (None, Some e), t)"
  using assms by (simp add: answers_def small_step_refl)

lemma answers_Create:
  assumes "tracker_ok t" and "action_gvr a = mpc_gvr" and "ac_Subresource a = []"
  shows "answers (spec_write False (mpc_Name x) x) t (react_Create a x t)"
  using answers_write [OF assms(1)] assms(2,3) by (simp add: react_Create_def tracker_Create_def)

lemma answers_Update:
  assumes "tracker_ok t" and "action_gvr a = mpc_gvr"
  shows "answers (spec_write True (mpc_Name x) x) t (react_Update a x t)"
  using answers_write [OF assms(1)] assms(2) by (simp add: react_Update_def tracker_Update_def)

lemma answers_Patch:
  assumes ok: "tracker_ok t" and g: "action_gvr a = mpc_gvr"
  shows "answers (spec_patch p (ac_Name a) pt data) t (react_Patch p a pt data t)"
proof (cases "configs t ([], ac_Name a)")
  case None
  then show ?thesis
    using answers_error [OF ok]
    by (simp add: react_Patch_def g tracker_Get_eq spec_patch_def store_of_def)
next
  case (Some x)
  show ?thesis
  proof (cases "patched p pt data x")
    case (Inl e)
    then show ?thesis
      using answers_error [OF ok] Some
      by (simp add: react_Patch_def g tracker_Get_eq spec_patch_def store_of_def)
  next
    case (Inr y)
    obtain r t' where add: "tracker_add mpc_gvr y [] True t = (r, t')" by fastforce
    have ws: "getWatches t mpc_gvr [] = [0..<length (tk_channels t)]" using ok by (simp add: tracker_ok_iff)
    note change = tracker_add_change [OF add ok ws]
    have "sv_objects (store_of t) ([], ac_Name a) = Some x" using Some by (simp add: store_of_def)
    then show ?thesis
      using one_change_small [OF change(1)] change(2) Some Inr
      by (auto simp: react_Patch_def tracker_Patch_def g tracker_Get_eq add answers_def spec_patch_def
          split: option.split)
  qed
qed

lemma answers_Apply:
  assumes ok: "tracker_ok t" and g: "action_gvr a = mpc_gvr"
  shows "answers (spec_apply p (ac_Name a) data) t (react_Apply p a data t)"
proof (cases "pt_yaml p data")
  case (Inl e)
  then show ?thesis using answers_error [OF ok] by (simp add: react_Apply_def spec_apply_def)
next
  case (Inr doc)
  show ?thesis
  proof (cases "configs t ([], ac_Name a)")
    case None
    then show ?thesis
      using answers_error [OF ok] Inr
      by (simp add: react_Apply_def g tracker_Apply_def tracker_Get_eq write_then_read_def spec_apply_def store_of_def)
  next
    case (Some x)
    then have s: "sv_objects (store_of t) ([], ac_Name a) = Some x" by (simp add: store_of_def)
    show ?thesis
    proof (cases "pt_strategic p (pt_SetName p (ac_Name a) doc) x")
      case (Inl e)
      then show ?thesis
        using answers_error [OF ok] Inr Some s
        by (simp add: react_Apply_def g tracker_Apply_def tracker_Get_eq write_then_read_def spec_apply_def)
    next
      case y: (Inr y)
      then show ?thesis
        using answers_write [OF ok, of True "ac_Name a" y] Inr Some s
        by (simp add: react_Apply_def g tracker_Apply_def tracker_Get_eq spec_apply_def answers_def)
    qed
  qed
qed

definition is_clientset :: "patcher \<Rightarrow> fake_clientset \<Rightarrow> bool" where
  "is_clientset p f \<longleftrightarrow>
     fk_chain f = [\<lparr>re_verb = ''*'', re_resource = ''*'', re_React = ObjectReaction p\<rparr>] \<and>
     fk_watchChain f = [\<lparr>wr_resource = ''*'', wr_React = tracker_watch_reaction\<rparr>] \<and> tracker_ok (fk_world f)"

fun panicked :: "call_result \<Rightarrow> bool" where
  "panicked (ResObject r) \<longleftrightarrow> r = Panicked"
| "panicked (ResList r) \<longleftrightarrow> r = Panicked"
| "panicked (ResWatch r) \<longleftrightarrow> r = Panicked"
| "panicked (ResError r) \<longleftrightarrow> r = Panicked"

definition opened :: "tracker \<Rightarrow> tracker \<Rightarrow> bool" where
  "opened t t' \<longleftrightarrow> configs t' = configs t \<and> tk_channels t' = tk_channels t @ [NewRaceFreeFake]"

text \<open>What a call has to show.\<close>

definition conforms ::
  "patcher \<Rightarrow> (store_view \<Rightarrow> call_result \<times> store_view) \<Rightarrow> fake_clientset \<Rightarrow> call_result \<times> fake_clientset \<Rightarrow> bool" where
  "conforms p spec f = (\<lambda>(res, f').
     let t = fk_world f; t' = fk_world f' in
     is_clientset p f' \<and>
     (\<not> panicked res \<longrightarrow> kept t t' \<or> (\<exists>e. changed_by e t t') \<or> opened t t') \<and>
     (has_room t \<or> \<not> panicked res \<longrightarrow> spec (store_of t) = (res, store_of t')))"

lemma Invokes_clientset:
  assumes "is_clientset p f"
  shows "Invokes a dflt f =
    (case ObjectReaction p a (fk_world f) of
       (r, t') \<Rightarrow> (map_option (\<lambda>(h, obj, err). if h then (obj, err) else (dflt, None)) r,
                  f\<lparr>fk_actions := fk_actions f @ [a], fk_world := t'\<rparr>))"
  using assms
  by (auto simp: Invokes_def is_clientset_def Handles_def resourceCovers_def split: prod.split option.split)

lemma Invokes_handled:
  assumes "is_clientset p f" and "ObjectReaction p a (fk_world f) = handled (r, t')"
  shows "Invokes a dflt f = (r, f\<lparr>fk_actions := fk_actions f @ [a], fk_world := t'\<rparr>)"
  using assms by (cases r) (auto simp: Invokes_clientset handled_def)

lemma conforms_object:
  assumes c: "is_clientset p f" and R: "ObjectReaction p a (fk_world f) = handled R"
    and a: "answers spec (fk_world f) R" and s: "\<And>s. call_spec s = apfst ResObject (spec s)"
  shows "conforms p call_spec f (apfst ResObject (fake_object_call a blank f))"
proof -
  obtain r t' where [simp]: "R = (r, t')" by fastforce
  have step: "small_step (r = None) (fk_world f) t'"
    and spec: "r \<noteq> None \<Longrightarrow> spec (store_of (fk_world f)) = (as_object r, store_of t')"
    using a by (auto simp: answers_def)
  show ?thesis
    using c step spec s
    by (cases r) (auto simp: fake_object_call_def Invokes_handled [OF c] R conforms_def Let_def
        is_clientset_def small_step_def)
qed

lemmas reaction_defs = ObjectReaction_def root_action_def NewRootGetAction_def NewRootCreateAction_def
  NewRootUpdateAction_def NewRootUpdateSubresourceAction_def NewRootDeleteAction_def
  NewRootPatchSubresourceAction_def action_gvr_def mpc_gvr_def

lemma action_gvr_simps [simp]:
  "action_gvr (NewRootCreateAction x) = mpc_gvr" "action_gvr (NewRootUpdateAction x) = mpc_gvr"
  "action_gvr (NewRootUpdateSubresourceAction sub x) = mpc_gvr" "action_gvr (NewRootGetAction n) = mpc_gvr"
  "action_gvr (NewRootDeleteAction n) = mpc_gvr" "action_gvr (NewRootPatchSubresourceAction n pt data subs) = mpc_gvr"
  by (simp_all add: reaction_defs)

lemma answers_read:
  "tracker_ok t \<Longrightarrow> answers (\<lambda>s. (spec_read n s, s)) t (Some (answer (read_object t mpc_gvr [] n)), t)"
  by (simp add: answers_def small_step_refl as_object_answer del: as_object.simps)

lemma conforms_Delete:
  assumes c: "is_clientset p f"
  shows "conforms p (spec_call sl p (CallDelete n opts)) f (fake_call sl blank (CallDelete n opts) f)"
proof -
  obtain r t' where del: "tracker_Delete mpc_gvr [] n (fk_world f) = (r, t')" by fastforce
  have ok: "tracker_ok (fk_world f)" using c by (simp add: is_clientset_def)
  note change = tracker_Delete_change [OF del ok]
  have R: "ObjectReaction p (NewRootDeleteAction n) (fk_world f) =
      handled (map_option (\<lambda>err. (None, err)) r, t')"
    using del by (simp add: reaction_defs react_Delete_def)
  show ?thesis
    using c one_change_small [OF change(1)] change(2)
    by (cases r) (auto simp: fake_Delete_def Invokes_handled [OF c R] conforms_def Let_def is_clientset_def small_step_def)
qed

lemma conforms_unchanged:
  assumes "is_clientset p f" and "spec (store_of (fk_world f)) = (res, store_of (fk_world f))"
    and "is_clientset p f'" and "fk_world f' = fk_world f"
  shows "conforms p spec f (res, f')"
  using assms by (simp add: conforms_def kept_def)

lemma conforms_List:
  assumes c: "is_clientset p f"
  shows "conforms p (spec_call sl p (CallList opts)) f (fake_call sl blank (CallList opts) f)"
proof (cases "ExtractFromListOptions sl opts")
  case None
  then show ?thesis
    using c by (simp add: fake_List_def NewRootListAction_def restricted_def conforms_unchanged)
next
  case (Some e)
  obtain l field rv where e: "e = (l, field, rv)" by (cases e)
  let ?a = "(root_action ''list'')\<lparr>ac_LabelSelector := se_text l, ac_FieldSelector := se_text field\<rparr>"
  have a: "NewRootListAction sl opts = Some ?a" using Some e by (simp add: NewRootListAction_def restricted_def)
  have ok: "tracker_ok (fk_world f)" using c by (simp add: is_clientset_def)
  have R: "ObjectReaction p ?a (fk_world f) = handled
      (Some (Some (RetList (itoa (current_version (fk_world f))) (spec_items (store_of (fk_world f)))), None), fk_world f)"
    using tracker_List_eq [OF ok] by (simp add: reaction_defs)
  show ?thesis
    using c Some e
    by (simp add: fake_List_def a Invokes_handled [OF c R]) (simp add: conforms_unchanged is_clientset_def store_of_def)
qed

lemma conforms_Watch:
  assumes c: "is_clientset p f"
  shows "conforms p (spec_call sl p (CallWatch opts)) f (fake_call sl blank (CallWatch opts) f)"
proof (cases "ExtractFromListOptions sl opts")
  case None
  then show ?thesis
    using c by (simp add: fake_Watch_def NewRootWatchAction_def restricted_def conforms_unchanged)
next
  case (Some e)
  obtain l field rv where e: "e = (l, field, rv)" by (cases e)
  let ?a = "(root_action ''watch'')\<lparr>ac_LabelSelector := se_text l, ac_FieldSelector := se_text field\<rparr>"
  have a: "NewRootWatchAction sl opts = Some ?a" using Some e by (simp add: NewRootWatchAction_def restricted_def)
  obtain w t' where w: "tracker_Watch mpc_gvr [] (fk_world f) = (w, t')" by fastforce
  have ok: "tracker_ok (fk_world f)" using c by (simp add: is_clientset_def)
  note opens = tracker_Watch_opens [OF w ok]
  have "action_gvr ?a = mpc_gvr" by (simp add: reaction_defs)
  then have "InvokesWatch ?a f = (Some (Some w, None), f\<lparr>fk_actions := fk_actions f @ [?a], fk_world := t'\<rparr>)"
    using c w by (simp add: InvokesWatch_def is_clientset_def resourceCovers_def tracker_watch_reaction_def)
  then show ?thesis
    using c Some opens
    by (simp add: fake_Watch_def a conforms_def Let_def is_clientset_def opened_def store_of_def)
qed

text \<open>No case of the switch covers the delete of a collection: the default object is returned and
  nothing is deleted.\<close>

lemma fake_DeleteCollection_eq:
  assumes c: "is_clientset p f" and "NewRootDeleteCollectionAction sl lo = Some a"
  shows "fake_DeleteCollection sl lo f = (Returned None None, f\<lparr>fk_actions := fk_actions f @ [a]\<rparr>)"
proof -
  have "ac_Verb a = ''delete-collection''"
    using assms(2) by (auto simp: NewRootDeleteCollectionAction_def restricted_def root_action_def split: option.splits)
  then show ?thesis
    using assms by (simp add: fake_DeleteCollection_def Invokes_clientset ObjectReaction_def)
qed

lemma conforms_DeleteCollection:
  assumes c: "is_clientset p f"
  shows "conforms p (spec_call sl p (CallDeleteCollection opts lo)) f (fake_call sl blank (CallDeleteCollection opts lo) f)"
proof (cases "NewRootDeleteCollectionAction sl lo")
  case None
  then have "ExtractFromListOptions sl lo = None"
    by (auto simp: NewRootDeleteCollectionAction_def restricted_def split: option.splits)
  then show ?thesis using c None by (simp add: fake_DeleteCollection_def conforms_unchanged)
next
  case (Some a)
  then have "ExtractFromListOptions sl lo \<noteq> None"
    by (auto simp: NewRootDeleteCollectionAction_def restricted_def split: option.splits)
  then show ?thesis
    using c by (auto simp: fake_DeleteCollection_eq [OF c Some] is_clientset_def intro!: conforms_unchanged)
qed

lemma conforms_Patch:
  assumes c: "is_clientset p f"
  shows "conforms p (spec_call sl p (CallPatch n pt data opts subs)) f (fake_call sl blank (CallPatch n pt data opts subs) f)"
proof -
  let ?a = "NewRootPatchSubresourceAction n pt data subs" and ?t = "fk_world f"
  have ok: "tracker_ok ?t" using c by (simp add: is_clientset_def)
  have R: "ObjectReaction p ?a ?t =
      handled (if pt = ApplyPatchType then react_Apply p ?a data ?t else react_Patch p ?a pt data ?t)"
    and n: "ac_Name ?a = n"
    by (simp_all add: reaction_defs)
  have "answers (\<lambda>s. if pt = ApplyPatchType then spec_apply p n data s else spec_patch p n pt data s) ?t
      (if pt = ApplyPatchType then react_Apply p ?a data ?t else react_Patch p ?a pt data ?t)"
    using answers_Apply [OF ok, of ?a p data] answers_Patch [OF ok, of ?a p pt data] by (auto simp: n)
  from conforms_object [OF c R this] show ?thesis by (simp add: fake_Patch_def)
qed

text \<open>Every call conforms.\<close>

lemma call_conforms:
  assumes c: "is_clientset p f"
  shows "conforms p (spec_call sl p k) f (fake_call sl blank k f)"
proof -
  let ?t = "fk_world f"
  have ok: "tracker_ok ?t" using c by (simp add: is_clientset_def)
  note object = conforms_object [OF c, where blank = blank and call_spec = "spec_call sl p k"]
  show ?thesis
  proof (cases k)
    case (CallGet n opts)
    have "ObjectReaction p (NewRootGetAction n) ?t = handled (Some (answer (read_object ?t mpc_gvr [] n)), ?t)"
      by (simp add: reaction_defs)
    from object [OF this answers_read [OF ok]] show ?thesis by (simp add: CallGet fake_Get_def)
  next
    case (CallCreate x opts)
    have "ObjectReaction p (NewRootCreateAction x) ?t = handled (react_Create (NewRootCreateAction x) x ?t)"
      "ac_Subresource (NewRootCreateAction x) = []"
      by (simp_all add: reaction_defs)
    from object [OF this(1) answers_Create [OF ok _ this(2)]] show ?thesis by (simp add: CallCreate fake_Create_def)
  next
    case (CallUpdate x opts)
    have "ObjectReaction p (NewRootUpdateAction x) ?t = handled (react_Update (NewRootUpdateAction x) x ?t)"
      by (simp add: reaction_defs)
    from object [OF this answers_Update [OF ok]] show ?thesis by (simp add: CallUpdate fake_Update_def)
  next
    case (CallUpdateStatus x opts)
    let ?a = "NewRootUpdateSubresourceAction ''status'' x"
    have "ObjectReaction p ?a ?t = handled (react_Update ?a x ?t)" by (simp add: reaction_defs)
    from object [OF this answers_Update [OF ok]] show ?thesis by (simp add: CallUpdateStatus fake_UpdateStatus_def)
  qed (use c in \<open>simp_all add: conforms_Delete conforms_DeleteCollection conforms_List conforms_Watch conforms_Patch
      del: fake_call.simps spec_call.simps\<close>)
qed

section \<open>The objects a client set starts with\<close>

fun seeds :: "ret \<Rightarrow> ManagedProxyConfiguration list" where
  "seeds (RetObject x) = [x]"
| "seeds (RetList rv xs) = xs"

text \<open>The guess from the kind meets the resource of the typed client.\<close>

lemma guessed_resource: "UnsafeGuessKindToResource (SchemeGroupVersion, ''ManagedProxyConfiguration'') = mpc_gvr"
  by code_simp

lemma object_kinds: "ObjectKinds (RetObject x) = [(SchemeGroupVersion, ''ManagedProxyConfiguration'')]"
  by (simp add: ObjectKinds_def addKnownTypes_def)

lemma add_object_eq: "add_object x t = tracker_add mpc_gvr x (mpc_Namespace x) False t"
proof -
  have "gv_Version SchemeGroupVersion \<noteq> APIVersionInternal" by code_simp
  then show ?thesis
    by (cases "tracker_add mpc_gvr x (mpc_Namespace x) False t")
      (auto simp: add_object_def object_kinds guessed_resource mpc_gvr_def split: option.split)
qed

definition fresh :: "tracker \<Rightarrow> bool" where
  "fresh t \<longleftrightarrow> tracker_ok t \<and> tk_watchers t = [] \<and> tk_channels t = []"

lemma fresh_NewObjectTracker: "fresh NewObjectTracker" "configs NewObjectTracker = Map.empty"
  "current_version NewObjectTracker = 1"
  by (simp_all add: fresh_def NewObjectTracker_def tracker_ok_def configs_def current_version_def getWatches_def)

lemma fresh_put: "fresh t \<Longrightarrow> fresh (put_object x t)"
  by (simp add: fresh_def put_object_ok put_object_simps)

lemma add_object_fresh:
  assumes "fresh t"
  shows "add_object x t =
    (if configs t (config_key x) = None then (Some None, put_object x t)
     else (Some (Some (FakeAlreadyExists (GroupResource mpc_gvr) (mpc_Name x))), touch t))"
proof -
  have x: "place (mpc_Namespace x) x = x" by (simp add: place_def)
  have "getWatches (put_object x t) mpc_gvr ns = []" for ns
    using assms by (simp add: fresh_def getWatches_def put_object_simps)
  then show ?thesis
    by (simp add: add_object_eq tracker_add_eq [OF x [symmetric]] notify_def spec_add_def x store_of_def)
qed

lemma addList_fresh:
  assumes "fresh t"
  shows "(case addList xs t of (Some None, t') \<Rightarrow> Some t' | _ \<Rightarrow> None) =
    (if distinct (map config_key xs) \<and> (\<forall>x \<in> set xs. configs t (config_key x) = None)
     then Some (fold put_object xs t) else None)"
  using assms
proof (induction xs arbitrary: t)
  case (Cons x xs)
  have "(\<forall>y \<in> set xs. configs (put_object x t) (config_key y) = None) \<longleftrightarrow>
      (\<forall>y \<in> set xs. configs t (config_key y) = None) \<and> config_key x \<notin> set (map config_key xs)"
    by (auto simp: put_object_simps image_iff split: if_splits)
  then show ?case
    using Cons.IH [OF fresh_put [OF Cons.prems, of x]] Cons.prems by (simp add: add_object_fresh)
qed simp

lemma addList_append:
  "addList (xs @ ys) t =
     (case addList xs t of (Some None, t') \<Rightarrow> addList ys t' | (failed, t') \<Rightarrow> (failed, t'))"
  by (induction xs arbitrary: t) (auto split: prod.split option.split)

lemma add_all_eq:
  "add_all objs t = (case addList (concat (map seeds objs)) t of (Some None, t') \<Rightarrow> Some t' | _ \<Rightarrow> None)"
proof (induction objs arbitrary: t)
  case (Cons r objs)
  have "tracker_Add r t = addList (seeds r) t"
    by (cases r) (auto split: prod.split option.split)
  then show ?case
    using Cons.IH by (auto simp: addList_append split: prod.split option.split)
qed simp

lemma fold_put_object:
  assumes "fresh t"
  shows "fresh (fold put_object xs t)"
    "configs (fold put_object xs t) = configs t ++ map_of (rev (map (\<lambda>x. (config_key x, x)) xs))"
    "current_version (fold put_object xs t) = current_version t + int (length xs)"
  using assms by (induction xs arbitrary: t) (simp_all add: fresh_put put_object_simps)

text \<open>The client set starts unless two of its objects have the same namespace and name, and then has
  them all.\<close>

lemma NewSimpleClientset_starts:
  assumes "xs = concat (map seeds objects)"
  shows "NewSimpleClientset p objects \<noteq> None \<longleftrightarrow> distinct (map config_key xs)"
    and "NewSimpleClientset p objects = Some f \<Longrightarrow>
      is_clientset p f \<and> tk_channels (fk_world f) = [] \<and>
      configs (fk_world f) = map_of (map (\<lambda>x. (config_key x, x)) xs) \<and>
      current_version (fk_world f) = 1 + int (length xs)"
proof -
  let ?t = "fold put_object xs NewObjectTracker"
  note start = fold_put_object [OF fresh_NewObjectTracker(1), of xs]
  have all: "add_all objects NewObjectTracker = (if distinct (map config_key xs) then Some ?t else None)"
    unfolding add_all_eq assms [symmetric] addList_fresh [OF fresh_NewObjectTracker(1)]
    by (simp add: fresh_NewObjectTracker)
  then show "NewSimpleClientset p objects \<noteq> None \<longleftrightarrow> distinct (map config_key xs)"
    by (simp add: NewSimpleClientset_def)
  assume "NewSimpleClientset p objects = Some f"
  then have d: "distinct (map config_key xs)"
    and f: "fk_world f = ?t" "fk_chain f = [\<lparr>re_verb = ''*'', re_resource = ''*'', re_React = ObjectReaction p\<rparr>]"
      "fk_watchChain f = [\<lparr>wr_resource = ''*'', wr_React = tracker_watch_reaction\<rparr>]"
    by (auto simp: NewSimpleClientset_def all AddReactor_def AddWatchReactor_def split: if_splits)
  have "map_of (rev (map (\<lambda>x. (config_key x, x)) xs)) = map_of (map (\<lambda>x. (config_key x, x)) xs)"
    using d by (intro map_of_inject_set [THEN iffD2]) (simp_all add: comp_def rev_map [symmetric])
  then show "is_clientset p f \<and> tk_channels (fk_world f) = [] \<and>
      configs (fk_world f) = map_of (map (\<lambda>x. (config_key x, x)) xs) \<and>
      current_version (fk_world f) = 1 + int (length xs)"
    using start f by (simp add: is_clientset_def fresh_def fresh_NewObjectTracker)
qed

section \<open>Readers of the watchers\<close>

text \<open>The client set with, for every watcher, what its reader knows: the objects when the watch was
  opened, changed by the events read since. A call that panics ends the run.\<close>

record watching =
  wa_client :: fake_clientset
  wa_views :: "(string \<times> string \<rightharpoonup> ManagedProxyConfiguration) list"

abbreviation channels :: "fake_clientset \<Rightarrow> fake_watcher list" where
  "channels f \<equiv> tk_channels (fk_world f)"

definition set_channel :: "nat \<Rightarrow> fake_watcher \<Rightarrow> fake_clientset \<Rightarrow> fake_clientset" where
  "set_channel w c f = f\<lparr>fk_world := (fk_world f)\<lparr>tk_channels := (channels f)[w := c]\<rparr>\<rparr>"

definition watch_init :: "patcher \<Rightarrow> watching \<Rightarrow> bool" where
  "watch_init p s \<longleftrightarrow> (\<exists>objects. NewSimpleClientset p objects = Some (wa_client s)) \<and> wa_views s = []"

inductive watch_step :: "selectors \<Rightarrow> ManagedProxyConfiguration \<Rightarrow> watching \<Rightarrow> watching \<Rightarrow> bool"
  for sl :: selectors and blank :: ManagedProxyConfiguration where
  call: "fake_call sl blank k (wa_client s) = (res, f') \<Longrightarrow> \<not> panicked res \<Longrightarrow>
    watch_step sl blank s
      \<lparr>wa_client = f',
       wa_views = wa_views s @
         replicate (length (channels f') - length (channels (wa_client s))) (configs (fk_world f'))\<rparr>"
| receive: "w < length (channels (wa_client s)) \<Longrightarrow>
    watcher_receive (channels (wa_client s) ! w) = Some (e, c) \<Longrightarrow>
    watch_step sl blank s
      \<lparr>wa_client = set_channel w c (wa_client s),
       wa_views = (wa_views s)[w := apply_event (wa_views s ! w) e]\<rparr>"
| stop: "w < length (channels (wa_client s)) \<Longrightarrow>
    watch_step sl blank s
      (s\<lparr>wa_client := set_channel w (watcher_Stop (channels (wa_client s) ! w)) (wa_client s)\<rparr>)"

inductive_cases watch_stepE: "watch_step sl blank s s'"

definition channel_ok :: "nat \<Rightarrow> (string \<times> string \<rightharpoonup> ManagedProxyConfiguration) \<Rightarrow> fake_watcher \<Rightarrow>
    (string \<times> string \<rightharpoonup> ManagedProxyConfiguration) \<Rightarrow> bool" where
  "channel_ok n m c view \<longleftrightarrow>
     (\<not> fw_Stopped c \<longrightarrow> foldl apply_event view (fw_result c) = m) \<and>
     length (fw_result c) \<le> DefaultChanSize \<and> length (fw_result c) \<le> n"

definition watch_inv :: "patcher \<Rightarrow> watching \<Rightarrow> bool" where
  "watch_inv p s \<longleftrightarrow>
     is_clientset p (wa_client s) \<and>
     list_all2 (channel_ok (length (fk_actions (wa_client s))) (configs (fk_world (wa_client s))))
       (channels (wa_client s)) (wa_views s)"

lemma set_channel_simps [simp]:
  "fk_actions (set_channel w c f) = fk_actions f" "channels (set_channel w c f) = (channels f)[w := c]"
  "configs (fk_world (set_channel w c f)) = configs (fk_world f)"
  by (simp_all add: set_channel_def configs_def)

lemma set_channel_clientset: "is_clientset p f \<Longrightarrow> is_clientset p (set_channel w c f)"
proof -
  let ?t = "fk_world f" and ?t' = "fk_world (set_channel w c f)"
  have st: "tk_objects ?t' = tk_objects ?t" "tk_resourceVersions ?t' = tk_resourceVersions ?t"
    "tk_watchers ?t' = tk_watchers ?t"
    by (simp_all add: set_channel_def)
  assume "is_clientset p f"
  then show ?thesis
    by (simp add: is_clientset_def tracker_ok_iff sent_store [OF st(1,2)] getWatches_cong [OF st(3)])
      (simp add: set_channel_def)
qed

lemma channel_ok_mono: "channel_ok n m c view \<Longrightarrow> n \<le> n' \<Longrightarrow> channel_ok n' m c view"
  by (simp add: channel_ok_def)

lemma channel_ok_send:
  assumes "channel_ok n m c view" and "watcher_send e c = Some c'"
  shows "channel_ok (n + 1) (apply_event m e) c' view"
  using assms by (auto simp: channel_ok_def watcher_send_def split: if_splits)

lemma channel_ok_receive:
  assumes "channel_ok n m c view" and "watcher_receive c = Some (e, c')"
  shows "channel_ok n m c' (apply_event view e)"
  using assms by (auto simp: channel_ok_def watcher_receive_def split: list.splits)

lemma channel_ok_stop: "channel_ok n m c view \<Longrightarrow> channel_ok n m (watcher_Stop c) view"
  by (simp add: channel_ok_def watcher_Stop_def)

lemma channel_ok_new: "channel_ok n m NewRaceFreeFake m"
  by (simp add: channel_ok_def NewRaceFreeFake_def DefaultChanSize_def)

text \<open>A call that answers is recorded.\<close>

lemma fake_call_run: "snd (fake_call sl blank k f) = fake_run sl blank k f"
  by (cases k) simp_all

lemma fake_call_records:
  assumes "fake_call sl blank k f = (res, f')" and "\<not> panicked res"
  shows "length (fk_actions f') = length (fk_actions f) + 1"
proof -
  have "recorded sl k \<noteq> None"
  proof
    assume "recorded sl k = None"
    then show False
      using assms by (cases k) (auto simp: fake_List_def fake_Watch_def fake_DeleteCollection_def)
  qed
  then show ?thesis
    using fake_run_records [of sl blank k f] fake_call_run [of sl blank k f] assms(1) by auto
qed

lemma watch_inv_init: "watch_init p s \<Longrightarrow> watch_inv p s"
  using NewSimpleClientset_starts(2) [OF refl, of p]
  by (fastforce simp: watch_init_def watch_inv_def)

lemma call_views:
  assumes inv: "watch_inv p s" and call: "fake_call sl blank k (wa_client s) = (res, f')" and np: "\<not> panicked res"
  shows "is_clientset p f'"
    and "list_all2 (channel_ok (length (fk_actions f')) (configs (fk_world f'))) (channels f')
      (wa_views s @ replicate (length (channels f') - length (channels (wa_client s))) (configs (fk_world f')))"
proof -
  let ?t = "fk_world (wa_client s)" and ?t' = "fk_world f'" and ?n = "length (fk_actions (wa_client s))"
  have c: "is_clientset p (wa_client s)"
    and all: "list_all2 (channel_ok ?n (configs ?t)) (tk_channels ?t) (wa_views s)"
    using inv by (simp_all add: watch_inv_def)
  have more: "length (fk_actions f') = ?n + 1" by (rule fake_call_records [OF call np])
  have "kept ?t ?t' \<or> (\<exists>e. changed_by e ?t ?t') \<or> opened ?t ?t'" and "is_clientset p f'"
    using call_conforms [OF c, of sl k blank] np by (auto simp: call conforms_def Let_def)
  then consider "kept ?t ?t'" | e where "changed_by e ?t ?t'" | "opened ?t ?t'" by blast
  then show "list_all2 (channel_ok (length (fk_actions f')) (configs ?t')) (channels f')
      (wa_views s @ replicate (length (channels f') - length (tk_channels ?t)) (configs ?t'))"
  proof cases
    case 1
    then show ?thesis using all more by (auto simp: kept_def elim!: list_all2_mono intro: channel_ok_mono)
  next
    case (2 e)
    then show ?thesis
      using all more channel_ok_send by (fastforce simp: changed_by_def list_all2_conv_all_nth)
  next
    case 3
    have "list_all2 (channel_ok (?n + 1) (configs ?t)) (tk_channels ?t) (wa_views s)"
      using all by (auto elim!: list_all2_mono intro: channel_ok_mono)
    then show ?thesis using 3 more by (simp add: opened_def list_all2_appendI channel_ok_new)
  qed
  show "is_clientset p f'" by fact
qed

lemma watch_inv_step:
  assumes "watch_inv p s" and "watch_step sl blank s s'"
  shows "watch_inv p s'"
  using assms(2)
proof (cases rule: watch_step.cases)
  case (call k res f')
  then show ?thesis using call_views [OF assms(1)] by (simp add: watch_inv_def)
next
  case (receive w e c)
  then show ?thesis
    using assms(1) channel_ok_receive
    by (fastforce simp: watch_inv_def set_channel_clientset list_all2_conv_all_nth nth_list_update)
next
  case (stop w)
  then show ?thesis
    using assms(1)
    by (auto simp: watch_inv_def set_channel_clientset list_all2_conv_all_nth nth_list_update channel_ok_stop)
qed

interpretation watching: invariant_rule "watch_init p" "watch_step sl blank" "watch_inv p" for p sl blank
  by unfold_locales (rule watch_inv_init, assumption, rule watch_inv_step)

section \<open>What a user of the interface relies on\<close>




section \<open>Properties\<close>

text \<open>
  The calls for which the code and the comments on it agree. The comments say that a list honours field selectors and a watch
  the selectors of its options, that deleting an absent object is no error and that a collection is deleted;
  the code does none of this, see the lemmas that follow.
\<close>

fun as_documented :: "call \<Rightarrow> store_view \<Rightarrow> bool" where
  "as_documented (CallList opts) s = (lo_FieldSelector opts = [])"
| "as_documented (CallWatch opts) s = (lo_FieldSelector opts = [] \<and> lo_LabelSelector opts = [])"
| "as_documented (CallDelete n opts) s = (sv_objects s ([], n) \<noteq> None)"
| "as_documented (CallDeleteCollection opts lo) s = False"
| "as_documented k s = True"

lemma call_refines:
  assumes "is_clientset p f" and "has_room (fk_world f)"
  shows "map_prod id (\<lambda>f. store_of (fk_world f)) (fake_call sl blank k f) = spec_call sl p k (store_of (fk_world f))"
  using call_conforms [OF assms(1), of sl k blank] assms(2)
  by (cases "fake_call sl blank k f") (simp add: conforms_def Let_def)

lemma absent_delete_is_an_error:
  assumes "is_clientset p f" and "has_room (fk_world f)" and "configs (fk_world f) ([], n) = None"
  shows "fst (fake_call sl blank (CallDelete n opts) f) = ResError (Returned None (Some (not_found n)))"
proof -
  have "sv_objects (store_of (fk_world f)) ([], n) = None" using assms(3) by (simp add: store_of_def)
  then show ?thesis
    using arg_cong [OF call_refines [OF assms(1,2), of sl blank "CallDelete n opts"], of fst]
    by (simp add: spec_delete_def)
qed

lemma field_selector_is_ignored:
  assumes "is_clientset p f" and "has_room (fk_world f)"
    and "sl_field sl (lo_FieldSelector opts) \<noteq> None" and "sl_field sl fs \<noteq> None"
  shows "fst (fake_call sl blank (CallList (opts\<lparr>lo_FieldSelector := fs\<rparr>)) f) = fst (fake_call sl blank (CallList opts) f)"
proof -
  have list: "fst (fake_call sl blank (CallList o1) f) = fst (spec_call sl p (CallList o1) (store_of (fk_world f)))" for o1
    using arg_cong [OF call_refines [OF assms(1,2), of sl blank "CallList o1"], of fst] by simp
  show ?thesis
    unfolding list using assms(3,4) by (auto simp: ExtractFromListOptions_def split: option.splits)
qed

text \<open>C17. The fake client set refines a map. In every state that a client set of \<open>NewSimpleClientset\<close>
  reaches by calls, reads of watchers and stops, while no open watcher is full, each call answers what the map from
  namespace and name to configurations answers, with the same errors, and changes the objects, the version of the
  collection and the number of watchers as the map does; whatever the reactors and the tracker do in between.
  The calls on which the comments of the code disagree with it are left out: a list with a field selector, a watch with a
  selector, a delete of an absent name and a delete of a collection.\<close>

theorem fake_client_refines_map:
  assumes "reach (watch_init p) (watch_step sl blank) s" and "has_room (fk_world (wa_client s))"
    and "as_documented k (store_of (fk_world (wa_client s)))"
  shows "map_prod id (\<lambda>f. store_of (fk_world f)) (fake_call sl blank k (wa_client s)) =
    spec_call sl p k (store_of (fk_world (wa_client s)))"
  using watching.reach_inv [OF assms(1)] assms(2) by (intro call_refines) (simp_all add: watch_inv_def)

text \<open>C18. Watches replay the changes: for every watcher that was not stopped, the objects its reader
  started from, changed by the events read so far and by those still in the channel, are the objects
  of the tracker; so a reader that has caught up knows exactly what a list would return.\<close>

theorem watch_replays_changes:
  assumes "reach (watch_init p) (watch_step sl blank) s"
    and "w < length (channels (wa_client s))" and "\<not> fw_Stopped (channels (wa_client s) ! w)"
  shows "foldl apply_event (wa_views s ! w) (fw_result (channels (wa_client s) ! w)) =
      configs (fk_world (wa_client s)) \<and>
    length (fw_result (channels (wa_client s) ! w)) \<le> DefaultChanSize"
  using watching.reach_inv [OF assms(1)] assms(2,3)
  by (auto simp: watch_inv_def list_all2_conv_all_nth channel_ok_def)

text \<open>A write that succeeds while an open watcher is full panics, and the object is stored all the
  same.\<close>

lemma full_watcher_panics:
  assumes c: "is_clientset p f" and w: "w < length (channels f)" "\<not> fw_Stopped (channels f ! w)"
      "length (fw_result (channels f ! w)) = DefaultChanSize"
    and x: "mpc_Namespace x = []" "configs (fk_world f) ([], mpc_Name x) = None"
  shows "fst (fake_Create blank x f) = Panicked"
    and "configs (fk_world (snd (fake_Create blank x f))) ([], mpc_Name x) = Some x"
proof -
  let ?t = "fk_world f" and ?a = "NewRootCreateAction x"
  have ok: "tracker_ok ?t" using c by (simp add: is_clientset_def)
  have place: "x = place [] x" using x(1) by (cases x) (simp add: place_def)
  obtain r t' where n: "notify mpc_gvr [] (WatchAdded x) (put_object x ?t) = (r, t')" by fastforce
  have ws: "getWatches (put_object x ?t) mpc_gvr [] = [0..<length (tk_channels (put_object x ?t))]"
    using put_object_ok [OF ok] by (simp add: tracker_ok_iff)
  note all = notify_all [OF n ws]
  have r: "r = None"
    using all(5) all(7) [of w] w by (auto simp: put_object_simps watcher_send_def)
  have add: "tracker_add mpc_gvr x [] False ?t = (None, t')"
    using x n r by (simp add: tracker_add_eq [OF place] config_key_def)
  have R: "ObjectReaction p ?a ?t = handled (None, t')"
    by (simp add: reaction_defs react_Create_def tracker_Create_def write_then_read_def add [unfolded mpc_gvr_def])
  show "fst (fake_Create blank x f) = Panicked"
    and "configs (fk_world (snd (fake_Create blank x f))) ([], mpc_Name x) = Some x"
    using x(1)
    by (simp_all add: fake_Create_def fake_object_call_def Invokes_handled [OF c R] sent_store [OF all(1,2)]
        put_object_simps config_key_def)
qed

lemma spec_write_answers: "fst (spec_write rep name x s) \<noteq> Panicked"
  by (auto simp: spec_write_def spec_read_def split: prod.split option.split)

lemma spec_answers: "recorded sl k \<noteq> None \<Longrightarrow> \<not> panicked (fst (spec_call sl p k s))"
proof (cases k)
  case (CallPatch n pt data opts subs)
  then show ?thesis
    by (auto simp: spec_apply_def spec_patch_def spec_write_answers split: sum.split option.split prod.split)
qed (auto simp: spec_read_def spec_write_answers spec_delete_def NewRootListAction_def NewRootWatchAction_def
    NewRootDeleteCollectionAction_def restricted_def split: option.splits)

text \<open>C30. The bound on unread events: a client set on which fewer than 100 calls were made does not panic
  on the next one, whatever watchers are open and however little is read from them, as long as the
  selectors of the call parse; and with no open watcher full no number of calls makes one panic.\<close>

theorem few_calls_never_panic:
  assumes reached: "reach (watch_init p) (watch_step sl blank) s" and parsed: "recorded sl k \<noteq> None"
    and few: "length (fk_actions (wa_client s)) < 100 \<or> has_room (fk_world (wa_client s))"
  shows "\<not> panicked (fst (fake_call sl blank k (wa_client s)))"
proof -
  have inv: "watch_inv p s" by (rule watching.reach_inv [OF reached])
  then have c: "is_clientset p (wa_client s)" by (simp add: watch_inv_def)
  have "has_room (fk_world (wa_client s))"
  proof (rule disjE [OF few])
    assume "length (fk_actions (wa_client s)) < 100"
    then show ?thesis
      using inv by (fastforce simp: watch_inv_def list_all2_conv_all_nth channel_ok_def has_room_def
          list_all_length DefaultChanSize_def)
  qed
  then have "spec_call sl p k (store_of (fk_world (wa_client s))) =
      (fst (fake_call sl blank k (wa_client s)), store_of (fk_world (snd (fake_call sl blank k (wa_client s)))))"
    using call_conforms [OF c, of sl k blank]
    by (cases "fake_call sl blank k (wa_client s)") (simp add: conforms_def Let_def)
  then show ?thesis using spec_answers [OF parsed, of p] by (metis fst_conv)
qed


definition example_patcher :: patcher where
  "example_patcher = \<lparr>pt_json = (\<lambda>d x. Inr x), pt_merge = (\<lambda>d x. Inr x), pt_strategic = (\<lambda>d x. Inr x),
     pt_yaml = Inr, pt_SetName = (\<lambda>n d. d)\<rparr>"

definition example_selectors :: selectors where
  "example_selectors = \<lparr>sl_label = (\<lambda>s. Some \<lparr>se_text = s, se_matches = (\<lambda>ls. True)\<rparr>),
     sl_field = (\<lambda>s. Some \<lparr>se_text = s, se_matches = (\<lambda>ls. True)\<rparr>)\<rparr>"

definition example_list_options :: ListOptions where
  "example_list_options = \<lparr>lo_LabelSelector = [], lo_FieldSelector = [], lo_Watch = True,
     lo_AllowWatchBookmarks = False, lo_ResourceVersion = [], lo_ResourceVersionMatch = [], lo_TimeoutSeconds = None,
     lo_Limit = 0, lo_Continue = [], lo_SendInitialEvents = None, lo_ShardSelector = []\<rparr>"

definition example_write_options :: WriteOptions where
  "example_write_options = \<lparr>wo_DryRun = [], wo_Force = None, wo_FieldManager = [], wo_FieldValidation = []\<rparr>"

text \<open>A client set without objects, then with a watcher, then with a configuration that was created.\<close>

definition example_clientset :: fake_clientset where
  "example_clientset = the (NewSimpleClientset example_patcher [])"

definition example_watched :: "call_result \<times> fake_clientset" where
  "example_watched = fake_call example_selectors example_config (CallWatch example_list_options) example_clientset"

definition example_created :: "call_result \<times> fake_clientset" where
  "example_created =
     fake_call example_selectors example_config (CallCreate example_config example_write_options) (snd example_watched)"

definition example_run :: watching where
  "example_run = \<lparr>wa_client = snd example_created, wa_views = [Map.empty]\<rparr>"

lemma example_channels:
  "tk_channels (fk_world (snd example_watched)) = [NewRaceFreeFake]"
  "tk_channels (fk_world (snd example_created)) = [\<lparr>fw_result = [WatchAdded example_config], fw_Stopped = False\<rparr>]"
  by code_simp+

lemma example_answers: "\<not> panicked (fst example_watched)" "\<not> panicked (fst example_created)"
  by code_simp+

lemma example_objects: "tk_objects (fk_world (snd example_watched)) = []"
  "fk_actions (snd example_created) \<noteq> []"
  by code_simp+

lemma example_calls:
  "fake_call example_selectors example_config (CallWatch example_list_options) example_clientset =
     (fst example_watched, snd example_watched)"
  "fake_call example_selectors example_config (CallCreate example_config example_write_options) (snd example_watched) =
     (fst example_created, snd example_created)"
  by (simp_all only: example_watched_def example_created_def prod.collapse)

lemma example_started: "NewSimpleClientset example_patcher [] = Some example_clientset"
  "is_clientset example_patcher example_clientset" "channels example_clientset = []"
proof -
  show some: "NewSimpleClientset example_patcher [] = Some example_clientset"
    using NewSimpleClientset_starts(1) [of "[]" "[]" example_patcher] by (auto simp: example_clientset_def)
  show "is_clientset example_patcher example_clientset" "channels example_clientset = []"
    using NewSimpleClientset_starts(2) [OF refl some] by simp_all
qed

lemma example_reached:
  "reach (watch_init example_patcher) (watch_step example_selectors example_config) example_run"
proof -
  let ?step = "watch_step example_selectors example_config"
  let ?s0 = "\<lparr>wa_client = example_clientset, wa_views = []\<rparr>"
  let ?s1 = "\<lparr>wa_client = snd example_watched, wa_views = [Map.empty]\<rparr>"
  have "reach (watch_init example_patcher) ?step ?s0"
    using example_started(1) by (intro reach.start) (auto simp: watch_init_def)
  moreover have "configs (fk_world (snd example_watched)) = Map.empty"
    by (simp add: configs_def example_objects)
  then have "?step ?s0 ?s1"
    using watch_step.call [of example_selectors example_config "CallWatch example_list_options" ?s0,
        unfolded watching.select_convs, OF example_calls(1) example_answers(1)]
    by (simp add: example_channels example_started)
  moreover have "?step ?s1 example_run"
    using watch_step.call [of example_selectors example_config "CallCreate example_config example_write_options" ?s1,
        unfolded watching.select_convs, OF example_calls(2) example_answers(2)]
    by (simp add: example_channels example_run_def)
  ultimately show ?thesis by (blast intro: reach.step)
qed

theorem fake_client_refines_map_witness:
  "map_prod id (\<lambda>f. store_of (fk_world f))
     (fake_call example_selectors example_config (CallGet ''other'' \<lparr>go_ResourceVersion = []\<rparr>) (wa_client example_run)) =
   spec_call example_selectors example_patcher (CallGet ''other'' \<lparr>go_ResourceVersion = []\<rparr>)
     (store_of (fk_world (wa_client example_run)))"
  by (rule fake_client_refines_map [OF example_reached])
    (simp_all add: has_room_def example_run_def example_channels DefaultChanSize_def)

theorem watch_replays_changes_witness:
  "configs (fk_world (snd example_created)) = Map.empty(config_key example_config \<mapsto> example_config)"
  using watch_replays_changes [OF example_reached, of 0]
  by (simp add: example_run_def example_channels)

theorem few_calls_never_panic_witness:
  "\<not> panicked (fst (fake_call example_selectors example_config (CallGet ''cluster-proxy'' \<lparr>go_ResourceVersion = []\<rparr>) (snd example_created)))"
  using few_calls_never_panic [OF example_reached, of "CallGet ''cluster-proxy'' \<lparr>go_ResourceVersion = []\<rparr>"]
  by (simp add: example_run_def has_room_def example_channels DefaultChanSize_def)


end
