(* ===== verification/Spec2Isabelle.thy ===== *)
theory Spec2Isabelle
  imports Main_Command Agent_Command Config_Copy Informers Object_Tracker
begin

text \<open>
  Verification of cluster-proxy, the Open Cluster Management add-on that lets clients of a hub
  cluster reach the API servers and Services of managed clusters through a reverse tunnel.

  \<^bold>\<open>The program.\<close> A request enters at the \<^emph>\<open>user-server\<close> on the hub (pkg/userserver). It reads the
  cluster and the target off the request URI, checks the cluster against the add-ons that exist and a
  Service against an allowlist kept in a ConfigMap, stamps the target into headers and forwards the
  request on a transport of that cluster's tunnel. The \<^emph>\<open>service-proxy\<close> on the managed cluster
  (pkg/serviceproxy) receives it, authenticates the bearer token by a chain of providers (the managed
  cluster, the hub, OIDC issuers), replaces the caller's impersonation headers by those of the identity
  it found and forwards the request to the Service or the API server. Both run their HTTP servers with
  readiness probes and a drain phase (pkg/utils/http_server.go). On the hub an \<^emph>\<open>operator\<close>
  (pkg/proxyserver) deploys the proxy servers from a ManagedProxyConfiguration, rotates their
  certificates and publishes in ClusterProfiles how to reach a cluster.

  \<^bold>\<open>Conventions.\<close> Strings are byte strings. Go maps are association lists with distinct keys
  (\<open>gmap\<close>), so that iteration order is explicit; headers are maps from canonical keys. Errors are
  constructors of one datatype per component, results are sums or options, a Go panic of the operator is
  an error value. Shared state is passed explicitly; what other goroutines or clients do between two
  calls is an argument or a step of a relation. Third-party code and services (SHA-256, YAML, the
  TokenReview API, the OIDC delegate of the API server, the tunnel, PEM and X.509, certificate
  rotation, the Kubernetes API server) are parameters; what is relied on is a hypothesis with a concrete
  instance in the witnesses.

  \<^bold>\<open>Theories and sources.\<close>
  \<^item> \<open>Prelude\<close>: strings (split, join, case folding, decimal and hexadecimal text), Go maps (locale
    \<open>go_map\<close>), reachable states (locale \<open>invariant_rule\<close>).
  \<^item> \<open>Go_Http\<close>, \<open>Go_Url\<close>, \<open>Reverse_Proxy\<close>: what the program uses of net/http, net/url and
    httputil.ReverseProxy: headers (locale \<open>header_store\<close>), URL parsing and escaping, hop-by-hop header
    removal, the request as the next hop reads it.
  \<^item> \<open>Target_Service\<close>: pkg/utils/utils.go. \<open>Service_Url\<close>: pkg/util/serviceurl.go, pkg/constant.
  \<^item> \<open>Allowlist\<close>: pkg/userserver/service_allowlist.go and service_allowlist_watcher.go.
  \<^item> \<open>Transport_Pool\<close>: pkg/userserver/transport_pool.go, with the interleavings of \<open>getOrCreate\<close>.
  \<^item> \<open>Http_Server\<close>: pkg/utils/http_server.go, the run loop as a timed step relation, its own
    steps apart from those of the clock, the server goroutines and the clients.
  \<^item> \<open>User_Server\<close>: pkg/userserver/user_server.go.
  \<^item> \<open>Token_Auth\<close>, \<open>Oidc\<close>, \<open>Service_Proxy\<close>: pkg/serviceproxy; the token cache as a state machine of concurrent
    requests (locale \<open>token_cache\<close>), the replacement of an OIDC delegate in the steps that requests can see.
  \<^item> \<open>Api_Types\<close>, \<open>Manifests\<close>, \<open>Proxy_Reconciler\<close>, \<open>Cluster_Profile\<close>: pkg/apis, pkg/common and
    pkg/proxyserver/controllers (locale \<open>object_store\<close> for the API server).
  \<^item> \<open>Service_Proxy_Command\<close>: the flags of the service-proxy and of its authentication providers and the
    command built from them (service_proxy.go, auth_provider.go, hub_auth_provider.go,
    oidc_auth_provider.go, oidc_authenticator.go).
  \<^item> \<open>Agent_Addon\<close>: pkg/proxyagent/agent, pkg/config, pkg/common/cluster.go and help.go: the values of the
    agent's chart, its registration and its permissions.
  \<^item> \<open>Certificates\<close>: pkg/proxyserver/operator/authentication/selfsigned, pkg/util/secrets.go and
    pkg/controllers/certcontroller.go: the signer of the tunnel's certificates and its secret.
  \<^item> \<open>Port_Forward\<close>: pkg/util/portforward.go: the local proxy of the agent, its accept loop and the
    goroutines of one connection as a step relation.
  \<^item> \<open>Agent_Command\<close>: cmd/addon-agent/main.go with the vendored lease updater and certificate checker
    it runs: start-up, the lease rounds, the probe endpoint.
  \<^item> \<open>Manager_Command\<close>: cmd/addon-manager/main.go, pkg/features, pkg/controllers/manager.go: start-up of the
    operator, the feature gate, the owner handler, the add-on manager as a runnable of the leader.
  \<^item> \<open>Main_Command\<close>: cmd/cluster-proxy/main.go, pkg/version: the binary with its three roles and its
    version, the dispatch of cobra and the exit code.
  \<^item> \<open>Deep_Copy\<close>, \<open>Config_Copy\<close>: the copies of zz_generated.deepcopy.go over a heap of Go values with
    the types of the custom resource (locale \<open>deep_copier\<close>).
  \<^item> \<open>Go_Path\<close>, \<open>Rest_Client\<close>: what the generated clients use of package path, of query encoding and of
    client-go's request builder, and how an API server reads a request.
  \<^item> \<open>Typed_Client\<close>, \<open>Informers\<close>: pkg/generated: client set, typed client, fake client, informer factory
    and listers.
  \<^item> \<open>Object_Tracker\<close>: the fake client set of pkg/generated/clientset/versioned/fake with client-go's object
    tracker and watchers, and the map it refines (locale \<open>config_client\<close>).
  \<^item> This theory: the path of a request through both proxies.

  \<^bold>\<open>What is shown.\<close> End to end, that the target and the identity a request has at the service are
  those the user-server and the service-proxy decided on (\<open>end_to_end_target\<close>,
  \<open>end_to_end_identity\<close>). For the user-server: the allowlist decision against its specification, that
  bad updates keep the last good list, that transports never cross clusters, leak or outlive the
  add-on, and that only permitted requests are forwarded. For the service-proxy: that an OIDC issuer
  without a CA refuses every token, that infrastructure errors stop the chain, which identity is
  forwarded, how old a cached answer may be. For the servers: readiness falls before the shutdown, and
  the shutdown ends in time. For the operator: a deployment converges, its retries end, no concurrent
  write is lost, the certificates name the endpoints, and the published access reaches the cluster; all
  that signs or is trusted in the tunnel is the CA of one secret, and the ClusterProfile controller runs only behind its
  feature gate. For the binary: the first argument selects the role that runs
  and an error is reported once. For the agent: its lease is renewed only when the tunnel is connected, and what a probe
  says. For the generated clients: no name leads a request out of the collection, an API server reads
  from a request what the fake client records, the fake client set behaves, where its comments agree with its code, like a map from names to
  objects whose changes its watchers replay, informers are shared and run once. For the types: the
  generated copies follow the type of the value, keep it well typed and share
  nothing with it.
  Some theorems show behaviour that was not meant: an inverted check of annotation keys, a status that
  is rewritten for ever, a nil dereference, double escaping of paths, and impersonation headers that a
  client can have removed.

  \<^bold>\<open>Bounds and fuel.\<close> Generations are 64-bit: the hypotheses \<open>0 < gen\<close> and \<open>gen < 2 ^ 63\<close> are what
  the API server guarantees. The retry loop of \<open>ensure\<close> takes the list of what other clients do, one
  element per attempt; the attempt after the last one is undisturbed, and \<open>ensure_terminates\<close> shows
  that it does not conflict, so no fuel is missing. The race of
  two signers for the CA secret takes its attempts the same way, and running out of attempts is the
  explicit result \<open>StillRacing\<close>. A shared lookup of the token cache lasts at most the 30 seconds of its context's timeout,
  which the API client is relied on to honour; with the TTL it bounds the age of an answer. The lease rounds and the probes of the agent are lists of events. All
  other loops are structural recursions. A watcher of the fake client set holds 100 events, and
  \<open>few_calls_never_panic\<close> says what that allows; the 64-bit versions of its collection, one per write,
  do not come near their end and are integers.

  \<^bold>\<open>Not modelled.\<close> The registration of further types in schemes, the application of JSON patches (a parameter),
  flag parsing by pflag, the flag --agent-install-namespace of the add-on manager (the namespace keeps its default), event recording, logging
  and every metric but the one of the build.
\<close>

section \<open>From the client to the target\<close>

text \<open>
  The path of a request through both proxies: \<open>user_ServeHTTP\<close> on the hub hands \<open>out\<close> to a
  transport, the tunnel delivers it unchanged, \<open>received\<close> is what the service-proxy on the
  managed cluster reads from the wire, and \<open>sp_ServeHTTP\<close> handles that.
\<close>

lemma user_server_delivers:
  assumes "fst (user_ServeHTTP sha256 ipl e req pool) = ProxyTo tr out"
  obtains req2 where "received ip out = Some req2" and "req_header req2 = out_header out"
proof (rule forwarded_cases [OF assms])
  fix tsc
  assume out: "single_host_reverse_proxy (empty_url\<lparr>u_scheme := ''https'',
      u_host := GenerateServiceProxyHost sha256 (tsc_cluster tsc) @ '':7443''\<rparr>)
      (UpdateRequest tsc req) = Some out"
  have "out_path out \<noteq> []"
    using proxied_path(2) [OF out] by (simp add: empty_url_def)
  then show thesis
    using that by (rule received_some)
qed

text \<open>The URL text of a target, from the target alone: the API server by its own name, every other service
  by scheme, service, namespace and port.\<close>

definition target_text :: "TargetServiceConfig \<Rightarrow> string" where
  "target_text t =
     (if equal_fold (tsc_service t) ''kubernetes'' \<and> equal_fold (tsc_namespace t) ''default''
      then ''https://kubernetes.default.svc''
      else tsc_proto t @ ''://'' @ tsc_service t @ ''.'' @ tsc_namespace t @ ''.svc:'' @ tsc_port t)"

definition stamped_parts :: "TargetServiceConfig \<Rightarrow> (string \<times> string) list" where
  "stamped_parts t =
     [(''Cluster-Proxy-Proto'', tsc_proto t), (''Cluster-Proxy-Namespace'', tsc_namespace t),
      (''Cluster-Proxy-Service'', tsc_service t), (''Cluster-Proxy-Port'', tsc_port t)]"

lemma received_target_headers:
  assumes out: "single_host_reverse_proxy u (UpdateRequest tsc req) = Some out"
    and k: "(k, v) \<in> set (stamped_parts tsc)"
  shows "header_get (out_header out) k = (if nominated (req_header req) k then [] else v)"
proof -
  have names: "''Cluster-Proxy-Proto'' = HeaderClusterProxyProto" "''Cluster-Proxy-Namespace'' = HeaderClusterProxyNamespace"
    "''Cluster-Proxy-Service'' = HeaderClusterProxyService" "''Cluster-Proxy-Port'' = HeaderClusterProxyPort"
    by (simp_all add: target_header_defs)
  have "header_get (req_header (UpdateRequest tsc req)) k = v" "canonical_key k \<notin> set proxy_written"
    using k UpdateRequest_get [of tsc req] target_keys_not_proxy_written by (auto simp: stamped_parts_def names)
  then show ?thesis
    using stamped_header_after_proxy [OF out, of k] by (simp add: header_get_def first_value_def)
qed

text \<open>
  C1. The allowlist is enforced end to end: whatever a client sends, with forged target headers
  or a \<open>Connection\<close> header that has headers removed on the way, a request that leaves the
  user-server is resolved, where the service-proxy receives it, to the URL made of scheme,
  service, namespace and port of the very target that the user-server read off the URI and, for a
  service, found on the allowlist. It is refused for missing headers exactly when the client's
  \<open>Connection\<close> header names one of the four target headers or the URI left one of them empty.
\<close>

theorem end_to_end_target:
  assumes "fst (user_ServeHTTP sha256 ipl e req pool) = ProxyTo tr out"
  shows "\<exists>tsc req2. parse_target req = Inr tsc \<and> received ip out = Some req2 \<and>
    (if GetProxyType (request_uri req) = ProxyTypeService then IsAllowed (se_allowlist e) tsc else True) \<and>
    GetTargetServiceURLFromRequest ipl req2 =
      (if list_ex (\<lambda>(k, v). nominated (req_header req) k \<or> v = []) (stamped_parts tsc)
       then Inl InvalidRequestHeaders
       else map_sum TargetUrlError id (url_parse ipl (target_text tsc)))"
proof (rule forwarded_cases [OF assms])
  fix tsc
  assume tsc: "parse_target req = Inr tsc"
    and al: "GetProxyType (request_uri req) = ProxyTypeService \<Longrightarrow> IsAllowed (se_allowlist e) tsc"
    and out: "single_host_reverse_proxy (empty_url\<lparr>u_scheme := ''https'',
      u_host := GenerateServiceProxyHost sha256 (tsc_cluster tsc) @ '':7443''\<rparr>)
      (UpdateRequest tsc req) = Some out"
  obtain req2 where req2: "received ip out = Some req2" "req_header req2 = out_header out"
    using user_server_delivers [OF assms] by blast
  note got = received_target_headers [OF out, unfolded stamped_parts_def]
  have "GetTargetServiceURLFromRequest ipl req2 =
      (if list_ex (\<lambda>(k, v). nominated (req_header req) k \<or> v = []) (stamped_parts tsc)
       then Inl InvalidRequestHeaders
       else map_sum TargetUrlError id (url_parse ipl (target_text tsc)))"
    by (simp add: GetTargetServiceURLFromRequest_def Let_def req2(2) target_header_defs got stamped_parts_def
        target_text_def kubeAPIServerService_def kubeAPIServerNamespace_def KubeAPIServerHost_def split: sum.split)
  with tsc al req2 show ?thesis by auto
qed

theorem end_to_end_target_witness:
  "\<exists>out req2. fst (user_ServeHTTP (\<lambda>s. s) Inr nginx_env nginx_request c1_pool) = ProxyTo (Cached 0) out \<and>
     received None out = Some req2 \<and>
     GetTargetServiceURLFromRequest Inr req2 = map_sum TargetUrlError id (url_parse Inr ''https://nginx.web.svc:80'')"
proof -
  obtain out where out: "fst (user_ServeHTTP (\<lambda>s. s) Inr nginx_env nginx_request c1_pool) = ProxyTo (Cached 0) out"
    using nginx_forwarded by blast
  have none: "\<not> nominated (req_header nginx_request) k" for k
    by (simp add: nominated_def connection_tokens_def nginx_no_upgrade)
  have "target_text nginx_tsc = ''https://nginx.web.svc:80''" by code_simp
  then show ?thesis
    using end_to_end_target [OF out, of None] out
    by (auto simp: none nginx_parse_target stamped_parts_def nginx_tsc_def)
qed

text \<open>The reverse proxy and the stamping of the target add no impersonation header.\<close>

lemma has_impersonation_set:
  "hasClientImpersonationHeaders (header_set h k v) \<longleftrightarrow>
     isImpersonationHeader (canonical_key k) \<or> hasClientImpersonationHeaders h"
  by (simp add: hasClientImpersonationHeaders_def list_ex_iff header_set_def)

lemma has_impersonation_del:
  "hasClientImpersonationHeaders (fold (\<lambda>k h. header_del h k) ks h) \<Longrightarrow> hasClientImpersonationHeaders h"
proof (induction ks arbitrary: h)
  case (Cons k ks)
  then have "hasClientImpersonationHeaders (header_del h k)" by simp
  then show ?case by (auto simp: hasClientImpersonationHeaders_def list_ex_iff header_del_def)
qed simp

lemma proxy_adds_no_impersonation:
  assumes "reverse_proxy_header ip h = Some h'" and "hasClientImpersonationHeaders h'"
  shows "hasClientImpersonationHeaders h"
proof -
  have k: "\<not> isImpersonationHeader ''Te''" "\<not> isImpersonationHeader ''Connection''"
    "\<not> isImpersonationHeader ''Upgrade''" "\<not> isImpersonationHeader ''X-Forwarded-For''"
    "\<not> isImpersonationHeader ''User-Agent''"
    by code_simp+
  have "hasClientImpersonationHeaders (remove_hop_by_hop h)"
    using assms k
    by (auto simp: reverse_proxy_header_def Let_def default_user_agent_def set_forwarded_for_def
        has_impersonation_set canonical_hop_keys split: if_splits option.splits)
  then show ?thesis
    unfolding remove_hop_by_hop_def by (rule has_impersonation_del)
qed

lemma stamp_adds_no_impersonation:
  "hasClientImpersonationHeaders (req_header (UpdateRequest t req)) = hasClientImpersonationHeaders (req_header req)"
proof -
  have "\<not> isImpersonationHeader ''Cluster-Proxy-Proto''" "\<not> isImpersonationHeader ''Cluster-Proxy-Namespace''"
    "\<not> isImpersonationHeader ''Cluster-Proxy-Service''" "\<not> isImpersonationHeader ''Cluster-Proxy-Port''"
    by code_simp+
  then show ?thesis
    by (simp add: UpdateRequest_def Let_def has_impersonation_set target_header_keys)
qed

text \<open>
  C2. The identity is exact end to end: for a request that reached the service-proxy through the
  user-server, no \<open>Connection\<close> header of the client can remove what authentication has set,
  because the user-server's own reverse proxy has consumed that header. If the request has
  no impersonation headers of its own and goes to the Kubernetes API, the API server sees
  the client's own headers (token known to the managed cluster), or exactly the hub's or the
  issuer's identity, its groups and the proxy's token.
\<close>

theorem end_to_end_identity:
  assumes "fst (user_ServeHTTP sha256 ipl e req pool) = ProxyTo tr out"
    and "received ip out = Some req2"
    and "sp_ServeHTTP ipl2 dump transport (default_chain managed hubAuth oidcAuth token) req2 = Forward out2"
    and "out_host out2 = KubeAPIServerHost" and "\<not> hasClientImpersonationHeaders (req_header req)"
    and "canonical_key k \<notin> set proxy_written"
  shows "(case managed (bearer_token (req_header req2)) of
      Authenticated u \<Rightarrow> header_values (out_header out2) k = header_values (req_header req2) k
    | _ \<Rightarrow> (case hubAuth (bearer_token (req_header req2)) of
        Authenticated u \<Rightarrow> header_values (out_header out2) k =
          impersonated (hub_name u) (ui_groups u) token (req_header req2) k
      | _ \<Rightarrow> (case oidcAuth (bearer_token (req_header req2)) of
          Authenticated u \<Rightarrow> header_values (out_header out2) k =
            impersonated (ui_name u) (external_groups u) token (req_header req2) k
        | _ \<Rightarrow> False)))"
proof -
  obtain h where h: "reverse_proxy_header (remote_ip (UpdateRequest h req)) (req_header (UpdateRequest h req)) =
      Some (out_header out)"
    by (rule forwarded_cases [OF assms(1)]) (auto dest: proxied_header)
  have r2: "req_header req2 = out_header out"
    using assms(2) by (auto simp: received_def split: sum.splits)
  have ni: "\<not> hasClientImpersonationHeaders (req_header req2)"
    using proxy_adds_no_impersonation [OF h] assms(5) by (auto simp: r2 stamp_adds_no_impersonation)
  have nn: "\<not> nominated (req_header req2) k"
    using nominated_after_proxy [OF h, of k] proxy_written_fresh(3) [OF assms(6)]
    by (auto simp: canonical_hop_keys r2)
  have "default_chain managed hubAuth oidcAuth token \<noteq> []"
    by (simp add: default_chain_def)
  then obtain h2 where pa: "processAuthentication (default_chain managed hubAuth oidcAuth token) (req_header req2) = Inr h2"
    and rp: "reverse_proxy_header (remote_ip req2) h2 = Some (out_header out2)"
    using forward_authenticated [OF assms(3,4) _ ni] by blast
  show ?thesis
    using chain_values [OF pa rp assms(6)] unfolding if_not_P [OF nn] .
qed

text \<open>The request of alice again, now sent to the user-server with the hostile \<open>Connection\<close> header.\<close>

definition hostile_request :: http_request where
  "hostile_request =
     \<lparr>req_method = ''GET'', request_uri = ''/c1/api/v1/pods'', url_path = ''/c1/api/v1/pods'',
      url_raw_path = [], url_raw_query = [],
      req_header = [(''Authorization'', [''Bearer t'']),
        (''Connection'', [''Impersonate-User, Impersonate-Group''])], remote_ip = None\<rparr>"

definition hostile_tsc :: TargetServiceConfig where
  "hostile_tsc =
     \<lparr>tsc_cluster = ''c1'', tsc_proto = ''https'', tsc_service = ''kubernetes'', tsc_namespace = ''default'',
      tsc_port = ''443'', tsc_path = ''api/v1/pods''\<rparr>"

lemma hostile_facts:
  "parse_target hostile_request = Inr hostile_tsc"
  "GetProxyType (request_uri hostile_request) = ProxyTypeKubeAPIServer"
  "header_values (req_header (UpdateRequest t hostile_request)) ''Connection'' =
     [''Impersonate-User, Impersonate-Group'']"
  "\<not> IsUpgradeRequest hostile_request"
  "\<not> hasClientImpersonationHeaders (req_header hostile_request)"
proof -
  show "parse_target hostile_request = Inr hostile_tsc"
    "GetProxyType (request_uri hostile_request) = ProxyTypeKubeAPIServer"
    by (simp_all add: parse_target_def hostile_request_def hostile_tsc_def GetProxyType_def
        GetTargetServiceConfigForKubeAPIServer_def)
  have c: "header_values (req_header hostile_request) ''Connection'' = [''Impersonate-User, Impersonate-Group'']"
    by (simp add: hostile_request_def header_values_def canonical_hop_keys gget_def)
  then show "header_values (req_header (UpdateRequest t hostile_request)) ''Connection'' =
      [''Impersonate-User, Impersonate-Group'']"
    by (simp add: UpdateRequest_values_other [OF connection_not_target])
  have "\<not> contains (to_lower ''Impersonate-User, Impersonate-Group'') (to_lower ''Upgrade'')"
    by code_simp
  with c show "\<not> IsUpgradeRequest hostile_request"
    by (simp add: IsUpgradeRequest_def)
  show "\<not> hasClientImpersonationHeaders (req_header hostile_request)"
    by (simp add: hostile_request_def hasClientImpersonationHeaders_def gkeys_def impersonation_header_keys)
qed

lemma hostile_no_upgrade:
  "\<not> values_contain_token (header_values (req_header (UpdateRequest t hostile_request)) ''Connection'') ''Upgrade''"
  unfolding hostile_facts(3) by code_simp

lemma hostile_forwarded:
  "\<exists>out. fst (user_ServeHTTP sha256 ipl nginx_env hostile_request c1_pool) = ProxyTo (Cached 0) out \<and>
     reverse_proxy_header None (req_header (UpdateRequest hostile_tsc hostile_request)) = Some (out_header out)"
proof -
  obtain out where out: "single_host_reverse_proxy (empty_url\<lparr>u_scheme := ''https'',
      u_host := GenerateServiceProxyHost sha256 ''c1'' @ '':7443''\<rparr>)
      (UpdateRequest hostile_tsc hostile_request) = Some out"
    using no_upgrade_forwarded [OF hostile_no_upgrade] by blast
  moreover have "getOrCreate (\<lambda>p. p) ''c1'' c1_pool = (Some 0, c1_pool)"
    by (simp add: getOrCreate_def getOrCreate_read_def c1_pool_eq gget_def)
  moreover have "pool_isAllowed c1_pool ''c1''"
    by (simp add: pool_isAllowed_def c1_pool_eq gget_def)
  moreover have "se_dump_err nginx_env = None" "tsc_cluster hostile_tsc = ''c1''"
    "se_before nginx_env = (\<lambda>p. p)" "se_between nginx_env = (\<lambda>p. p)"
    by (simp_all add: hostile_tsc_def nginx_env_def)
  moreover have "remote_ip (UpdateRequest hostile_tsc hostile_request) = None"
    by (simp add: UpdateRequest_frame) (simp add: hostile_request_def)
  ultimately show ?thesis
    using hostile_facts(1,2,4) proxied_header [OF out]
    by (simp add: user_ServeHTTP_def proxy_url_parse proxy_request_def)
qed

lemma hostile_received:
  assumes "reverse_proxy_header None (req_header (UpdateRequest hostile_tsc hostile_request)) = Some (out_header out)"
    and "req_header req2 = out_header out"
  shows "\<exists>out2. sp_ServeHTTP Inr None True hub_only req2 = Forward out2 \<and> out_host out2 = KubeAPIServerHost"
proof (rule hub_only_forwards)
  let ?q = "UpdateRequest hostile_tsc hostile_request"
  have up: "upgrade_type (req_header ?q) = []"
    using hostile_no_upgrade by (simp add: upgrade_type_def)
  show "\<not> values_contain_token (header_values (req_header req2) ''Connection'') ''Upgrade''"
    using reverse_proxy_no_upgrade [OF assms(1) up] by (simp add: assms(2) values_contain_token_def)
  show "\<not> hasClientImpersonationHeaders (req_header req2)"
    using proxy_adds_no_impersonation [OF assms(1)] hostile_facts(5)
    by (auto simp: assms(2) stamp_adds_no_impersonation)
  have t: "connection_tokens (req_header ?q) = [''Impersonate-User'', ''Impersonate-Group'']"
    unfolding connection_tokens_def hostile_facts(3) by (simp add: trim_string_def is_space_def)
  have nn: "\<not> nominated (req_header ?q) k"
    if "canonical_key k \<notin> {''Impersonate-User'', ''Impersonate-Group''}" for k
    using that impersonation_keys
    by (auto simp: nominated_def t ImpersonateUserHeader_def ImpersonateGroupHeader_def)
  have "header_get (req_header req2) k = header_get (req_header ?q) k"
    if "canonical_key k \<notin> set proxy_written" "canonical_key k \<notin> {''Impersonate-User'', ''Impersonate-Group''}" for k
    using reverse_proxy_values [OF assms(1) that(1)] nn [OF that(2)] assms(2) by (simp add: header_get_def)
  then have "GetTargetServiceURLFromRequest Inr req2 = GetTargetServiceURLFromRequest Inr ?q"
    using target_keys_not_proxy_written
    by (intro target_url_cong) (simp_all add: target_header_keys)
  also have "\<dots> = Inr (empty_url\<lparr>u_scheme := ''https'', u_host := KubeAPIServerHost\<rparr>)"
    using kube_url_parse [of Inr]
    by (simp add: target_url_UpdateRequest hostile_tsc_def equal_fold_def kubeAPIServerService_def
        kubeAPIServerNamespace_def)
  finally show "GetTargetServiceURLFromRequest Inr req2 =
      Inr (empty_url\<lparr>u_scheme := ''https'', u_host := KubeAPIServerHost\<rparr>)" .
qed

theorem end_to_end_identity_witness:
  "\<exists>out req2 out2.
     fst (user_ServeHTTP (\<lambda>s. s) Inr nginx_env hostile_request c1_pool) = ProxyTo (Cached 0) out \<and>
     received None out = Some req2 \<and> sp_ServeHTTP Inr None True hub_only req2 = Forward out2 \<and>
     header_values (out_header out2) ''Impersonate-User'' = [''alice''] \<and>
     header_values (out_header out2) ''Authorization'' = [''Bearer sa'']"
proof -
  obtain out where out: "fst (user_ServeHTTP (\<lambda>s. s) Inr nginx_env hostile_request c1_pool) = ProxyTo (Cached 0) out"
    and h: "reverse_proxy_header None (req_header (UpdateRequest hostile_tsc hostile_request)) = Some (out_header out)"
    using hostile_forwarded by blast
  obtain req2 where req2: "received None out = Some req2" "req_header req2 = out_header out"
    using user_server_delivers [OF out] by blast
  obtain out2 where out2: "sp_ServeHTTP Inr None True hub_only req2 = Forward out2"
    and host: "out_host out2 = KubeAPIServerHost"
    using hostile_received [OF h req2(2)] by blast
  note id = end_to_end_identity [OF out req2(1) out2 [unfolded hub_only_def] host hostile_facts(5)]
  have "canonical_key ''Impersonate-User'' = ''Impersonate-User''"
    using impersonation_keys(1) by (simp add: ImpersonateUserHeader_def)
  then have "header_values (out_header out2) ''Impersonate-User'' = [''alice'']"
    "header_values (out_header out2) ''Authorization'' = [''Bearer sa'']"
    using id [of "''Impersonate-User''"] id [of "''Authorization''"] impersonation_keys
    by (simp_all add: refuse_def accept_def impersonated_def proxy_written_def hop_headers_def
        hub_name_def alice_def has_prefix_def)
  with out req2(1) out2 show ?thesis by blast
qed

end
